(* ===== verification/Prelude.thy ===== *)
theory Prelude
  imports Main "HOL-Library.Word" "HOL-Library.AList" "HOL-Library.Char_ord"
    "HOL-Library.List_Lexorder" "HOL-Library.Sublist"
begin

text \<open>
  Shared vocabulary of the development: byte strings, machine integers, error values,
  association lists that stand for the Go maps whose keys the code enumerates, the
  theorem collections the component theories feed, and the generic lemmas they share.
\<close>

section \<open>Types\<close>

text \<open>
  A Go string is a sequence of bytes; an Isabelle \<^typ>\<open>char\<close> is exactly one byte, so
  \<^typ>\<open>string\<close> models both \<^verbatim>\<open>string\<close> and \<^verbatim>\<open>[]byte\<close>.
\<close>

type_synonym u8 = "8 word"
type_synonym u32 = "32 word"
type_synonym u64 = "64 word"

abbreviation byte :: "char \<Rightarrow> nat" where
  "byte c \<equiv> of_char c"

text \<open>
  Go errors as values. \<open>ErrNew\<close> is \<^verbatim>\<open>errors.New\<close> or an error of a package
  outside the repository (its text is all the code looks at), \<open>ErrQ p a\<close> is
  \<^verbatim>\<open>fmt.Errorf("p: %q", a)\<close>, \<open>ErrIdx a n b\<close> is
  \<^verbatim>\<open>fmt.Errorf("a[%d] b", n)\<close>, \<open>ErrWrap p e\<close> is
  \<^verbatim>\<open>fmt.Errorf("p: %w", e)\<close>, \<open>ErrJson raw\<close> is the error of
  \<^verbatim>\<open>json.Unmarshal\<close> on the text \<open>raw\<close>, and the last four are the sentinel
  errors the code tests with \<^verbatim>\<open>errors.Is\<close>.
\<close>

datatype go_error =
    ErrNew string
  | ErrQ string string
  | ErrIdx string nat string
  | ErrWrap string go_error
  | ErrJson string
  | ErrNotExist string
  | ErrAlreadyConnected string
  | ErrDeadlineExceeded
  | ErrCanceled

type_synonym 'a result = "go_error + 'a"

text \<open>\<^verbatim>\<open>errors.Is(err, sentinel)\<close> looks through the wrappings.\<close>

fun err_root :: "go_error \<Rightarrow> go_error" where
  "err_root (ErrWrap _ e) = err_root e"
| "err_root e = e"

lemma map_sum_Inr_iff: "map_sum f g x = Inr y \<longleftrightarrow> (\<exists>z. x = Inr z \<and> y = g z)"
  by (cases x) auto

lemma map_sum_Inl_iff: "map_sum f g x = Inl y \<longleftrightarrow> (\<exists>z. x = Inl z \<and> y = f z)"
  by (cases x) auto

section \<open>Collections\<close>

named_theorems go_defs \<open>definitions that proofs unfold by default\<close>
named_theorems wf_intros \<open>well-formedness of values the code builds\<close>
named_theorems frame_simps \<open>fields an operation leaves alone\<close>

section \<open>Association lists for Go maps\<close>

text \<open>
  The maps whose keys are enumerated (the configuration store, the control queue) are
  association lists with distinct keys; \<^const>\<open>AList.update\<close> is map assignment and
  \<^const>\<open>map_of\<close> is lookup. Maps that are only read by key are functions
  \<open>'k \<rightharpoonup> 'v\<close>.
\<close>

type_synonym ('k, 'v) gomap = "('k \<times> 'v) list"

abbreviation gm_wf :: "('k, 'v) gomap \<Rightarrow> bool" where
  "gm_wf m \<equiv> distinct (map fst m)"

lemma map_of_gm_update [simp]: "map_of (AList.update k v m) = (map_of m)(k \<mapsto> v)"
  by (rule update_conv')

lemma gm_wf_update [simp, wf_intros]: "gm_wf m \<Longrightarrow> gm_wf (AList.update k v m)"
  by (rule distinct_update)

lemma gm_keys_update [simp]: "fst ` set (AList.update k v m) = insert k (fst ` set m)"
  by (induction m) auto

lemma gm_update_nonempty [simp]: "AList.update k v m \<noteq> []"
  by (induction m) auto

section \<open>Loops that collect into a set of seen keys\<close>

lemma map_upds_last_wins:
  "foldl (\<lambda>m x. m(k x \<mapsto> v x)) m0 (xs @ [x]) = (foldl (\<lambda>m x. m(k x \<mapsto> v x)) m0 xs)(k x \<mapsto> v x)"
  by simp

lemma foldl_upd_None:
  "(foldl (\<lambda>m x. m(k x \<mapsto> v x)) m0 xs) a = None \<longleftrightarrow> m0 a = None \<and> a \<notin> k ` set xs"
  by (induction xs arbitrary: m0) auto

lemma foldl_upd_SomeD:
  "(foldl (\<lambda>m x. m(k x \<mapsto> v x)) m0 xs) a = Some b \<Longrightarrow>
     m0 a = Some b \<or> (\<exists>x\<in>set xs. k x = a \<and> v x = b)"
  by (induction xs arbitrary: m0) (fastforce split: if_splits)+

lemma foldl_upd_distinct:
  assumes "distinct (map k xs)" and "x \<in> set xs"
  shows "(foldl (\<lambda>m x. m(k x \<mapsto> v x)) m0 xs) (k x) = Some (v x)"
  using assms
proof (induction xs rule: rev_induct)
  case Nil
  then show ?case by simp
next
  case (snoc y ys)
  show ?case
  proof (cases "x = y")
    case False
    with snoc.prems have "distinct (map k ys)" and x: "x \<in> set ys" and "k y \<notin> k ` set ys" by auto
    moreover from this have "k x \<noteq> k y" by (metis imageI)
    ultimately show ?thesis using snoc.IH by simp
  qed simp
qed

lemma distinct_sort_key: "distinct (map f xs) \<Longrightarrow> distinct (map f (sort_key f xs))"
  by (simp add: distinct_map)

lemma sorted_wrt_sort_key: "distinct (map f xs) \<Longrightarrow> sorted_wrt (<) (map f (sort_key f xs))"
  using distinct_sort_key by (simp add: strict_sorted_iff)

section \<open>Transition systems\<close>

text \<open>The states a system can reach, and the interface of an inductive invariant.\<close>

inductive reach :: "('s \<Rightarrow> bool) \<Rightarrow> ('s \<Rightarrow> 's \<Rightarrow> bool) \<Rightarrow> 's \<Rightarrow> bool"
  for init step where
  reach_init: "init s \<Longrightarrow> reach init step s"
| reach_step: "reach init step s \<Longrightarrow> step s t \<Longrightarrow> reach init step t"

locale invariant_of =
  fixes init :: "'s \<Rightarrow> bool" and step :: "'s \<Rightarrow> 's \<Rightarrow> bool" and inv :: "'s \<Rightarrow> bool"
  assumes inv_init: "init s \<Longrightarrow> inv s"
    and inv_step: "step s t \<Longrightarrow> inv s \<Longrightarrow> inv t"
begin

lemma reach_inv: "reach init step s \<Longrightarrow> inv s"
  by (induction rule: reach.induct) (auto intro: inv_init inv_step)

lemma steps_inv: "step\<^sup>*\<^sup>* s t \<Longrightarrow> inv s \<Longrightarrow> inv t"
  by (induction rule: rtranclp_induct) (auto intro: inv_step)

end

end
