(* ===== verification/GoStrings.thy ===== *)
theory GoStrings
  imports Prelude
begin

text \<open>
  The parts of Go's \<^verbatim>\<open>strings\<close>, \<^verbatim>\<open>strconv\<close> and
  \<^verbatim>\<open>unicode/utf8\<close> packages that the program calls: the UTF-8 decoding step,
  \<^verbatim>\<open>TrimSpace\<close>, \<^verbatim>\<open>Fields\<close>, \<^verbatim>\<open>ToLower\<close>,
  \<^verbatim>\<open>Contains\<close>, \<^verbatim>\<open>Itoa\<close> and \<^verbatim>\<open>Atoi\<close>. The case table
  of non-ASCII characters, the quoting of \<^verbatim>\<open>%q\<close>, the error texts of
  \<^verbatim>\<open>encoding/json\<close>, the operating system's name and its lexical treatment of
  paths (\<^verbatim>\<open>filepath.Clean\<close>, \<^verbatim>\<open>Join\<close>, \<^verbatim>\<open>IsAbs\<close>) and the width of
  \<^verbatim>\<open>int\<close> are fields of a record that every definition using them takes as an
  argument, so what is proved holds for all of them.
\<close>

record platform =
  GOOS :: string
  int_bits :: nat
  rune_lower :: "string \<Rightarrow> string"
  quote :: "string \<Rightarrow> string"
  json_error_text :: "string \<Rightarrow> string"
  path_clean :: "string \<Rightarrow> string"
  path_join :: "string \<Rightarrow> string \<Rightarrow> string"
  path_is_abs :: "string \<Rightarrow> bool"

section \<open>UTF-8\<close>

definition cont :: "char \<Rightarrow> bool" where
  "cont c \<longleftrightarrow> 0x80 \<le> byte c \<and> byte c \<le> 0xBF"

text \<open>
  The length of the well-formed UTF-8 sequence a string starts with, 0 when it starts with
  none: \<^verbatim>\<open>utf8.DecodeRune\<close>, which reports \<^verbatim>\<open>RuneError\<close> of width 1 for
  the latter.
\<close>

fun utf8_len :: "string \<Rightarrow> nat" where
  "utf8_len [] = 0"
| "utf8_len (a # r) =
     (let x = byte a in
      if x < 0x80 then 1
      else if 0xC2 \<le> x \<and> x \<le> 0xDF then
        (case r of b # _ \<Rightarrow> if cont b then 2 else 0 | _ \<Rightarrow> 0)
      else if 0xE0 \<le> x \<and> x \<le> 0xEF then
        (case r of b # c # _ \<Rightarrow>
           if (if x = 0xE0 then 0xA0 else 0x80) \<le> byte b \<and>
              byte b \<le> (if x = 0xED then 0x9F else 0xBF) \<and> cont c then 3 else 0
         | _ \<Rightarrow> 0)
      else if 0xF0 \<le> x \<and> x \<le> 0xF4 then
        (case r of b # c # d # _ \<Rightarrow>
           if (if x = 0xF0 then 0x90 else 0x80) \<le> byte b \<and>
              byte b \<le> (if x = 0xF4 then 0x8F else 0xBF) \<and> cont c \<and> cont d then 4 else 0
         | _ \<Rightarrow> 0)
      else 0)"

lemma utf8_len_le: "utf8_len s \<le> length s"
  by (cases s) (auto simp: Let_def split: list.splits)

lemma utf8_len_ascii [simp]: "byte a < 0x80 \<Longrightarrow> utf8_len (a # r) = 1"
  by simp

text \<open>The encoding of U+FFFD, which replaces every byte that is not part of a well-formed sequence.\<close>

definition rune_error :: string where
  "rune_error = [CHR 0xEF, CHR 0xBF, CHR 0xBD]"

function sanitize :: "string \<Rightarrow> string" where
  "sanitize s =
     (if s = [] then []
      else if utf8_len s = 0 then rune_error @ sanitize (tl s)
      else take (utf8_len s) s @ sanitize (drop (utf8_len s) s))"
  by pat_completeness auto
termination
  by (relation "measure length") (auto simp: neq_Nil_conv)

declare sanitize.simps [simp del]

function valid_utf8 :: "string \<Rightarrow> bool" where
  "valid_utf8 s =
     (if s = [] then True else if utf8_len s = 0 then False else valid_utf8 (drop (utf8_len s) s))"
  by pat_completeness auto
termination
  by (relation "measure length") (auto simp: neq_Nil_conv)

declare valid_utf8.simps [simp del]

lemma valid_utf8_Nil [simp]: "valid_utf8 []"
  by (subst valid_utf8.simps) simp

lemma valid_utf8_ascii: "byte a < 0x80 \<Longrightarrow> valid_utf8 (a # r) = valid_utf8 r"
  by (subst valid_utf8.simps) simp

lemma valid_utf8_all_ascii: "\<forall>c\<in>set s. byte c < 0x80 \<Longrightarrow> valid_utf8 s"
  by (induction s) (auto simp: valid_utf8_ascii)

section \<open>White space\<close>

text \<open>
  The encodings of the characters with the Unicode property White\_Space
  (\<^verbatim>\<open>unicode.IsSpace\<close>).
\<close>

definition space_runes :: "string list" where
  "space_runes =
     [[CHR 0x09], [CHR 0x0A], [CHR 0x0B], [CHR 0x0C], [CHR 0x0D], [CHR 0x20],
      [CHR 0xC2, CHR 0x85], [CHR 0xC2, CHR 0xA0], [CHR 0xE1, CHR 0x9A, CHR 0x80],
      [CHR 0xE2, CHR 0x80, CHR 0x80], [CHR 0xE2, CHR 0x80, CHR 0x81],
      [CHR 0xE2, CHR 0x80, CHR 0x82], [CHR 0xE2, CHR 0x80, CHR 0x83],
      [CHR 0xE2, CHR 0x80, CHR 0x84], [CHR 0xE2, CHR 0x80, CHR 0x85],
      [CHR 0xE2, CHR 0x80, CHR 0x86], [CHR 0xE2, CHR 0x80, CHR 0x87],
      [CHR 0xE2, CHR 0x80, CHR 0x88], [CHR 0xE2, CHR 0x80, CHR 0x89],
      [CHR 0xE2, CHR 0x80, CHR 0x8A], [CHR 0xE2, CHR 0x80, CHR 0xA8],
      [CHR 0xE2, CHR 0x80, CHR 0xA9], [CHR 0xE2, CHR 0x80, CHR 0xAF],
      [CHR 0xE2, CHR 0x81, CHR 0x9F], [CHR 0xE3, CHR 0x80, CHR 0x80]]"

definition match_len :: "string list \<Rightarrow> string \<Rightarrow> nat" where
  "match_len encs s = (case find (\<lambda>e. prefix e s) encs of None \<Rightarrow> 0 | Some e \<Rightarrow> length e)"

text \<open>Stripping every leading encoding in a list; a string shrinks with each, so this stops.\<close>

function strip :: "string list \<Rightarrow> string \<Rightarrow> string" where
  "strip encs s = (if s = [] \<or> match_len encs s = 0 then s else strip encs (drop (match_len encs s) s))"
  by pat_completeness auto
termination
  by (relation "measure (\<lambda>(encs, s). length s)") auto

declare strip.simps [simp del]

definition trim_left :: "string \<Rightarrow> string" where
  "trim_left s = strip space_runes s"

text \<open>UTF-8 is self-synchronising: the last character is white space iff the bytes end with its encoding.\<close>

definition trim_right :: "string \<Rightarrow> string" where
  "trim_right s = rev (strip (map rev space_runes) (rev s))"

definition TrimSpace :: "string \<Rightarrow> string" where
  "TrimSpace s = trim_right (trim_left s)"

definition stripped :: "string list \<Rightarrow> string \<Rightarrow> bool" where
  "stripped encs s \<longleftrightarrow> (\<forall>e\<in>set encs. e = [] \<or> \<not> prefix e s)"

lemma match_len_0:
  assumes "[] \<notin> set encs" shows "match_len encs s = 0 \<longleftrightarrow> stripped encs s"
proof -
  have "find (\<lambda>e. prefix e s) encs = Some e \<Longrightarrow> e \<in> set encs \<and> prefix e s" for e
    by (auto simp: find_Some_iff)
  with assms show ?thesis
    unfolding match_len_def stripped_def
    by (fastforce split: option.splits simp: find_None_iff)
qed

lemma strip_suffix: "suffix (strip encs s) s"
proof (induction encs s rule: strip.induct)
  case (1 encs s)
  show ?case
    using "1.IH" by (subst strip.simps) (auto intro: suffix_order.trans suffix_drop)
qed

lemma stripped_Nil [simp]: "stripped encs []"
  by (auto simp: stripped_def)

lemma strip_stripped: "[] \<notin> set encs \<Longrightarrow> stripped encs (strip encs s)"
proof (induction encs s rule: strip.induct)
  case (1 encs s)
  show ?case
    using 1 by (subst strip.simps) (auto simp: match_len_0)
qed

lemma strip_id: "[] \<notin> set encs \<Longrightarrow> stripped encs s \<Longrightarrow> strip encs s = s"
  by (subst strip.simps) (simp add: match_len_0)

lemma stripped_prefix: "stripped encs t \<Longrightarrow> prefix s t \<Longrightarrow> stripped encs s"
  unfolding stripped_def using prefix_order.trans by blast

lemma space_runes_nonempty [simp]: "[] \<notin> set space_runes" "[] \<notin> rev ` set space_runes"
  by (auto simp: space_runes_def)

definition trimmed :: "string \<Rightarrow> bool" where
  "trimmed s \<longleftrightarrow> stripped space_runes s \<and> stripped (map rev space_runes) (rev s)"

lemma trim_left_stripped: "stripped space_runes (trim_left s)"
  by (simp add: trim_left_def strip_stripped)

lemma trim_right_prefix: "prefix (trim_right s) s"
  using strip_suffix [of "map rev space_runes" "rev s"]
  by (simp add: trim_right_def suffix_to_prefix)

lemma TrimSpace_trimmed [simp, wf_intros]: "trimmed (TrimSpace s)"
  unfolding trimmed_def TrimSpace_def
  using stripped_prefix [OF trim_left_stripped trim_right_prefix]
  by (simp add: trim_right_def strip_stripped)

lemma TrimSpace_id: "trimmed s \<Longrightarrow> TrimSpace s = s"
  by (simp add: trimmed_def TrimSpace_def trim_left_def trim_right_def strip_id)

lemma trimmed_iff: "trimmed s \<longleftrightarrow> TrimSpace s = s"
  by (metis TrimSpace_id TrimSpace_trimmed)

lemma TrimSpace_idem [simp]: "TrimSpace (TrimSpace s) = TrimSpace s"
  by (simp add: TrimSpace_id)

lemma TrimSpace_sublist: "sublist (TrimSpace s) s"
proof -
  have "suffix (trim_left s) s" by (simp add: trim_left_def strip_suffix)
  then show ?thesis
    unfolding TrimSpace_def
    using trim_right_prefix [of "trim_left s"]
    by (metis prefix_imp_sublist sublist_order.order.trans suffix_imp_sublist)
qed

lemma length_TrimSpace_le: "length (TrimSpace s) \<le> length s"
  using TrimSpace_sublist sublist_length_le by blast

lemma TrimSpace_Nil [simp]: "TrimSpace [] = []"
  using length_TrimSpace_le [of "[]"] by simp

text \<open>A string whose first and last bytes are printable ASCII characters is trimmed.\<close>

definition graphic :: "char \<Rightarrow> bool" where
  "graphic c \<longleftrightarrow> 0x21 \<le> byte c \<and> byte c \<le> 0x7E"

lemma space_runes_ends: "e \<in> set space_runes \<Longrightarrow> e \<noteq> [] \<and> \<not> graphic (hd e) \<and> \<not> graphic (last e)"
  by (auto simp: space_runes_def graphic_def)

lemma graphic_ends_trimmed:
  assumes "s \<noteq> []" and "graphic (hd s)" and "graphic (last s)"
  shows "trimmed s"
proof -
  have "\<not> prefix e s" if "e \<in> set space_runes" for e
    using space_runes_ends [OF that] assms by (auto simp: prefix_def)
  moreover have "\<not> prefix (rev e) (rev s)" if "e \<in> set space_runes" for e
    using space_runes_ends [OF that] assms by (auto simp: prefix_def rev_eq_append_conv last_append)
  ultimately show ?thesis by (auto simp: trimmed_def stripped_def)
qed

lemma TrimSpace_graphic:
  "s = [] \<or> (graphic (hd s) \<and> graphic (last s)) \<Longrightarrow> TrimSpace s = s"
  by (cases "s = []") (auto intro: TrimSpace_id graphic_ends_trimmed)

section \<open>Fields, Contains\<close>

text \<open>
  \<^verbatim>\<open>strings.Fields\<close> splits around runs of white space. A white-space encoding
  cannot start inside another well-formed character, so scanning byte by byte sees the
  same separators as scanning by character. \<open>acc\<close> is the field being read, reversed.
\<close>

definition flush :: "string \<Rightarrow> string list" where
  "flush acc = (if acc = [] then [] else [rev acc])"

function fields_from :: "string \<Rightarrow> string \<Rightarrow> string list" where
  "fields_from acc s =
     (if s = [] then flush acc
      else if match_len space_runes s = 0 then fields_from (hd s # acc) (tl s)
      else flush acc @ fields_from [] (drop (match_len space_runes s) s))"
  by pat_completeness auto
termination
  by (relation "measure (\<lambda>(acc, s). length s)") (auto simp: neq_Nil_conv)

declare fields_from.simps [simp del]

definition Fields :: "string \<Rightarrow> string list" where
  "Fields s = fields_from [] s"

primrec join_with :: "string \<Rightarrow> string list \<Rightarrow> string" where
  "join_with sep [] = []"
| "join_with sep (x # xs) = (if xs = [] then x else x @ sep @ join_with sep xs)"

fun str_contains :: "string \<Rightarrow> string \<Rightarrow> bool" where
  "str_contains [] sub = (sub = [])"
| "str_contains (c # s) sub = (prefix sub (c # s) \<or> str_contains s sub)"

section \<open>Lower case\<close>

definition lower_char :: "char \<Rightarrow> char" where
  "lower_char c = (if 0x41 \<le> byte c \<and> byte c \<le> 0x5A then char_of (byte c + 32) else c)"

function ToLower :: "('a) platform_scheme \<Rightarrow> string \<Rightarrow> string" where
  "ToLower P s =
     (if s = [] then []
      else if byte (hd s) < 0x80 then lower_char (hd s) # ToLower P (tl s)
      else if utf8_len s = 0 then rune_error @ ToLower P (tl s)
      else rune_lower P (take (utf8_len s) s) @ ToLower P (drop (utf8_len s) s))"
  by pat_completeness auto
termination
  by (relation "measure (\<lambda>(P, s). length s)") (auto simp: neq_Nil_conv)

declare ToLower.simps [simp del]

lemma ToLower_Nil [simp]: "ToLower P [] = []"
  by (subst ToLower.simps) simp

lemma ToLower_ascii [simp]: "byte c < 0x80 \<Longrightarrow> ToLower P (c # s) = lower_char c # ToLower P s"
  by (subst ToLower.simps) simp

section \<open>Decimal integers\<close>

definition digit_char :: "nat \<Rightarrow> char" where
  "digit_char d = char_of (0x30 + d)"

fun nat_text :: "nat \<Rightarrow> string" where
  "nat_text n = (if n < 10 then [digit_char n] else nat_text (n div 10) @ [digit_char (n mod 10)])"

declare nat_text.simps [simp del]

definition Itoa :: "int \<Rightarrow> string" where
  "Itoa i = (if i < 0 then ''-'' @ nat_text (nat (- i)) else nat_text (nat i))"

definition is_digit :: "char \<Rightarrow> bool" where
  "is_digit c \<longleftrightarrow> 0x30 \<le> byte c \<and> byte c \<le> 0x39"

definition digits_val :: "string \<Rightarrow> nat" where
  "digits_val s = foldl (\<lambda>n c. 10 * n + (byte c - 0x30)) 0 s"

text \<open>
  \<^verbatim>\<open>strconv.Atoi\<close>: an optional sign, at least one decimal digit and nothing else,
  and a value that fits the platform's \<^verbatim>\<open>int\<close>.
\<close>

definition Atoi :: "('a) platform_scheme \<Rightarrow> string \<Rightarrow> int option" where
  "Atoi P s =
     (let neg = (s \<noteq> [] \<and> hd s = CHR ''-'');
          ds = (if s \<noteq> [] \<and> (hd s = CHR ''-'' \<or> hd s = CHR ''+'') then tl s else s);
          v = (if neg then - int (digits_val ds) else int (digits_val ds))
      in if ds = [] \<or> \<not> list_all is_digit ds then None
         else if - (2 ^ (int_bits P - 1)) \<le> v \<and> v < 2 ^ (int_bits P - 1) then Some v
         else None)"

lemma is_digit_digit_char [simp]: "d < 10 \<Longrightarrow> is_digit (digit_char d)"
  by (simp add: is_digit_def digit_char_def)

lemma byte_digit_char [simp]: "d < 10 \<Longrightarrow> byte (digit_char d) = 0x30 + d"
  by (simp add: digit_char_def)

lemma nat_text_digits: "list_all is_digit (nat_text n)"
proof (induction n rule: nat_text.induct)
  case (1 n)
  then show ?case by (subst nat_text.simps) auto
qed

lemma nat_text_nonempty [simp]: "nat_text n \<noteq> []"
  by (subst nat_text.simps) simp

lemma digits_val_nat_text: "digits_val (nat_text n) = n"
proof (induction n rule: nat_text.induct)
  case (1 n)
  show ?case
  proof (cases "n < 10")
    case True
    then show ?thesis by (subst nat_text.simps) (simp add: digits_val_def)
  next
    case False
    with "1" have "digits_val (nat_text (n div 10)) = n div 10" by simp
    with False show ?thesis
      by (subst nat_text.simps) (simp add: digits_val_def)
  qed
qed

lemma is_digit_signs: "is_digit c \<Longrightarrow> c \<noteq> CHR ''-'' \<and> c \<noteq> CHR ''+''"
  by (auto simp: is_digit_def)

lemma Atoi_Itoa:
  assumes "- (2 ^ (int_bits P - 1)) \<le> i" and "i < 2 ^ (int_bits P - 1)"
  shows "Atoi P (Itoa i) = Some i"
proof (cases "i < 0")
  case True
  with assms show ?thesis
    by (simp add: Atoi_def Itoa_def nat_text_digits digits_val_nat_text)
next
  case False
  have "hd (nat_text (nat i)) \<noteq> CHR ''-''" "hd (nat_text (nat i)) \<noteq> CHR ''+''"
    using nat_text_digits [of "nat i"] is_digit_signs [of "hd (nat_text (nat i))"]
    by (simp_all add: list_all_iff)
  with False assms show ?thesis
    by (simp add: Atoi_def Itoa_def nat_text_digits digits_val_nat_text)
qed

lemma is_digit_graphic: "is_digit c \<Longrightarrow> graphic c"
  by (simp add: is_digit_def graphic_def)

lemma Itoa_nonempty [simp]: "Itoa i \<noteq> []"
  by (simp add: Itoa_def)

lemma Itoa_chars: "c \<in> set (Itoa i) \<Longrightarrow> is_digit c \<or> c = CHR ''-''"
  using nat_text_digits by (auto simp: Itoa_def list_all_iff split: if_splits)

lemma Itoa_trimmed [simp, wf_intros]: "trimmed (Itoa i)"
proof (rule graphic_ends_trimmed)
  have "\<forall>c\<in>set (Itoa i). graphic c"
    using Itoa_chars is_digit_graphic by (force simp: graphic_def)
  then show "graphic (hd (Itoa i))" "graphic (last (Itoa i))" by simp_all
qed simp

section \<open>Error texts\<close>

primrec error_text :: "('a) platform_scheme \<Rightarrow> go_error \<Rightarrow> string" where
  "error_text P (ErrNew s) = s"
| "error_text P (ErrQ p a) = p @ '': '' @ quote P a"
| "error_text P (ErrIdx a n b) = a @ ''['' @ Itoa (int n) @ ''] '' @ b"
| "error_text P (ErrWrap p e) = p @ '': '' @ error_text P e"
| "error_text P (ErrJson raw) = json_error_text P raw"
| "error_text P (ErrNotExist t) = t"
| "error_text P (ErrAlreadyConnected t) = t"
| "error_text P ErrDeadlineExceeded = ''context deadline exceeded''"
| "error_text P ErrCanceled = ''context canceled''"

end
