(* ===== verification/GoJson.thy ===== *)
theory GoJson
  imports GoStrings
begin

text \<open>
  The part of \<^verbatim>\<open>encoding/json\<close> the program calls: \<^verbatim>\<open>json.Marshal\<close>
  of strings, booleans, arrays and objects, and \<^verbatim>\<open>json.Unmarshal\<close> of any text
  (syntax check with its nesting limit, string unquoting with surrogate pairs and
  replacement of ill-formed bytes, field matching by exact and by folded name, null). As in
  the package, the scanner keeps an explicit stack of open arrays and objects.
\<close>

section \<open>Values and tokens\<close>

text \<open>A number keeps its literal, as \<^verbatim>\<open>json.Number\<close> would; strings are unquoted.\<close>

datatype json =
    JNull
  | JBool bool
  | JNum string
  | JStr string
  | JArr "json list"
  | JObj "(string \<times> json) list"

datatype tok =
    TLBrace | TRBrace | TLBrack | TRBrack | TColon | TComma
  | TNull | TBool bool | TNum string | TStr string

section \<open>String literals\<close>

definition hex_char :: "nat \<Rightarrow> char" where
  "hex_char d = (if d < 10 then char_of (0x30 + d) else char_of (0x57 + d))"

definition hex_val :: "char \<Rightarrow> nat option" where
  "hex_val c =
     (if 0x30 \<le> byte c \<and> byte c \<le> 0x39 then Some (byte c - 0x30)
      else if 0x61 \<le> byte c \<and> byte c \<le> 0x66 then Some (byte c - 0x57)
      else if 0x41 \<le> byte c \<and> byte c \<le> 0x46 then Some (byte c - 0x37)
      else None)"

fun hex4 :: "string \<Rightarrow> (nat \<times> string) option" where
  "hex4 (a # b # c # d # r) =
     (case (hex_val a, hex_val b, hex_val c, hex_val d) of
        (Some w, Some x, Some y, Some z) \<Rightarrow> Some (4096 * w + 256 * x + 16 * y + z, r)
      | _ \<Rightarrow> None)"
| "hex4 _ = None"

definition encode_rune :: "nat \<Rightarrow> string" where
  "encode_rune x =
     (if x < 0x80 then [char_of x]
      else if x < 0x800 then [char_of (0xC0 + x div 64), char_of (0x80 + x mod 64)]
      else if x < 0x10000 then
        [char_of (0xE0 + x div 4096), char_of (0x80 + x div 64 mod 64), char_of (0x80 + x mod 64)]
      else
        [char_of (0xF0 + x div 262144), char_of (0x80 + x div 4096 mod 64),
         char_of (0x80 + x div 64 mod 64), char_of (0x80 + x mod 64)])"

definition is_high :: "nat \<Rightarrow> bool" where
  "is_high x \<longleftrightarrow> 0xD800 \<le> x \<and> x < 0xDC00"

definition is_low :: "nat \<Rightarrow> bool" where
  "is_low x \<longleftrightarrow> 0xDC00 \<le> x \<and> x < 0xE000"

text \<open>The low half of a surrogate pair, if the text goes on with one.\<close>

definition low_half :: "string \<Rightarrow> (nat \<times> string) option" where
  "low_half s =
     (case s of
        b # u # r \<Rightarrow>
          if b = CHR 0x5C \<and> u = CHR ''u'' then
            (case hex4 r of Some (y, r') \<Rightarrow> if is_low y then Some (y, r') else None | None \<Rightarrow> None)
          else None
      | _ \<Rightarrow> None)"

definition scan_unicode :: "string \<Rightarrow> (string \<times> string) option" where
  "scan_unicode s =
     (case hex4 s of
        None \<Rightarrow> None
      | Some (x, r) \<Rightarrow>
          if is_high x then
            (case low_half r of
               Some (y, r') \<Rightarrow> Some (encode_rune (0x10000 + 1024 * (x - 0xD800) + (y - 0xDC00)), r')
             | None \<Rightarrow> Some (rune_error, r))
          else if is_low x then Some (rune_error, r)
          else Some (encode_rune x, r))"

definition scan_escape :: "string \<Rightarrow> (string \<times> string) option" where
  "scan_escape s =
     (case s of
        [] \<Rightarrow> None
      | c # r \<Rightarrow>
          if c = CHR 0x22 \<or> c = CHR 0x5C \<or> c = CHR 0x2F then Some ([c], r)
          else if c = CHR ''b'' then Some ([CHR 0x08], r)
          else if c = CHR ''f'' then Some ([CHR 0x0C], r)
          else if c = CHR ''n'' then Some ([CHR 0x0A], r)
          else if c = CHR ''r'' then Some ([CHR 0x0D], r)
          else if c = CHR ''t'' then Some ([CHR 0x09], r)
          else if c = CHR ''u'' then scan_unicode r
          else None)"

lemma hex4_length: "hex4 s = Some (x, r) \<Longrightarrow> length r < length s"
  by (induction s rule: hex4.induct) (auto split: option.splits)

lemma low_half_length: "low_half s = Some (y, r) \<Longrightarrow> length r < length s"
  by (fastforce simp: low_half_def split: list.splits if_splits option.splits dest: hex4_length)

lemma scan_unicode_length: "scan_unicode s = Some (out, r) \<Longrightarrow> length r < length s"
  by (fastforce simp: scan_unicode_def split: option.splits prod.splits if_splits
      dest: hex4_length low_half_length)

lemma scan_escape_length: "scan_escape s = Some (out, r) \<Longrightarrow> length r < length s"
  by (auto simp: scan_escape_def split: list.splits if_splits dest: scan_unicode_length)

definition put_front :: "string \<Rightarrow> (string \<times> 'r) option \<Rightarrow> (string \<times> 'r) option" where
  "put_front p = map_option (\<lambda>(x, r). (p @ x, r))"

lemma put_front_simps [simp]:
  "put_front p None = None" "put_front p (Some (x, r)) = Some (p @ x, r)"
  "put_front p z = Some (y, r) \<longleftrightarrow> (\<exists>x. z = Some (x, r) \<and> y = p @ x)"
  by (auto simp: put_front_def)

text \<open>The text after an opening quote: the unquoted string and what follows the closing quote.\<close>

function scan_str :: "string \<Rightarrow> (string \<times> string) option" where
  "scan_str s =
     (if s = [] then None
      else if hd s = CHR 0x22 then Some ([], tl s)
      else if hd s = CHR 0x5C then
        (case scan_escape (tl s) of
           None \<Rightarrow> None
         | Some (out, r) \<Rightarrow> put_front out (scan_str r))
      else if byte (hd s) < 0x20 then None
      else if utf8_len s = 0 then put_front rune_error (scan_str (tl s))
      else put_front (take (utf8_len s) s) (scan_str (drop (utf8_len s) s)))"
  by pat_completeness auto
termination
  by (relation "measure length") (auto simp: neq_Nil_conv dest: scan_escape_length)

declare scan_str.simps [simp del]

lemma scan_str_length: "scan_str s = Some (x, r) \<Longrightarrow> length r < length s"
proof (induction s arbitrary: x r rule: scan_str.induct)
  case (1 s)
  show ?case
    using "1.prems" "1.IH"
    by (subst (asm) scan_str.simps)
      (force split: if_splits option.splits prod.splits simp: neq_Nil_conv dest: scan_escape_length)
qed

section \<open>Numbers\<close>

definition exp_ok :: "string \<Rightarrow> bool" where
  "exp_ok s =
     (case s of
        [] \<Rightarrow> True
      | c # r \<Rightarrow>
          let r' = (if r \<noteq> [] \<and> (hd r = CHR ''+'' \<or> hd r = CHR ''-'') then tl r else r)
          in (c = CHR ''e'' \<or> c = CHR ''E'') \<and> r' \<noteq> [] \<and> list_all is_digit r')"

definition frac_ok :: "string \<Rightarrow> bool" where
  "frac_ok s =
     (case s of
        c # r \<Rightarrow>
          if c = CHR ''.'' then r \<noteq> [] \<and> is_digit (hd r) \<and> exp_ok (dropWhile is_digit (tl r))
          else exp_ok s
      | [] \<Rightarrow> True)"

definition number_ok :: "string \<Rightarrow> bool" where
  "number_ok s =
     (let s1 = (if s \<noteq> [] \<and> hd s = CHR ''-'' then tl s else s)
      in s1 \<noteq> [] \<and>
         (if hd s1 = CHR ''0'' then frac_ok (tl s1)
          else is_digit (hd s1) \<and> frac_ok (dropWhile is_digit (tl s1))))"

definition num_char :: "char \<Rightarrow> bool" where
  "num_char c \<longleftrightarrow> is_digit c \<or> c \<in> set ''+-.eE''"

section \<open>The scanner\<close>

definition is_ws :: "char \<Rightarrow> bool" where
  "is_ws c \<longleftrightarrow> c = CHR 0x20 \<or> c = CHR 0x09 \<or> c = CHR 0x0D \<or> c = CHR 0x0A"

definition punct :: "char \<Rightarrow> tok option" where
  "punct c =
     (if c = CHR 0x7B then Some TLBrace else if c = CHR 0x7D then Some TRBrace
      else if c = CHR 0x5B then Some TLBrack else if c = CHR 0x5D then Some TRBrack
      else if c = CHR 0x3A then Some TColon else if c = CHR 0x2C then Some TComma
      else None)"

text \<open>The first token of a text that does not start with white space, and the text after it.\<close>

definition next_tok :: "string \<Rightarrow> (tok \<times> string) option" where
  "next_tok s =
     (case punct (hd s) of
        Some t \<Rightarrow> Some (t, tl s)
      | None \<Rightarrow>
          if hd s = CHR 0x22 then map_option (apfst TStr) (scan_str (tl s))
          else if prefix ''null'' s then Some (TNull, drop 4 s)
          else if prefix ''true'' s then Some (TBool True, drop 4 s)
          else if prefix ''false'' s then Some (TBool False, drop 5 s)
          else if number_ok (takeWhile num_char s) then
            Some (TNum (takeWhile num_char s), dropWhile num_char s)
          else None)"

lemma number_ok_Nil [simp]: "\<not> number_ok []"
  by (simp add: number_ok_def)

lemma next_tok_length: "s \<noteq> [] \<Longrightarrow> next_tok s = Some (t, r) \<Longrightarrow> length r < length s"
proof -
  assume s: "s \<noteq> []" and n: "next_tok s = Some (t, r)"
  have "length (dropWhile num_char s) < length s" if "number_ok (takeWhile num_char s)"
    using that s by (cases s) (auto split: if_splits intro: le_imp_less_Suc length_dropWhile_le)
  with s n show "length r < length s"
    by (auto simp: next_tok_def neq_Nil_conv split: option.splits if_splits dest: scan_str_length)
qed

function lex :: "string \<Rightarrow> tok list option" where
  "lex s =
     (if s = [] then Some []
      else if is_ws (hd s) then lex (tl s)
      else case next_tok s of
             None \<Rightarrow> None
           | Some (t, r) \<Rightarrow> map_option ((#) t) (lex r))"
  by pat_completeness auto
termination
  by (relation "measure length") (auto dest: next_tok_length)

declare lex.simps [simp del]

section \<open>The parser\<close>

text \<open>
  An open array holds the elements read so far, an open object its members, a pending key
  the object and the key whose value comes next; all in reverse order.
\<close>

datatype frame =
    FArr "json list"
  | FObj "(string \<times> json) list"
  | FKey "(string \<times> json) list" string

datatype phase =
    WantValue | WantElem | AfterElem | WantKey0 | WantKey | WantColon | AfterMember
  | Finished json

definition max_depth :: nat where
  "max_depth = 10000"

fun put_value :: "json \<Rightarrow> frame list \<Rightarrow> (frame list \<times> phase) option" where
  "put_value v [] = Some ([], Finished v)"
| "put_value v (FArr xs # stk) = Some (FArr (v # xs) # stk, AfterElem)"
| "put_value v (FKey ms k # stk) = Some (FObj ((k, v) # ms) # stk, AfterMember)"
| "put_value v (FObj ms # stk) = None"

definition open_frame :: "frame \<Rightarrow> phase \<Rightarrow> frame list \<Rightarrow> (frame list \<times> phase) option" where
  "open_frame f ph stk = (if length stk < max_depth then Some (f # stk, ph) else None)"

fun value_step :: "frame list \<Rightarrow> tok \<Rightarrow> (frame list \<times> phase) option" where
  "value_step stk TNull = put_value JNull stk"
| "value_step stk (TBool b) = put_value (JBool b) stk"
| "value_step stk (TNum n) = put_value (JNum n) stk"
| "value_step stk (TStr x) = put_value (JStr x) stk"
| "value_step stk TLBrack = open_frame (FArr []) WantElem stk"
| "value_step stk TLBrace = open_frame (FObj []) WantKey0 stk"
| "value_step stk _ = None"

fun close_frame :: "frame list \<Rightarrow> (frame list \<times> phase) option" where
  "close_frame (FArr xs # stk) = put_value (JArr (rev xs)) stk"
| "close_frame (FObj ms # stk) = put_value (JObj (rev ms)) stk"
| "close_frame _ = None"

fun key_step :: "frame list \<Rightarrow> tok \<Rightarrow> (frame list \<times> phase) option" where
  "key_step (FObj ms # stk) (TStr k) = Some (FKey ms k # stk, WantColon)"
| "key_step _ _ = None"

definition json_step :: "frame list \<Rightarrow> phase \<Rightarrow> tok \<Rightarrow> (frame list \<times> phase) option" where
  "json_step stk ph t =
     (case ph of
        WantValue \<Rightarrow> value_step stk t
      | WantElem \<Rightarrow> if t = TRBrack then close_frame stk else value_step stk t
      | AfterElem \<Rightarrow>
          if t = TComma then Some (stk, WantValue) else if t = TRBrack then close_frame stk else None
      | WantKey0 \<Rightarrow> if t = TRBrace then close_frame stk else key_step stk t
      | WantKey \<Rightarrow> key_step stk t
      | WantColon \<Rightarrow> if t = TColon then Some (stk, WantValue) else None
      | AfterMember \<Rightarrow>
          if t = TComma then Some (stk, WantKey) else if t = TRBrace then close_frame stk else None
      | Finished v \<Rightarrow> None)"

fun json_run :: "frame list \<Rightarrow> phase \<Rightarrow> tok list \<Rightarrow> json option" where
  "json_run stk ph [] = (case ph of Finished v \<Rightarrow> Some v | _ \<Rightarrow> None)"
| "json_run stk ph (t # ts) =
     (case json_step stk ph t of None \<Rightarrow> None | Some (stk', ph') \<Rightarrow> json_run stk' ph' ts)"

definition json_parse :: "string \<Rightarrow> json option" where
  "json_parse s = (case lex s of None \<Rightarrow> None | Some ts \<Rightarrow> json_run [] WantValue ts)"

section \<open>The printer\<close>

text \<open>Bytes below 0x80 that \<^verbatim>\<open>json.Marshal\<close> writes unescaped (its HTML-safe set).\<close>

definition html_safe :: "char \<Rightarrow> bool" where
  "html_safe c \<longleftrightarrow>
     0x20 \<le> byte c \<and> byte c < 0x80 \<and> c \<notin> {CHR 0x22, CHR 0x5C, CHR 0x3C, CHR 0x3E, CHR 0x26}"

definition esc_char :: "char \<Rightarrow> string" where
  "esc_char c =
     (if html_safe c then [c]
      else if c = CHR 0x5C \<or> c = CHR 0x22 then [CHR 0x5C, c]
      else if c = CHR 0x08 then [CHR 0x5C, CHR ''b'']
      else if c = CHR 0x0C then [CHR 0x5C, CHR ''f'']
      else if c = CHR 0x0A then [CHR 0x5C, CHR ''n'']
      else if c = CHR 0x0D then [CHR 0x5C, CHR ''r'']
      else if c = CHR 0x09 then [CHR 0x5C, CHR ''t'']
      else [CHR 0x5C, CHR ''u'', CHR ''0'', CHR ''0'', hex_char (byte c div 16), hex_char (byte c mod 16)])"

definition esc_rune :: "string \<Rightarrow> string" where
  "esc_rune u =
     (if u = [CHR 0xE2, CHR 0x80, CHR 0xA8] then CHR 0x5C # ''u2028''
      else if u = [CHR 0xE2, CHR 0x80, CHR 0xA9] then CHR 0x5C # ''u2029''
      else u)"

function esc_str :: "string \<Rightarrow> string" where
  "esc_str s =
     (if s = [] then []
      else if byte (hd s) < 0x80 then esc_char (hd s) @ esc_str (tl s)
      else if utf8_len s = 0 then (CHR 0x5C # ''ufffd'') @ esc_str (tl s)
      else esc_rune (take (utf8_len s) s) @ esc_str (drop (utf8_len s) s))"
  by pat_completeness auto
termination
  by (relation "measure length") (auto simp: neq_Nil_conv)

declare esc_str.simps [simp del]

fun tok_text :: "tok \<Rightarrow> string" where
  "tok_text TLBrace = [CHR 0x7B]"
| "tok_text TRBrace = [CHR 0x7D]"
| "tok_text TLBrack = [CHR 0x5B]"
| "tok_text TRBrack = [CHR 0x5D]"
| "tok_text TColon = [CHR 0x3A]"
| "tok_text TComma = [CHR 0x2C]"
| "tok_text TNull = ''null''"
| "tok_text (TBool b) = (if b then ''true'' else ''false'')"
| "tok_text (TNum n) = n"
| "tok_text (TStr x) = CHR 0x22 # esc_str x @ [CHR 0x22]"

primrec commas :: "tok list list \<Rightarrow> tok list" where
  "commas [] = []"
| "commas (x # xs) = (if xs = [] then x else x @ TComma # commas xs)"

fun json_toks :: "json \<Rightarrow> tok list" where
  "json_toks JNull = [TNull]"
| "json_toks (JBool b) = [TBool b]"
| "json_toks (JNum n) = [TNum n]"
| "json_toks (JStr x) = [TStr x]"
| "json_toks (JArr vs) = TLBrack # commas (map json_toks vs) @ [TRBrack]"
| "json_toks (JObj ms) =
     TLBrace # commas (map (\<lambda>(k, v). TStr k # TColon # json_toks v) ms) @ [TRBrace]"

definition toks_text :: "tok list \<Rightarrow> string" where
  "toks_text ts = concat (map tok_text ts)"

text \<open>\<^verbatim>\<open>json.Marshal\<close>: no white space between tokens.\<close>

definition json_print :: "json \<Rightarrow> string" where
  "json_print v = toks_text (json_toks v)"

section \<open>Decoding into Go values\<close>

text \<open>
  \<^verbatim>\<open>json.Unmarshal\<close> into a struct looks a member's key up by exact name, then by
  folded name. Only two characters outside ASCII fold to an ASCII letter (U+017F to S,
  U+212A to K); every other one is left alone here, which makes no difference against the
  ASCII names of the program's fields. A value of the wrong type is an error of the whole
  call, null leaves a string or a boolean as it was.
\<close>

definition upper_char :: "char \<Rightarrow> char" where
  "upper_char c = (if 0x61 \<le> byte c \<and> byte c \<le> 0x7A then char_of (byte c - 32) else c)"

definition fold_rune :: "string \<Rightarrow> string" where
  "fold_rune u =
     (if u = [CHR 0xC5, CHR 0xBF] then ''S'' else if u = [CHR 0xE2, CHR 0x84, CHR 0xAA] then ''K'' else u)"

function fold_name :: "string \<Rightarrow> string" where
  "fold_name s =
     (if s = [] then []
      else if byte (hd s) < 0x80 then upper_char (hd s) # fold_name (tl s)
      else if utf8_len s = 0 then rune_error @ fold_name (tl s)
      else fold_rune (take (utf8_len s) s) @ fold_name (drop (utf8_len s) s))"
  by pat_completeness auto
termination
  by (relation "measure length") (auto simp: neq_Nil_conv)

declare fold_name.simps [simp del]

definition field_named :: "string list \<Rightarrow> string \<Rightarrow> string option" where
  "field_named names key =
     (if key \<in> set names then Some key else find (\<lambda>n. fold_name n = fold_name key) names)"

fun dec_members ::
  "string list \<Rightarrow> (string \<Rightarrow> json \<Rightarrow> 'a \<Rightarrow> 'a option) \<Rightarrow> (string \<times> json) list \<Rightarrow> 'a \<Rightarrow> 'a option"
where
  "dec_members names setf [] acc = Some acc"
| "dec_members names setf ((k, v) # ms) acc =
     (case field_named names k of
        None \<Rightarrow> dec_members names setf ms acc
      | Some n \<Rightarrow>
          (case setf n v acc of None \<Rightarrow> None | Some acc' \<Rightarrow> dec_members names setf ms acc'))"

fun dec_struct ::
  "string list \<Rightarrow> (string \<Rightarrow> json \<Rightarrow> 'a \<Rightarrow> 'a option) \<Rightarrow> 'a \<Rightarrow> json \<Rightarrow> 'a option"
where
  "dec_struct names setf zero JNull = Some zero"
| "dec_struct names setf zero (JObj ms) = dec_members names setf ms zero"
| "dec_struct names setf zero _ = None"

fun dec_slice :: "(json \<Rightarrow> 'a option) \<Rightarrow> json \<Rightarrow> 'a list option" where
  "dec_slice elem JNull = Some []"
| "dec_slice elem (JArr vs) = those (map elem vs)"
| "dec_slice elem _ = None"

fun dec_string :: "json \<Rightarrow> string \<Rightarrow> string option" where
  "dec_string JNull old = Some old"
| "dec_string (JStr s) old = Some s"
| "dec_string _ old = None"

fun dec_bool :: "json \<Rightarrow> bool \<Rightarrow> bool option" where
  "dec_bool JNull old = Some old"
| "dec_bool (JBool b) old = Some b"
| "dec_bool _ old = None"

fun dec_bool_ptr :: "json \<Rightarrow> bool option \<Rightarrow> bool option option" where
  "dec_bool_ptr JNull old = Some None"
| "dec_bool_ptr (JBool b) old = Some (Some b)"
| "dec_bool_ptr _ old = None"

text \<open>Into \<^verbatim>\<open>map[string]string\<close>: a null value is the empty string, a later key wins.\<close>

fun dec_string_map :: "json \<Rightarrow> (string, string) gomap option" where
  "dec_string_map JNull = Some []"
| "dec_string_map (JObj ms) =
     fold (\<lambda>(k, v) acc.
        case acc of
          None \<Rightarrow> None
        | Some m \<Rightarrow> map_option (\<lambda>s. AList.update k s m) (dec_string v [])) ms (Some [])"
| "dec_string_map _ = None"

definition unmarshal :: "(json \<Rightarrow> 'a option) \<Rightarrow> string \<Rightarrow> 'a result" where
  "unmarshal dec raw =
     (case json_parse raw of
        None \<Rightarrow> Inl (ErrJson raw)
      | Some v \<Rightarrow> (case dec v of None \<Rightarrow> Inl (ErrJson raw) | Some x \<Rightarrow> Inr x))"

end
