(* ===== verification/JsonRoundtrip.thy ===== *)
theory JsonRoundtrip
  imports GoJson
begin

text \<open>
  What the JSON model guarantees: a printed value parses back to itself, unquoted strings
  are well-formed UTF-8, and the interface through which the configuration code relies on
  it (\<open>json_codec\<close>): a value type with an encoder and a decoder, for which storing the
  re-encoded form of a decoded text loses nothing and is idempotent.
\<close>

section \<open>UTF-8 sequences\<close>

lemma utf8_len_mono: "utf8_len p \<noteq> 0 \<Longrightarrow> utf8_len (p @ e) = utf8_len p"
proof -
  assume p: "utf8_len p \<noteq> 0"
  consider "p = []" | a where "p = [a]" | a b where "p = [a, b]" | a b c where "p = [a, b, c]"
    | a b c d q where "p = a # b # c # d # q"
    by (metis list.exhaust)
  then show ?thesis
  proof cases
    case (2 a)
    with p show ?thesis by (simp add: Let_def split: if_splits)
  next
    case (3 a b)
    with p show ?thesis by (simp add: Let_def split: if_splits)
  next
    case (4 a b c)
    with p show ?thesis by (simp add: Let_def split: if_splits)
  next
    case (5 a b c d q)
    then show ?thesis by (simp add: Let_def cong: if_cong)
  qed (use p in simp)
qed

lemma utf8_len_append:
  assumes "utf8_len (p @ e) \<noteq> 0" and "utf8_len (p @ e) \<le> length p"
  shows "utf8_len p = utf8_len (p @ e)"
proof -
  consider "p = []" | a where "p = [a]" | a b where "p = [a, b]" | a b c where "p = [a, b, c]"
    | a b c d q where "p = a # b # c # d # q"
    by (metis list.exhaust)
  then show ?thesis
  proof cases
    case (2 a)
    with assms show ?thesis by (simp add: Let_def split: if_splits list.splits)
  next
    case (3 a b)
    with assms show ?thesis by (simp add: Let_def split: if_splits list.splits)
  next
    case (4 a b c)
    with assms show ?thesis by (simp add: Let_def split: if_splits list.splits)
  next
    case (5 a b c d q)
    then show ?thesis by (simp add: Let_def cong: if_cong)
  qed (use assms in simp)
qed

lemma utf8_len_take:
  assumes "utf8_len s \<noteq> 0" shows "utf8_len (take (utf8_len s) s @ r) = utf8_len s"
proof -
  have "utf8_len (take (utf8_len s) s) = utf8_len s"
    using utf8_len_append [of "take (utf8_len s) s" "drop (utf8_len s) s"] assms utf8_len_le [of s]
    by simp
  with assms show ?thesis using utf8_len_mono [of "take (utf8_len s) s" r] by simp
qed

lemma valid_utf8_append: "valid_utf8 s \<Longrightarrow> valid_utf8 t \<Longrightarrow> valid_utf8 (s @ t)"
proof (induction s rule: valid_utf8.induct)
  case (1 s)
  show ?case
  proof (cases "s = []")
    case False
    with "1.prems" have n: "utf8_len s \<noteq> 0" and v: "valid_utf8 (drop (utf8_len s) s)"
      by (simp_all add: valid_utf8.simps [of s] split: if_splits)
    have "valid_utf8 (drop (utf8_len s) s @ t)"
      using "1.IH" [OF False n v] "1.prems"(2) by simp
    moreover have "drop (utf8_len s) (s @ t) = drop (utf8_len s) s @ t"
      using utf8_len_le [of s] by simp
    ultimately show ?thesis
      using n False by (subst valid_utf8.simps) (simp add: utf8_len_mono)
  qed (use "1.prems" in simp)
qed

lemma sanitize_id: "valid_utf8 s \<Longrightarrow> sanitize s = s"
proof (induction s rule: sanitize.induct)
  case (1 s)
  then show ?case
    by (subst sanitize.simps) (auto simp: valid_utf8.simps [of s] split: if_splits)
qed

lemma valid_rune_error [simp]: "valid_utf8 rune_error"
  by (simp add: rune_error_def valid_utf8.simps cont_def)

lemma valid_utf8_take: "utf8_len s \<noteq> 0 \<Longrightarrow> valid_utf8 (take (utf8_len s) s)"
  using utf8_len_take [of s "[]"] utf8_len_le [of s]
  by (subst valid_utf8.simps) simp

lemma sanitize_valid [simp, wf_intros]: "valid_utf8 (sanitize s)"
proof (induction s rule: sanitize.induct)
  case (1 s)
  then show ?case
    by (subst sanitize.simps) (auto intro: valid_utf8_append valid_utf8_take)
qed

lemma byte_char_of: "n < 256 \<Longrightarrow> byte (char_of n) = n"
  by simp

lemma utf8_len2:
  fixes q t :: nat
  assumes "2 \<le> q" "q \<le> 31" "t < 64"
  shows "utf8_len [char_of (0xC0 + q), char_of (0x80 + t)] = 2"
proof -
  have b: "byte (char_of (0xC0 + q)) = 0xC0 + q" "cont (char_of (0x80 + t))"
    using assms by (simp_all add: cont_def)
  then show ?thesis
    by (simp only: utf8_len.simps Let_def b list.case) (use assms in simp)
qed

lemma utf8_len3:
  fixes q r t :: nat
  assumes "q \<le> 15" "r < 64" "t < 64" "q = 0 \<Longrightarrow> 32 \<le> r" "q = 13 \<Longrightarrow> r \<le> 31"
  shows "utf8_len [char_of (0xE0 + q), char_of (0x80 + r), char_of (0x80 + t)] = 3"
proof -
  have b: "byte (char_of (0xE0 + q)) = 0xE0 + q" "byte (char_of (0x80 + r)) = 0x80 + r"
    "byte (char_of (0x80 + t)) = 0x80 + t"
    using assms by simp_all
  have "(if 0xE0 + q = 0xE0 then 0xA0 else 0x80) \<le> 0x80 + r"
    "0x80 + r \<le> (if 0xE0 + q = 0xED then 0x9F else 0xBF)" "cont (char_of (0x80 + t))"
    using assms by (auto simp: cont_def)
  then show ?thesis
    by (simp only: utf8_len.simps Let_def b list.case) (use assms(1) in simp)
qed

lemma utf8_len4:
  fixes q r t u :: nat
  assumes "q \<le> 4" "r < 64" "t < 64" "u < 64" "q = 0 \<Longrightarrow> 16 \<le> r" "q = 4 \<Longrightarrow> r \<le> 15"
  shows "utf8_len [char_of (0xF0 + q), char_of (0x80 + r), char_of (0x80 + t), char_of (0x80 + u)] = 4"
proof -
  have b: "byte (char_of (0xF0 + q)) = 0xF0 + q" "byte (char_of (0x80 + r)) = 0x80 + r"
    using assms by simp_all
  have "(if 0xF0 + q = 0xF0 then 0x90 else 0x80) \<le> 0x80 + r"
    "0x80 + r \<le> (if 0xF0 + q = 0xF4 then 0x8F else 0xBF)"
    "cont (char_of (0x80 + t))" "cont (char_of (0x80 + u))"
    using assms by (auto simp: cont_def)
  then show ?thesis
    by (simp only: utf8_len.simps Let_def b list.case) (use assms(1) in simp)
qed

lemma utf8_len_encode_rune:
  assumes "x < 0x110000" and "x < 0xD800 \<or> 0xE000 \<le> x"
  shows "utf8_len (encode_rune x) = length (encode_rune x)"
proof -
  have m: "x mod 64 < 64" "x div 64 mod 64 < 64" "x div 4096 mod 64 < 64" by simp_all
  consider "x < 0x80" | "0x80 \<le> x" "x < 0x800" | "0x800 \<le> x" "x < 0x10000" | "0x10000 \<le> x"
    by linarith
  then show ?thesis
  proof cases
    case 1
    then show ?thesis by (simp add: encode_rune_def)
  next
    case 2
    then have "utf8_len (encode_rune x) = 2"
      by (simp add: encode_rune_def utf8_len2 del: utf8_len.simps)
    with 2 show ?thesis by (simp add: encode_rune_def)
  next
    case 3
    have "x div 4096 \<le> 15" using 3 by linarith
    moreover have y: "x div 64 = 64 * (x div 4096) + x div 64 mod 64"
      using div_mult2_eq [of x 64 64] mult_div_mod_eq [of 64 "x div 64"] by simp
    then have "32 \<le> x div 64 mod 64" if "x div 4096 = 0" using that 3 by linarith
    moreover have "x div 64 mod 64 \<le> 31" if "x div 4096 = 13"
      using that assms(2) y m(2) by linarith
    ultimately have "utf8_len [char_of (0xE0 + x div 4096), char_of (0x80 + x div 64 mod 64),
        char_of (0x80 + x mod 64)] = 3"
      by (intro utf8_len3 m)
    with 3 show ?thesis by (simp add: encode_rune_def del: utf8_len.simps)
  next
    case 4
    have "x div 262144 \<le> 4" using 4 assms(1) by linarith
    moreover have y: "x div 4096 = 64 * (x div 262144) + x div 4096 mod 64"
      using div_mult2_eq [of x 4096 64] mult_div_mod_eq [of 64 "x div 4096"] by simp
    then have "16 \<le> x div 4096 mod 64" if "x div 262144 = 0" using that 4 by linarith
    moreover have "x div 4096 mod 64 \<le> 15" if "x div 262144 = 4"
      using that assms(1) y by linarith
    ultimately have "utf8_len [char_of (0xF0 + x div 262144), char_of (0x80 + x div 4096 mod 64),
        char_of (0x80 + x div 64 mod 64), char_of (0x80 + x mod 64)] = 4"
      by (intro utf8_len4 m)
    with 4 show ?thesis by (simp add: encode_rune_def del: utf8_len.simps)
  qed
qed

lemma encode_rune_valid:
  assumes "x < 0x110000" and "\<not> is_high x" and "\<not> is_low x"
  shows "valid_utf8 (encode_rune x)"
proof -
  have "x < 0xD800 \<or> 0xE000 \<le> x" using assms(2,3) by (auto simp: is_high_def is_low_def)
  with assms(1) have "utf8_len (encode_rune x) = length (encode_rune x)"
    by (rule utf8_len_encode_rune)
  then show ?thesis by (subst valid_utf8.simps) (auto simp: encode_rune_def)
qed

section \<open>String literals\<close>

lemma hex_val_bound: "hex_val c = Some x \<Longrightarrow> x < 16"
  by (auto simp: hex_val_def split: if_splits)

lemma hex4_bound: "hex4 s = Some (x, r) \<Longrightarrow> x < 0x10000"
  by (induction s rule: hex4.induct)
    (auto split: option.splits dest!: hex_val_bound)

lemma scan_unicode_valid: "scan_unicode s = Some (out, r) \<Longrightarrow> valid_utf8 out"
proof -
  assume sc: "scan_unicode s = Some (out, r)"
  then obtain x q where h: "hex4 s = Some (x, q)"
    by (auto simp: scan_unicode_def split: option.splits)
  have x: "x < 0x10000" using h by (rule hex4_bound)
  show "valid_utf8 out"
  proof (cases "is_high x")
    case True
    have "0x10000 + 1024 * (x - 0xD800) + (y - 0xDC00) < 0x110000"
      "0xE000 \<le> 0x10000 + 1024 * (x - 0xD800) + (y - 0xDC00)" if "is_low y" for y
      using True that by (auto simp: is_high_def is_low_def)
    then have "valid_utf8 (encode_rune (0x10000 + 1024 * (x - 0xD800) + (y - 0xDC00)))"
      if "is_low y" for y
      using that by (intro encode_rune_valid) (auto simp: is_high_def is_low_def)
    moreover have "is_low y" if "low_half q = Some (y, r')" for y r'
      using that by (auto simp: low_half_def split: list.splits if_splits option.splits)
    ultimately show ?thesis
      using sc h True by (auto simp: scan_unicode_def split: option.splits)
  next
    case False
    with sc h x show ?thesis
      by (auto simp: scan_unicode_def split: if_splits intro!: encode_rune_valid)
  qed
qed

lemma scan_escape_valid: "scan_escape s = Some (out, r) \<Longrightarrow> valid_utf8 out"
  by (auto simp: scan_escape_def valid_utf8_ascii split: list.splits if_splits dest: scan_unicode_valid)

lemma scan_str_valid: "scan_str s = Some (x, r) \<Longrightarrow> valid_utf8 x"
proof (induction s arbitrary: x r rule: scan_str.induct)
  case (1 s)
  show ?case
    using "1.prems" "1.IH"
    by (subst (asm) scan_str.simps)
      (fastforce split: if_splits option.splits intro: valid_utf8_append valid_utf8_take
        dest: scan_escape_valid)
qed

lemma scan_str_plain:
  assumes "utf8_len u = length u" and "u \<noteq> []" and "hd u \<noteq> CHR 0x22" and "hd u \<noteq> CHR 0x5C"
    and "0x20 \<le> byte (hd u)"
  shows "scan_str (u @ z) = put_front u (scan_str z)"
proof -
  have "utf8_len (u @ z) = length u" using utf8_len_mono [of u z] assms by simp
  with assms show ?thesis by (subst scan_str.simps) simp
qed

lemma hex_val_hex_char: "d < 16 \<Longrightarrow> hex_val (hex_char d) = Some d"
  by (auto simp: hex_val_def hex_char_def)

lemma scan_backslash:
  "scan_str (CHR 0x5C # r) =
     (case scan_escape r of None \<Rightarrow> None | Some (out, r') \<Rightarrow> put_front out (scan_str r'))"
  by (subst scan_str.simps) simp

lemma scan_escape_u:
  assumes "hex4 r = Some (x, z)" and "\<not> is_high x" and "\<not> is_low x"
  shows "scan_escape (CHR ''u'' # r) = Some (encode_rune x, z)"
  using assms by (simp add: scan_escape_def scan_unicode_def)

lemma esc_char_cases:
  assumes "byte c < 0x80"
  obtains (safe) "html_safe c" "esc_char c = [c]"
  | (simple) d where "esc_char c = [CHR 0x5C, d]" "\<And>z. scan_escape (d # z) = Some ([c], z)"
  | (hex) "esc_char c = [CHR 0x5C, CHR ''u'', CHR ''0'', CHR ''0'',
        hex_char (byte c div 16), hex_char (byte c mod 16)]"
proof -
  consider "html_safe c" | "\<not> html_safe c" "c = CHR 0x5C" | "\<not> html_safe c" "c = CHR 0x22"
    | "c = CHR 0x08" | "c = CHR 0x0C" | "c = CHR 0x0A" | "c = CHR 0x0D" | "c = CHR 0x09"
    | "\<not> html_safe c" "c \<notin> {CHR 0x5C, CHR 0x22, CHR 0x08, CHR 0x0C, CHR 0x0A, CHR 0x0D, CHR 0x09}"
    by blast
  then show thesis
  proof cases
    case 1
    then show thesis by (intro safe) (simp_all add: esc_char_def)
  next
    case 2
    then have "esc_char c = [CHR 0x5C, CHR 0x5C]" by (simp add: esc_char_def)
    moreover have "scan_escape (CHR 0x5C # z) = Some ([c], z)" for z
      using 2 by (simp add: scan_escape_def)
    ultimately show thesis by (rule simple)
  next
    case 3
    then have "esc_char c = [CHR 0x5C, CHR 0x22]" by (simp add: esc_char_def)
    moreover have "scan_escape (CHR 0x22 # z) = Some ([c], z)" for z
      using 3 by (simp add: scan_escape_def)
    ultimately show thesis by (rule simple)
  next
    case 4
    then have "esc_char c = [CHR 0x5C, CHR ''b'']" by (simp add: esc_char_def html_safe_def)
    moreover have "scan_escape (CHR ''b'' # z) = Some ([c], z)" for z
      using 4 by (simp add: scan_escape_def)
    ultimately show thesis by (rule simple)
  next
    case 5
    then have "esc_char c = [CHR 0x5C, CHR ''f'']" by (simp add: esc_char_def html_safe_def)
    moreover have "scan_escape (CHR ''f'' # z) = Some ([c], z)" for z
      using 5 by (simp add: scan_escape_def)
    ultimately show thesis by (rule simple)
  next
    case 6
    then have "esc_char c = [CHR 0x5C, CHR ''n'']" by (simp add: esc_char_def html_safe_def)
    moreover have "scan_escape (CHR ''n'' # z) = Some ([c], z)" for z
      using 6 by (simp add: scan_escape_def)
    ultimately show thesis by (rule simple)
  next
    case 7
    then have "esc_char c = [CHR 0x5C, CHR ''r'']" by (simp add: esc_char_def html_safe_def)
    moreover have "scan_escape (CHR ''r'' # z) = Some ([c], z)" for z
      using 7 by (simp add: scan_escape_def)
    ultimately show thesis by (rule simple)
  next
    case 8
    then have "esc_char c = [CHR 0x5C, CHR ''t'']" by (simp add: esc_char_def html_safe_def)
    moreover have "scan_escape (CHR ''t'' # z) = Some ([c], z)" for z
      using 8 by (simp add: scan_escape_def)
    ultimately show thesis by (rule simple)
  next
    case 9
    then show thesis by (intro hex) (simp add: esc_char_def)
  qed
qed

lemma scan_esc_char:
  assumes "byte c < 0x80" shows "scan_str (esc_char c @ z) = put_front [c] (scan_str z)"
  using assms
proof (cases rule: esc_char_cases)
  case safe
  then have "hd [c] \<noteq> CHR 0x22" "hd [c] \<noteq> CHR 0x5C" "0x20 \<le> byte (hd [c])"
    by (auto simp: html_safe_def)
  then show ?thesis using scan_str_plain [of "[c]" z] safe assms by simp
next
  case (simple d)
  then show ?thesis by (simp add: scan_backslash)
next
  case hex
  have n: "16 * (byte c div 16) + byte c mod 16 = byte c" by simp
  have z: "hex_val (CHR ''0'') = Some 0" by (simp add: hex_val_def)
  have "byte c div 16 < 16" "byte c mod 16 < 16" using assms by simp_all
  then have "hex4 (CHR ''0'' # CHR ''0'' # hex_char (byte c div 16) # hex_char (byte c mod 16) # z)
      = Some (byte c, z)"
    using n z by (simp add: hex_val_hex_char)
  moreover have "\<not> is_high (byte c)" "\<not> is_low (byte c)" "encode_rune (byte c) = [c]"
    using assms by (simp_all add: is_high_def is_low_def encode_rune_def)
  ultimately show ?thesis
    by (simp add: hex scan_backslash scan_escape_u del: hex4.simps)
qed

lemma encode_rune_closed:
  "encode_rune 0x2028 = [CHR 0xE2, CHR 0x80, CHR 0xA8]"
  "encode_rune 0x2029 = [CHR 0xE2, CHR 0x80, CHR 0xA9]"
  "encode_rune 0xFFFD = rune_error"
  by (simp_all add: encode_rune_def rune_error_def char_of_eq_iff)

lemma scan_esc_literals:
  "scan_str (CHR 0x5C # CHR ''u'' # CHR ''2'' # CHR ''0'' # CHR ''2'' # CHR ''8'' # z) =
     put_front [CHR 0xE2, CHR 0x80, CHR 0xA8] (scan_str z)"
  "scan_str (CHR 0x5C # CHR ''u'' # CHR ''2'' # CHR ''0'' # CHR ''2'' # CHR ''9'' # z) =
     put_front [CHR 0xE2, CHR 0x80, CHR 0xA9] (scan_str z)"
  "scan_str (CHR 0x5C # CHR ''u'' # CHR ''f'' # CHR ''f'' # CHR ''f'' # CHR ''d'' # z) =
     put_front rune_error (scan_str z)"
proof -
  have "hex4 (CHR ''2'' # CHR ''0'' # CHR ''2'' # CHR ''8'' # z) = Some (0x2028, z)"
    "hex4 (CHR ''2'' # CHR ''0'' # CHR ''2'' # CHR ''9'' # z) = Some (0x2029, z)"
    "hex4 (CHR ''f'' # CHR ''f'' # CHR ''f'' # CHR ''d'' # z) = Some (0xFFFD, z)"
    by (simp_all add: hex_val_def)
  then have "scan_escape (CHR ''u'' # CHR ''2'' # CHR ''0'' # CHR ''2'' # CHR ''8'' # z) =
      Some (encode_rune 0x2028, z)"
    "scan_escape (CHR ''u'' # CHR ''2'' # CHR ''0'' # CHR ''2'' # CHR ''9'' # z) =
      Some (encode_rune 0x2029, z)"
    "scan_escape (CHR ''u'' # CHR ''f'' # CHR ''f'' # CHR ''f'' # CHR ''d'' # z) =
      Some (encode_rune 0xFFFD, z)"
    by (intro scan_escape_u; simp add: is_high_def is_low_def)+
  then show
    "scan_str (CHR 0x5C # CHR ''u'' # CHR ''2'' # CHR ''0'' # CHR ''2'' # CHR ''8'' # z) =
       put_front [CHR 0xE2, CHR 0x80, CHR 0xA8] (scan_str z)"
    "scan_str (CHR 0x5C # CHR ''u'' # CHR ''2'' # CHR ''0'' # CHR ''2'' # CHR ''9'' # z) =
       put_front [CHR 0xE2, CHR 0x80, CHR 0xA9] (scan_str z)"
    "scan_str (CHR 0x5C # CHR ''u'' # CHR ''f'' # CHR ''f'' # CHR ''f'' # CHR ''d'' # z) =
       put_front rune_error (scan_str z)"
    by (simp_all add: scan_backslash encode_rune_closed)
qed

lemma scan_esc_rune:
  assumes "utf8_len u = length u" and "u \<noteq> []" and "0x80 \<le> byte (hd u)"
  shows "scan_str (esc_rune u @ z) = put_front u (scan_str z)"
proof -
  have "hd u \<noteq> CHR 0x22" "hd u \<noteq> CHR 0x5C" using assms(3) by auto
  with assms have "scan_str (u @ z) = put_front u (scan_str z)"
    by (intro scan_str_plain) simp_all
  then show ?thesis
    by (simp add: esc_rune_def scan_esc_literals)
qed

text \<open>Reading back an escaped string: what was written, with ill-formed bytes replaced.\<close>

lemma scan_esc_str: "scan_str (esc_str s @ CHR 0x22 # z) = Some (sanitize s, z)"
proof (induction s rule: esc_str.induct)
  case (1 s)
  let ?n = "utf8_len s"
  consider "s = []" | "s \<noteq> []" "byte (hd s) < 0x80" | "s \<noteq> []" "0x80 \<le> byte (hd s)" "?n = 0"
    | "s \<noteq> []" "0x80 \<le> byte (hd s)" "?n \<noteq> 0"
    by linarith
  then show ?case
  proof cases
    case 1
    then show ?thesis by (subst esc_str.simps, subst scan_str.simps) (simp add: sanitize.simps)
  next
    case 2
    then have "?n = 1" "take 1 s = [hd s]" by (cases s; simp)+
    with 2 "1.IH"(1) show ?thesis
      by (subst esc_str.simps) (simp add: scan_esc_char sanitize.simps [of s] drop_Suc)
  next
    case 3
    with "1.IH"(2) show ?thesis
      by (subst esc_str.simps) (simp add: scan_esc_literals sanitize.simps [of s])
  next
    case 4
    let ?u = "take ?n s"
    have "utf8_len ?u = length ?u" "?u \<noteq> []" "hd ?u = hd s"
      using 4 utf8_len_take [of s "[]"] utf8_len_le [of s] by simp_all
    with 4 have "scan_str (esc_rune ?u @ esc_str (drop ?n s) @ CHR 0x22 # z) =
        put_front ?u (scan_str (esc_str (drop ?n s) @ CHR 0x22 # z))"
      by (intro scan_esc_rune) simp_all
    with 4 "1.IH"(3) show ?thesis
      by (subst esc_str.simps) (simp add: sanitize.simps [of s])
  qed
qed

section \<open>Tokens\<close>

definition number_lit :: "string \<Rightarrow> bool" where
  "number_lit n \<longleftrightarrow> number_ok n \<and> list_all num_char n"

fun tok_ok :: "tok \<Rightarrow> bool" where
  "tok_ok (TNum n) = number_lit n"
| "tok_ok (TStr x) = valid_utf8 x"
| "tok_ok _ = True"

definition is_num :: "tok \<Rightarrow> bool" where
  "is_num t \<longleftrightarrow> (case t of TNum _ \<Rightarrow> True | _ \<Rightarrow> False)"

fun apart :: "tok list \<Rightarrow> bool" where
  "apart [] = True"
| "apart (t # ts) = ((is_num t \<longrightarrow> ts = [] \<or> \<not> is_num (hd ts)) \<and> apart ts)"

lemma toks_text_simps [simp]:
  "toks_text [] = []" "toks_text (t # ts) = tok_text t @ toks_text ts"
  "toks_text (ts @ us) = toks_text ts @ toks_text us"
  by (simp_all add: toks_text_def)

lemma not_num_char:
  "c \<in> {CHR 0x7B, CHR 0x7D, CHR 0x5B, CHR 0x5D, CHR 0x3A, CHR 0x2C, CHR 0x20, CHR 0x09, CHR 0x0D,
     CHR 0x0A, CHR 0x22, CHR ''n'', CHR ''t'', CHR ''f''} \<Longrightarrow> \<not> num_char c"
  by (elim insertE emptyE; hypsubst; simp add: num_char_def is_digit_def)

lemma num_char_not_punct: "num_char c \<Longrightarrow> punct c = None \<and> \<not> is_ws c \<and> c \<noteq> CHR 0x22 \<and>
    c \<noteq> CHR ''n'' \<and> c \<noteq> CHR ''t'' \<and> c \<noteq> CHR ''f''"
  using not_num_char [of c] by (force simp: punct_def is_ws_def)

lemma tok_text_hd:
  assumes "tok_ok t"
  shows "tok_text t \<noteq> []" and "\<not> is_ws (hd (tok_text t))"
    and "\<not> is_num t \<Longrightarrow> \<not> num_char (hd (tok_text t))"
proof -
  have "n \<noteq> [] \<and> \<not> is_ws (hd n)" if "number_lit n" for n
    using that num_char_not_punct by (cases n) (auto simp: number_lit_def)
  then show "tok_text t \<noteq> []" "\<not> is_ws (hd (tok_text t))"
    using assms by (cases t; simp add: is_ws_def)+
  show "\<not> num_char (hd (tok_text t))" if "\<not> is_num t"
    using that by (cases t) (simp_all add: is_num_def not_num_char)
qed

lemma next_tok_num:
  assumes "number_lit n" and "z = [] \<or> \<not> num_char (hd z)"
  shows "next_tok (n @ z) = Some (TNum n, z)"
proof -
  obtain c m where n: "n = c # m" using assms(1) by (cases n) (auto simp: number_lit_def)
  have c: "num_char c" and all: "\<forall>x\<in>set n. num_char x"
    using assms(1) n by (auto simp: number_lit_def list_all_iff)
  have "takeWhile num_char (n @ z) = n" "dropWhile num_char (n @ z) = z"
    using all assms(2) by (cases z; simp add: takeWhile_append dropWhile_append)+
  moreover have "number_ok n" using assms(1) by (simp add: number_lit_def)
  ultimately show ?thesis
    using num_char_not_punct [OF c] n by (auto simp: next_tok_def)
qed

lemma next_tok_text:
  assumes "tok_ok t" and "is_num t \<Longrightarrow> z = [] \<or> \<not> num_char (hd z)"
  shows "next_tok (tok_text t @ z) = Some (t, z)"
proof (cases t)
  case (TNum n)
  with assms show ?thesis by (simp add: next_tok_num is_num_def)
next
  case (TStr x)
  with assms show ?thesis
    by (simp add: next_tok_def punct_def scan_esc_str sanitize_id)
next
  case (TBool b)
  then show ?thesis by (cases b) (simp_all add: next_tok_def punct_def)
qed (simp_all add: next_tok_def punct_def)

lemma lex_toks_text: "list_all tok_ok ts \<Longrightarrow> apart ts \<Longrightarrow> lex (toks_text ts) = Some ts"
proof (induction ts)
  case Nil
  then show ?case by (simp add: lex.simps)
next
  case (Cons t ts)
  have z: "toks_text ts = [] \<or> \<not> num_char (hd (toks_text ts))" if "is_num t"
    using Cons.prems that tok_text_hd(1,3) by (cases ts) auto
  have "next_tok (tok_text t @ toks_text ts) = Some (t, toks_text ts)"
    using Cons.prems z by (intro next_tok_text) simp_all
  moreover have "tok_text t \<noteq> []" "\<not> is_ws (hd (tok_text t))"
    using Cons.prems tok_text_hd(1,2) by simp_all
  ultimately show ?case
    using Cons by (subst lex.simps) simp
qed

lemma apart_mid: "\<not> is_num t \<Longrightarrow> apart (xs @ t # ys) \<longleftrightarrow> apart xs \<and> apart ys"
proof (induction xs)
  case (Cons x xs)
  then show ?case by (cases xs) auto
qed simp

lemma apart_snoc: "\<not> is_num t \<Longrightarrow> apart (xs @ [t]) \<longleftrightarrow> apart xs"
  using apart_mid [of t xs "[]"] by simp

lemma is_num_simps [simp]:
  "\<not> is_num TLBrace" "\<not> is_num TRBrace" "\<not> is_num TLBrack" "\<not> is_num TRBrack" "\<not> is_num TColon"
  "\<not> is_num TComma" "\<not> is_num TNull" "\<not> is_num (TBool b)" "\<not> is_num (TStr x)" "is_num (TNum n)"
  by (simp_all add: is_num_def)

lemma apart_commas: "(\<forall>x\<in>set xs. apart x) \<Longrightarrow> apart (commas xs)"
  by (induction xs) (auto simp: apart_mid)

lemma list_all_commas: "(\<forall>x\<in>set xs. list_all tok_ok x) \<Longrightarrow> list_all tok_ok (commas xs)"
  by (induction xs) auto

section \<open>Values\<close>

text \<open>Values whose strings are well-formed and whose numbers are number literals.\<close>

fun json_ok :: "json \<Rightarrow> bool" where
  "json_ok (JNum n) = number_lit n"
| "json_ok (JStr x) = valid_utf8 x"
| "json_ok (JArr vs) = list_all json_ok vs"
| "json_ok (JObj ms) = list_all (\<lambda>(k, v). valid_utf8 k \<and> json_ok v) ms"
| "json_ok _ = True"

fun json_depth :: "json \<Rightarrow> nat" where
  "json_depth (JArr vs) = Suc (foldr max (map json_depth vs) 0)"
| "json_depth (JObj ms) = Suc (foldr max (map (\<lambda>(k, v). json_depth v) ms) 0)"
| "json_depth _ = 0"

lemma foldr_max_le: "x \<in> set xs \<Longrightarrow> x \<le> foldr max xs (0::nat)"
  by (induction xs) auto

lemma json_toks_ok: "json_ok v \<Longrightarrow> list_all tok_ok (json_toks v) \<and> apart (json_toks v)"
proof (induction v rule: json_toks.induct)
  case (5 vs)
  then have "\<forall>x\<in>set (map json_toks vs). list_all tok_ok x \<and> apart x"
    by (auto simp: list_all_iff)
  then show ?case by (simp add: apart_snoc list_all_commas apart_commas)
next
  case (6 ms)
  then have "\<forall>x\<in>set (map (\<lambda>(k, v). TStr k # TColon # json_toks v) ms). list_all tok_ok x \<and> apart x"
    by (fastforce simp: list_all_iff)
  then show ?case by (simp add: apart_snoc list_all_commas apart_commas)
qed simp_all

text \<open>Running the parser over the tokens of one value.\<close>

definition run_with :: "json \<Rightarrow> frame list \<Rightarrow> tok list \<Rightarrow> json option" where
  "run_with v stk ts =
     (case put_value v stk of None \<Rightarrow> None | Some (stk', ph') \<Rightarrow> json_run stk' ph' ts)"

lemma json_toks_hd: "json_toks v \<noteq> [] \<and> hd (json_toks v) \<noteq> TRBrack"
  by (cases v) auto

definition runs :: "json \<Rightarrow> bool" where
  "runs v \<longleftrightarrow> (\<forall>stk ph ts. ph \<in> {WantValue, WantElem} \<longrightarrow> length stk + json_depth v \<le> max_depth \<longrightarrow>
     json_run stk ph (json_toks v @ ts) = run_with v stk ts)"

lemma runsD:
  "runs v \<Longrightarrow> ph \<in> {WantValue, WantElem} \<Longrightarrow> length stk + json_depth v \<le> max_depth \<Longrightarrow>
     json_run stk ph (json_toks v @ ts) = run_with v stk ts"
  unfolding runs_def by blast

lemma json_run_elems:
  assumes "\<forall>v\<in>set vs. runs v \<and> Suc (length stk) + json_depth v \<le> max_depth"
    and "vs \<noteq> []" and "ph \<in> {WantValue, WantElem}"
  shows "json_run (FArr acc # stk) ph (commas (map json_toks vs) @ TRBrack # ts) =
      run_with (JArr (rev acc @ vs)) stk ts"
  using assms
proof (induction vs arbitrary: acc ph)
  case (Cons v vs)
  have hv: "json_run (FArr acc # stk) ph (json_toks v @ us) = json_run (FArr (v # acc) # stk) AfterElem us"
    for us
    using Cons.prems runsD [of v ph "FArr acc # stk" us] by (simp add: run_with_def)
  show ?case
  proof (cases "vs = []")
    case True
    then show ?thesis using hv by (simp add: json_step_def run_with_def)
  next
    case False
    with Cons have "json_run (FArr (v # acc) # stk) WantValue (commas (map json_toks vs) @ TRBrack # ts) =
        run_with (JArr (rev (v # acc) @ vs)) stk ts"
      by (intro Cons.IH) auto
    with False show ?thesis using hv by (simp add: json_step_def)
  qed
qed simp

lemma json_run_members:
  assumes "\<forall>(k, v)\<in>set ms. runs v \<and> Suc (length stk) + json_depth v \<le> max_depth"
    and "ms \<noteq> []" and "ph \<in> {WantKey, WantKey0}"
  shows "json_run (FObj acc # stk) ph
      (commas (map (\<lambda>(k, v). TStr k # TColon # json_toks v) ms) @ TRBrace # ts) =
      run_with (JObj (rev acc @ ms)) stk ts"
  using assms
proof (induction ms arbitrary: acc ph)
  case (Cons m ms)
  obtain k v where m: "m = (k, v)" by force
  have "json_run (FKey acc k # stk) WantValue (json_toks v @ us) =
      json_run (FObj ((k, v) # acc) # stk) AfterMember us" for us
    using Cons.prems m runsD [of v WantValue "FKey acc k # stk" us] by (simp add: run_with_def)
  then have hv: "json_run (FObj acc # stk) ph (TStr k # TColon # json_toks v @ us) =
      json_run (FObj ((k, v) # acc) # stk) AfterMember us" for us
    using Cons.prems(3) by (auto simp: json_step_def)
  show ?case
  proof (cases "ms = []")
    case True
    then show ?thesis using hv m by (simp add: json_step_def run_with_def)
  next
    case False
    with Cons m have "json_run (FObj ((k, v) # acc) # stk) WantKey
        (commas (map (\<lambda>(k, v). TStr k # TColon # json_toks v) ms) @ TRBrace # ts) =
        run_with (JObj (rev ((k, v) # acc) @ ms)) stk ts"
      by (intro Cons.IH) auto
    with False m show ?thesis using hv by (simp add: json_step_def)
  qed
qed simp

lemma runs_arr: "(\<forall>v\<in>set vs. runs v) \<Longrightarrow> runs (JArr vs)"
  unfolding runs_def [of "JArr vs"]
proof (intro allI impI)
  fix stk :: "frame list" and ph ts
  assume vs: "\<forall>v\<in>set vs. runs v" and ph: "ph \<in> {WantValue, WantElem}"
    and l: "length stk + json_depth (JArr vs) \<le> max_depth"
  then have d: "\<forall>v\<in>set vs. runs v \<and> Suc (length stk) + json_depth v \<le> max_depth"
    using foldr_max_le [of _ "map json_depth vs"] by fastforce
  have "json_run stk ph (TLBrack # us) = json_run (FArr [] # stk) WantElem us" for us
    using ph l by (auto simp: json_step_def open_frame_def)
  moreover have "json_run (FArr [] # stk) WantElem (commas (map json_toks vs) @ TRBrack # ts) =
      run_with (JArr vs) stk ts"
    using json_run_elems [OF d, of WantElem "[]" ts]
    by (cases "vs = []") (simp_all add: json_step_def run_with_def)
  ultimately show "json_run stk ph (json_toks (JArr vs) @ ts) = run_with (JArr vs) stk ts" by simp
qed

lemma runs_obj: "(\<forall>(k, v)\<in>set ms. runs v) \<Longrightarrow> runs (JObj ms)"
  unfolding runs_def [of "JObj ms"]
proof (intro allI impI)
  fix stk :: "frame list" and ph ts
  assume ms: "\<forall>(k, v)\<in>set ms. runs v" and ph: "ph \<in> {WantValue, WantElem}"
    and l: "length stk + json_depth (JObj ms) \<le> max_depth"
  then have d: "\<forall>(k, v)\<in>set ms. runs v \<and> Suc (length stk) + json_depth v \<le> max_depth"
    using foldr_max_le [of _ "map (\<lambda>(k, v). json_depth v) ms"] by fastforce
  have "json_run stk ph (TLBrace # us) = json_run (FObj [] # stk) WantKey0 us" for us
    using ph l by (auto simp: json_step_def open_frame_def)
  moreover have "json_run (FObj [] # stk) WantKey0
      (commas (map (\<lambda>(k, v). TStr k # TColon # json_toks v) ms) @ TRBrace # ts) = run_with (JObj ms) stk ts"
    using json_run_members [OF d, of WantKey0 "[]" ts]
    by (cases "ms = []") (simp_all add: json_step_def run_with_def)
  ultimately show "json_run stk ph (json_toks (JObj ms) @ ts) = run_with (JObj ms) stk ts" by simp
qed

lemma runs_all: "runs v"
proof (induction v)
  case (JArr vs)
  then show ?case by (simp add: runs_arr)
next
  case (JObj ms)
  then show ?case by (intro runs_obj) force
qed (auto simp: runs_def json_step_def run_with_def)

theorem json_parse_print:
  "json_ok v \<Longrightarrow> json_depth v \<le> max_depth \<Longrightarrow> json_parse (json_print v) = Some v"
  using runsD [OF runs_all, of WantValue "[]" v "[]"] json_toks_ok [of v]
  by (simp add: json_parse_def json_print_def lex_toks_text run_with_def)

lemma unmarshal_print:
  "json_ok v \<Longrightarrow> json_depth v \<le> max_depth \<Longrightarrow> dec v = Some x \<Longrightarrow> unmarshal dec (json_print v) = Inr x"
  by (simp add: unmarshal_def json_parse_print)

lemma unmarshalE:
  assumes "unmarshal dec raw = Inr x"
  obtains v where "json_parse raw = Some v" and "dec v = Some x"
  using assms by (auto simp: unmarshal_def split: option.splits)

lemma those_map_Some: "(\<forall>x\<in>set xs. f (g x) = Some (h x)) \<Longrightarrow> those (map f (map g xs)) = Some (map h xs)"
  by (induction xs) auto

lemma those_SomeD: "those (map f xs) = Some ys \<Longrightarrow> y \<in> set ys \<Longrightarrow> \<exists>x\<in>set xs. f x = Some y"
  by (induction xs arbitrary: ys) (auto split: option.splits)

lemma foldr_max_leI: "(\<And>x. x \<in> set xs \<Longrightarrow> x \<le> n) \<Longrightarrow> foldr max xs 0 \<le> (n::nat)"
  by (induction xs) auto

lemma json_depth_flat:
  "(\<And>v. v \<in> set vs \<Longrightarrow> json_depth v \<le> 1) \<Longrightarrow> json_depth (JArr vs) \<le> 2"
  by (auto intro!: foldr_max_leI)

section \<open>Decimal numbers\<close>

lemma nat_text_0: "nat_text 0 = ''0''"
  by code_simp

lemma nat_text_hd: "0 < n \<Longrightarrow> hd (nat_text n) \<noteq> CHR ''0''"
proof (induction n rule: nat_text.induct)
  case (1 n)
  show ?case
  proof (cases "n < 10")
    case True
    with "1.prems" show ?thesis
      by (subst nat_text.simps) (simp add: digit_char_def char_of_eq_iff take_bit_eq_mod)
  next
    case False
    then have "hd (nat_text (n div 10)) \<noteq> CHR ''0''" using "1.IH" by simp
    with False show ?thesis by (subst nat_text.simps) simp
  qed
qed

lemma number_lit_nat_text [simp]: "number_lit (nat_text n)"
proof -
  obtain c s where t: "nat_text n = c # s" by (cases "nat_text n") auto
  have d: "is_digit c" "list_all is_digit s" using nat_text_digits [of n] by (simp_all add: t)
  have c: "c \<noteq> CHR ''-''" using d(1) is_digit_signs by blast
  have "list_all num_char (c # s)" using d by (auto simp: list_all_iff num_char_def)
  moreover have "number_ok (c # s)"
  proof (cases "n = 0")
    case True
    then have "c = CHR ''0'' \<and> s = []" using t nat_text_0 by simp
    then show ?thesis by (simp add: number_ok_def frac_ok_def)
  next
    case False
    then have "c \<noteq> CHR ''0''" using nat_text_hd [of n] t by simp
    moreover have dw: "dropWhile is_digit s = []" using d(2) by (simp add: list_all_iff)
    ultimately show ?thesis using c d(1) by (simp add: number_ok_def frac_ok_def dw)
  qed
  ultimately show ?thesis by (simp add: number_lit_def t)
qed

lemma number_lit_Itoa [simp]: "number_lit (Itoa i)"
proof (cases "i < 0")
  case True
  have "number_ok (nat_text m) \<Longrightarrow> number_ok (CHR ''-'' # nat_text m)" for m
    using nat_text_digits [of m] is_digit_signs
    by (cases "nat_text m") (auto simp: number_ok_def Let_def)
  with True number_lit_nat_text [of "nat (- i)"] show ?thesis
    by (simp add: Itoa_def number_lit_def num_char_def)
qed (simp add: Itoa_def)

section \<open>Strings of parsed values\<close>

text \<open>Every string and every key of a parsed value is well-formed UTF-8.\<close>

fun json_strings_ok :: "json \<Rightarrow> bool" where
  "json_strings_ok (JStr x) = valid_utf8 x"
| "json_strings_ok (JArr vs) = list_all json_strings_ok vs"
| "json_strings_ok (JObj ms) = list_all (\<lambda>(k, v). valid_utf8 k \<and> json_strings_ok v) ms"
| "json_strings_ok _ = True"

fun frame_ok :: "frame \<Rightarrow> bool" where
  "frame_ok (FArr xs) = list_all json_strings_ok xs"
| "frame_ok (FObj ms) = list_all (\<lambda>(k, v). valid_utf8 k \<and> json_strings_ok v) ms"
| "frame_ok (FKey ms k) = (valid_utf8 k \<and> list_all (\<lambda>(k, v). valid_utf8 k \<and> json_strings_ok v) ms)"

fun phase_ok :: "phase \<Rightarrow> bool" where
  "phase_ok (Finished v) = json_strings_ok v"
| "phase_ok _ = True"

fun tok_string_ok :: "tok \<Rightarrow> bool" where
  "tok_string_ok (TStr x) = valid_utf8 x"
| "tok_string_ok _ = True"

lemma put_value_ok:
  "put_value v stk = Some (stk', ph') \<Longrightarrow> json_strings_ok v \<Longrightarrow> list_all frame_ok stk \<Longrightarrow>
     list_all frame_ok stk' \<and> phase_ok ph'"
  by (induction v stk rule: put_value.induct) auto

lemma json_step_ok:
  assumes "json_step stk ph t = Some (stk', ph')" and "list_all frame_ok stk" and "tok_string_ok t"
  shows "list_all frame_ok stk' \<and> phase_ok ph'"
proof -
  have close: "list_all frame_ok stk' \<and> phase_ok ph'" if "close_frame stk = Some (stk', ph')"
    using that assms(2) by (cases stk rule: close_frame.cases) (auto dest: put_value_ok)
  have val: "list_all frame_ok stk' \<and> phase_ok ph'" if "value_step stk t = Some (stk', ph')"
    using that assms(2,3)
    by (cases t) (auto simp: open_frame_def split: if_splits dest!: put_value_ok)
  have key: "list_all frame_ok stk' \<and> phase_ok ph'" if "key_step stk t = Some (stk', ph')"
    using that assms(2,3) by (cases "(stk, t)" rule: key_step.cases) auto
  show ?thesis
    using assms close val key by (auto simp: json_step_def split: phase.splits if_splits)
qed

lemma json_run_ok:
  "json_run stk ph ts = Some v \<Longrightarrow> list_all frame_ok stk \<Longrightarrow> phase_ok ph \<Longrightarrow>
     list_all tok_string_ok ts \<Longrightarrow> json_strings_ok v"
proof (induction stk ph ts rule: json_run.induct)
  case (1 stk ph)
  then show ?case by (cases ph) auto
next
  case (2 stk ph t ts)
  then show ?case by (auto split: option.splits dest: json_step_ok)
qed

lemma next_tok_ok: "next_tok s = Some (t, r) \<Longrightarrow> tok_string_ok t"
  by (auto simp: next_tok_def punct_def split: option.splits if_splits dest: scan_str_valid)

lemma lex_ok: "lex s = Some ts \<Longrightarrow> list_all tok_string_ok ts"
proof (induction s arbitrary: ts rule: lex.induct)
  case (1 s)
  show ?case
    using "1.prems" "1.IH"
    by (subst (asm) lex.simps) (fastforce split: if_splits option.splits dest: next_tok_ok)
qed

lemma json_parse_ok: "json_parse s = Some v \<Longrightarrow> json_strings_ok v"
  by (auto simp: json_parse_def split: option.splits intro: json_run_ok dest: lex_ok)

section \<open>Trimming keeps UTF-8 well-formed\<close>

lemma utf8_len_conts:
  "2 \<le> utf8_len (a # b # r) \<Longrightarrow> cont b"
  "3 \<le> utf8_len (a # b # c # r) \<Longrightarrow> cont c"
  "4 \<le> utf8_len (a # b # c # d # r) \<Longrightarrow> cont d"
  "utf8_len s \<le> 4"
proof -
  show "2 \<le> utf8_len (a # b # r) \<Longrightarrow> cont b"
    unfolding utf8_len.simps Let_def by (simp add: cont_def split: if_split_asm list.splits)
  show "3 \<le> utf8_len (a # b # c # r) \<Longrightarrow> cont c"
    unfolding utf8_len.simps Let_def by (simp split: if_split_asm list.splits)
  show "4 \<le> utf8_len (a # b # c # d # r) \<Longrightarrow> cont d"
    unfolding utf8_len.simps Let_def by (simp split: if_split_asm)
  show "utf8_len s \<le> 4"
    by (cases s) (simp_all add: Let_def split: list.split)
qed

lemma utf8_len_cont:
  assumes i: "0 < i" "i < utf8_len s" shows "cont (s ! i)"
proof -
  have l: "utf8_len s \<le> length s" "utf8_len s \<le> 4" by (rule utf8_len_le, rule utf8_len_conts)
  then consider "i = 1" | "i = 2" | "i = 3" using i by linarith
  then show ?thesis
  proof cases
    case 1
    with i l obtain a b r where "s = a # b # r" by (cases s; cases "tl s") auto
    with 1 i utf8_len_conts(1) [of a b r] show ?thesis by simp
  next
    case 2
    with i l obtain a b c r where "s = a # b # c # r" by (cases s; cases "tl s"; cases "tl (tl s)") auto
    with 2 i utf8_len_conts(2) [of a b c r] show ?thesis by simp
  next
    case 3
    with i l obtain a b c d r where "s = a # b # c # d # r"
      by (cases s; cases "tl s"; cases "tl (tl s)"; cases "tl (tl (tl s))") auto
    with 3 i utf8_len_conts(3) [of a b c d r] show ?thesis by simp
  qed
qed

lemma valid_utf8_prefix:
  "valid_utf8 (p @ e) \<Longrightarrow> e = [] \<or> \<not> cont (hd e) \<Longrightarrow> valid_utf8 p"
proof (induction p rule: valid_utf8.induct)
  case (1 p)
  let ?n = "utf8_len (p @ e)"
  show ?case
  proof (cases "p = []")
    case False
    with "1.prems"(1) have n: "?n \<noteq> 0" and v: "valid_utf8 (drop ?n (p @ e))"
      by (simp_all add: valid_utf8.simps [of "p @ e"] split: if_splits)
    have le: "?n \<le> length p"
    proof (rule ccontr)
      assume gt: "\<not> ?n \<le> length p"
      then have "e \<noteq> []" using utf8_len_le [of "p @ e"] by auto
      moreover have "cont ((p @ e) ! length p)"
        using gt False by (intro utf8_len_cont) auto
      ultimately show False using "1.prems"(2) by (simp add: nth_append hd_conv_nth)
    qed
    with n have p: "utf8_len p = ?n" by (intro utf8_len_append)
    with v le have "valid_utf8 (drop (utf8_len p) p @ e)" by simp
    with "1.IH" [OF False] n p "1.prems"(2) have "valid_utf8 (drop (utf8_len p) p)" by simp
    with n p False show ?thesis by (subst valid_utf8.simps) simp
  qed simp
qed

lemma space_rune_len: "e \<in> set space_runes \<Longrightarrow> utf8_len e = length e \<and> \<not> cont (hd e)"
  by (auto simp: space_runes_def cont_def)

lemma match_len_E:
  assumes "match_len encs s \<noteq> 0"
  obtains e where "e \<in> set encs" "prefix e s" "match_len encs s = length e"
  using assms
  by (cases "find (\<lambda>e. prefix e s) encs") (auto simp: match_len_def find_Some_iff intro: that nth_mem)

lemma valid_strip_left: "valid_utf8 s \<Longrightarrow> valid_utf8 (strip space_runes s)"
proof (induction "space_runes" s rule: strip.induct)
  case (1 s)
  show ?case
  proof (cases "s = [] \<or> match_len space_runes s = 0")
    case False
    then obtain e where e: "e \<in> set space_runes" "prefix e s" "match_len space_runes s = length e"
      using match_len_E [of space_runes s] by blast
    then have "utf8_len s = length e"
      using space_rune_len [OF e(1)] False utf8_len_mono by (metis prefix_def)
    with False 1 e have "valid_utf8 (strip space_runes (drop (match_len space_runes s) s))"
      by (auto simp: valid_utf8.simps [of s])
    with False show ?thesis by (subst strip.simps) simp
  qed (use 1 in \<open>auto simp: strip.simps\<close>)
qed

lemma valid_strip_right:
  "valid_utf8 (rev s) \<Longrightarrow> valid_utf8 (rev (strip (map rev space_runes) s))"
proof (induction "map rev space_runes" s rule: strip.induct)
  case (1 s)
  show ?case
  proof (cases "s = [] \<or> match_len (map rev space_runes) s = 0")
    case False
    then have "match_len (map rev space_runes) s \<noteq> 0" by blast
    then obtain e' where e': "e' \<in> set (map rev space_runes)" "prefix e' s"
      "match_len (map rev space_runes) s = length e'"
      by (rule match_len_E)
    then obtain e where e: "e \<in> set space_runes" "prefix (rev e) s"
      "match_len (map rev space_runes) s = length e"
      unfolding set_map by (metis image_iff length_rev)
    then obtain t where t: "s = rev e @ t" unfolding prefix_def by blast
    have "rev s = rev t @ e" by (simp add: t)
    with "1.prems" have "valid_utf8 (rev t @ e)" by simp
    then have v: "valid_utf8 (rev t)"
      by (rule valid_utf8_prefix) (use space_rune_len [OF e(1)] in simp)
    have "drop (match_len (map rev space_runes) s) s = t" using t e(3) by simp
    with False "1.hyps" v show ?thesis by (subst strip.simps) simp
  qed (use 1 in \<open>auto simp: strip.simps\<close>)
qed

lemma valid_TrimSpace: "valid_utf8 s \<Longrightarrow> valid_utf8 (TrimSpace s)"
  by (simp add: TrimSpace_def trim_left_def trim_right_def valid_strip_left valid_strip_right)

section \<open>The interface of a stored value\<close>

text \<open>
  The configuration keeps structured values as JSON text and reads them back with a
  validating parser. What its callers rely on: an accepted value is well-formed, and a
  well-formed value survives being written and read.
\<close>

locale json_codec =
  fixes enc :: "'a \<Rightarrow> string" and dec :: "string \<Rightarrow> 'a result" and wf :: "'a \<Rightarrow> bool"
  assumes dec_wf: "dec s = Inr v \<Longrightarrow> wf v"
    and dec_enc: "wf v \<Longrightarrow> dec (enc v) = Inr v"
begin

lemma canonical: "dec s = Inr v \<Longrightarrow> dec (enc v) = dec s"
  using dec_enc dec_wf by simp

lemma enc_inj: "wf v \<Longrightarrow> wf w \<Longrightarrow> enc v = enc w \<Longrightarrow> v = w"
  using dec_enc by (metis sum.inject(2))

lemma canonical_text: "dec s = Inr v \<Longrightarrow> dec (enc v) = Inr w \<Longrightarrow> enc w = enc v"
  using canonical by simp

end

end
