(* ===== verification/NotifySettings.thy ===== *)
theory NotifySettings
  imports JsonRoundtrip
begin

text \<open>
  \<^verbatim>\<open>core/notify/settings.go\<close>: the list of notification topics, its validation and
  normalisation, its JSON text, and the set of topics that are enabled.
\<close>

section \<open>The code\<close>

definition MaxTopicLength :: nat where [go_defs]: "MaxTopicLength = 256"

record TopicSetting =
  ts_Topic :: string
  ts_Enabled :: bool

definition DefaultSettingsJSON :: string where
  "DefaultSettingsJSON = ''[]''"

text \<open>The loop of \<^verbatim>\<open>NormalizeSettings\<close>: \<open>i\<close> is the index, \<open>seen\<close> the topics kept so far.\<close>

fun normalize_from :: "nat \<Rightarrow> string list \<Rightarrow> TopicSetting list \<Rightarrow> TopicSetting list result" where
  "normalize_from i seen [] = Inr []"
| "normalize_from i seen (item # list) =
     (let topic = TrimSpace (ts_Topic item) in
      if topic = [] then Inl (ErrIdx ''topic'' i ''is required'')
      else if MaxTopicLength < length topic then Inl (ErrIdx ''topic'' i ''exceeds 256 bytes'')
      else if topic \<in> set seen then normalize_from (Suc i) seen list
      else map_sum id ((#) \<lparr>ts_Topic = topic, ts_Enabled = ts_Enabled item\<rparr>)
             (normalize_from (Suc i) (topic # seen) list))"

definition NormalizeSettings :: "TopicSetting list \<Rightarrow> TopicSetting list result" where
  "NormalizeSettings list = normalize_from 0 [] list"

definition set_topic_field :: "string \<Rightarrow> json \<Rightarrow> TopicSetting \<Rightarrow> TopicSetting option" where
  "set_topic_field n v t =
     (if n = ''topic'' then map_option (\<lambda>x. t\<lparr>ts_Topic := x\<rparr>) (dec_string v (ts_Topic t))
      else map_option (\<lambda>b. t\<lparr>ts_Enabled := b\<rparr>) (dec_bool v (ts_Enabled t)))"

definition dec_topics :: "json \<Rightarrow> TopicSetting list option" where
  "dec_topics =
     dec_slice (dec_struct [''topic'', ''enabled''] set_topic_field \<lparr>ts_Topic = [], ts_Enabled = False\<rparr>)"

definition topic_json :: "TopicSetting \<Rightarrow> json" where
  "topic_json t = JObj [(''topic'', JStr (ts_Topic t)), (''enabled'', JBool (ts_Enabled t))]"

definition marshal_topics :: "TopicSetting list \<Rightarrow> string" where
  "marshal_topics ts = json_print (JArr (map topic_json ts))"

definition ParseTopicsJSON :: "string \<Rightarrow> TopicSetting list result" where
  "ParseTopicsJSON text =
     (let raw = TrimSpace text in
      if raw = [] then Inr []
      else case unmarshal dec_topics raw of Inl e \<Rightarrow> Inl e | Inr list \<Rightarrow> NormalizeSettings list)"

definition SettingsJSON :: "TopicSetting list \<Rightarrow> string result" where
  "SettingsJSON settings = map_sum id marshal_topics (NormalizeSettings settings)"

fun enabled_from :: "string list \<Rightarrow> TopicSetting list \<Rightarrow> string list" where
  "enabled_from seen [] = []"
| "enabled_from seen (item # list) =
     (let topic = TrimSpace (ts_Topic item) in
      if \<not> ts_Enabled item \<or> topic = [] \<or> topic \<in> set seen then enabled_from seen list
      else topic # enabled_from (topic # seen) list)"

definition EnabledTopics :: "TopicSetting list \<Rightarrow> string list" where
  "EnabledTopics settings = enabled_from [] settings"

definition EnabledTopicSet :: "TopicSetting list \<Rightarrow> string set" where
  "EnabledTopicSet settings = set (EnabledTopics settings)"

definition ValidateTopic :: "string \<Rightarrow> go_error option" where
  "ValidateTopic topic =
     (if TrimSpace topic = [] then Some (ErrNew ''topic is required'')
      else if MaxTopicLength < length (TrimSpace topic) then Some (ErrNew ''topic exceeds 256 bytes'')
      else None)"

section \<open>Normal form\<close>

definition topic_wf :: "string \<Rightarrow> bool" where
  "topic_wf t \<longleftrightarrow> trimmed t \<and> t \<noteq> [] \<and> length t \<le> MaxTopicLength"

definition topics_wf :: "TopicSetting list \<Rightarrow> bool" where
  "topics_wf ts \<longleftrightarrow> distinct (map ts_Topic ts) \<and> (\<forall>t\<in>set ts. topic_wf (ts_Topic t))"

lemma normalize_from_wf:
  "normalize_from i seen list = Inr out \<Longrightarrow>
     topics_wf out \<and> ts_Topic ` set out \<inter> set seen = {} \<and>
     ts_Topic ` set out \<subseteq> (TrimSpace \<circ> ts_Topic) ` set list"
proof (induction i seen list arbitrary: out rule: normalize_from.induct)
  case (2 i seen item list)
  let ?t = "TrimSpace (ts_Topic item)"
  show ?case
  proof (cases "?t \<in> set seen")
    case True
    with "2.prems" have n: "?t \<noteq> []" "\<not> MaxTopicLength < length ?t"
      and o: "normalize_from (Suc i) seen list = Inr out"
      by (auto simp: Let_def split: if_splits)
    from "2.IH"(1) [OF refl n True o] show ?thesis by auto
  next
    case False
    with "2.prems" obtain out' where n: "?t \<noteq> []" "length ?t \<le> MaxTopicLength"
      and o: "normalize_from (Suc i) (?t # seen) list = Inr out'"
        "out = \<lparr>ts_Topic = ?t, ts_Enabled = ts_Enabled item\<rparr> # out'"
      by (auto simp: Let_def map_sum_Inr_iff split: if_splits)
    from "2.IH"(2) [OF refl n(1) _ False o(1)] n(2) have
      "topics_wf out'" "ts_Topic ` set out' \<inter> set (?t # seen) = {}"
      "ts_Topic ` set out' \<subseteq> (TrimSpace \<circ> ts_Topic) ` set list" by auto
    with n False o(2) show ?thesis by (auto simp: topics_wf_def topic_wf_def)
  qed
qed (simp add: topics_wf_def)

lemma normalize_from_id:
  "topics_wf ts \<Longrightarrow> ts_Topic ` set ts \<inter> set seen = {} \<Longrightarrow> normalize_from i seen ts = Inr ts"
proof (induction ts arbitrary: i seen)
  case (Cons t ts)
  then have "normalize_from (Suc i) (ts_Topic t # seen) ts = Inr ts"
    by (intro Cons.IH) (auto simp: topics_wf_def)
  with Cons.prems show ?case
    by (auto simp: topics_wf_def topic_wf_def Let_def TrimSpace_id)
qed simp

lemma NormalizeSettings_wf: "NormalizeSettings list = Inr out \<Longrightarrow> topics_wf out"
  unfolding NormalizeSettings_def by (blast dest: normalize_from_wf)

lemma NormalizeSettings_id: "topics_wf ts \<Longrightarrow> NormalizeSettings ts = Inr ts"
  by (simp add: NormalizeSettings_def normalize_from_id)

section \<open>Storing and reading topics\<close>

definition topics_ok :: "TopicSetting list \<Rightarrow> bool" where
  "topics_ok ts \<longleftrightarrow> topics_wf ts \<and> (\<forall>t\<in>set ts. valid_utf8 (ts_Topic t))"

lemma set_topic_field_utf8:
  "set_topic_field n v t = Some t' \<Longrightarrow> json_strings_ok v \<Longrightarrow> valid_utf8 (ts_Topic t) \<Longrightarrow>
     valid_utf8 (ts_Topic t')"
  by (cases v) (auto simp: set_topic_field_def split: if_splits)

lemma dec_members_inv:
  assumes "\<And>n v x y. setf n v x = Some y \<Longrightarrow> json_strings_ok v \<Longrightarrow> P x \<Longrightarrow> P y"
  shows "dec_members names setf ms x = Some y \<Longrightarrow>
    list_all (\<lambda>(k, v). valid_utf8 k \<and> json_strings_ok v) ms \<Longrightarrow> P x \<Longrightarrow> P y"
  using assms by (induction names setf ms x rule: dec_members.induct) (auto split: option.splits)

lemma dec_struct_inv:
  assumes "\<And>n v x y. setf n v x = Some y \<Longrightarrow> json_strings_ok v \<Longrightarrow> P x \<Longrightarrow> P y"
    and "dec_struct names setf zero v = Some y" and "json_strings_ok v" and "P zero"
  shows "P y"
  using assms(2-4) by (cases v) (auto intro: dec_members_inv [of setf P, OF assms(1)])

lemma dec_topics_utf8:
  assumes "dec_topics v = Some ts" and "json_strings_ok v" and "t \<in> set ts"
  shows "valid_utf8 (ts_Topic t)"
proof -
  obtain vs where v: "v = JArr vs"
    and d: "those (map (dec_struct [''topic'', ''enabled''] set_topic_field
      \<lparr>ts_Topic = [], ts_Enabled = False\<rparr>) vs) = Some ts"
    using assms by (cases v) (auto simp: dec_topics_def)
  from those_SomeD [OF d assms(3)] obtain x where x: "x \<in> set vs"
    "dec_struct [''topic'', ''enabled''] set_topic_field \<lparr>ts_Topic = [], ts_Enabled = False\<rparr> x = Some t"
    by blast
  show ?thesis
    by (rule dec_struct_inv [of set_topic_field "\<lambda>t. valid_utf8 (ts_Topic t)", OF _ x(2)])
      (use x v assms(2) in \<open>auto simp: list_all_iff dest: set_topic_field_utf8\<close>)
qed

lemma ParseTopicsJSON_ok: "ParseTopicsJSON s = Inr ts \<Longrightarrow> topics_ok ts"
proof -
  assume p: "ParseTopicsJSON s = Inr ts"
  show ?thesis
  proof (cases "TrimSpace s = []")
    case True
    with p show ?thesis by (simp add: ParseTopicsJSON_def topics_ok_def topics_wf_def)
  next
    case False
    with p obtain list where l: "unmarshal dec_topics (TrimSpace s) = Inr list"
      and n: "NormalizeSettings list = Inr ts"
      by (auto simp: ParseTopicsJSON_def Let_def split: sum.splits)
    from l obtain v where "json_parse (TrimSpace s) = Some v" "dec_topics v = Some list"
      by (rule unmarshalE)
    then have "\<forall>t\<in>set list. valid_utf8 (ts_Topic t)"
      by (blast dest: json_parse_ok dec_topics_utf8)
    moreover have "ts_Topic ` set ts \<subseteq> (TrimSpace \<circ> ts_Topic) ` set list" "topics_wf ts"
      using normalize_from_wf [OF n [unfolded NormalizeSettings_def]] by simp_all
    ultimately show ?thesis
      unfolding topics_ok_def using valid_TrimSpace by (fastforce simp: image_subset_iff)
  qed
qed

lemma dec_topic_json [simp]:
  "dec_struct [''topic'', ''enabled''] set_topic_field z (topic_json t) = Some \<lparr>ts_Topic = ts_Topic t, ts_Enabled = ts_Enabled t, \<dots> = TopicSetting.more z\<rparr>"
  by (simp add: topic_json_def field_named_def set_topic_field_def)

lemma json_print_bracket: "json_print (JArr vs) = CHR 0x5B # r @ [CHR 0x5D]"
  if "r = concat (map tok_text (commas (map json_toks vs)))"
  using that by (simp add: json_print_def toks_text_def)

lemma json_print_brace: "json_print (JObj ms) = CHR 0x7B # r @ [CHR 0x7D]"
  if "r = concat (map tok_text (commas (map (\<lambda>(k, v). TStr k # TColon # json_toks v) ms)))"
  using that by (simp add: json_print_def toks_text_def)

lemma json_print_arr_TrimSpace [simp]:
  "TrimSpace (json_print (JArr vs)) = json_print (JArr vs)" "json_print (JArr vs) \<noteq> []"
  by (simp_all add: json_print_bracket [OF refl] TrimSpace_id graphic_ends_trimmed graphic_def)

lemma marshal_topics_parse:
  assumes "topics_ok ts" shows "ParseTopicsJSON (marshal_topics ts) = Inr ts"
proof -
  have "json_ok (JArr (map topic_json ts))"
    using assms by (auto simp: topics_ok_def topic_json_def list_all_iff valid_utf8_all_ascii)
  moreover have "json_depth (JArr (map topic_json ts)) \<le> max_depth"
    by (rule json_depth_flat [THEN order_trans [of _ 2]]) (auto simp: topic_json_def max_depth_def)
  moreover have "dec_topics (JArr (map topic_json ts)) = Some ts"
    using those_map_Some [of ts _ topic_json "\<lambda>t. t"] by (simp add: dec_topics_def)
  ultimately have "unmarshal dec_topics (marshal_topics ts) = Inr ts"
    unfolding marshal_topics_def by (rule unmarshal_print)
  with assms show ?thesis
    by (simp add: ParseTopicsJSON_def marshal_topics_def topics_ok_def NormalizeSettings_id)
qed

interpretation topics: json_codec marshal_topics ParseTopicsJSON topics_ok
  by unfold_locales (fact ParseTopicsJSON_ok marshal_topics_parse)+

section \<open>Enabled topics\<close>

lemma enabled_from_set:
  "set (enabled_from seen list) =
     {TrimSpace (ts_Topic t) | t. t \<in> set list \<and> ts_Enabled t} - {[]} - set seen"
  by (induction seen list rule: enabled_from.induct) (auto simp: Let_def)

lemma enabled_from_distinct: "distinct (enabled_from seen list)"
  by (induction seen list rule: enabled_from.induct) (simp_all add: Let_def enabled_from_set)

lemma EnabledTopics_wf:
  "topics_wf ts \<Longrightarrow> set (EnabledTopics ts) = ts_Topic ` {t \<in> set ts. ts_Enabled t}"
  by (force simp: EnabledTopics_def enabled_from_set topics_wf_def topic_wf_def TrimSpace_id image_iff)

end
