(* ===== verification/Metrics.thy ===== *)
theory Metrics
  imports GoStrings
begin

text \<open>
  \<^verbatim>\<open>core/metrics/metrics.go\<close>: the metric names and the two classes of metrics, and
  \<^verbatim>\<open>ValidVarName\<close> of \<^verbatim>\<open>core/varstore/varstore.go\<close>.
\<close>

definition MetricBatteryPercent :: string where [go_defs]: "MetricBatteryPercent = ''battery_percent''"
definition MetricBatteryCharging :: string where [go_defs]: "MetricBatteryCharging = ''battery_charging''"
definition MetricBatteryOnAC :: string where [go_defs]: "MetricBatteryOnAC = ''battery_on_ac''"
definition MetricNetOnline :: string where [go_defs]: "MetricNetOnline = ''net_online''"
definition MetricNetType :: string where [go_defs]: "MetricNetType = ''net_type''"
definition MetricCPUPercent :: string where [go_defs]: "MetricCPUPercent = ''cpu_percent''"
definition MetricMemPercent :: string where [go_defs]: "MetricMemPercent = ''mem_percent''"
definition MetricVolumePercent :: string where [go_defs]: "MetricVolumePercent = ''volume_percent''"
definition MetricVolumeMuted :: string where [go_defs]: "MetricVolumeMuted = ''volume_muted''"
definition MetricBrightnessPercent :: string where [go_defs]: "MetricBrightnessPercent = ''brightness_percent''"
definition MetricFlashlightEnabled :: string where [go_defs]: "MetricFlashlightEnabled = ''flashlight_enabled''"

definition IsControllable :: "string \<Rightarrow> bool" where
  "IsControllable metric \<longleftrightarrow>
     metric \<in> {MetricVolumePercent, MetricVolumeMuted, MetricBrightnessPercent, MetricFlashlightEnabled}"

definition IsReadOnly :: "string \<Rightarrow> bool" where
  "IsReadOnly metric \<longleftrightarrow>
     metric \<in> {MetricBatteryPercent, MetricBatteryCharging, MetricBatteryOnAC, MetricNetOnline,
       MetricNetType, MetricCPUPercent, MetricMemPercent}"

lemma controllable_not_readonly: "IsControllable m \<Longrightarrow> \<not> IsReadOnly m"
  by (auto simp: IsControllable_def IsReadOnly_def go_defs)

section \<open>Variable names\<close>

definition var_char :: "char \<Rightarrow> bool" where
  "var_char ch \<longleftrightarrow>
     (0x61 \<le> byte ch \<and> byte ch \<le> 0x7A) \<or> (0x41 \<le> byte ch \<and> byte ch \<le> 0x5A) \<or>
     (0x30 \<le> byte ch \<and> byte ch \<le> 0x39) \<or> ch = CHR 0x5F"

definition ValidVarName :: "string \<Rightarrow> bool" where
  "ValidVarName name \<longleftrightarrow> name \<noteq> [] \<and> list_all var_char name"

lemma var_char_graphic: "var_char c \<Longrightarrow> graphic c \<and> byte c < 0x80"
  by (auto simp: var_char_def graphic_def)

lemma ValidVarName_trimmed [wf_intros]: "ValidVarName s \<Longrightarrow> trimmed s"
  by (rule graphic_ends_trimmed) (auto simp: ValidVarName_def list_all_iff dest: var_char_graphic)

lemma ValidVarName_utf8 [wf_intros]: "ValidVarName s \<Longrightarrow> valid_utf8 s"
  by (rule valid_utf8_all_ascii) (auto simp: ValidVarName_def list_all_iff dest: var_char_graphic)

lemma ValidVarName_nonempty [simp]: "\<not> ValidVarName []"
  by (simp add: ValidVarName_def)

text \<open>The metric names are themselves valid variable names.\<close>

lemma metric_names_valid:
  "ValidVarName m" if "IsControllable m \<or> IsReadOnly m"
  using that by (auto simp: IsControllable_def IsReadOnly_def go_defs ValidVarName_def var_char_def)

text \<open>
  The values the protocol knows: a percentage, \<^verbatim>\<open>-1\<close> for one that is not known (the
  volume is always known), a switch, and the kinds of network.
\<close>

definition percent_text :: "string \<Rightarrow> bool" where
  "percent_text v \<longleftrightarrow> (\<exists>n\<in>set [0..100]. v = Itoa n)"

definition wire_value :: "string \<Rightarrow> string \<Rightarrow> bool" where
  "wire_value metric v =
     (if metric \<in> {MetricBatteryPercent, MetricBrightnessPercent, MetricCPUPercent, MetricMemPercent}
      then v = ''-1'' \<or> percent_text v
      else if metric = MetricVolumePercent then percent_text v
      else if metric \<in> {MetricBatteryCharging, MetricBatteryOnAC, MetricNetOnline, MetricFlashlightEnabled}
      then v \<in> {''-1'', ''0'', ''1''}
      else if metric = MetricVolumeMuted then v \<in> {''0'', ''1''}
      else metric = MetricNetType \<and> v \<in> {''-1'', ''none'', ''wifi'', ''ethernet'', ''cellular'', ''unknown''})"

lemma percent_textI: "0 \<le> n \<Longrightarrow> n \<le> 100 \<Longrightarrow> percent_text (Itoa n)"
  unfolding percent_text_def by (rule bexI [of _ n]) simp_all

end
