(* ===== verification/Config.thy ===== *)
theory Config
  imports NotifySettings Metrics
begin

text \<open>
  The pure part of \<^verbatim>\<open>core/runtime/config.go\<close>: metric bindings and settings, their
  defaults per operating system, their validation and JSON texts, the derivation of one
  from the other, and the runtime configuration built from them. The last sections show
  that every accepted settings list is in a normal form (\<open>settings_wf\<close>) that the JSON
  text preserves.
\<close>

section \<open>Data\<close>

definition KeyMetricsBindingsJSON :: string where [go_defs]: "KeyMetricsBindingsJSON = ''metrics.bindings_json''"
definition KeyMetricsSettingsJSON :: string where [go_defs]: "KeyMetricsSettingsJSON = ''metrics.settings_json''"
definition KeyMetricsVisibilityDefault :: string where
  [go_defs]: "KeyMetricsVisibilityDefault = ''metrics.visibility_default''"
definition KeyMetricsBatteryNoBattery :: string where
  [go_defs]: "KeyMetricsBatteryNoBattery = ''metrics.battery.no_battery_value''"
definition KeyNotifyTopicsJSON :: string where [go_defs]: "KeyNotifyTopicsJSON = ''notify.topics_json''"
definition defaultNoBatteryValue :: string where [go_defs]: "defaultNoBatteryValue = ''-1''"

record Binding =
  b_Metric :: string
  b_VarName :: string

record MetricSetting =
  ms_Metric :: string
  ms_VarName :: string
  ms_Enabled :: bool
  ms_Writable :: bool

record metricSettingJSON =
  mj_Metric :: string
  mj_VarName :: string
  mj_Enabled :: "bool option"
  mj_Writable :: "bool option"

record varBinding =
  vb_Metric :: string
  vb_Writable :: bool

record runtimeConfig =
  cfg_Bindings :: "Binding list"
  cfg_Settings :: "MetricSetting list"
  EnabledByMetric :: "string \<rightharpoonup> bool"
  BindingByVarName :: "string \<rightharpoonup> varBinding"
  VisibilityDefault :: string
  NoBatteryValue :: string
  cfg_NotifySettings :: "TopicSetting list"

text \<open>The zero value a runtime starts with.\<close>

definition zero_config :: runtimeConfig where
  "zero_config = \<lparr>cfg_Bindings = [], cfg_Settings = [], EnabledByMetric = Map.empty,
     BindingByVarName = Map.empty, VisibilityDefault = [], NoBatteryValue = [], cfg_NotifySettings = []\<rparr>"

section \<open>Defaults\<close>

abbreviation bind :: "string \<Rightarrow> string \<Rightarrow> Binding" where
  "bind m v \<equiv> \<lparr>b_Metric = m, b_VarName = v\<rparr>"

definition defaultBindingsForOS :: "string \<Rightarrow> Binding list" where
  "defaultBindingsForOS goos =
     [bind MetricBatteryPercent ''sys_battery_percent'',
      bind MetricBatteryCharging ''sys_battery_charging'',
      bind MetricBatteryOnAC ''sys_battery_on_ac'',
      bind MetricVolumePercent ''sys_volume_percent'',
      bind MetricVolumeMuted ''sys_volume_muted'',
      bind MetricBrightnessPercent ''sys_brightness_percent'',
      bind MetricNetOnline ''sys_net_online'',
      bind MetricNetType ''sys_net_type'',
      bind MetricCPUPercent ''sys_cpu_percent'',
      bind MetricMemPercent ''sys_mem_percent''] @
     (if goos = ''android'' then [bind MetricFlashlightEnabled ''sys_flashlight_enabled''] else [])"

definition defaultBindings :: "('a) platform_scheme \<Rightarrow> Binding list" where
  "defaultBindings P = defaultBindingsForOS (GOOS P)"

definition legacyDefaultBindingsV0 :: "Binding list" where
  "legacyDefaultBindingsV0 =
     [bind MetricBatteryPercent ''sys_battery_percent'',
      bind MetricVolumePercent ''sys_volume_percent'',
      bind MetricVolumeMuted ''sys_volume_muted'']"

definition legacyDefaultBindingsV1 :: "Binding list" where
  "legacyDefaultBindingsV1 =
     [bind MetricBatteryPercent ''sys_battery_percent'',
      bind MetricVolumePercent ''sys_volume_percent'',
      bind MetricVolumeMuted ''sys_volume_muted'',
      bind MetricBrightnessPercent ''sys_brightness_percent'']"

definition defaultSettingsForOS :: "string \<Rightarrow> MetricSetting list" where
  "defaultSettingsForOS goos =
     map (\<lambda>b. \<lparr>ms_Metric = TrimSpace (b_Metric b), ms_VarName = TrimSpace (b_VarName b),
                ms_Enabled = True, ms_Writable = IsControllable (TrimSpace (b_Metric b))\<rparr>)
       (defaultBindingsForOS goos)"

definition equalBindings :: "Binding list \<Rightarrow> Binding list \<Rightarrow> bool" where
  "equalBindings a b \<longleftrightarrow> length a = length b \<and>
     list_all2 (\<lambda>x y. TrimSpace (b_Metric x) = TrimSpace (b_Metric y) \<and>
                      TrimSpace (b_VarName x) = TrimSpace (b_VarName y)) a b"

section \<open>JSON forms\<close>

definition binding_json :: "Binding \<Rightarrow> json" where
  "binding_json b = JObj [(''metric'', JStr (b_Metric b)), (''var_name'', JStr (b_VarName b))]"

definition setting_json :: "MetricSetting \<Rightarrow> json" where
  "setting_json s = JObj [(''metric'', JStr (ms_Metric s)), (''var_name'', JStr (ms_VarName s)),
     (''enabled'', JBool (ms_Enabled s)), (''writable'', JBool (ms_Writable s))]"

definition marshal_bindings :: "Binding list \<Rightarrow> string" where
  "marshal_bindings bs = json_print (JArr (map binding_json bs))"

definition marshal_settings :: "MetricSetting list \<Rightarrow> string" where
  "marshal_settings ss = json_print (JArr (map setting_json ss))"

definition defaultBindingsJSON :: "('a) platform_scheme \<Rightarrow> string" where
  "defaultBindingsJSON P = marshal_bindings (defaultBindings P)"

definition set_binding_field :: "string \<Rightarrow> json \<Rightarrow> Binding \<Rightarrow> Binding option" where
  "set_binding_field n v b =
     (if n = ''metric'' then map_option (\<lambda>x. b\<lparr>b_Metric := x\<rparr>) (dec_string v (b_Metric b))
      else map_option (\<lambda>x. b\<lparr>b_VarName := x\<rparr>) (dec_string v (b_VarName b)))"

definition dec_bindings :: "json \<Rightarrow> Binding list option" where
  "dec_bindings = dec_slice (dec_struct [''metric'', ''var_name''] set_binding_field (bind [] []))"

definition set_setting_field :: "string \<Rightarrow> json \<Rightarrow> metricSettingJSON \<Rightarrow> metricSettingJSON option" where
  "set_setting_field n v s =
     (if n = ''metric'' then map_option (\<lambda>x. s\<lparr>mj_Metric := x\<rparr>) (dec_string v (mj_Metric s))
      else if n = ''var_name'' then map_option (\<lambda>x. s\<lparr>mj_VarName := x\<rparr>) (dec_string v (mj_VarName s))
      else if n = ''enabled'' then map_option (\<lambda>x. s\<lparr>mj_Enabled := x\<rparr>) (dec_bool_ptr v (mj_Enabled s))
      else map_option (\<lambda>x. s\<lparr>mj_Writable := x\<rparr>) (dec_bool_ptr v (mj_Writable s)))"

definition zero_setting_json :: metricSettingJSON where
  "zero_setting_json = \<lparr>mj_Metric = [], mj_VarName = [], mj_Enabled = None, mj_Writable = None\<rparr>"

definition dec_settings :: "json \<Rightarrow> metricSettingJSON list option" where
  "dec_settings = dec_slice
     (dec_struct [''metric'', ''var_name'', ''enabled'', ''writable''] set_setting_field zero_setting_json)"

section \<open>Bindings and settings, one from the other\<close>

definition settingsToBindings :: "MetricSetting list \<Rightarrow> Binding list" where
  "settingsToBindings settings =
     map (\<lambda>s. bind (TrimSpace (ms_Metric s)) (TrimSpace (ms_VarName s))) (filter ms_Enabled settings)"

definition var_by_metric :: "Binding list \<Rightarrow> string \<rightharpoonup> string" where
  "var_by_metric bindings =
     foldl (\<lambda>m b. m(TrimSpace (b_Metric b) \<mapsto> TrimSpace (b_VarName b))) Map.empty bindings"

definition settingsFromBindings :: "Binding list \<Rightarrow> Binding list \<Rightarrow> MetricSetting list" where
  "settingsFromBindings bindings supported =
     map (\<lambda>b.
       let metric = TrimSpace (b_Metric b);
           bound = var_by_metric bindings metric;
           varName = (case bound of
             None \<Rightarrow> TrimSpace (b_VarName b)
           | Some v \<Rightarrow> if TrimSpace v = [] then TrimSpace (b_VarName b) else v)
       in \<lparr>ms_Metric = metric, ms_VarName = varName, ms_Enabled = (bound \<noteq> None),
           ms_Writable = IsControllable metric\<rparr>) supported"

section \<open>Validation\<close>

definition VisibilityPublic :: string where [go_defs]: "VisibilityPublic = ''public''"
definition VisibilityPrivate :: string where [go_defs]: "VisibilityPrivate = ''private''"

definition normalizeVisibility :: "('a) platform_scheme \<Rightarrow> string \<Rightarrow> string result" where
  "normalizeVisibility P txt =
     (let v = ToLower P (TrimSpace txt) in
      if v = [] then Inr VisibilityPublic
      else if v = VisibilityPublic \<or> v = VisibilityPrivate then Inr v
      else Inl (ErrQ ''invalid visibility'' txt))"

definition normalizeNoBatteryValue :: "string \<Rightarrow> string result" where
  "normalizeNoBatteryValue txt =
     (if TrimSpace txt = [] then Inl (ErrNew ''no_battery_value is required'')
      else Inr (TrimSpace txt))"

definition supportedMetricForOS :: "string \<Rightarrow> string \<Rightarrow> bool" where
  "supportedMetricForOS goos metric =
     (let m = TrimSpace metric in
      if goos \<noteq> ''android'' \<and> m = MetricFlashlightEnabled then False
      else m \<in> {MetricBatteryPercent, MetricBatteryCharging, MetricBatteryOnAC,
                MetricNetOnline, MetricNetType, MetricCPUPercent, MetricMemPercent,
                MetricVolumePercent, MetricVolumeMuted, MetricBrightnessPercent,
                MetricFlashlightEnabled})"

fun validate_bindings :: "string \<Rightarrow> string list \<Rightarrow> Binding list \<Rightarrow> Binding list result" where
  "validate_bindings goos seen [] = Inr []"
| "validate_bindings goos seen (x # list) =
     (let m = TrimSpace (b_Metric x); v = TrimSpace (b_VarName x) in
      if \<not> supportedMetricForOS goos m then Inl (ErrQ ''unsupported metric'' m)
      else if \<not> ValidVarName v then Inl (ErrQ ''invalid var_name'' v)
      else if v \<in> set seen then Inl (ErrQ ''duplicate var_name'' v)
      else map_sum id ((#) (bind m v)) (validate_bindings goos (v # seen) list))"

definition validateBindings :: "('a) platform_scheme \<Rightarrow> Binding list \<Rightarrow> Binding list result" where
  "validateBindings P list = validate_bindings (GOOS P) [] list"

definition parseBindingsJSON :: "('a) platform_scheme \<Rightarrow> string \<Rightarrow> Binding list result" where
  "parseBindingsJSON P txt =
     (let raw = TrimSpace txt in
      if raw = [] then Inr (defaultBindings P)
      else case unmarshal dec_bindings raw of Inl e \<Rightarrow> Inl e | Inr list \<Rightarrow> validateBindings P list)"

text \<open>
  \<^verbatim>\<open>validateSettings\<close> runs three loops: over the input, filling \<open>byMetric\<close>; over the
  supported metrics in their order, taking each setting or a disabled default; and over
  the result, looking for a variable name enabled twice.
\<close>

definition setting_of_input :: "metricSettingJSON \<Rightarrow> MetricSetting" where
  "setting_of_input x =
     (let metric = TrimSpace (mj_Metric x) in
      \<lparr>ms_Metric = metric, ms_VarName = TrimSpace (mj_VarName x),
       ms_Enabled = (case mj_Enabled x of None \<Rightarrow> True | Some e \<Rightarrow> e),
       ms_Writable = (if \<not> IsControllable metric then False
                      else case mj_Writable x of None \<Rightarrow> IsControllable metric | Some w \<Rightarrow> w)\<rparr>)"

fun settings_by_metric ::
  "string \<Rightarrow> (string \<rightharpoonup> MetricSetting) \<Rightarrow> metricSettingJSON list \<Rightarrow> (string \<rightharpoonup> MetricSetting) result"
where
  "settings_by_metric goos byMetric [] = Inr byMetric"
| "settings_by_metric goos byMetric (x # list) =
     (if \<not> supportedMetricForOS goos (TrimSpace (mj_Metric x)) then
        Inl (ErrQ ''unsupported metric'' (mj_Metric x))
      else if \<not> ValidVarName (TrimSpace (mj_VarName x)) then
        Inl (ErrQ ''invalid var_name'' (mj_VarName x))
      else settings_by_metric goos
        (byMetric(TrimSpace (mj_Metric x) \<mapsto> setting_of_input x)) list)"

definition settings_in_order :: "string \<Rightarrow> (string \<rightharpoonup> MetricSetting) \<Rightarrow> MetricSetting list" where
  "settings_in_order goos byMetric =
     map (\<lambda>b. case byMetric (TrimSpace (b_Metric b)) of
         Some s \<Rightarrow> s
       | None \<Rightarrow> \<lparr>ms_Metric = TrimSpace (b_Metric b), ms_VarName = TrimSpace (b_VarName b),
           ms_Enabled = False, ms_Writable = IsControllable (TrimSpace (b_Metric b))\<rparr>)
       (defaultBindingsForOS goos)"

fun duplicate_enabled :: "string list \<Rightarrow> MetricSetting list \<Rightarrow> string option" where
  "duplicate_enabled seen [] = None"
| "duplicate_enabled seen (s # list) =
     (if \<not> ms_Enabled s then duplicate_enabled seen list
      else if ms_VarName s \<in> set seen then Some (ms_VarName s)
      else duplicate_enabled (ms_VarName s # seen) list)"

definition validateSettings :: "metricSettingJSON list \<Rightarrow> string \<Rightarrow> MetricSetting list result" where
  "validateSettings list goos =
     (case settings_by_metric goos Map.empty list of
        Inl e \<Rightarrow> Inl e
      | Inr byMetric \<Rightarrow>
          let out = settings_in_order goos byMetric in
          case duplicate_enabled [] out of
            Some v \<Rightarrow> Inl (ErrQ ''duplicate enabled var_name'' v)
          | None \<Rightarrow> Inr out)"

definition parseSettingsJSON :: "string \<Rightarrow> string \<Rightarrow> MetricSetting list result" where
  "parseSettingsJSON txt goos =
     (let raw = TrimSpace txt in
      if raw = [] then Inr (defaultSettingsForOS goos)
      else case unmarshal dec_settings raw of Inl e \<Rightarrow> Inl e | Inr list \<Rightarrow> validateSettings list goos)"

section \<open>The configuration in force\<close>

text \<open>The two maps that \<^verbatim>\<open>reloadRuntimeConfig\<close> fills from the enabled settings.\<close>

definition enabled_map :: "MetricSetting list \<Rightarrow> string \<rightharpoonup> bool" where
  "enabled_map settings =
     foldl (\<lambda>m s. m(ms_Metric s \<mapsto> True)) Map.empty (filter ms_Enabled settings)"

definition var_map :: "MetricSetting list \<Rightarrow> string \<rightharpoonup> varBinding" where
  "var_map settings =
     foldl (\<lambda>m s. m(ms_VarName s \<mapsto> \<lparr>vb_Metric = ms_Metric s, vb_Writable = ms_Writable s\<rparr>))
       Map.empty (filter ms_Enabled settings)"

definition transformMetricValue :: "string \<Rightarrow> string \<Rightarrow> runtimeConfig \<Rightarrow> string" where
  "transformMetricValue metric raw0 cfg =
     (let raw = TrimSpace raw0 in
      if raw = [] then []
      else if metric = MetricBatteryPercent \<and> raw = ''-1'' then
        (if TrimSpace (NoBatteryValue cfg) = [] then defaultNoBatteryValue
         else TrimSpace (NoBatteryValue cfg))
      else raw)"

section \<open>Facts on the defaults\<close>

abbreviation supported_metrics :: "string \<Rightarrow> string list" where
  "supported_metrics goos \<equiv> map b_Metric (defaultBindingsForOS goos)"

lemma supportedMetricForOS_cases:
  "supportedMetricForOS goos m \<longleftrightarrow> TrimSpace m \<in> set (supported_metrics goos)"
  by (cases "goos = ''android''") (auto simp: supportedMetricForOS_def defaultBindingsForOS_def go_defs Let_def)

lemma default_binding_wf:
  "b \<in> set (defaultBindingsForOS goos) \<Longrightarrow>
     ValidVarName (b_Metric b) \<and> ValidVarName (b_VarName b)"
  by (auto simp: defaultBindingsForOS_def go_defs ValidVarName_def var_char_def split: if_splits)

lemma default_binding_trim [simp]:
  "b \<in> set (defaultBindingsForOS goos) \<Longrightarrow>
     TrimSpace (b_Metric b) = b_Metric b \<and> TrimSpace (b_VarName b) = b_VarName b"
  by (simp add: TrimSpace_id ValidVarName_trimmed default_binding_wf)

lemma supported_metrics_distinct [simp]: "distinct (supported_metrics goos)"
  by (simp add: defaultBindingsForOS_def go_defs)

lemma default_vars_distinct [simp]: "distinct (map b_VarName (defaultBindingsForOS goos))"
  by (simp add: defaultBindingsForOS_def go_defs)

section \<open>The normal form of bindings\<close>

definition bindings_wf :: "string \<Rightarrow> Binding list \<Rightarrow> bool" where
  "bindings_wf goos bs \<longleftrightarrow> distinct (map b_VarName bs) \<and>
     (\<forall>b\<in>set bs. b_Metric b \<in> set (supported_metrics goos) \<and> ValidVarName (b_VarName b))"

lemma supported_metric_trimmed: "m \<in> set (supported_metrics goos) \<Longrightarrow> TrimSpace m = m \<and> ValidVarName m"
  using default_binding_wf by (auto simp: TrimSpace_id ValidVarName_trimmed)

lemma validate_bindings_wf:
  "validate_bindings goos seen list = Inr out \<Longrightarrow>
     bindings_wf goos out \<and> b_VarName ` set out \<inter> set seen = {}"
proof (induction goos seen list arbitrary: out rule: validate_bindings.induct)
  case (2 goos seen x list)
  then obtain out' where
    "supportedMetricForOS goos (TrimSpace (b_Metric x))" "ValidVarName (TrimSpace (b_VarName x))"
    "TrimSpace (b_VarName x) \<notin> set seen"
    "validate_bindings goos (TrimSpace (b_VarName x) # seen) list = Inr out'"
    "out = bind (TrimSpace (b_Metric x)) (TrimSpace (b_VarName x)) # out'"
    by (auto simp: Let_def map_sum_Inr_iff split: if_splits)
  with "2.IH" [OF refl refl] show ?case
    by (auto simp: bindings_wf_def supportedMetricForOS_cases)
qed (simp add: bindings_wf_def)

lemma validate_bindings_id:
  "bindings_wf goos bs \<Longrightarrow> b_VarName ` set bs \<inter> set seen = {} \<Longrightarrow>
     validate_bindings goos seen bs = Inr bs"
proof (induction bs arbitrary: seen)
  case (Cons b bs)
  then have "validate_bindings goos (b_VarName b # seen) bs = Inr bs"
    by (intro Cons.IH) (auto simp: bindings_wf_def)
  with Cons.prems show ?case
    using supported_metric_trimmed [of "b_Metric b" goos]
    by (auto simp: bindings_wf_def Let_def supportedMetricForOS_cases TrimSpace_id ValidVarName_trimmed)
qed simp

lemma default_bindings_wf [simp]: "bindings_wf goos (defaultBindingsForOS goos)"
  by (simp add: bindings_wf_def default_binding_wf)

lemma parseBindingsJSON_wf: "parseBindingsJSON P txt = Inr bs \<Longrightarrow> bindings_wf (GOOS P) bs"
  by (auto simp: parseBindingsJSON_def validateBindings_def defaultBindings_def Let_def
      dest: validate_bindings_wf split: if_splits sum.splits)

lemma bindings_wf_utf8:
  "bindings_wf goos bs \<Longrightarrow> b \<in> set bs \<Longrightarrow> valid_utf8 (b_Metric b) \<and> valid_utf8 (b_VarName b)"
  using supported_metric_trimmed [of "b_Metric b" goos]
  by (auto simp: bindings_wf_def intro: ValidVarName_utf8)

lemma marshal_bindings_parse:
  assumes "bindings_wf (GOOS P) bs" shows "parseBindingsJSON P (marshal_bindings bs) = Inr bs"
proof -
  have "json_ok (JArr (map binding_json bs))"
    using bindings_wf_utf8 [OF assms] by (auto simp: binding_json_def list_all_iff valid_utf8_all_ascii)
  moreover have "json_depth (JArr (map binding_json bs)) \<le> max_depth"
    by (rule json_depth_flat [THEN order_trans [of _ 2]]) (auto simp: binding_json_def max_depth_def)
  moreover have "dec_bindings (JArr (map binding_json bs)) = Some bs"
    using those_map_Some [of bs _ binding_json "\<lambda>t. t"]
    by (simp add: dec_bindings_def binding_json_def field_named_def set_binding_field_def)
  ultimately have "unmarshal dec_bindings (marshal_bindings bs) = Inr bs"
    unfolding marshal_bindings_def by (rule unmarshal_print)
  with assms show ?thesis
    by (simp add: parseBindingsJSON_def marshal_bindings_def validateBindings_def validate_bindings_id)
qed

section \<open>The normal form of settings\<close>

definition enabled_vars :: "MetricSetting list \<Rightarrow> string list" where
  "enabled_vars ss = map ms_VarName (filter ms_Enabled ss)"

definition settings_wf :: "string \<Rightarrow> MetricSetting list \<Rightarrow> bool" where
  "settings_wf goos ss \<longleftrightarrow> map ms_Metric ss = supported_metrics goos \<and> distinct (enabled_vars ss) \<and>
     (\<forall>s\<in>set ss. ValidVarName (ms_VarName s) \<and> (ms_Writable s \<longrightarrow> IsControllable (ms_Metric s)))"

lemma duplicate_enabled_None:
  "duplicate_enabled seen ss = None \<longleftrightarrow> distinct (enabled_vars ss) \<and> set (enabled_vars ss) \<inter> set seen = {}"
  by (induction seen ss rule: duplicate_enabled.induct) (auto simp: enabled_vars_def)

lemma settings_by_metric_entry:
  "settings_by_metric goos m0 list = Inr m \<Longrightarrow> m k = Some s \<Longrightarrow>
     m0 k = Some s \<or> (ms_Metric s = k \<and> ValidVarName (ms_VarName s) \<and>
       (ms_Writable s \<longrightarrow> IsControllable (ms_Metric s)))"
  by (induction goos m0 list rule: settings_by_metric.induct)
    (auto simp: setting_of_input_def Let_def split: if_splits)

lemma settings_by_metric_foldl:
  "(\<forall>x\<in>set list. supportedMetricForOS goos (TrimSpace (mj_Metric x)) \<and> ValidVarName (TrimSpace (mj_VarName x))) \<Longrightarrow>
     settings_by_metric goos m0 list =
       Inr (foldl (\<lambda>m x. m(TrimSpace (mj_Metric x) \<mapsto> setting_of_input x)) m0 list)"
  by (induction list arbitrary: m0) auto

lemma validateSettings_wf: "validateSettings list goos = Inr ss \<Longrightarrow> settings_wf goos ss"
proof -
  assume "validateSettings list goos = Inr ss"
  then obtain m where m: "settings_by_metric goos Map.empty list = Inr m"
    and ss: "ss = settings_in_order goos m" "duplicate_enabled [] ss = None"
    by (auto simp: validateSettings_def Let_def split: sum.splits option.splits)
  have e: "m k = Some s \<Longrightarrow> ms_Metric s = k \<and> ValidVarName (ms_VarName s) \<and>
      (ms_Writable s \<longrightarrow> IsControllable (ms_Metric s))" for k s
    using settings_by_metric_entry [OF m] by fastforce
  have "\<forall>s\<in>set ss. ValidVarName (ms_VarName s) \<and> (ms_Writable s \<longrightarrow> IsControllable (ms_Metric s))"
    using e by (fastforce simp: ss(1) settings_in_order_def default_binding_wf split: option.splits)
  moreover have "map ms_Metric ss = supported_metrics goos"
    using e by (auto simp: ss(1) settings_in_order_def split: option.split)
  ultimately show ?thesis using ss(2) by (simp add: settings_wf_def duplicate_enabled_None)
qed

lemma default_settings_wf [simp]: "settings_wf goos (defaultSettingsForOS goos)"
proof -
  have "enabled_vars (defaultSettingsForOS goos) = map b_VarName (defaultBindingsForOS goos)"
    by (simp add: enabled_vars_def defaultSettingsForOS_def filter_map comp_def)
  then show ?thesis by (auto simp: settings_wf_def defaultSettingsForOS_def default_binding_wf)
qed

lemma parseSettingsJSON_wf: "parseSettingsJSON txt goos = Inr ss \<Longrightarrow> settings_wf goos ss"
  by (auto simp: parseSettingsJSON_def Let_def dest: validateSettings_wf split: if_splits sum.splits)

lemma settings_wf_entry:
  "settings_wf goos ss \<Longrightarrow> s \<in> set ss \<Longrightarrow>
     ms_Metric s \<in> set (supported_metrics goos) \<and> TrimSpace (ms_Metric s) = ms_Metric s \<and>
     TrimSpace (ms_VarName s) = ms_VarName s \<and> valid_utf8 (ms_Metric s) \<and> valid_utf8 (ms_VarName s)"
proof -
  assume w: "settings_wf goos ss" and s: "s \<in> set ss"
  have "ms_Metric s \<in> set (map ms_Metric ss)" using s by simp
  with w have "ms_Metric s \<in> set (supported_metrics goos)" unfolding settings_wf_def by simp
  moreover from this have "ValidVarName (ms_Metric s)" by (rule conjunct2 [OF supported_metric_trimmed])
  moreover from w s have "ValidVarName (ms_VarName s)" by (simp add: settings_wf_def)
  ultimately show ?thesis by (simp add: TrimSpace_id ValidVarName_trimmed ValidVarName_utf8)
qed

definition setting_input :: "MetricSetting \<Rightarrow> metricSettingJSON" where
  "setting_input s = \<lparr>mj_Metric = ms_Metric s, mj_VarName = ms_VarName s,
     mj_Enabled = Some (ms_Enabled s), mj_Writable = Some (ms_Writable s)\<rparr>"

lemma setting_of_setting_input:
  "settings_wf goos ss \<Longrightarrow> s \<in> set ss \<Longrightarrow> setting_of_input (setting_input s) = s"
  using settings_wf_entry [of goos ss s]
  by (auto simp: setting_of_input_def setting_input_def settings_wf_def Let_def)

lemma validateSettings_id:
  assumes w: "settings_wf goos ss" shows "validateSettings (map setting_input ss) goos = Inr ss"
proof -
  let ?m = "foldl (\<lambda>m x. m(TrimSpace (mj_Metric x) \<mapsto> setting_of_input x)) Map.empty (map setting_input ss)"
  have m: "settings_by_metric goos Map.empty (map setting_input ss) = Inr ?m"
    using settings_wf_entry [OF w] w
    by (intro settings_by_metric_foldl) (auto simp: setting_input_def supportedMetricForOS_cases settings_wf_def)
  have metrics: "map ms_Metric ss = supported_metrics goos" using w by (simp add: settings_wf_def)
  have key: "TrimSpace (mj_Metric (setting_input s)) = ms_Metric s" if "s \<in> set ss" for s
    using settings_wf_entry [OF w that] by (simp add: setting_input_def)
  have "map (\<lambda>x. TrimSpace (mj_Metric x)) (map setting_input ss) = map ms_Metric ss"
    using key by simp
  then have d: "distinct (map (\<lambda>x. TrimSpace (mj_Metric x)) (map setting_input ss))"
    using metrics by simp
  have look: "?m (ms_Metric s) = Some s" if "s \<in> set ss" for s
    using foldl_upd_distinct [OF d, of "setting_input s" setting_of_input Map.empty] that
    by (simp add: key setting_of_setting_input [OF w])
  have order: "settings_in_order goos ?m = ss"
  proof (rule nth_equalityI)
    show len: "length (settings_in_order goos ?m) = length ss"
      using arg_cong [OF metrics, of length] by (simp add: settings_in_order_def)
    fix i assume "i < length (settings_in_order goos ?m)"
    then have i: "i < length ss" "i < length (defaultBindingsForOS goos)"
      using len by (simp_all add: settings_in_order_def)
    then have "b_Metric (defaultBindingsForOS goos ! i) = ms_Metric (ss ! i)"
      using arg_cong [OF metrics, of "\<lambda>xs. xs ! i"] by simp
    moreover have "TrimSpace (ms_Metric (ss ! i)) = ms_Metric (ss ! i)"
      using settings_wf_entry [OF w nth_mem [OF i(1)]] by simp
    ultimately show "settings_in_order goos ?m ! i = ss ! i"
      using i look [OF nth_mem [OF i(1)]] by (simp add: settings_in_order_def)
  qed
  from w have "duplicate_enabled [] ss = None" by (simp add: duplicate_enabled_None settings_wf_def)
  then show ?thesis unfolding validateSettings_def m by (simp add: Let_def order)
qed

lemma marshal_settings_parse:
  assumes w: "settings_wf goos ss" shows "parseSettingsJSON (marshal_settings ss) goos = Inr ss"
proof -
  have "json_ok (JArr (map setting_json ss))"
    using settings_wf_entry [OF w] by (auto simp: setting_json_def list_all_iff valid_utf8_all_ascii)
  moreover have "json_depth (JArr (map setting_json ss)) \<le> max_depth"
    by (rule json_depth_flat [THEN order_trans [of _ 2]]) (auto simp: setting_json_def max_depth_def)
  moreover have "dec_settings (JArr (map setting_json ss)) = Some (map setting_input ss)"
    using those_map_Some [of ss _ setting_json setting_input]
    by (simp add: dec_settings_def setting_json_def setting_input_def field_named_def
        set_setting_field_def zero_setting_json_def)
  ultimately have "unmarshal dec_settings (marshal_settings ss) = Inr (map setting_input ss)"
    unfolding marshal_settings_def by (rule unmarshal_print)
  with w show ?thesis
    by (simp add: parseSettingsJSON_def marshal_settings_def validateSettings_id)
qed

interpretation bindings: json_codec marshal_bindings "parseBindingsJSON P" "bindings_wf (GOOS P)" for P
  by unfold_locales (fact parseBindingsJSON_wf marshal_bindings_parse)+

interpretation settings: json_codec marshal_settings "\<lambda>txt. parseSettingsJSON txt goos" "settings_wf goos" for goos
  by unfold_locales (fact parseSettingsJSON_wf marshal_settings_parse)+

section \<open>Bindings and settings agree\<close>

lemma var_by_metric_SomeD:
  "bindings_wf goos bs \<Longrightarrow> var_by_metric bs m = Some v \<Longrightarrow> \<exists>b\<in>set bs. b_Metric b = m \<and> b_VarName b = v"
  using foldl_upd_SomeD [of "\<lambda>b. TrimSpace (b_Metric b)" "\<lambda>b. TrimSpace (b_VarName b)" Map.empty bs m v]
    supported_metric_trimmed
  by (fastforce simp: var_by_metric_def bindings_wf_def TrimSpace_id ValidVarName_trimmed)

lemma settingsFromBindings_wf:
  assumes w: "bindings_wf goos bs"
  shows "settings_wf goos (settingsFromBindings bs (defaultBindingsForOS goos))"
proof -
  let ?bound = "var_by_metric bs"
  let ?sup = "defaultBindingsForOS goos"
  have v: "ValidVarName v" if "?bound m = Some v" for m v
    using var_by_metric_SomeD [OF w that] w by (auto simp: bindings_wf_def)
  have one: "m = m'" if "?bound m = Some v" "?bound m' = Some v" for m m' v
  proof -
    from that w obtain b b' where "b \<in> set bs" "b' \<in> set bs" "b_VarName b = b_VarName b'"
      "b_Metric b = m" "b_Metric b' = m'"
      by (metis var_by_metric_SomeD)
    then show ?thesis using w inj_onD [of b_VarName "set bs" b b'] by (auto simp: bindings_wf_def distinct_map)
  qed
  have eq: "settingsFromBindings bs ?sup = map (\<lambda>b. \<lparr>ms_Metric = b_Metric b,
      ms_VarName = (case ?bound (b_Metric b) of None \<Rightarrow> b_VarName b | Some v \<Rightarrow> v),
      ms_Enabled = (?bound (b_Metric b) \<noteq> None), ms_Writable = IsControllable (b_Metric b)\<rparr>) ?sup"
    unfolding settingsFromBindings_def
    by (rule map_cong) (auto simp: Let_def TrimSpace_id ValidVarName_trimmed v split: option.split dest: v)
  let ?on = "filter (\<lambda>b. ?bound (b_Metric b) \<noteq> None) ?sup"
  have "enabled_vars (settingsFromBindings bs ?sup) = map (\<lambda>b. the (?bound (b_Metric b))) ?on"
    unfolding eq enabled_vars_def by (auto simp: filter_map comp_def intro!: map_cong)
  moreover have "distinct (map (\<lambda>b. the (?bound (b_Metric b))) ?on)"
    unfolding distinct_map
  proof (intro conjI inj_onI)
    show "distinct ?on" using supported_metrics_distinct [of goos] by (simp add: distinct_map)
    fix b b' assume b: "b \<in> set ?on" "b' \<in> set ?on" "the (?bound (b_Metric b)) = the (?bound (b_Metric b'))"
    then have "b_Metric b = b_Metric b'" using one by fastforce
    with b supported_metrics_distinct [of goos] show "b = b'" by (auto simp: distinct_map dest: inj_onD)
  qed
  ultimately show ?thesis
    by (auto simp: settings_wf_def eq v default_binding_wf split: option.split)
qed

lemma settingsToBindings_eq:
  "settings_wf goos ss \<Longrightarrow>
     settingsToBindings ss = map (\<lambda>s. bind (ms_Metric s) (ms_VarName s)) (filter ms_Enabled ss)"
  using settings_wf_entry [of goos ss] by (simp add: settingsToBindings_def)

lemma settingsToBindings_wf:
  assumes "settings_wf goos ss" shows "bindings_wf goos (settingsToBindings ss)"
  using assms settings_wf_entry [OF assms]
  by (auto simp: settingsToBindings_eq bindings_wf_def settings_wf_def enabled_vars_def comp_def)

lemma settings_metrics_distinct: "settings_wf goos ss \<Longrightarrow> distinct (map ms_Metric ss)"
  by (simp add: settings_wf_def)

lemma var_by_metric_derived:
  assumes w: "settings_wf goos ss" and s: "s \<in> set ss"
  shows "var_by_metric (settingsToBindings ss) (ms_Metric s) = (if ms_Enabled s then Some (ms_VarName s) else None)"
proof -
  let ?bs = "settingsToBindings ss"
  have t: "map (\<lambda>b. TrimSpace (b_Metric b)) ?bs = map ms_Metric (filter ms_Enabled ss)"
    using settings_wf_entry [OF w] by (simp add: settingsToBindings_eq [OF w])
  have d: "distinct (map (\<lambda>b. TrimSpace (b_Metric b)) ?bs)"
    unfolding t using settings_metrics_distinct [OF w] by (simp add: distinct_map_filter)
  show ?thesis
  proof (cases "ms_Enabled s")
    case True
    with s have "bind (ms_Metric s) (ms_VarName s) \<in> set ?bs" by (auto simp: settingsToBindings_eq [OF w])
    from foldl_upd_distinct [OF d this, of "\<lambda>b. TrimSpace (b_VarName b)" Map.empty] True show ?thesis
      using settings_wf_entry [OF w s] by (simp add: var_by_metric_def)
  next
    case False
    have "ms_Metric s \<notin> ms_Metric ` {x \<in> set ss. ms_Enabled x}"
      using False s settings_metrics_distinct [OF w] by (auto simp: distinct_map dest: inj_onD)
    moreover have "(\<lambda>b. TrimSpace (b_Metric b)) ` set ?bs = ms_Metric ` {x \<in> set ss. ms_Enabled x}"
      using arg_cong [OF t, of set] by simp
    ultimately show ?thesis using False by (simp add: var_by_metric_def foldl_upd_None)
  qed
qed

text \<open>
  Writing the derived bindings back as bindings keeps every enabled setting except its
  \<^verbatim>\<open>Writable\<close> flag, which bindings cannot carry and which returns to its default.
\<close>

lemma bindings_keep_enabled:
  assumes w: "settings_wf goos ss"
  shows "filter ms_Enabled (settingsFromBindings (settingsToBindings ss) (defaultBindingsForOS goos)) =
    map (\<lambda>s. s\<lparr>ms_Writable := IsControllable (ms_Metric s)\<rparr>) (filter ms_Enabled ss)"
proof -
  let ?f = "\<lambda>m d. let bound = var_by_metric (settingsToBindings ss) m;
      varName = (case bound of None \<Rightarrow> d | Some v \<Rightarrow> if TrimSpace v = [] then d else v)
    in \<lparr>ms_Metric = m, ms_VarName = varName, ms_Enabled = (bound \<noteq> None), ms_Writable = IsControllable m\<rparr>"
  let ?sup = "defaultBindingsForOS goos"
  have m: "map ms_Metric ss = map b_Metric ?sup" using w by (simp add: settings_wf_def)
  then have len: "length ss = length ?sup" by (metis length_map)
  have "settingsFromBindings (settingsToBindings ss) ?sup = map (\<lambda>b. ?f (b_Metric b) (b_VarName b)) ?sup"
    unfolding settingsFromBindings_def by (rule map_cong) (simp_all add: Let_def split: option.split)
  also have "\<dots> = map (\<lambda>(s, b). ?f (ms_Metric s) (b_VarName b)) (zip ss ?sup)"
  proof (rule nth_equalityI)
    fix i assume "i < length (map (\<lambda>b. ?f (b_Metric b) (b_VarName b)) ?sup)"
    then have "i < length ?sup" by simp
    moreover from this have "ms_Metric (ss ! i) = b_Metric (?sup ! i)"
      using arg_cong [OF m, of "\<lambda>xs. xs ! i"] len by simp
    ultimately show "map (\<lambda>b. ?f (b_Metric b) (b_VarName b)) ?sup ! i =
        map (\<lambda>(s, b). ?f (ms_Metric s) (b_VarName b)) (zip ss ?sup) ! i"
      using len by simp
  qed (simp add: len)
  finally have eq: "settingsFromBindings (settingsToBindings ss) ?sup =
    map (\<lambda>(s, b). ?f (ms_Metric s) (b_VarName b)) (zip ss ?sup)" .
  have gen: "filter ms_Enabled (map (\<lambda>(s, b). ?f (ms_Metric s) (b_VarName b)) (zip xs ys)) =
      map (\<lambda>s. s\<lparr>ms_Writable := IsControllable (ms_Metric s)\<rparr>) (filter ms_Enabled xs)"
    if "set xs \<subseteq> set ss" "length xs = length ys" for xs and ys :: "Binding list"
    using that(2,1)
  proof (induction xs ys rule: list_induct2)
    case (Cons x xs y ys)
    then have x: "x \<in> set ss" by simp
    have n: "TrimSpace (ms_VarName x) \<noteq> []"
      using w settings_wf_entry [OF w x] x by (auto simp: settings_wf_def)
    show ?case using Cons n by (simp add: var_by_metric_derived [OF w x] Let_def)
  qed simp
  show ?thesis unfolding eq by (rule gen) (simp_all add: len)
qed

section \<open>The maps of the configuration\<close>

lemma var_map_iff:
  assumes w: "settings_wf goos ss"
  shows "var_map ss v = Some vb \<longleftrightarrow> (\<exists>s\<in>set ss. ms_Enabled s \<and> ms_VarName s = v \<and>
    vb = \<lparr>vb_Metric = ms_Metric s, vb_Writable = ms_Writable s\<rparr>)"
proof
  assume "var_map ss v = Some vb"
  then show "\<exists>s\<in>set ss. ms_Enabled s \<and> ms_VarName s = v \<and>
    vb = \<lparr>vb_Metric = ms_Metric s, vb_Writable = ms_Writable s\<rparr>"
    unfolding var_map_def by (drule_tac foldl_upd_SomeD) auto
next
  assume "\<exists>s\<in>set ss. ms_Enabled s \<and> ms_VarName s = v \<and>
    vb = \<lparr>vb_Metric = ms_Metric s, vb_Writable = ms_Writable s\<rparr>"
  with w show "var_map ss v = Some vb"
    unfolding var_map_def settings_wf_def enabled_vars_def
    using foldl_upd_distinct [of ms_VarName "filter ms_Enabled ss"] by force
qed

lemma enabled_map_iff:
  "settings_wf goos ss \<Longrightarrow> enabled_map ss m = Some b \<longleftrightarrow> b \<and> (\<exists>s\<in>set ss. ms_Enabled s \<and> ms_Metric s = m)"
proof -
  assume "settings_wf goos ss"
  then have "distinct (map ms_Metric (filter ms_Enabled ss))"
    by (simp add: distinct_map_filter settings_metrics_distinct)
  then show ?thesis
    unfolding enabled_map_def
    using foldl_upd_distinct [of ms_Metric "filter ms_Enabled ss" _ "\<lambda>_. True" Map.empty]
      foldl_upd_SomeD [of ms_Metric "\<lambda>_. True" Map.empty "filter ms_Enabled ss" m b] by auto
qed

lemma normalizeVisibility_range:
  "normalizeVisibility P txt = Inr v \<Longrightarrow> v \<in> {VisibilityPublic, VisibilityPrivate}"
  by (auto simp: normalizeVisibility_def Let_def split: if_splits)

lemma normalizeNoBatteryValue_range:
  "normalizeNoBatteryValue txt = Inr v \<Longrightarrow> v \<noteq> [] \<and> trimmed v"
  by (auto simp: normalizeNoBatteryValue_def split: if_splits)

lemma transformMetricValue_empty: "transformMetricValue m raw cfg = [] \<longleftrightarrow> TrimSpace raw = []"
  by (simp add: transformMetricValue_def Let_def go_defs)

lemma transformMetricValue_trimmed: "trimmed (transformMetricValue m raw cfg)"
  by (simp add: transformMetricValue_def Let_def defaultNoBatteryValue_def graphic_ends_trimmed graphic_def trimmed_iff TrimSpace_graphic)

end
