(* ===== verification/Disk.thy ===== *)
theory Disk
  imports GoStrings
begin

text \<open>
  The file operations of Go's \<^verbatim>\<open>os\<close> package that the program calls, on a disk whose
  next operations follow a script of outcomes, and the two copies of
  \<^verbatim>\<open>writeFileAtomic\<close> (\<^verbatim>\<open>core/configstore/store.go\<close>,
  \<^verbatim>\<open>core/runtime/runtime.go\<close>) with what they guarantee under every script.
\<close>

section \<open>The disk\<close>

text \<open>
  An operation succeeds when the disk lets it (\<open>OpOk\<close>) or fails with an error; a failing
  write may have replaced the file by a prefix of the new data. Beyond the end of the
  script every operation is \<open>OpOk\<close>.
\<close>

datatype outcome = OpOk | OpFail go_error "nat option"

record disk =
  files :: "string \<rightharpoonup> string"
  script :: "outcome list"

definition next_op :: "disk \<Rightarrow> outcome \<times> disk" where
  "next_op d = (case script d of [] \<Rightarrow> (OpOk, d) | x # xs \<Rightarrow> (x, d\<lparr>script := xs\<rparr>))"

definition not_exist :: go_error where
  "not_exist = ErrNotExist ''file does not exist''"

definition ReadFile :: "string \<Rightarrow> disk \<Rightarrow> string result \<times> disk" where
  "ReadFile path d =
     (case next_op d of
        (OpFail e _, d') \<Rightarrow> (Inl e, d')
      | (OpOk, d') \<Rightarrow> (case files d' path of None \<Rightarrow> (Inl not_exist, d') | Some s \<Rightarrow> (Inr s, d')))"

definition WriteFile :: "string \<Rightarrow> string \<Rightarrow> disk \<Rightarrow> go_error option \<times> disk" where
  "WriteFile path data d =
     (case next_op d of
        (OpFail e None, d') \<Rightarrow> (Some e, d')
      | (OpFail e (Some n), d') \<Rightarrow> (Some e, d'\<lparr>files := (files d')(path \<mapsto> take n data)\<rparr>)
      | (OpOk, d') \<Rightarrow> (None, d'\<lparr>files := (files d')(path \<mapsto> data)\<rparr>))"

definition Rename :: "string \<Rightarrow> string \<Rightarrow> disk \<Rightarrow> go_error option \<times> disk" where
  "Rename old new d =
     (case next_op d of
        (OpFail e _, d') \<Rightarrow> (Some e, d')
      | (OpOk, d') \<Rightarrow>
          (case files d' old of
             None \<Rightarrow> (Some not_exist, d')
           | Some s \<Rightarrow> (None, d'\<lparr>files := (files d')(old := None, new := Some s)\<rparr>)))"

definition Remove :: "string \<Rightarrow> disk \<Rightarrow> go_error option \<times> disk" where
  "Remove path d =
     (case next_op d of
        (OpFail e _, d') \<Rightarrow> (Some e, d')
      | (OpOk, d') \<Rightarrow>
          (case files d' path of
             None \<Rightarrow> (Some not_exist, d')
           | Some _ \<Rightarrow> (None, d'\<lparr>files := (files d')(path := None)\<rparr>)))"

text \<open>Directories are not modelled: \<^verbatim>\<open>MkdirAll\<close> only has an outcome.\<close>

definition MkdirAll :: "disk \<Rightarrow> go_error option \<times> disk" where
  "MkdirAll d = (case next_op d of (OpFail e _, d') \<Rightarrow> (Some e, d') | (OpOk, d') \<Rightarrow> (None, d'))"

section \<open>Replacing a file\<close>

definition tmp_path :: "string \<Rightarrow> string" where
  "tmp_path path = path @ ''.tmp''"

definition replace_file :: "string \<Rightarrow> string \<Rightarrow> disk \<Rightarrow> go_error option \<times> disk" where
  "replace_file path data d =
     (if path = [] then (Some (ErrNew ''path is required''), d)
      else case WriteFile (tmp_path path) data d of
        (Some e, d1) \<Rightarrow> (Some e, d1)
      | (None, d1) \<Rightarrow>
          (case Rename (tmp_path path) path d1 of
             (None, d2) \<Rightarrow> (None, d2)
           | (Some _, d2) \<Rightarrow>
               (case Rename (tmp_path path) path (snd (Remove path d2)) of
                  (None, d4) \<Rightarrow> (None, d4)
                | (Some e, d4) \<Rightarrow> (Some e, snd (Remove (tmp_path path) d4)))))"

text \<open>The copy in the runtime cleans the path, the copy in the store trims it first.\<close>

definition writeFileAtomic :: "('a) platform_scheme \<Rightarrow> string \<Rightarrow> string \<Rightarrow> disk \<Rightarrow> go_error option \<times> disk" where
  "writeFileAtomic P path = replace_file (path_clean P path)"

definition store_writeFileAtomic ::
  "('a) platform_scheme \<Rightarrow> string \<Rightarrow> string \<Rightarrow> disk \<Rightarrow> go_error option \<times> disk" where
  "store_writeFileAtomic P path = replace_file (path_clean P (TrimSpace path))"

section \<open>What a replacement leaves on the disk\<close>

lemma tmp_path_neq [simp]: "tmp_path p \<noteq> p" "p \<noteq> tmp_path p"
  by (simp_all add: tmp_path_def)

lemma files_next_op [simp]: "next_op d = (x, d') \<Longrightarrow> files d' = files d"
  by (auto simp: next_op_def split: list.splits)

lemma next_op_fst_snd: "files (snd (next_op d)) = files d"
  by (cases "next_op d") simp

lemma Rename_cases:
  assumes "Rename old new d = (r, d')"
  shows "(r = None \<and> (\<exists>s. files d old = Some s \<and> files d' = (files d)(old := None, new := Some s))) \<or>
    (r \<noteq> None \<and> files d' = files d)"
  using assms by (auto simp: Rename_def split: prod.splits outcome.splits option.splits)

lemma Remove_cases:
  "Remove p d = (r, d') \<Longrightarrow> (r = None \<and> files d' = (files d)(p := None)) \<or> (r \<noteq> None \<and> files d' = files d)"
  by (auto simp: Remove_def split: prod.splits outcome.splits option.splits)

lemma WriteFile_cases:
  "WriteFile p x d = (r, d') \<Longrightarrow>
     (r = None \<and> files d' = (files d)(p \<mapsto> x)) \<or>
     (r \<noteq> None \<and> (files d' = files d \<or> (\<exists>n. files d' = (files d)(p \<mapsto> take n x))))"
  by (auto simp: WriteFile_def split: prod.splits outcome.splits option.splits)

lemma replace_file_cases:
  assumes r: "replace_file path data d = (r, d')"
  shows "files d' = (files d)(path := files d' path, tmp_path path := files d' (tmp_path path)) \<and>
    (case r of
       None \<Rightarrow> files d' path = Some data \<and> files d' (tmp_path path) = None
     | Some e \<Rightarrow> files d' path = files d path \<or> files d' path = None)"
proof (cases "path = []")
  case True
  with r show ?thesis by (auto simp: replace_file_def)
next
  case False
  let ?t = "tmp_path path"
  obtain r1 d1 where w: "WriteFile ?t data d = (r1, d1)" by force
  obtain r2 d2 where n: "Rename ?t path d1 = (r2, d2)" by force
  obtain r3 d3 where m: "Remove path d2 = (r3, d3)" by force
  obtain r4 d4 where k: "Rename ?t path d3 = (r4, d4)" by force
  obtain r5 d5 where z: "Remove ?t d4 = (r5, d5)" by force
  have "replace_file path data d = (case r1 of Some e \<Rightarrow> (Some e, d1) | None \<Rightarrow>
     (case r2 of None \<Rightarrow> (None, d2) | Some _ \<Rightarrow>
       (case r4 of None \<Rightarrow> (None, d4) | Some e \<Rightarrow> (Some e, d5))))"
    using False by (simp add: replace_file_def w n m k z split: option.split)
  note eq = this [unfolded r]
  show ?thesis
    using eq WriteFile_cases [OF w] Rename_cases [OF n] Remove_cases [OF m] Rename_cases [OF k]
      Remove_cases [OF z]
    by (cases r1; cases r2; cases r4) (auto simp: fun_eq_iff)
qed

lemma replace_file_ok:
  "script d = [] \<Longrightarrow> path \<noteq> [] \<Longrightarrow>
     replace_file path data d = (None, d\<lparr>files := (files d)(path \<mapsto> data, tmp_path path := None)\<rparr>)"
  by (simp add: replace_file_def WriteFile_def Rename_def next_op_def fun_upd_twist)

end
