(* ===== verification/JsonIndent.thy ===== *)
theory JsonIndent
  imports JsonRoundtrip
begin

text \<open>
  \<^verbatim>\<open>json.MarshalIndent(v, "", "  ")\<close> on the flat objects the program writes to disk
  (the configuration store, the saved identity, the key pair): one member per line, and the
  proof that reading the text back gives the object.
\<close>

section \<open>Tokens with white space after them\<close>

type_synonym laid = "(tok \<times> string) list"

definition laid_text :: "laid \<Rightarrow> string" where
  "laid_text xs = concat (map (\<lambda>(t, w). tok_text t @ w) xs)"

definition new_line :: "string \<Rightarrow> string" where
  "new_line indent = CHR 0x0A # indent"

text \<open>One member, with the white space \<open>w\<close> after the last token of its value.\<close>

definition indent_member :: "string \<Rightarrow> string \<times> json \<Rightarrow> laid" where
  "indent_member w m =
     (let ts = json_toks (snd m) in
      (TStr (fst m), []) # (TColon, '' '') # map (\<lambda>t. (t, [])) (butlast ts) @ [(last ts, w)])"

fun indent_members :: "(string \<times> json) list \<Rightarrow> laid" where
  "indent_members [] = []"
| "indent_members [m] = indent_member (new_line []) m @ [(TRBrace, [])]"
| "indent_members (m # n # ms) = indent_member [] m @ (TComma, new_line ''  '') # indent_members (n # ms)"

definition json_indent :: "(string \<times> json) list \<Rightarrow> string" where
  "json_indent ms =
     (if ms = [] then ''{}'' else laid_text ((TLBrace, new_line ''  '') # indent_members ms))"

section \<open>Reading it back\<close>

lemma lex_skip: "list_all is_ws w \<Longrightarrow> lex (w @ s) = lex s"
proof (induction w)
  case (Cons c w)
  then show ?case by (subst lex.simps) simp
qed simp

lemma laid_text_Cons [simp]: "laid_text ((t, w) # xs) = tok_text t @ w @ laid_text xs"
  by (simp add: laid_text_def)

lemma is_ws_not_num: "is_ws c \<Longrightarrow> \<not> num_char c"
  by (auto simp: is_ws_def not_num_char)

lemma lex_laid:
  "list_all (\<lambda>(t, w). tok_ok t \<and> list_all is_ws w) xs \<Longrightarrow> apart (map fst xs) \<Longrightarrow>
     lex (laid_text xs) = Some (map fst xs)"
proof (induction xs)
  case Nil
  then show ?case by (simp add: laid_text_def lex.simps)
next
  case (Cons x xs)
  obtain t w where x: "x = (t, w)" by force
  let ?z = "w @ laid_text xs"
  have "?z = [] \<or> \<not> num_char (hd ?z)" if "is_num t"
  proof (cases w)
    case Nil
    with Cons.prems that x show ?thesis
      using tok_text_hd(1,3) by (cases xs) (auto simp: laid_text_def)
  next
    case (Cons c v)
    with \<open>list_all _ (x # xs)\<close> x show ?thesis by (simp add: is_ws_not_num)
  qed
  then have "next_tok (tok_text t @ ?z) = Some (t, ?z)"
    using Cons.prems x by (intro next_tok_text) simp_all
  moreover have "tok_text t \<noteq> []" "\<not> is_ws (hd (tok_text t))"
    using Cons.prems x tok_text_hd(1,2) by simp_all
  ultimately have "lex (tok_text t @ ?z) = map_option ((#) t) (lex ?z)"
    by (subst lex.simps) simp
  also have "lex ?z = Some (map fst xs)"
    using Cons x by (simp add: lex_skip)
  finally show ?case by (simp add: x)
qed

lemma map_fst_indent_member [simp]:
  "map fst (indent_member w m) = TStr (fst m) # TColon # json_toks (snd m)"
  using json_toks_hd [of "snd m"] by (simp add: indent_member_def Let_def comp_def)

lemma indent_members_toks:
  "ms \<noteq> [] \<Longrightarrow> map fst (indent_members ms) =
     commas (map (\<lambda>(k, v). TStr k # TColon # json_toks v) ms) @ [TRBrace]"
  by (induction ms rule: indent_members.induct) (auto simp: case_prod_beta)

lemma indent_member_ok:
  assumes "valid_utf8 k" and "json_ok v" and "list_all is_ws w"
  shows "list_all (\<lambda>(t, w). tok_ok t \<and> list_all is_ws w) (indent_member w (k, v))"
proof -
  have "list_all tok_ok (json_toks v)" using json_toks_ok [OF assms(2)] by simp
  then have "\<forall>t\<in>set (json_toks v). tok_ok t" by (simp add: list_all_iff)
  moreover have "json_toks v \<noteq> []" using json_toks_hd [of v] by simp
  ultimately have "tok_ok (last (json_toks v))" "\<forall>t\<in>set (butlast (json_toks v)). tok_ok t"
    by (auto dest: in_set_butlastD)
  with assms show ?thesis by (auto simp: indent_member_def Let_def list_all_iff is_ws_def)
qed

lemma indent_members_ok:
  "list_all (\<lambda>(k, v). valid_utf8 k \<and> json_ok v) ms \<Longrightarrow>
     list_all (\<lambda>(t, w). tok_ok t \<and> list_all is_ws w) (indent_members ms)"
  by (induction ms rule: indent_members.induct)
    (simp_all add: case_prod_beta' indent_member_ok [simplified case_prod_beta'] new_line_def is_ws_def
      split_paired_all)

lemma lex_json_indent:
  assumes "json_ok (JObj ms)" shows "lex (json_indent ms) = Some (json_toks (JObj ms))"
proof (cases "ms = []")
  case True
  then show ?thesis
    using lex_toks_text [of "[TLBrace, TRBrace]"] by (simp add: json_indent_def)
next
  case False
  let ?xs = "(TLBrace, new_line ''  '') # indent_members ms"
  have toks: "map fst ?xs = json_toks (JObj ms)"
    using False by (simp add: indent_members_toks)
  have "list_all (\<lambda>(t, w). tok_ok t \<and> list_all is_ws w) ?xs"
    using assms indent_members_ok [of ms] by (simp add: new_line_def is_ws_def)
  moreover have "apart (map fst ?xs)"
    unfolding toks using json_toks_ok [OF assms] by simp
  ultimately show ?thesis
    using lex_laid [of ?xs] False unfolding toks by (simp add: json_indent_def)
qed

theorem json_parse_indent:
  assumes "json_ok (JObj ms)" and "json_depth (JObj ms) \<le> max_depth"
  shows "json_parse (json_indent ms) = Some (JObj ms)"
  using runsD [OF runs_all, of WantValue "[]" "JObj ms" "[]"] assms
  by (simp add: json_parse_def lex_json_indent run_with_def)

end
