(* ===== verification/ConfigStore.thy ===== *)
theory ConfigStore
  imports Disk JsonIndent
begin

text \<open>
  \<^verbatim>\<open>core/configstore/store.go\<close>: the key-value store of the runtime configuration,
  kept in memory and written to one JSON file after every change. The interface its client
  relies on is the locale \<open>config_store\<close>; the last section shows that a store survives
  being saved and opened again.
\<close>

section \<open>The code\<close>

record store =
  st_path :: string
  st_data :: "(string, string) gomap"

text \<open>\<^verbatim>\<open>for k, v := range src { dst[k] = v }\<close>: the keys of a Go map are distinct.\<close>

definition copy_into :: "(string, string) gomap \<Rightarrow> (string, string) gomap \<Rightarrow> (string, string) gomap" where
  "copy_into src dst = foldl (\<lambda>m (k, v). AList.update k v m) dst src"

definition Store_Keys :: "store \<Rightarrow> string list" where
  "Store_Keys s = sort (map fst (st_data s))"

definition Store_Get :: "string \<Rightarrow> store \<Rightarrow> string option" where
  "Store_Get key s = (if TrimSpace key = [] then None else map_of (st_data s) (TrimSpace key))"

definition load :: "store \<Rightarrow> disk \<Rightarrow> go_error option \<times> store \<times> disk" where
  "load s d =
     (case ReadFile (st_path s) d of
        (Inl (ErrNotExist _), d') \<Rightarrow> (None, s, d')
      | (Inl e, d') \<Rightarrow> (Some e, s, d')
      | (Inr raw, d') \<Rightarrow>
          (case unmarshal dec_string_map raw of
             Inl e \<Rightarrow> (Some e, s, d')
           | Inr m \<Rightarrow> (None, s\<lparr>st_data := copy_into m (st_data s)\<rparr>, d')))"

text \<open>\<^verbatim>\<open>json.MarshalIndent\<close> of a \<^verbatim>\<open>map[string]string\<close> writes the keys in order.\<close>

definition marshal_map :: "(string, string) gomap \<Rightarrow> string" where
  "marshal_map m = json_indent (map (\<lambda>(k, v). (k, JStr v)) (sort_key fst m))"

definition save :: "('a) platform_scheme \<Rightarrow> store \<Rightarrow> disk \<Rightarrow> go_error option \<times> disk" where
  "save P s d = store_writeFileAtomic P (st_path s) (marshal_map (st_data s)) (snd (MkdirAll d))"

definition Store_Set ::
  "('a) platform_scheme \<Rightarrow> string \<Rightarrow> string \<Rightarrow> store \<Rightarrow> disk \<Rightarrow> go_error option \<times> store \<times> disk" where
  "Store_Set P key0 val s d =
     (let key = TrimSpace key0 in
      if key = [] then (Some (ErrNew ''key is required''), s, d)
      else let s' = s\<lparr>st_data := AList.update key val (st_data s)\<rparr>;
               (err, d') = save P s' d
           in (err, s', d'))"

definition Store_New ::
  "('a) platform_scheme \<Rightarrow> string \<Rightarrow> (string, string) gomap \<Rightarrow> disk \<Rightarrow> store result \<times> disk" where
  "Store_New P path0 defaults d =
     (let path = path_clean P (TrimSpace path0) in
      if path = [] then (Inl (ErrNew ''path is required''), d)
      else let (_, s, d1) = load \<lparr>st_path = path, st_data = copy_into defaults []\<rparr> d;
               (_, d2) = save P s d1
           in (Inr s, d2))"

section \<open>The contract\<close>

text \<open>What the runtime relies on: a set key is found, the others keep their values.\<close>

locale config_store =
  fixes get :: "'k \<Rightarrow> 's \<Rightarrow> 'v option" and set_key :: "'k \<Rightarrow> 'v \<Rightarrow> 's \<Rightarrow> 's"
    and valid_key :: "'k \<Rightarrow> bool" and same_key :: "'k \<Rightarrow> 'k \<Rightarrow> bool"
  assumes get_set: "valid_key k \<Longrightarrow> get k' (set_key k v s) = (if same_key k' k then Some v else get k' s)"
    and set_invalid: "\<not> valid_key k \<Longrightarrow> set_key k v s = s"
    and same_refl: "same_key k k"
begin

definition set_if_changed :: "'k \<Rightarrow> 'v \<Rightarrow> 's \<Rightarrow> 's" where
  "set_if_changed k v s = (if get k s = Some v then s else set_key k v s)"

lemma get_set_same: "valid_key k \<Longrightarrow> get k (set_key k v s) = Some v"
  by (simp add: get_set same_refl)

lemma get_set_if_changed:
  "valid_key k \<Longrightarrow> (\<And>k'. same_key k' k \<Longrightarrow> get k' s = get k s) \<Longrightarrow>
     get k' (set_if_changed k v s) = (if same_key k' k then Some v else get k' s)"
  by (simp add: set_if_changed_def get_set)

lemma set_if_changed_idle: "get k s = Some v \<Longrightarrow> set_if_changed k v s = s"
  by (simp add: set_if_changed_def)

end

definition put :: "string \<Rightarrow> string \<Rightarrow> store \<Rightarrow> store" where
  "put key val s =
     (if TrimSpace key = [] then s else s\<lparr>st_data := AList.update (TrimSpace key) val (st_data s)\<rparr>)"

lemma Store_Set_put: "fst (snd (Store_Set P key val s d)) = put key val s"
  by (simp add: Store_Set_def put_def Let_def case_prod_beta)

interpretation cs: config_store Store_Get put "\<lambda>k. TrimSpace k \<noteq> []" "\<lambda>k k'. TrimSpace k = TrimSpace k'"
  by unfold_locales (auto simp: Store_Get_def put_def)

section \<open>Saving and opening again\<close>

definition store_ok :: "store \<Rightarrow> bool" where
  "store_ok s \<longleftrightarrow> gm_wf (st_data s) \<and> (\<forall>(k, v)\<in>set (st_data s). valid_utf8 k \<and> valid_utf8 v)"

lemma copy_into_wf: "gm_wf dst \<Longrightarrow> gm_wf (copy_into src dst)"
  unfolding copy_into_def by (induction src arbitrary: dst) (auto simp: case_prod_beta)

lemma map_of_copy_into: "gm_wf src \<Longrightarrow> map_of (copy_into src dst) = map_of dst ++ map_of src"
proof (induction src arbitrary: dst)
  case (Cons x src)
  obtain k v where x: "x = (k, v)" by force
  with Cons.prems have "k \<notin> dom (map_of src)" by (auto simp: dom_map_of_conv_image_fst)
  with Cons x show ?case
    by (auto simp: copy_into_def fun_eq_iff map_add_def split: option.split)
qed (simp add: copy_into_def)

lemma Store_New_wf: "Store_New P path defaults d = (Inr s, d') \<Longrightarrow> gm_wf (st_data s)"
proof -
  have load: "gm_wf (st_data s0) \<Longrightarrow> gm_wf (st_data (fst (snd (load s0 d0))))" for s0 d0
    by (auto simp: load_def copy_into_wf split: prod.split sum.split go_error.split)
  show "Store_New P path defaults d = (Inr s, d') \<Longrightarrow> gm_wf (st_data s)"
    using load [of "\<lparr>st_path = path_clean P (TrimSpace path), st_data = copy_into defaults []\<rparr>" d]
    by (auto simp: Store_New_def Let_def copy_into_wf split: prod.splits if_splits)
qed

lemma put_wf [wf_intros]: "gm_wf (st_data s) \<Longrightarrow> gm_wf (st_data (put k v s))"
  by (simp add: put_def)

lemma Keys_Get: "gm_wf (st_data s) \<Longrightarrow> trimmed k \<Longrightarrow> k \<noteq> [] \<Longrightarrow> k \<in> set (Store_Keys s) \<longleftrightarrow> Store_Get k s \<noteq> None"
  by (simp add: Store_Keys_def Store_Get_def TrimSpace_id map_of_eq_None_iff)

lemma Keys_sorted: "gm_wf (st_data s) \<Longrightarrow> sorted_wrt (<) (Store_Keys s)"
  by (simp add: Store_Keys_def strict_sorted_iff)

text \<open>Decoding a \<^verbatim>\<open>map[string]string\<close> from the members of an object with distinct keys.\<close>

lemma dec_string_map_members:
  assumes "distinct (map fst m)"
  shows "\<exists>n. dec_string_map (JObj (map (\<lambda>(k, v). (k, JStr v)) m)) = Some n \<and> gm_wf n \<and> map_of n = map_of m"
proof -
  let ?f = "\<lambda>(k, v) acc. case acc of None \<Rightarrow> None | Some m \<Rightarrow> map_option (\<lambda>s. AList.update k s m) (dec_string v [])"
  have "\<exists>n. fold ?f (map (\<lambda>(k, v). (k, JStr v)) m) (Some acc) = Some n \<and> gm_wf n \<and>
      map_of n = map_of acc ++ map_of m" if "gm_wf acc" "distinct (map fst m)" for acc m
    using that
  proof (induction m arbitrary: acc)
    case (Cons x m)
    obtain k v where x: "x = (k, v)" by force
    with Cons.prems have "k \<notin> dom (map_of m)" by (auto simp: dom_map_of_conv_image_fst)
    with Cons.IH [of "AList.update k v acc"] Cons.prems x show ?case
      by (fastforce simp: fun_eq_iff map_add_def split: option.split)
  qed simp
  from this [of "[]" m] assms show ?thesis by simp
qed

lemma marshal_map_read:
  assumes "store_ok s"
  shows "\<exists>n. unmarshal dec_string_map (marshal_map (st_data s)) = Inr n \<and> gm_wf n \<and> map_of n = map_of (st_data s)"
proof -
  let ?m = "sort_key fst (st_data s)"
  let ?ms = "map (\<lambda>(k, v). (k, JStr v)) ?m"
  have d: "distinct (map fst ?m)" using assms by (simp add: store_ok_def distinct_sort_key)
  have "json_ok (JObj ?ms)" using assms by (auto simp: store_ok_def list_all_iff)
  moreover have "json_depth (JObj ?ms) \<le> max_depth"
    by (auto simp: max_depth_def Suc_le_eq less_Suc_eq_le intro!: order.strict_trans1 [OF foldr_max_leI [of _ 0]])
  ultimately have "json_parse (marshal_map (st_data s)) = Some (JObj ?ms)"
    unfolding marshal_map_def by (rule json_parse_indent)
  moreover have "map_of ?m = map_of (st_data s)"
    using assms d by (intro map_of_inject_set [THEN iffD2]) (simp_all add: store_ok_def)
  ultimately show ?thesis
    using dec_string_map_members [OF d] by (auto simp: unmarshal_def)
qed

lemma save_then_load:
  assumes ok: "store_ok s" and path: "path_clean P (TrimSpace (st_path s)) = st_path s" "st_path s \<noteq> []"
    and sv: "save P s d = (None, d1)" and clear: "script d1 = []"
    and t: "st_path t = st_path s"
  shows "\<exists>u. load t d1 = (None, u, d1) \<and> map_of (st_data u) = map_of (st_data t) ++ map_of (st_data s)"
proof -
  have "files d1 (st_path s) = Some (marshal_map (st_data s))"
    using sv path replace_file_cases [of "st_path s" "marshal_map (st_data s)" "snd (MkdirAll d)" None d1]
    by (simp add: save_def store_writeFileAtomic_def)
  then have r: "ReadFile (st_path s) d1 = (Inr (marshal_map (st_data s)), d1)"
    using clear by (simp add: ReadFile_def next_op_def)
  from marshal_map_read [OF ok] obtain n where
    n: "unmarshal dec_string_map (marshal_map (st_data s)) = Inr n" "gm_wf n" "map_of n = map_of (st_data s)"
    by blast
  then show ?thesis
    using t by (simp add: load_def r map_of_copy_into)
qed

end
