(* ===== verification/ControlQueue.thy ===== *)
theory ControlQueue
  imports GoStrings
begin

text \<open>
  \<^verbatim>\<open>core/runtime/control_queue.go\<close>: the queue of control actions that keeps the
  latest value per metric, its one-slot wake-up channel, and the worker that waits on the
  channel and drains the queue. The abstract contract is the locale \<open>latest_queue\<close>.
\<close>

section \<open>The code\<close>

record ControlAction =
  ca_Metric :: string
  ca_Value :: string

text \<open>\<open>signalled\<close> is the one-slot channel \<^verbatim>\<open>notify\<close>: whether it holds a token.\<close>

record actionQueue =
  latest :: "(string, string) gomap"
  signalled :: bool

definition newActionQueue :: actionQueue where
  "newActionQueue = \<lparr>latest = [], signalled = False\<rparr>"

text \<open>
  \<^verbatim>\<open>Enqueue\<close> writes under the lock and then offers a token without blocking;
  \<open>enqueue_write\<close> and \<open>enqueue_signal\<close> are the two steps other goroutines can
  come between.
\<close>

definition enqueue_entry :: "string \<Rightarrow> string \<Rightarrow> (string \<times> string) option" where
  "enqueue_entry metric value =
     (if TrimSpace metric = [] \<or> TrimSpace value = [] then None
      else Some (TrimSpace metric, TrimSpace value))"

definition enqueue_write :: "string \<Rightarrow> string \<Rightarrow> actionQueue \<Rightarrow> actionQueue" where
  "enqueue_write metric value q = q\<lparr>latest := AList.update metric value (latest q)\<rparr>"

definition enqueue_signal :: "actionQueue \<Rightarrow> actionQueue" where
  "enqueue_signal q = q\<lparr>signalled := True\<rparr>"

definition ActionEnqueue :: "string \<Rightarrow> string \<Rightarrow> actionQueue \<Rightarrow> actionQueue" where
  "ActionEnqueue metric value q =
     (case enqueue_entry metric value of
        None \<Rightarrow> q
      | Some (m, v) \<Rightarrow> enqueue_signal (enqueue_write m v q))"

definition ActionDequeueAll :: "actionQueue \<Rightarrow> ControlAction list \<times> actionQueue" where
  "ActionDequeueAll q =
     (if latest q = [] then ([], q)
      else (sort_key ca_Metric (map (\<lambda>(m, v). \<lparr>ca_Metric = m, ca_Value = v\<rparr>) (latest q)),
            q\<lparr>latest := []\<rparr>))"

text \<open>
  \<^verbatim>\<open>Wait\<close> with its select: \<open>action_wait q d r q'\<close> says that with the context
  done iff \<open>d\<close> the call can return \<open>r\<close>. When both cases are ready either may be taken; with
  neither ready the call blocks.
\<close>

inductive action_wait :: "actionQueue \<Rightarrow> bool \<Rightarrow> bool \<Rightarrow> actionQueue \<Rightarrow> bool" where
  wait_done: "action_wait q True False q"
| wait_token: "signalled q \<Longrightarrow> action_wait q d True (q\<lparr>signalled := False\<rparr>)"

code_pred action_wait .

inductive_simps action_wait_True: "action_wait q d True q'"
inductive_simps action_wait_False: "action_wait q d False q'"

section \<open>The contract\<close>

text \<open>
  A latest-wins queue as its clients see it: a map from keys to pending values. \<open>norm\<close>
  says which entry an offer stands for, if any.
\<close>

locale latest_queue =
  fixes enq :: "'k::linorder \<Rightarrow> 'v \<Rightarrow> 'q \<Rightarrow> 'q" and drain :: "'q \<Rightarrow> 'a list \<times> 'q"
    and view :: "'q \<Rightarrow> 'k \<rightharpoonup> 'v" and norm :: "'k \<Rightarrow> 'v \<Rightarrow> ('k \<times> 'v) option"
    and key :: "'a \<Rightarrow> 'k" and val :: "'a \<Rightarrow> 'v" and inv :: "'q \<Rightarrow> bool"
  assumes inv_enq: "inv q \<Longrightarrow> inv (enq k v q)"
    and inv_drain: "inv q \<Longrightarrow> inv (snd (drain q))"
    and view_enq: "inv q \<Longrightarrow>
      view (enq k v q) = (case norm k v of None \<Rightarrow> view q | Some (k', v') \<Rightarrow> (view q)(k' \<mapsto> v'))"
    and view_drain: "inv q \<Longrightarrow> view (snd (drain q)) = Map.empty"
    and drain_view: "inv q \<Longrightarrow> map_of (map (\<lambda>a. (key a, val a)) (fst (drain q))) = view q"
    and drain_sorted: "inv q \<Longrightarrow> sorted_wrt (<) (map key (fst (drain q)))"
begin

fun offered :: "('k \<times> 'v) list \<Rightarrow> ('k \<times> 'v) list" where
  "offered [] = []"
| "offered ((k, v) # ofs) = (case norm k v of None \<Rightarrow> offered ofs | Some e \<Rightarrow> e # offered ofs)"

lemma inv_enqs: "inv q \<Longrightarrow> inv (fold (\<lambda>(k, v). enq k v) ofs q)"
  by (induction ofs arbitrary: q) (auto intro: inv_enq)

lemma view_enqs:
  "inv q \<Longrightarrow> view (fold (\<lambda>(k, v). enq k v) ofs q) = view q ++ map_of (rev (offered ofs))"
proof (induction ofs arbitrary: q)
  case Nil
  then show ?case by simp
next
  case (Cons a ofs)
  obtain k v where a: "a = (k, v)" by force
  with Cons.IH [OF inv_enq [OF Cons.prems], of k v] view_enq [OF Cons.prems, of k v]
  show ?case by (auto split: option.split)
qed

lemma drained:
  "inv q \<Longrightarrow> map_of (map (\<lambda>a. (key a, val a)) (fst (drain (fold (\<lambda>(k, v). enq k v) ofs q)))) =
     view q ++ map_of (rev (offered ofs))"
  by (simp add: drain_view inv_enqs view_enqs)

lemma drain_twice: "inv q \<Longrightarrow> fst (drain (snd (drain q))) = []"
  using drain_view [OF inv_drain] view_drain by force

end

section \<open>The code implements the contract\<close>

abbreviation action_view :: "actionQueue \<Rightarrow> string \<rightharpoonup> string" where
  "action_view q \<equiv> map_of (latest q)"

definition action_inv :: "actionQueue \<Rightarrow> bool" where
  "action_inv q \<longleftrightarrow> gm_wf (latest q)"

lemma action_inv_new: "action_inv newActionQueue"
  by (simp add: action_inv_def newActionQueue_def)

definition actions_of :: "(string, string) gomap \<Rightarrow> ControlAction list" where
  "actions_of m = map (\<lambda>(m, v). \<lparr>ca_Metric = m, ca_Value = v\<rparr>) m"

lemma map_actions_of [simp]:
  "map ca_Metric (actions_of m) = map fst m"
  "map (\<lambda>a. (ca_Metric a, ca_Value a)) (actions_of m) = m"
  by (simp_all add: actions_of_def case_prod_beta comp_def)

lemma ActionDequeueAll_eq:
  "fst (ActionDequeueAll q) = sort_key ca_Metric (actions_of (latest q))"
  by (simp add: ActionDequeueAll_def actions_of_def)

lemma action_drain_map:
  assumes "action_inv q"
  shows "map_of (map (\<lambda>a. (ca_Metric a, ca_Value a)) (fst (ActionDequeueAll q))) = action_view q"
proof -
  let ?as = "sort_key ca_Metric (actions_of (latest q))"
  let ?pair = "\<lambda>a. (ca_Metric a, ca_Value a)"
  have "set (map ?pair ?as) = set (latest q)"
    using arg_cong [OF map_actions_of(2), of set "latest q"] by (simp only: set_map set_sort)
  moreover have "distinct (map fst (map ?pair ?as))"
    using assms distinct_sort_key [of ca_Metric "actions_of (latest q)"]
    by (simp add: action_inv_def comp_def)
  ultimately have "map_of (map ?pair ?as) = map_of (latest q)"
    using assms by (intro map_of_inject_set [THEN iffD2]) (simp_all add: action_inv_def)
  then show ?thesis by (simp add: ActionDequeueAll_eq)
qed

lemma action_drain_sorted:
  "action_inv q \<Longrightarrow> sorted_wrt (<) (map ca_Metric (fst (ActionDequeueAll q)))"
  using sorted_wrt_sort_key [of ca_Metric "actions_of (latest q)"]
  by (simp add: ActionDequeueAll_eq action_inv_def)

interpretation aq: latest_queue ActionEnqueue ActionDequeueAll action_view enqueue_entry
    ca_Metric ca_Value action_inv
proof unfold_locales
  fix q k v
  assume q: "action_inv q"
  show "action_inv (ActionEnqueue k v q)"
    using q by (auto simp: action_inv_def ActionEnqueue_def enqueue_write_def enqueue_signal_def
        split: option.split)
  show "action_inv (snd (ActionDequeueAll q))"
    using q by (simp add: action_inv_def ActionDequeueAll_def)
  show "action_view (ActionEnqueue k v q) =
      (case enqueue_entry k v of None \<Rightarrow> action_view q | Some (k', v') \<Rightarrow> (action_view q)(k' \<mapsto> v'))"
    by (auto simp: ActionEnqueue_def enqueue_write_def enqueue_signal_def split: option.split)
  show "action_view (snd (ActionDequeueAll q)) = Map.empty"
    by (simp add: ActionDequeueAll_def)
qed (rule action_drain_map action_drain_sorted, assumption)+

lemma aq_offered:
  "latest_queue.offered enqueue_entry ofs = List.map_filter (\<lambda>(m, v). enqueue_entry m v) ofs"
  by (induction ofs) (auto simp: List.map_filter_simps split: option.split)

section \<open>The queue, its producers and its worker\<close>

text \<open>
  The queue with the goroutines around it: \<open>pending\<close> producers have written and not yet
  offered their token, and the worker either waits or has taken a token and is about to
  drain. Any other goroutine may drain too (the mobile host polls \<^verbatim>\<open>DequeueActions\<close>).
\<close>

record worker_sys =
  wq :: actionQueue
  pending :: nat
  draining :: bool

definition worker_init :: "worker_sys \<Rightarrow> bool" where
  "worker_init s \<longleftrightarrow> s = \<lparr>wq = newActionQueue, pending = 0, draining = False\<rparr>"

inductive worker_step :: "worker_sys \<Rightarrow> worker_sys \<Rightarrow> bool" where
  produce: "enqueue_entry m v = Some (m', v') \<Longrightarrow>
     worker_step s (s\<lparr>wq := enqueue_write m' v' (wq s), pending := Suc (pending s)\<rparr>)"
| offer: "0 < pending s \<Longrightarrow>
     worker_step s (s\<lparr>wq := enqueue_signal (wq s), pending := pending s - 1\<rparr>)"
| wake: "\<not> draining s \<Longrightarrow> action_wait (wq s) False True q \<Longrightarrow>
     worker_step s (s\<lparr>wq := q, draining := True\<rparr>)"
| take: "draining s \<Longrightarrow>
     worker_step s (s\<lparr>wq := snd (ActionDequeueAll (wq s)), draining := False\<rparr>)"
| poll: "worker_step s (s\<lparr>wq := snd (ActionDequeueAll (wq s))\<rparr>)"

definition no_lost_wakeup :: "worker_sys \<Rightarrow> bool" where
  "no_lost_wakeup s \<longleftrightarrow> latest (wq s) \<noteq> [] \<longrightarrow> signalled (wq s) \<or> 0 < pending s \<or> draining s"

interpretation worker: invariant_of worker_init worker_step no_lost_wakeup
proof unfold_locales
  show "no_lost_wakeup s" if "worker_init s" for s
    using that by (simp add: worker_init_def no_lost_wakeup_def newActionQueue_def)
  show "no_lost_wakeup t" if "worker_step s t" "no_lost_wakeup s" for s t
    using that
    by (induction rule: worker_step.induct)
      (auto simp: no_lost_wakeup_def enqueue_write_def enqueue_signal_def ActionDequeueAll_def)
qed

end
