(* ===== verification/Host.thy ===== *)
theory Host
  imports GoStrings
begin

text \<open>
  What the program takes from packages outside the repository, as one record \<open>'w host\<close>
  that every definition using it takes as an argument: the SDK's connection (dialling,
  closing, sending a frame, awaiting a reply), the message codec, the decoders of the
  protocol's structures, the protocol's numbers and action names, the clock and the
  cryptography. \<open>'w\<close> is the outside world; an operation that reaches it returns it
  updated. Nothing is assumed of these fields.
\<close>

section \<open>Frames and messages\<close>

text \<open>The fields of a frame header that the program sets and reads.\<close>

record frameHdr =
  hdr_Major :: u8
  hdr_SubProto :: u8
  hdr_SourceID :: u32
  hdr_TargetID :: u32
  hdr_MsgID :: u32
  hdr_Timestamp :: u32

record message =
  msg_Action :: string
  msg_Data :: string

record SetReq =
  sr_Name :: string
  sr_Value :: string
  sr_Visibility :: string
  sr_Type :: string
  sr_Owner :: u32

record VarResp =
  vr_Name :: string
  vr_Value :: string
  vr_Visibility :: string
  vr_Owner :: u32

record RespData =
  rd_Code :: int
  rd_Msg :: string
  rd_NodeID :: u32
  rd_HubID :: u32
  rd_Role :: string

record LoginData =
  ld_DeviceID :: string
  ld_NodeID :: u32
  ld_TS :: int
  ld_Nonce :: string
  ld_Sig :: string
  ld_Alg :: string

record PublishReq =
  pr_Topic :: string
  pr_Name :: string
  pr_TS :: int
  pr_Payload :: string

text \<open>The values the program gives to \<^verbatim>\<open>transport.EncodeMessage\<close>.\<close>

datatype outMsg =
    MsgSet SetReq
  | MsgRegister string string string
  | MsgLogin LoginData
  | MsgSubscribeBatch "string list"
  | MsgConfigList int string "string list"
  | MsgConfig int string string string

section \<open>The protocol\<close>

record protocol =
  MajorCmd :: u8
  MajorMsg :: u8
  SubProtoVarStore :: u8
  SubProtoTopicBus :: u8
  SubProtoManagement :: u8
  SubProtoAuth :: u8
  ActionSet :: string
  ActionNotifySet :: string
  ActionRegister :: string
  ActionRegisterResp :: string
  ActionLogin :: string
  ActionLoginResp :: string
  ActionSubscribeBatch :: string
  ActionSubscribeBatchResp :: string
  ActionPublish :: string
  ActionConfigList :: string
  ActionConfigListResp :: string
  ActionConfigGet :: string
  ActionConfigGetResp :: string
  ActionConfigSet :: string
  ActionConfigSetResp :: string

text \<open>\<open>json.Unmarshal\<close> into the protocol's structures, whose field tags are theirs.\<close>

record decoders =
  dec_var_resp :: "string \<Rightarrow> VarResp result"
  dec_resp_data :: "string \<Rightarrow> RespData result"
  dec_topic_resp :: "string \<Rightarrow> (int \<times> string) result"
  dec_publish :: "string \<Rightarrow> PublishReq result"
  dec_config_get :: "string \<Rightarrow> string result"
  dec_config_set :: "string \<Rightarrow> (string \<times> string) result"

text \<open>
  JSON numbers as Go floats: whether the literal is in range, \<^verbatim>\<open>fmt.Sprint\<close> of the
  float, and the literal \<^verbatim>\<open>json.Marshal\<close> writes for it.
\<close>

record floats =
  float_ok :: "string \<Rightarrow> bool"
  float_text :: "string \<Rightarrow> string"
  float_json :: "string \<Rightarrow> string"

text \<open>
  A private key is its DER form. \<open>ec_parse\<close> is \<^verbatim>\<open>x509.ParseECPrivateKey\<close> with the
  name of the curve, \<open>ec_generate\<close> makes a P-256 key, \<open>ec_public\<close> is the DER form of the
  public key, \<open>ec_sign\<close> is SHA-256 and \<^verbatim>\<open>ecdsa.SignASN1\<close>.
\<close>

record 'w crypto =
  ec_parse :: "string \<Rightarrow> (string \<times> string) result"
  ec_generate :: "'w \<Rightarrow> string result \<times> 'w"
  ec_public :: "string \<Rightarrow> string"
  ec_sign :: "string \<Rightarrow> string \<Rightarrow> 'w \<Rightarrow> string result \<times> 'w"
  rand_bytes :: "nat \<Rightarrow> 'w \<Rightarrow> string result \<times> 'w"

section \<open>The host\<close>

record 'w host = platform +
  dial :: "string \<Rightarrow> 'w \<Rightarrow> go_error option \<times> 'w"
  hangup :: "'w \<Rightarrow> 'w"
  transmit :: "frameHdr \<Rightarrow> string \<Rightarrow> 'w \<Rightarrow> go_error option \<times> 'w"
  await_reply :: "frameHdr \<Rightarrow> string \<Rightarrow> string \<Rightarrow> 'w \<Rightarrow> message result \<times> 'w"
  encode_message :: "string \<Rightarrow> outMsg \<Rightarrow> string result"
  decode_message :: "string \<Rightarrow> message result"
  build_response :: "frameHdr \<Rightarrow> nat \<Rightarrow> u8 \<Rightarrow> frameHdr option"
  proto :: protocol
  decode :: decoders
  num :: floats
  crypt :: "'w crypto"
  unix_sec :: "'w \<Rightarrow> int"
  unix_milli :: "'w \<Rightarrow> int"
  unix_nano :: "'w \<Rightarrow> int"
  getwd :: "'w \<Rightarrow> string result"

end
