(* ===== verification/NotifyQueue.thy ===== *)
theory NotifyQueue
  imports Prelude
begin

text \<open>
  \<^verbatim>\<open>core/notify/queue.go\<close>: the bounded queue of notification events, which drops
  its oldest event when full and counts what it dropped, and the contract \<open>bounded_fifo\<close>
  it meets.
\<close>

section \<open>The code\<close>

definition DefaultQueueCapacity :: int where [go_defs]: "DefaultQueueCapacity = 128"

record 'e queue =
  q_cap :: int
  q_items :: "'e list"
  q_dropped :: u64

definition NewQueue :: "int \<Rightarrow> 'e queue" where
  "NewQueue capacity =
     \<lparr>q_cap = (if capacity \<le> 0 then DefaultQueueCapacity else capacity), q_items = [], q_dropped = 0\<rparr>"

text \<open>
  Overwriting a full queue: \<^verbatim>\<open>copy(items, items[1:])\<close> moves every event one slot
  forward and the last slot takes the new one. The list is not empty there, since it is at
  least as long as the positive capacity.
\<close>

definition QueueEnqueue :: "'e \<Rightarrow> 'e queue \<Rightarrow> 'e queue" where
  "QueueEnqueue evt q =
     (if q_cap q \<le> 0 then q\<lparr>q_dropped := q_dropped q + 1\<rparr>
      else if q_cap q \<le> int (length (q_items q)) then
        q\<lparr>q_items := tl (q_items q) @ [evt], q_dropped := q_dropped q + 1\<rparr>
      else q\<lparr>q_items := q_items q @ [evt]\<rparr>)"

definition QueueDequeueAll :: "'e queue \<Rightarrow> 'e list \<times> 'e queue" where
  "QueueDequeueAll q = (if q_items q = [] then ([], q) else (q_items q, q\<lparr>q_items := []\<rparr>))"

definition Dropped :: "'e queue \<Rightarrow> u64" where
  "Dropped q = q_dropped q"

section \<open>The contract\<close>

definition last_n :: "nat \<Rightarrow> 'a list \<Rightarrow> 'a list" where
  "last_n n xs = drop (length xs - n) xs"

lemma last_n_all: "length xs \<le> n \<Longrightarrow> last_n n xs = xs"
  by (simp add: last_n_def)

lemma length_last_n: "length (last_n n xs) = min n (length xs)"
  by (simp add: last_n_def)

lemma last_n_snoc: "last_n n (last_n n xs @ [x]) = last_n n (xs @ [x])"
proof (cases "length xs \<le> n")
  case False
  then have "Suc (length xs - Suc m) = length xs - m" if "n = Suc m" for m using that by simp
  then show ?thesis by (cases n) (auto simp: last_n_def)
qed (simp add: last_n_all)

text \<open>A bounded queue that keeps the newest events: its content after any offers.\<close>

locale bounded_fifo =
  fixes enq :: "'e \<Rightarrow> 'q \<Rightarrow> 'q" and drain :: "'q \<Rightarrow> 'e list \<times> 'q"
    and content :: "'q \<Rightarrow> 'e list" and capacity :: "'q \<Rightarrow> nat" and inv :: "'q \<Rightarrow> bool"
  assumes inv_enq: "inv q \<Longrightarrow> inv (enq e q)"
    and inv_drain: "inv q \<Longrightarrow> inv (snd (drain q))"
    and capacity_enq: "capacity (enq e q) = capacity q"
    and inv_bound: "inv q \<Longrightarrow> length (content q) \<le> capacity q"
    and content_enq: "inv q \<Longrightarrow> content (enq e q) = last_n (capacity q) (content q @ [e])"
    and drain_content: "fst (drain q) = content q"
    and content_drain: "content (snd (drain q)) = []"
begin

lemma inv_enqs: "inv q \<Longrightarrow> inv (fold enq es q)"
  by (induction es arbitrary: q) (auto intro: inv_enq)

lemma content_enqs:
  "inv q \<Longrightarrow> content (fold enq es q) = last_n (capacity q) (content q @ es)"
proof (induction es rule: rev_induct)
  case Nil
  then show ?case by (simp add: last_n_all inv_bound)
next
  case (snoc e es)
  have "capacity (fold enq es q) = capacity q"
    by (induction es arbitrary: q) (simp_all add: capacity_enq)
  with snoc inv_enqs [OF snoc.prems, of es] show ?case
    using last_n_snoc [of "capacity q" "content q @ es" e] by (simp add: content_enq)
qed

lemma drained: "inv q \<Longrightarrow> fst (drain (fold enq es q)) = last_n (capacity q) (content q @ es)"
  by (simp add: drain_content content_enqs)

lemma never_overfull: "inv q \<Longrightarrow> length (content (fold enq es q)) \<le> capacity q"
  by (simp add: content_enqs length_last_n)

end

section \<open>The code implements the contract\<close>

definition queue_inv :: "'e queue \<Rightarrow> bool" where
  "queue_inv q \<longleftrightarrow> 0 < q_cap q \<and> int (length (q_items q)) \<le> q_cap q"

lemma queue_inv_new: "queue_inv (NewQueue n)"
  by (simp add: queue_inv_def NewQueue_def go_defs)

lemma QueueEnqueue_cap [simp]: "q_cap (QueueEnqueue e q) = q_cap q"
  by (simp add: QueueEnqueue_def)

lemma QueueEnqueue_items:
  assumes "queue_inv q"
  shows "q_items (QueueEnqueue e q) = last_n (nat (q_cap q)) (q_items q @ [e])"
proof (cases "q_cap q \<le> int (length (q_items q))")
  case True
  with assms have c: "q_cap q = int (length (q_items q))" "q_items q \<noteq> []"
    by (auto simp: queue_inv_def)
  then show ?thesis
    by (cases "q_items q") (simp_all add: QueueEnqueue_def last_n_def nat_add_distrib)
next
  case False
  with assms have "length (q_items q @ [e]) \<le> nat (q_cap q)" by (simp add: queue_inv_def)
  with False assms show ?thesis by (simp add: QueueEnqueue_def queue_inv_def last_n_all)
qed

interpretation nq: bounded_fifo QueueEnqueue QueueDequeueAll q_items "\<lambda>q. nat (q_cap q)" queue_inv
proof unfold_locales
  fix q :: "'e queue" and e
  assume q: "queue_inv q"
  then show "length (q_items q) \<le> nat (q_cap q)" by (simp add: queue_inv_def le_nat_iff)
  show "q_items (QueueEnqueue e q) = last_n (nat (q_cap q)) (q_items q @ [e])"
    using q by (rule QueueEnqueue_items)
  then show "queue_inv (QueueEnqueue e q)"
    using q by (simp add: queue_inv_def length_last_n min_def) linarith
  show "queue_inv (snd (QueueDequeueAll q))"
    using q by (simp add: QueueDequeueAll_def queue_inv_def)
qed (simp_all add: QueueDequeueAll_def)

text \<open>Each offer to a queue is either kept as one more event or counted as one dropped.\<close>

lemma QueueEnqueue_dropped:
  "queue_inv q \<Longrightarrow> q_dropped (QueueEnqueue e q) =
     q_dropped q + (if length (q_items q) = nat (q_cap q) then 1 else 0)"
  by (auto simp: QueueEnqueue_def queue_inv_def)

lemma dropped_count:
  "queue_inv q \<Longrightarrow>
     q_dropped (fold QueueEnqueue es q) =
       q_dropped q + of_nat (length (q_items q) + length es - nat (q_cap q))"
proof (induction es rule: rev_induct)
  case Nil
  then show ?case by (simp add: queue_inv_def le_nat_iff)
next
  case (snoc e es)
  let ?q = "fold QueueEnqueue es q"
  have i: "queue_inv ?q" using snoc.prems by (rule nq.inv_enqs)
  have c: "q_cap ?q = q_cap q" by (induction es arbitrary: q) simp_all
  have "length (q_items ?q) = min (nat (q_cap q)) (length (q_items q) + length es)"
    using nq.content_enqs [OF snoc.prems, of es] by (simp add: length_last_n)
  then show ?case
    using snoc QueueEnqueue_dropped [OF i, of e] c
    by (cases "nat (q_cap q) \<le> length (q_items q) + length es") (simp_all add: Suc_diff_le add.assoc)
qed

end
