(* ===== verification/NotifyEvent.thy ===== *)
theory NotifyEvent
  imports Host JsonRoundtrip NotifyQueue
begin

text \<open>
  \<^verbatim>\<open>core/notify/event.go\<close>: a published topic message becomes an event with a title,
  a body and an identifier of bounded length.
\<close>

section \<open>The code\<close>

definition MaxTitleLength :: int where [go_defs]: "MaxTitleLength = 96"
definition MaxBodyLength :: int where [go_defs]: "MaxBodyLength = 220"
definition MaxPayloadTextLength :: int where [go_defs]: "MaxPayloadTextLength = 180"
definition MaxPayloadBytes :: nat where "MaxPayloadBytes = 32 * 1024"

record Event =
  ev_ID :: string
  ev_Topic :: string
  ev_Name :: string
  ev_Title :: string
  ev_Body :: string
  ev_TS :: int
  ev_Payload :: string

text \<open>\<^verbatim>\<open>text[:n]\<close> cuts between bytes, wherever the characters end.\<close>

definition limitText :: "string \<Rightarrow> int \<Rightarrow> string" where
  "limitText text0 limit =
     (let txt = TrimSpace (join_with '' '' (Fields text0)) in
      if limit \<le> 0 \<or> int (length txt) \<le> limit then txt
      else if limit \<le> 3 then take (nat limit) txt
      else take (nat (limit - 3)) txt @ ''...'')"

text \<open>
  Unmarshalling into \<^verbatim>\<open>any\<close> fails on a number no float holds; in a
  \<^verbatim>\<open>map[string]any\<close> a later member replaces an earlier one.
\<close>

fun any_ok :: "floats \<Rightarrow> json \<Rightarrow> bool" where
  "any_ok F (JNum n) = float_ok F n"
| "any_ok F (JArr vs) = list_all (any_ok F) vs"
| "any_ok F (JObj ms) = list_all (\<lambda>(k, v). any_ok F v) ms"
| "any_ok F _ = True"

definition unmarshal_any :: "floats \<Rightarrow> string \<Rightarrow> json option" where
  "unmarshal_any F raw =
     (case json_parse raw of None \<Rightarrow> None | Some v \<Rightarrow> if any_ok F v then Some v else None)"

definition unmarshal_map :: "floats \<Rightarrow> string \<Rightarrow> (string \<rightharpoonup> json) option" where
  "unmarshal_map F raw =
     (case unmarshal_any F raw of
        Some (JObj ms) \<Rightarrow> Some (map_of (rev ms))
      | Some JNull \<Rightarrow> Some Map.empty
      | _ \<Rightarrow> None)"

fun firstString :: "floats \<Rightarrow> (string \<rightharpoonup> json) \<Rightarrow> string list \<Rightarrow> string" where
  "firstString F obj [] = []"
| "firstString F obj (key # keys) =
     (case obj key of
        Some (JStr s) \<Rightarrow> if TrimSpace s \<noteq> [] then TrimSpace s else firstString F obj keys
      | Some (JNum n) \<Rightarrow> TrimSpace (float_text F n)
      | Some (JBool b) \<Rightarrow> (if b then ''true'' else ''false'')
      | _ \<Rightarrow> firstString F obj keys)"

text \<open>What \<^verbatim>\<open>json.Marshal\<close> writes for a value read into \<^verbatim>\<open>any\<close>.\<close>

fun normal_any :: "floats \<Rightarrow> json \<Rightarrow> json" where
  "normal_any F (JNum n) = JNum (float_json F n)"
| "normal_any F (JArr vs) = JArr (map (normal_any F) vs)"
| "normal_any F (JObj ms) =
     JObj (sort_key fst (foldl (\<lambda>m (k, v). AList.update k v m) [] (map (\<lambda>(k, v). (k, normal_any F v)) ms)))"
| "normal_any F v = v"

definition payloadPreview :: "floats \<Rightarrow> string \<Rightarrow> string" where
  "payloadPreview F raw =
     (if raw = [] then []
      else case unmarshal_any F raw of
        None \<Rightarrow> limitText raw MaxPayloadTextLength
      | Some v \<Rightarrow> limitText (json_print (normal_any F v)) MaxPayloadTextLength)"

definition extractTitleBody :: "floats \<Rightarrow> PublishReq \<Rightarrow> string \<times> string" where
  "extractTitleBody F req =
     (let (title0, body0) =
        (if pr_Payload req \<noteq> [] \<and> pr_Payload req \<noteq> ''null'' then
           (case unmarshal_map F (pr_Payload req) of
              Some obj \<Rightarrow> (firstString F obj [''title'', ''subject'', ''summary''],
                firstString F obj [''body'', ''message'', ''text'', ''content'', ''summary''])
            | None \<Rightarrow> ([], []))
         else ([], []));
          title = (if TrimSpace title0 = [] then pr_Name req else title0);
          body1 = (if TrimSpace body0 = [] then payloadPreview F (pr_Payload req) else body0);
          body = (if TrimSpace body1 = [] then pr_Topic req else body1)
      in (limitText title MaxTitleLength, limitText body MaxBodyLength))"

definition ParsePublishEnvelope :: "'w host \<Rightarrow> string \<Rightarrow> PublishReq result" where
  "ParsePublishEnvelope H payload =
     (if payload = [] then Inl (ErrNew ''payload is required'')
      else if MaxPayloadBytes < length payload then Inl (ErrNew ''payload exceeds 32768 bytes'')
      else case decode_message H payload of
        Inl e \<Rightarrow> Inl e
      | Inr msg \<Rightarrow>
          if TrimSpace (msg_Action msg) \<noteq> ActionPublish (proto H) then
            Inl (ErrNew (''unexpected topicbus action: '' @ msg_Action msg))
          else (case dec_publish (decode H) (msg_Data msg) of
            Inl e \<Rightarrow> Inl e
          | Inr req \<Rightarrow>
              if TrimSpace (pr_Topic req) = [] then Inl (ErrNew ''topic is required'')
              else if TrimSpace (pr_Name req) = [] then Inl (ErrNew ''name is required'')
              else Inr (req\<lparr>pr_Topic := TrimSpace (pr_Topic req), pr_Name := TrimSpace (pr_Name req)\<rparr>)))"

definition EventFromPublish :: "floats \<Rightarrow> PublishReq \<Rightarrow> (string \<Rightarrow> bool) \<Rightarrow> int \<Rightarrow> Event option" where
  "EventFromPublish F req0 topicEnabled now_milli =
     (let req = req0\<lparr>pr_Topic := TrimSpace (pr_Topic req0), pr_Name := TrimSpace (pr_Name req0)\<rparr> in
      if pr_Topic req = [] \<or> pr_Name req = [] then None
      else if \<not> topicEnabled (pr_Topic req) then None
      else
        let ts = (if pr_TS req = 0 then now_milli else pr_TS req);
            (title, body) = extractTitleBody F req;
            id = Itoa ts @ '':'' @ pr_Topic req @ '':'' @ pr_Name req
        in Some \<lparr>ev_ID = limitText id (MaxTitleLength + MaxBodyLength), ev_Topic = pr_Topic req,
             ev_Name = pr_Name req, ev_Title = title, ev_Body = body, ev_TS = ts,
             ev_Payload = pr_Payload req\<rparr>)"

section \<open>Bounds\<close>

lemma limitText_length: "0 < limit \<Longrightarrow> int (length (limitText txt limit)) \<le> limit"
  by (auto simp: limitText_def Let_def min_def)

definition event_ok :: "Event \<Rightarrow> bool" where
  "event_ok e \<longleftrightarrow>
     ev_Topic e \<noteq> [] \<and> trimmed (ev_Topic e) \<and> ev_Name e \<noteq> [] \<and> trimmed (ev_Name e) \<and>
     int (length (ev_ID e)) \<le> 316 \<and> int (length (ev_Title e)) \<le> 96 \<and> int (length (ev_Body e)) \<le> 220"

lemma EventFromPublish_SomeD:
  assumes "EventFromPublish F req enabled now = Some e"
  shows "event_ok e \<and> ev_Topic e = TrimSpace (pr_Topic req) \<and> enabled (ev_Topic e) \<and>
    ev_Name e = TrimSpace (pr_Name req) \<and> ev_Payload e = pr_Payload req \<and>
    ev_TS e = (if pr_TS req = 0 then now else pr_TS req)"
  using assms limitText_length [of "MaxTitleLength + MaxBodyLength"] limitText_length [of MaxTitleLength]
    limitText_length [of MaxBodyLength]
  by (auto simp: EventFromPublish_def extractTitleBody_def Let_def event_ok_def go_defs
      split: if_splits prod.splits)

lemma EventFromPublish_None_iff:
  "EventFromPublish F req enabled now = None \<longleftrightarrow>
     TrimSpace (pr_Topic req) = [] \<or> TrimSpace (pr_Name req) = [] \<or> \<not> enabled (TrimSpace (pr_Topic req))"
  by (auto simp: EventFromPublish_def Let_def split: prod.split)

lemma ParsePublishEnvelope_InrD:
  "ParsePublishEnvelope H payload = Inr req \<Longrightarrow>
     pr_Topic req \<noteq> [] \<and> trimmed (pr_Topic req) \<and> pr_Name req \<noteq> [] \<and> trimmed (pr_Name req) \<and>
     payload \<noteq> [] \<and> length payload \<le> 32768"
  by (auto simp: ParsePublishEnvelope_def MaxPayloadBytes_def split: if_splits sum.splits)

end
