(* ===== verification/Encoding.thy ===== *)
theory Encoding
  imports GoStrings
begin

text \<open>
  Text encodings of the standard library the program uses: \<^verbatim>\<open>base64.StdEncoding\<close>,
  \<^verbatim>\<open>hex.EncodeToString\<close>, \<^verbatim>\<open>html.EscapeString\<close> and \<^verbatim>\<open>utf16.Encode\<close>.
\<close>

section \<open>Base64\<close>

definition b64_char :: "nat \<Rightarrow> char" where
  "b64_char d =
     (if d < 26 then char_of (0x41 + d) else if d < 52 then char_of (0x61 + (d - 26))
      else if d < 62 then char_of (0x30 + (d - 52)) else if d = 62 then CHR 0x2B else CHR 0x2F)"

definition b64_val :: "char \<Rightarrow> nat option" where
  "b64_val c =
     (if 0x41 \<le> byte c \<and> byte c \<le> 0x5A then Some (byte c - 0x41)
      else if 0x61 \<le> byte c \<and> byte c \<le> 0x7A then Some (byte c - 0x61 + 26)
      else if 0x30 \<le> byte c \<and> byte c \<le> 0x39 then Some (byte c - 0x30 + 52)
      else if c = CHR 0x2B then Some 62 else if c = CHR 0x2F then Some 63 else None)"

abbreviation pad_char :: char where
  "pad_char \<equiv> CHR 0x3D"

fun base64_encode :: "string \<Rightarrow> string" where
  "base64_encode [] = []"
| "base64_encode [a] = [b64_char (byte a div 4), b64_char (byte a mod 4 * 16), pad_char, pad_char]"
| "base64_encode [a, b] =
     [b64_char (byte a div 4), b64_char (byte a mod 4 * 16 + byte b div 16), b64_char (byte b mod 16 * 4), pad_char]"
| "base64_encode (a # b # c # r) =
     [b64_char (byte a div 4), b64_char (byte a mod 4 * 16 + byte b div 16),
      b64_char (byte b mod 16 * 4 + byte c div 64), b64_char (byte c mod 64)] @ base64_encode r"

text \<open>
  Decoding skips line ends, wants padding at the end only and ignores the unused low bits of
  the last digit. The error does not carry the position it carries in Go; the program only
  looks at whether there is one.
\<close>

fun b64_quads :: "string \<Rightarrow> string option" where
  "b64_quads [] = Some []"
| "b64_quads (a # b # c # d # r) =
     (case (b64_val a, b64_val b) of
        (Some x, Some y) \<Rightarrow>
          if c = pad_char then (if d = pad_char \<and> r = [] then Some [char_of (x * 4 + y div 16)] else None)
          else (case b64_val c of
              None \<Rightarrow> None
            | Some z \<Rightarrow>
                if d = pad_char then
                  (if r = [] then Some [char_of (x * 4 + y div 16), char_of (y mod 16 * 16 + z div 4)] else None)
                else (case b64_val d of
                    None \<Rightarrow> None
                  | Some u \<Rightarrow> map_option (\<lambda>t. [char_of (x * 4 + y div 16), char_of (y mod 16 * 16 + z div 4),
                      char_of (z mod 4 * 64 + u)] @ t) (b64_quads r)))
      | _ \<Rightarrow> None)"
| "b64_quads _ = None"

definition base64_decode :: "string \<Rightarrow> string result" where
  "base64_decode s =
     (case b64_quads (filter (\<lambda>c. c \<noteq> CHR 0x0A \<and> c \<noteq> CHR 0x0D) s) of
        None \<Rightarrow> Inl (ErrNew ''illegal base64 data'')
      | Some bs \<Rightarrow> Inr bs)"

definition b64_text_char :: "char \<Rightarrow> bool" where
  "b64_text_char c \<longleftrightarrow> c = pad_char \<or> b64_val c \<noteq> None"

lemma b64_val_char [simp]: "d < 64 \<Longrightarrow> b64_val (b64_char d) = Some d"
  by (auto simp: b64_char_def b64_val_def)

lemma b64_char_not_pad [simp]: "d < 64 \<Longrightarrow> b64_char d \<noteq> pad_char"
  using b64_val_char [of d] by (auto simp: b64_val_def)

lemma byte_high [simp]:
  "byte b div 16 < 16" "byte c div 64 < 4" "byte a div 4 < 64"
proof -
  have "byte a < 256" "byte b < 256" "byte c < 256" by simp_all
  then show "byte b div 16 < 16" "byte c div 64 < 4" "byte a div 4 < 64"
    by (simp_all add: div_less_iff_less_mult)
qed

lemma b64_parts [simp]:
  "byte a mod 4 * 16 < 64" "byte a mod 4 * 16 + byte b div 16 < 64"
  "byte b mod 16 * 4 < 64" "byte b mod 16 * 4 + byte c div 64 < 64"
proof -
  have "byte a mod 4 < 4" "byte b mod 16 < 16" by simp_all
  moreover have "byte b div 16 < 16" "byte c div 64 < 4" by simp_all
  ultimately show "byte a mod 4 * 16 < 64" "byte a mod 4 * 16 + byte b div 16 < 64"
    "byte b mod 16 * 4 < 64" "byte b mod 16 * 4 + byte c div 64 < 64"
    by linarith+
qed

lemma byte_high_eq [simp]:
  "byte b div 16 div 16 = 0" "byte b div 16 mod 16 = byte b div 16"
  "byte c div 64 div 4 = 0" "byte c div 64 mod 4 = byte c div 64"
  by (simp_all only: byte_high div_less mod_less)

lemma b64_quads_encode: "b64_quads (base64_encode s) = Some s"
  by (induction s rule: base64_encode.induct) simp_all

lemma base64_encode_chars: "c \<in> set (base64_encode s) \<Longrightarrow> b64_text_char c"
  by (induction s rule: base64_encode.induct) (auto simp: b64_text_char_def)

lemma b64_text_char_graphic:
  assumes "b64_text_char c" shows "graphic c" "byte c < 0x80" "c \<noteq> CHR 0x0A" "c \<noteq> CHR 0x0D" "c \<noteq> CHR 0x27"
  using assms by (auto simp: b64_text_char_def b64_val_def graphic_def split: if_splits)

text \<open>Decoding gives back what was encoded.\<close>

lemma base64_decode_encode: "base64_decode (base64_encode s) = Inr s"
proof -
  have "filter (\<lambda>c. c \<noteq> CHR 0x0A \<and> c \<noteq> CHR 0x0D) (base64_encode s) = base64_encode s"
    using base64_encode_chars [of _ s] b64_text_char_graphic by (intro filter_True) blast
  then show ?thesis by (simp add: base64_decode_def b64_quads_encode)
qed

lemma base64_encode_Nil_iff [simp]: "base64_encode s = [] \<longleftrightarrow> s = []"
  by (cases s rule: base64_encode.cases) simp_all

lemma base64_encode_trimmed: "trimmed (base64_encode s)"
proof (cases "s = []")
  case False
  then have "base64_encode s \<noteq> []" by simp
  then show ?thesis
    using base64_encode_chars [of _ s] b64_text_char_graphic(1) by (intro graphic_ends_trimmed) simp_all
qed (simp add: trimmed_def stripped_def)

lemma base64_encode_utf8: "valid_utf8 (base64_encode s)"
  using base64_encode_chars [of _ s] b64_text_char_graphic(2) by (intro valid_utf8_all_ascii) blast

section \<open>HTML\<close>

definition html_char :: "char \<Rightarrow> string" where
  "html_char c =
     (if c = CHR 0x26 then ''&amp;'' else if c = CHR 0x27 then ''&#39;'' else if c = CHR 0x3C then ''&lt;''
      else if c = CHR 0x3E then ''&gt;'' else if c = CHR 0x22 then ''&#34;'' else [c])"

definition html_escape :: "string \<Rightarrow> string" where
  "html_escape s = concat (map html_char s)"

text \<open>Escaped text can neither open a tag nor end a quoted attribute, and it determines the text.\<close>

lemma html_escape_safe:
  "CHR 0x3C \<notin> set (html_escape s)" "CHR 0x3E \<notin> set (html_escape s)" "CHR 0x22 \<notin> set (html_escape s)"
  "CHR 0x27 \<notin> set (html_escape s)"
  by (auto simp: html_escape_def html_char_def split: if_splits)

lemma html_char_prefix_free: "html_char a @ x = html_char b @ y \<Longrightarrow> a = b"
  by (auto simp: html_char_def split: if_splits)

lemma html_escape_inj: "html_escape s = html_escape t \<longleftrightarrow> s = t"
proof (induction s arbitrary: t)
  case Nil
  then show ?case by (cases t) (simp_all add: html_escape_def html_char_def)
next
  case (Cons a s)
  show ?case
  proof (cases t)
    case Nil
    then show ?thesis by (simp add: html_escape_def html_char_def)
  next
    case (Cons b u)
    then show ?thesis
      using Cons.IH [of u] html_char_prefix_free [of a "html_escape s" b "html_escape u"]
      by (auto simp: html_escape_def)
  qed
qed

section \<open>UTF-16\<close>

definition rune_val :: "string \<Rightarrow> nat" where
  "rune_val s =
     (let b = (\<lambda>i. byte (s ! i)); k = utf8_len s in
      if k \<le> 1 then b 0
      else if k = 2 then (b 0 - 0xC0) * 64 + (b 1 - 0x80)
      else if k = 3 then (b 0 - 0xE0) * 4096 + (b 1 - 0x80) * 64 + (b 2 - 0x80)
      else (b 0 - 0xF0) * 262144 + (b 1 - 0x80) * 4096 + (b 2 - 0x80) * 64 + (b 3 - 0x80))"

function runes :: "string \<Rightarrow> nat list" where
  "runes s =
     (if s = [] then []
      else if utf8_len s = 0 then 0xFFFD # runes (tl s)
      else rune_val s # runes (drop (utf8_len s) s))"
  by pat_completeness auto

termination
  by (relation "measure length") (auto simp: neq_Nil_conv)

declare runes.simps [simp del]

definition utf16_units :: "nat \<Rightarrow> nat list" where
  "utf16_units r =
     (if r < 0x10000 then [r] else [0xD800 + (r - 0x10000) div 0x400, 0xDC00 + (r - 0x10000) mod 0x400])"

definition utf16_bytes :: "string \<Rightarrow> string" where
  "utf16_bytes s = concat (map (\<lambda>u. [char_of (u mod 256), char_of (u div 256)]) (concat (map utf16_units (runes s))))"

end
