(* ===== verification/Keys.thy ===== *)
theory Keys
  imports Host Disk JsonIndent Encoding
begin

text \<open>
  \<^verbatim>\<open>core/auth/keys.go\<close>: the key pair of the node, created on first use and kept in a
  file, and the signed text of a login.
\<close>

section \<open>The code\<close>

record nodeKeys =
  nk_PrivKey :: string
  nk_PubKey :: string

record keyStore =
  ks_path :: string
  ks_priv :: "string option"
  ks_pub :: string

definition NewKeyStore :: "('a) platform_scheme \<Rightarrow> string \<Rightarrow> keyStore" where
  "NewKeyStore P path = \<lparr>ks_path = path_clean P path, ks_priv = None, ks_pub = []\<rparr>"

definition node_keys_json :: "nodeKeys \<Rightarrow> (string \<times> json) list" where
  "node_keys_json k = [(''privkey'', JStr (nk_PrivKey k)), (''pubkey'', JStr (nk_PubKey k))]"

definition set_keys_field :: "string \<Rightarrow> json \<Rightarrow> nodeKeys \<Rightarrow> nodeKeys option" where
  "set_keys_field n v k =
     (if n = ''privkey'' then map_option (\<lambda>x. k\<lparr>nk_PrivKey := x\<rparr>) (dec_string v (nk_PrivKey k))
      else map_option (\<lambda>x. k\<lparr>nk_PubKey := x\<rparr>) (dec_string v (nk_PubKey k)))"

definition dec_node_keys :: "json \<Rightarrow> nodeKeys option" where
  "dec_node_keys = dec_struct [''privkey'', ''pubkey''] set_keys_field \<lparr>nk_PrivKey = [], nk_PubKey = []\<rparr>"

definition parsePrivKey :: "'w crypto \<Rightarrow> string \<Rightarrow> string result" where
  "parsePrivKey C b64 =
     (case base64_decode (TrimSpace b64) of
        Inl e \<Rightarrow> Inl e
      | Inr raw \<Rightarrow>
          (case ec_parse C raw of
             Inl e \<Rightarrow> Inl e
           | Inr (priv, curve) \<Rightarrow>
               if curve \<noteq> ''P-256'' then Inl (ErrNew ''private key not p256'') else Inr priv))"

text \<open>An empty file is no error and no key.\<close>

definition readNodeKeys ::
  "'w host \<Rightarrow> string \<Rightarrow> disk \<Rightarrow> (string option \<times> string) result \<times> disk" where
  "readNodeKeys H path d =
     (case ReadFile (path_clean H path) d of
        (Inl e, d') \<Rightarrow> (Inl e, d')
      | (Inr data, d') \<Rightarrow>
          (if data = [] then Inr (None, [])
           else case unmarshal dec_node_keys data of
             Inl e \<Rightarrow> Inl e
           | Inr k \<Rightarrow>
               (case parsePrivKey (crypt H) (nk_PrivKey k) of
                  Inl e \<Rightarrow> Inl e
                | Inr priv \<Rightarrow>
                    if TrimSpace (nk_PubKey k) = [] then Inl (ErrNew ''pubkey empty'')
                    else Inr (Some priv, nk_PubKey k)), d'))"

definition writeNodeKeys :: "('a) platform_scheme \<Rightarrow> string \<Rightarrow> nodeKeys \<Rightarrow> disk \<Rightarrow> go_error option \<times> disk" where
  "writeNodeKeys P path k d =
     WriteFile (path_clean P path) (json_indent (node_keys_json k)) (snd (MkdirAll d))"

definition loadOrCreateNodeKeys ::
  "'w host \<Rightarrow> string \<Rightarrow> disk \<Rightarrow> 'w \<Rightarrow> (string \<times> string) result \<times> disk \<times> 'w" where
  "loadOrCreateNodeKeys H path d w =
     (let (found, d1) = readNodeKeys H path d;
          C = crypt H;
          create = (case ec_generate C w of
             (Inl e, w') \<Rightarrow> (Inl e, d1, w')
           | (Inr priv, w') \<Rightarrow>
               let pub = base64_encode (ec_public C priv);
                   (_, d2) = writeNodeKeys H path \<lparr>nk_PrivKey = base64_encode priv, nk_PubKey = pub\<rparr> d1
               in (Inr (priv, pub), d2, w'))
      in case found of
           Inr (Some priv, pub) \<Rightarrow> if TrimSpace pub \<noteq> [] then (Inr (priv, pub), d1, w) else create
         | _ \<Rightarrow> create)"

definition Ensure ::
  "'w host \<Rightarrow> keyStore \<Rightarrow> disk \<Rightarrow> 'w \<Rightarrow> string result \<times> keyStore \<times> disk \<times> 'w" where
  "Ensure H s d w =
     (if ks_priv s \<noteq> None \<and> TrimSpace (ks_pub s) \<noteq> [] then (Inr (ks_pub s), s, d, w)
      else case loadOrCreateNodeKeys H (ks_path s) d w of
        (Inl e, d', w') \<Rightarrow> (Inl e, s, d', w')
      | (Inr (priv, pub), d', w') \<Rightarrow> (Inr pub, s\<lparr>ks_priv := Some priv, ks_pub := pub\<rparr>, d', w'))"

definition uintToString :: "u32 \<Rightarrow> string" where
  "uintToString v = (if v = 0 then ''0'' else nat_text (unat v))"

definition line_end :: string where
  "line_end = [CHR 0x0A]"

definition loginSignBytes :: "string \<Rightarrow> u32 \<Rightarrow> int \<Rightarrow> string \<Rightarrow> string" where
  "loginSignBytes deviceID nodeID ts nonce =
     ''login'' @ line_end @ TrimSpace deviceID @ line_end @ uintToString nodeID @ line_end @
     Itoa ts @ line_end @ TrimSpace nonce"

definition signLogin ::
  "'w host \<Rightarrow> string \<Rightarrow> string \<Rightarrow> u32 \<Rightarrow> int \<Rightarrow> string \<Rightarrow> 'w \<Rightarrow> string result \<times> 'w" where
  "signLogin H priv deviceID nodeID ts nonce w =
     (case ec_sign (crypt H) priv (loginSignBytes deviceID nodeID ts nonce) w of
        (Inl e, w') \<Rightarrow> (Inl e, w')
      | (Inr sig, w') \<Rightarrow> (Inr (base64_encode sig), w'))"

definition SignLogin ::
  "'w host \<Rightarrow> string \<Rightarrow> u32 \<Rightarrow> int \<Rightarrow> string \<Rightarrow> keyStore \<Rightarrow> disk \<Rightarrow> 'w \<Rightarrow>
     string result \<times> keyStore \<times> disk \<times> 'w" where
  "SignLogin H deviceID0 nodeID ts nonce0 s d w =
     (let deviceID = TrimSpace deviceID0; nonce = TrimSpace nonce0 in
      if deviceID = [] then (Inl (ErrNew ''device_id is required''), s, d, w)
      else if nodeID = 0 then (Inl (ErrNew ''node_id is required''), s, d, w)
      else if nonce = [] then (Inl (ErrNew ''nonce is required''), s, d, w)
      else case Ensure H s d w of
        (Inl e, s', d', w') \<Rightarrow> (Inl e, s', d', w')
      | (Inr _, s', d', w') \<Rightarrow>
          (case ks_priv s' of
             None \<Rightarrow> (Inl (ErrNew ''private key invalid''), s', d', w')
           | Some priv \<Rightarrow>
               let (r, w'') = signLogin H priv deviceID nodeID ts nonce w' in (r, s', d', w'')))"

text \<open>\<^verbatim>\<open>hex.EncodeToString\<close> writes lower-case digits.\<close>

definition hex_lower :: "nat \<Rightarrow> char" where
  "hex_lower d = char_of (if d < 10 then 0x30 + d else 0x57 + d)"

definition hex_text :: "string \<Rightarrow> string" where
  "hex_text bs = concat (map (\<lambda>c. [hex_lower (byte c div 16), hex_lower (byte c mod 16)]) bs)"

definition GenerateNonce :: "'w host \<Rightarrow> int \<Rightarrow> 'w \<Rightarrow> string \<times> 'w" where
  "GenerateNonce H n0 w =
     (let n = (if n0 \<le> 0 then 12 else nat n0) in
      case rand_bytes (crypt H) n w of (Inl e, w') \<Rightarrow> ([], w') | (Inr buf, w') \<Rightarrow> (hex_text buf, w'))"

section \<open>The key pair is stable\<close>

lemma Ensure_again:
  assumes "Ensure H s d w = (Inr pub, s', d', w')" and "TrimSpace pub \<noteq> []"
  shows "Ensure H s' d2 w2 = (Inr pub, s', d2, w2)"
  using assms by (auto simp: Ensure_def split: if_splits prod.splits sum.splits)

lemma Ensure_path: "ks_path (fst (snd (Ensure H s d w))) = ks_path s"
  by (simp add: Ensure_def split: prod.split sum.split)

lemma node_keys_read:
  "unmarshal dec_node_keys
    (json_indent (node_keys_json \<lparr>nk_PrivKey = base64_encode priv, nk_PubKey = base64_encode pub\<rparr>)) =
    Inr \<lparr>nk_PrivKey = base64_encode priv, nk_PubKey = base64_encode pub\<rparr>"
proof -
  let ?ms = "node_keys_json \<lparr>nk_PrivKey = base64_encode priv, nk_PubKey = base64_encode pub\<rparr>"
  have "json_parse (json_indent ?ms) = Some (JObj ?ms)"
    by (intro json_parse_indent)
      (auto simp: node_keys_json_def base64_encode_utf8 valid_utf8_all_ascii max_depth_def)
  then show ?thesis
    by (simp add: unmarshal_def dec_node_keys_def node_keys_json_def field_named_def set_keys_field_def)
qed

lemma json_indent_nonempty [simp]: "json_indent ms \<noteq> []"
  by (simp add: json_indent_def laid_text_def)

lemma readNodeKeys_written:
  assumes "files d (path_clean H path) = Some (json_indent
      (node_keys_json \<lparr>nk_PrivKey = base64_encode priv, nk_PubKey = base64_encode pub\<rparr>))"
    and "script d = []" and "pub \<noteq> []" and "ec_parse (crypt H) priv = Inr (priv, ''P-256'')"
  shows "readNodeKeys H path d = (Inr (Some priv, base64_encode pub), d)"
  using assms
  by (simp add: readNodeKeys_def ReadFile_def next_op_def parsePrivKey_def node_keys_read TrimSpace_id
      base64_encode_trimmed base64_decode_encode)

text \<open>A pair created on a disk that works is the pair the next process finds.\<close>

lemma Ensure_next_process:
  assumes fresh: "files d (path_clean H (ks_path s)) = None" "ks_priv s = None" "script d = []"
    and gen: "ec_generate (crypt H) w = (Inr priv, w1)"
    and ok: "ec_public (crypt H) priv \<noteq> []" "ec_parse (crypt H) priv = Inr (priv, ''P-256'')"
    and t: "ks_path t = ks_path s" "ks_priv t = None"
  shows "\<exists>pub s' d' t'. Ensure H s d w = (Inr pub, s', d', w1) \<and> ks_priv s' = Some priv \<and>
    Ensure H t d' w2 = (Inr pub, t', d', w2) \<and> ks_priv t' = Some priv"
proof -
  let ?p = "path_clean H (ks_path s)" and ?pub = "base64_encode (ec_public (crypt H) priv)"
  let ?d = "d\<lparr>files := (files d)(?p \<mapsto>
    json_indent (node_keys_json \<lparr>nk_PrivKey = base64_encode priv, nk_PubKey = ?pub\<rparr>))\<rparr>"
  have r0: "readNodeKeys H (ks_path s) d = (Inl not_exist, d)"
    using fresh by (simp add: readNodeKeys_def ReadFile_def next_op_def)
  have "writeNodeKeys H (ks_path s) \<lparr>nk_PrivKey = base64_encode priv, nk_PubKey = ?pub\<rparr> d = (None, ?d)"
    using fresh by (simp add: writeNodeKeys_def WriteFile_def MkdirAll_def next_op_def)
  then have "Ensure H s d w = (Inr ?pub, s\<lparr>ks_priv := Some priv, ks_pub := ?pub\<rparr>, ?d, w1)"
    using fresh gen by (simp add: Ensure_def loadOrCreateNodeKeys_def r0 Let_def)
  moreover have "readNodeKeys H (ks_path s) ?d = (Inr (Some priv, ?pub), ?d)"
    using fresh ok by (intro readNodeKeys_written) simp_all
  then have "Ensure H t ?d w2 = (Inr ?pub, t\<lparr>ks_priv := Some priv, ks_pub := ?pub\<rparr>, ?d, w2)"
    using t ok by (simp add: Ensure_def loadOrCreateNodeKeys_def TrimSpace_id base64_encode_trimmed)
  ultimately show ?thesis by (intro exI conjI) (assumption | simp)+
qed

section \<open>The signed text determines the login\<close>

lemma nat_text_inj: "nat_text m = nat_text n \<longleftrightarrow> m = n"
  using digits_val_nat_text by metis

lemma uintToString_eq: "uintToString v = nat_text (unat v)"
  by (simp add: uintToString_def nat_text_0)

lemma digits_no_line_end: "list_all is_digit s \<Longrightarrow> CHR 0x0A \<notin> set s"
  by (auto simp: list_all_iff is_digit_def)

lemma Itoa_inj: "Itoa i = Itoa j \<longleftrightarrow> i = j"
proof
  assume eq: "Itoa i = Itoa j"
  have hd: "hd (nat_text n) \<noteq> CHR ''-''" for n
    using nat_text_digits [of n] is_digit_signs by (cases "nat_text n") (auto dest: is_digit_signs)
  then show "i = j"
    using eq hd [of "nat i"] hd [of "nat j"] by (auto simp: Itoa_def nat_text_inj split: if_splits) (metis list.sel(1))+
qed simp

lemma split_at_char:
  "x @ c # r = x' @ c # r' \<Longrightarrow> c \<notin> set x \<Longrightarrow> c \<notin> set x' \<Longrightarrow> x = x' \<and> r = r'"
proof (induction x arbitrary: x')
  case Nil
  then show ?case by (cases x') auto
next
  case (Cons a x)
  then show ?case by (cases x') auto
qed

lemma Itoa_no_line_end: "CHR 0x0A \<notin> set (Itoa i)"
  using Itoa_chars [of "CHR 0x0A" i] by (auto simp: is_digit_def)

lemma loginSignBytes_inj:
  assumes eq: "loginSignBytes dev n ts nonce = loginSignBytes dev' n' ts' nonce'"
    and dev: "CHR 0x0A \<notin> set (TrimSpace dev)" "CHR 0x0A \<notin> set (TrimSpace dev')"
  shows "TrimSpace dev = TrimSpace dev' \<and> n = n' \<and> ts = ts' \<and> TrimSpace nonce = TrimSpace nonce'"
proof -
  have n: "CHR 0x0A \<notin> set (uintToString m)" for m
    by (simp add: uintToString_eq digits_no_line_end nat_text_digits)
  have 1: "TrimSpace dev = TrimSpace dev' \<and>
      uintToString n @ CHR 0x0A # Itoa ts @ CHR 0x0A # TrimSpace nonce =
      uintToString n' @ CHR 0x0A # Itoa ts' @ CHR 0x0A # TrimSpace nonce'"
    using eq by (intro split_at_char [OF _ dev]) (simp add: loginSignBytes_def line_end_def)
  then have 2: "uintToString n = uintToString n' \<and>
      Itoa ts @ CHR 0x0A # TrimSpace nonce = Itoa ts' @ CHR 0x0A # TrimSpace nonce'"
    by (intro split_at_char [OF _ n n]) simp
  then have "Itoa ts = Itoa ts' \<and> TrimSpace nonce = TrimSpace nonce'"
    by (intro split_at_char [OF _ Itoa_no_line_end Itoa_no_line_end]) simp
  with 1 2 show ?thesis
    by (simp add: Itoa_inj uintToString_eq nat_text_inj word_unat_eq_iff)
qed

end
