(* ===== verification/RuntimeState.thy ===== *)
theory RuntimeState
  imports Config ConfigStore ControlQueue NotifyEvent Keys
begin

text \<open>
  The state of \<^verbatim>\<open>core/runtime/runtime.go\<close>, the operations on its saved identity
  (\<^verbatim>\<open>AuthSnapshot\<close>) and the SDK calls every component makes. An operation takes the
  host and the runtime and returns the runtime updated; the disk and the outside world are
  part of the runtime. Each operation runs without another goroutine in between, except
  where a theory says otherwise.
\<close>

section \<open>Data\<close>

record AuthSnapshot =
  DeviceID :: string
  NodeID :: u32
  HubID :: u32
  Role :: string
  LoggedIn :: bool
  LastAction :: string
  LastMessage :: string
  LastUnixTime :: int

record publishedVar =
  pv_Value :: string
  pv_Visibility :: string

text \<open>
  \<open>rt_client\<close>: the SDK client exists; \<open>rt_cfgGen\<close> counts the closed channels of
  \<^verbatim>\<open>signalConfigChanged\<close>; \<open>rt_reconnectCtx\<close> is the reconnect loop's context
  (\<^verbatim>\<open>Some True\<close> once cancelled); \<open>rt_reportRunning\<close> is \<^verbatim>\<open>reportCancel != nil\<close>;
  \<open>rt_sent\<close> records, for the proofs, every frame given to the SDK to send.
\<close>

record 'w runtime =
  rt_workDir :: string
  rt_client :: bool
  rt_addr :: string
  rt_connected :: bool
  rt_reconnectCtx :: "bool option"
  rt_reconnectRunning :: bool
  rt_reconnectDesired :: bool
  rt_auth :: AuthSnapshot
  rt_lastErr :: string
  rt_keys :: keyStore
  rt_cfgStore :: "store option"
  rt_cfg :: runtimeConfig
  rt_cfgGen :: nat
  rt_reportRunning :: bool
  rt_reportEnabled :: bool
  rt_lastMetrics :: "string \<rightharpoonup> string"
  rt_lastPublished :: "string \<rightharpoonup> publishedVar"
  rt_controlQ :: actionQueue
  rt_notifyRunning :: bool
  rt_notifyTopics :: "string set"
  rt_notifyQ :: "Event queue"
  rt_disk :: disk
  rt_world :: 'w
  rt_sent :: "(frameHdr \<times> string) list"

definition zero_auth :: AuthSnapshot where
  "zero_auth = \<lparr>DeviceID = [], NodeID = 0, HubID = 0, Role = [], LoggedIn = False, LastAction = [],
     LastMessage = [], LastUnixTime = 0\<rparr>"

section \<open>Small operations\<close>

definition signalConfigChanged :: "'w runtime \<Rightarrow> 'w runtime" where
  "signalConfigChanged r = r\<lparr>rt_cfgGen := Suc (rt_cfgGen r)\<rparr>"

definition storeLastError :: "'w host \<Rightarrow> go_error option \<Rightarrow> 'w runtime \<Rightarrow> 'w runtime" where
  "storeLastError H e r = r\<lparr>rt_lastErr := (case e of None \<Rightarrow> [] | Some x \<Rightarrow> error_text H x)\<rparr>"

text \<open>\<^verbatim>\<open>if err := ...; err != nil { r.storeLastError(err) }\<close>\<close>

definition note_error :: "'w host \<Rightarrow> go_error option \<times> 'w runtime \<Rightarrow> 'w runtime" where
  "note_error H res = (case res of (Some e, r) \<Rightarrow> storeLastError H (Some e) r | (None, r) \<Rightarrow> r)"

definition ensureClient :: "'w runtime \<Rightarrow> 'w runtime" where
  "ensureClient r = r\<lparr>rt_client := True\<rparr>"

definition EnsureKeys :: "'w host \<Rightarrow> 'w runtime \<Rightarrow> string result \<times> 'w runtime" where
  "EnsureKeys H r =
     (case Ensure H (rt_keys r) (rt_disk r) (rt_world r) of
        (res, ks, d, w) \<Rightarrow>
          let r' = r\<lparr>rt_keys := ks, rt_disk := d, rt_world := w\<rparr> in
          (res, case res of Inl e \<Rightarrow> storeLastError H (Some e) r' | Inr _ \<Rightarrow> r'))"

text \<open>\<open>logged_in\<close> is the guard that most operations on the hub start with.\<close>

definition logged_in :: "AuthSnapshot \<Rightarrow> bool" where
  "logged_in a \<longleftrightarrow> LoggedIn a \<and> NodeID a \<noteq> 0 \<and> HubID a \<noteq> 0"

definition toUIError :: "'w host \<Rightarrow> go_error \<Rightarrow> go_error" where
  "toUIError H err =
     (if err_root err = ErrDeadlineExceeded then ErrNew ''request timed out''
      else if err_root err = ErrCanceled then ErrNew ''request canceled''
      else let msg = ToLower H (TrimSpace (error_text H err)) in
        if str_contains ''session not initialized'' msg then ErrNew ''not connected''
        else if str_contains ''connection'' msg \<and> str_contains ''closed'' msg then ErrNew ''connection closed''
        else err)"

text \<open>A frame sent on the client, recorded in \<open>rt_sent\<close>.\<close>

definition Send :: "'w host \<Rightarrow> frameHdr \<Rightarrow> string \<Rightarrow> 'w runtime \<Rightarrow> go_error option \<times> 'w runtime" where
  "Send H hdr payload r =
     (let (e, w) = transmit H hdr payload (rt_world r) in
      (e, r\<lparr>rt_world := w, rt_sent := rt_sent r @ [(hdr, payload)]\<rparr>))"

definition sendAndAwait ::
  "'w host \<Rightarrow> u8 \<Rightarrow> u32 \<Rightarrow> u32 \<Rightarrow> string \<Rightarrow> string \<Rightarrow> 'w runtime \<Rightarrow> message result \<times> 'w runtime" where
  "sendAndAwait H sub src tgt payload expectAction r0 =
     (let r = ensureClient r0;
          hdr = \<lparr>hdr_Major = MajorCmd (proto H), hdr_SubProto = sub, hdr_SourceID = src,
                 hdr_TargetID = tgt, hdr_MsgID = 0, hdr_Timestamp = word_of_int (unix_sec H (rt_world r))\<rparr>;
          (res, w) = await_reply H hdr payload expectAction (rt_world r);
          r' = r\<lparr>rt_world := w, rt_sent := rt_sent r @ [(hdr, payload)]\<rparr>
      in case res of
           Inl e \<Rightarrow> (Inl (ErrWrap expectAction (toUIError H e)), r')
         | Inr m \<Rightarrow> (Inr m, r'))"

section \<open>The saved identity\<close>

definition authSnapshotPath :: "'w host \<Rightarrow> 'w runtime \<Rightarrow> string" where
  "authSnapshotPath H r = path_join H (rt_workDir r) ''auth_snapshot.json''"

text \<open>Members marked \<^verbatim>\<open>omitempty\<close> are left out when zero.\<close>

definition omit_empty :: "bool \<Rightarrow> string \<Rightarrow> json \<Rightarrow> (string \<times> json) list" where
  "omit_empty skip key v = (if skip then [] else [(key, v)])"

definition auth_json :: "AuthSnapshot \<Rightarrow> (string \<times> json) list" where
  "auth_json a =
     omit_empty (DeviceID a = []) ''device_id'' (JStr (DeviceID a)) @
     omit_empty (NodeID a = 0) ''node_id'' (JNum (nat_text (unat (NodeID a)))) @
     omit_empty (HubID a = 0) ''hub_id'' (JNum (nat_text (unat (HubID a)))) @
     omit_empty (Role a = []) ''role'' (JStr (Role a)) @
     [(''logged_in'', JBool (LoggedIn a))] @
     omit_empty (LastAction a = []) ''last_action'' (JStr (LastAction a)) @
     omit_empty (LastMessage a = []) ''last_message'' (JStr (LastMessage a)) @
     omit_empty (LastUnixTime a = 0) ''last_unix_time'' (JNum (Itoa (LastUnixTime a)))"

text \<open>Numbers into \<^verbatim>\<open>uint32\<close> and \<^verbatim>\<open>int64\<close>: decimal digits only, in range.\<close>

fun dec_uint32 :: "json \<Rightarrow> u32 \<Rightarrow> u32 option" where
  "dec_uint32 JNull old = Some old"
| "dec_uint32 (JNum n) old =
     (if list_all is_digit n \<and> digits_val n < 2 ^ 32 then Some (of_nat (digits_val n)) else None)"
| "dec_uint32 _ old = None"

fun dec_int64 :: "json \<Rightarrow> int \<Rightarrow> int option" where
  "dec_int64 JNull old = Some old"
| "dec_int64 (JNum n) old =
     (let neg = (n \<noteq> [] \<and> hd n = CHR ''-''); ds = (if neg then tl n else n); v = int (digits_val ds) in
      if list_all is_digit ds \<and> (if neg then v \<le> 2 ^ 63 else v < 2 ^ 63)
      then Some (if neg then - v else v) else None)"
| "dec_int64 _ old = None"

definition auth_fields :: "string list" where
  "auth_fields = [''device_id'', ''node_id'', ''hub_id'', ''role'', ''logged_in'', ''last_action'',
     ''last_message'', ''last_unix_time'']"

definition set_auth_field :: "string \<Rightarrow> json \<Rightarrow> AuthSnapshot \<Rightarrow> AuthSnapshot option" where
  "set_auth_field n v a =
     (if n = ''device_id'' then map_option (\<lambda>x. a\<lparr>DeviceID := x\<rparr>) (dec_string v (DeviceID a))
      else if n = ''node_id'' then map_option (\<lambda>x. a\<lparr>NodeID := x\<rparr>) (dec_uint32 v (NodeID a))
      else if n = ''hub_id'' then map_option (\<lambda>x. a\<lparr>HubID := x\<rparr>) (dec_uint32 v (HubID a))
      else if n = ''role'' then map_option (\<lambda>x. a\<lparr>Role := x\<rparr>) (dec_string v (Role a))
      else if n = ''logged_in'' then map_option (\<lambda>x. a\<lparr>LoggedIn := x\<rparr>) (dec_bool v (LoggedIn a))
      else if n = ''last_action'' then map_option (\<lambda>x. a\<lparr>LastAction := x\<rparr>) (dec_string v (LastAction a))
      else if n = ''last_message'' then map_option (\<lambda>x. a\<lparr>LastMessage := x\<rparr>) (dec_string v (LastMessage a))
      else map_option (\<lambda>x. a\<lparr>LastUnixTime := x\<rparr>) (dec_int64 v (LastUnixTime a)))"

definition dec_auth :: "json \<Rightarrow> AuthSnapshot option" where
  "dec_auth = dec_struct auth_fields set_auth_field zero_auth"

definition saveAuthSnapshot ::
  "'w host \<Rightarrow> AuthSnapshot \<Rightarrow> 'w runtime \<Rightarrow> go_error option \<times> 'w runtime" where
  "saveAuthSnapshot H st r =
     (let path = authSnapshotPath H r in
      if path = [] then (Some (ErrNew ''auth snapshot path invalid''), r)
      else let (e, d) = writeFileAtomic H path (json_indent (auth_json st)) (rt_disk r)
           in (e, r\<lparr>rt_disk := d\<rparr>))"

definition loadAuthSnapshot :: "'w host \<Rightarrow> 'w runtime \<Rightarrow> go_error option \<times> 'w runtime" where
  "loadAuthSnapshot H r0 =
     (let (data, d) = ReadFile (authSnapshotPath H r0) (rt_disk r0); r = r0\<lparr>rt_disk := d\<rparr> in
      case data of
        Inl (ErrNotExist _) \<Rightarrow> (None, r)
      | Inl e \<Rightarrow> (Some e, r)
      | Inr raw \<Rightarrow>
          (case unmarshal dec_auth raw of
             Inl e \<Rightarrow> (Some e, r)
           | Inr st \<Rightarrow>
               if LoggedIn st then
                 let st' = st\<lparr>LoggedIn := False, LastAction := ''load_auth_snapshot'',
                       LastMessage := ''loaded identity requires fresh login'',
                       LastUnixTime := unix_sec H (rt_world r)\<rparr>
                 in (None, (snd (saveAuthSnapshot H st' r))\<lparr>rt_auth := st'\<rparr>)
               else (None, r\<lparr>rt_auth := st\<rparr>)))"

definition ClearAuth :: "'w host \<Rightarrow> 'w runtime \<Rightarrow> go_error option \<times> 'w runtime" where
  "ClearAuth H r =
     (let (e, r') = saveAuthSnapshot H zero_auth (r\<lparr>rt_auth := zero_auth\<rparr>)
      in (e, note_error H (e, r')))"

definition setAuthSnapshot :: "'w host \<Rightarrow> string \<Rightarrow> string \<Rightarrow> RespData \<Rightarrow> 'w runtime \<Rightarrow> 'w runtime" where
  "setAuthSnapshot H action deviceID data r =
     r\<lparr>rt_auth := \<lparr>DeviceID = deviceID, NodeID = rd_NodeID data, HubID = rd_HubID data,
        Role = TrimSpace (rd_Role data), LoggedIn = True, LastAction = TrimSpace action,
        LastMessage = TrimSpace (rd_Msg data), LastUnixTime = unix_sec H (rt_world r)\<rparr>\<rparr>"

definition setAuthResult :: "'w host \<Rightarrow> bool \<Rightarrow> string \<Rightarrow> string \<Rightarrow> 'w runtime \<Rightarrow> 'w runtime" where
  "setAuthResult H ok action msg r =
     r\<lparr>rt_auth := (rt_auth r)\<lparr>LoggedIn := ok, LastAction := TrimSpace action,
        LastMessage := TrimSpace msg, LastUnixTime := unix_sec H (rt_world r)\<rparr>\<rparr>"

definition markSessionLoggedOut :: "'w host \<Rightarrow> string \<Rightarrow> string \<Rightarrow> 'w runtime \<Rightarrow> 'w runtime" where
  "markSessionLoggedOut H action0 msg r =
     (let action = (if TrimSpace action0 = [] then ''session_closed'' else TrimSpace action0);
          st = (rt_auth r)\<lparr>LoggedIn := False, LastAction := action, LastMessage := TrimSpace msg,
                 LastUnixTime := unix_sec H (rt_world r)\<rparr>
      in note_error H (saveAuthSnapshot H st (r\<lparr>rt_auth := st\<rparr>)))"

section \<open>What these operations leave alone\<close>

text \<open>Noting an error changes the last error and nothing else.\<close>

lemma note_error_eq: "note_error H x = (snd x)\<lparr>rt_lastErr := rt_lastErr (note_error H x)\<rparr>"
  by (auto simp: note_error_def storeLastError_def split: prod.split option.split)

lemma note_error_frame [simp, frame_simps]:
  "rt_workDir (note_error H x) = rt_workDir (snd x)" "rt_client (note_error H x) = rt_client (snd x)"
  "rt_addr (note_error H x) = rt_addr (snd x)" "rt_connected (note_error H x) = rt_connected (snd x)"
  "rt_reconnectCtx (note_error H x) = rt_reconnectCtx (snd x)"
  "rt_reconnectRunning (note_error H x) = rt_reconnectRunning (snd x)"
  "rt_reconnectDesired (note_error H x) = rt_reconnectDesired (snd x)"
  "rt_auth (note_error H x) = rt_auth (snd x)" "rt_keys (note_error H x) = rt_keys (snd x)"
  "rt_cfgStore (note_error H x) = rt_cfgStore (snd x)" "rt_cfg (note_error H x) = rt_cfg (snd x)"
  "rt_cfgGen (note_error H x) = rt_cfgGen (snd x)"
  "rt_reportRunning (note_error H x) = rt_reportRunning (snd x)"
  "rt_reportEnabled (note_error H x) = rt_reportEnabled (snd x)"
  "rt_lastMetrics (note_error H x) = rt_lastMetrics (snd x)"
  "rt_lastPublished (note_error H x) = rt_lastPublished (snd x)"
  "rt_controlQ (note_error H x) = rt_controlQ (snd x)"
  "rt_notifyRunning (note_error H x) = rt_notifyRunning (snd x)"
  "rt_notifyTopics (note_error H x) = rt_notifyTopics (snd x)"
  "rt_notifyQ (note_error H x) = rt_notifyQ (snd x)" "rt_disk (note_error H x) = rt_disk (snd x)"
  "rt_world (note_error H x) = rt_world (snd x)" "rt_sent (note_error H x) = rt_sent (snd x)"
  by (subst note_error_eq, simp)+

text \<open>Saving the identity touches the disk and nothing else.\<close>

lemma saveAuthSnapshot_frame [simp, frame_simps]:
  "rt_workDir (snd (saveAuthSnapshot H st r)) = rt_workDir r"
  "rt_client (snd (saveAuthSnapshot H st r)) = rt_client r"
  "rt_addr (snd (saveAuthSnapshot H st r)) = rt_addr r"
  "rt_connected (snd (saveAuthSnapshot H st r)) = rt_connected r"
  "rt_reconnectCtx (snd (saveAuthSnapshot H st r)) = rt_reconnectCtx r"
  "rt_reconnectRunning (snd (saveAuthSnapshot H st r)) = rt_reconnectRunning r"
  "rt_reconnectDesired (snd (saveAuthSnapshot H st r)) = rt_reconnectDesired r"
  "rt_auth (snd (saveAuthSnapshot H st r)) = rt_auth r"
  "rt_lastErr (snd (saveAuthSnapshot H st r)) = rt_lastErr r"
  "rt_keys (snd (saveAuthSnapshot H st r)) = rt_keys r"
  "rt_cfgStore (snd (saveAuthSnapshot H st r)) = rt_cfgStore r"
  "rt_cfg (snd (saveAuthSnapshot H st r)) = rt_cfg r"
  "rt_cfgGen (snd (saveAuthSnapshot H st r)) = rt_cfgGen r"
  "rt_reportRunning (snd (saveAuthSnapshot H st r)) = rt_reportRunning r"
  "rt_reportEnabled (snd (saveAuthSnapshot H st r)) = rt_reportEnabled r"
  "rt_lastMetrics (snd (saveAuthSnapshot H st r)) = rt_lastMetrics r"
  "rt_lastPublished (snd (saveAuthSnapshot H st r)) = rt_lastPublished r"
  "rt_controlQ (snd (saveAuthSnapshot H st r)) = rt_controlQ r"
  "rt_notifyRunning (snd (saveAuthSnapshot H st r)) = rt_notifyRunning r"
  "rt_notifyTopics (snd (saveAuthSnapshot H st r)) = rt_notifyTopics r"
  "rt_notifyQ (snd (saveAuthSnapshot H st r)) = rt_notifyQ r"
  "rt_world (snd (saveAuthSnapshot H st r)) = rt_world r"
  "rt_sent (snd (saveAuthSnapshot H st r)) = rt_sent r"
  by (simp_all add: saveAuthSnapshot_def Let_def case_prod_beta)

lemma markSessionLoggedOut_frame [simp, frame_simps]:
  "rt_workDir (markSessionLoggedOut H action msg r) = rt_workDir r"
  "rt_client (markSessionLoggedOut H action msg r) = rt_client r"
  "rt_addr (markSessionLoggedOut H action msg r) = rt_addr r"
  "rt_connected (markSessionLoggedOut H action msg r) = rt_connected r"
  "rt_reconnectCtx (markSessionLoggedOut H action msg r) = rt_reconnectCtx r"
  "rt_reconnectRunning (markSessionLoggedOut H action msg r) = rt_reconnectRunning r"
  "rt_reconnectDesired (markSessionLoggedOut H action msg r) = rt_reconnectDesired r"
  "rt_keys (markSessionLoggedOut H action msg r) = rt_keys r"
  "rt_cfgStore (markSessionLoggedOut H action msg r) = rt_cfgStore r"
  "rt_cfg (markSessionLoggedOut H action msg r) = rt_cfg r"
  "rt_cfgGen (markSessionLoggedOut H action msg r) = rt_cfgGen r"
  "rt_reportRunning (markSessionLoggedOut H action msg r) = rt_reportRunning r"
  "rt_reportEnabled (markSessionLoggedOut H action msg r) = rt_reportEnabled r"
  "rt_lastMetrics (markSessionLoggedOut H action msg r) = rt_lastMetrics r"
  "rt_lastPublished (markSessionLoggedOut H action msg r) = rt_lastPublished r"
  "rt_controlQ (markSessionLoggedOut H action msg r) = rt_controlQ r"
  "rt_notifyRunning (markSessionLoggedOut H action msg r) = rt_notifyRunning r"
  "rt_notifyTopics (markSessionLoggedOut H action msg r) = rt_notifyTopics r"
  "rt_notifyQ (markSessionLoggedOut H action msg r) = rt_notifyQ r"
  "rt_world (markSessionLoggedOut H action msg r) = rt_world r"
  "rt_sent (markSessionLoggedOut H action msg r) = rt_sent r"
  by (simp_all add: markSessionLoggedOut_def Let_def)

lemma markSessionLoggedOut_auth:
  "rt_auth (markSessionLoggedOut H action msg r) = (rt_auth r)\<lparr>LoggedIn := False,
     LastAction := (if TrimSpace action = [] then ''session_closed'' else TrimSpace action),
     LastMessage := TrimSpace msg, LastUnixTime := unix_sec H (rt_world r)\<rparr>"
  by (cases "TrimSpace action = []") (simp_all add: markSessionLoggedOut_def Let_def)

section \<open>The saved identity is read back\<close>

lemma dec_members_append:
  "dec_members names setf (xs @ ys) acc =
     (case dec_members names setf xs acc of None \<Rightarrow> None | Some a \<Rightarrow> dec_members names setf ys a)"
  by (induction names setf xs acc rule: dec_members.induct) (simp_all split: option.split)

lemma dec_members_omit_empty:
  "key \<in> set names \<Longrightarrow> dec_members names setf (omit_empty skip key v) acc = (if skip then Some acc else setf key v acc)"
  by (simp add: omit_empty_def field_named_def split: option.split)

lemma dec_uint32_text [simp]: "dec_uint32 (JNum (nat_text (unat n))) old = Some n"
  using unsigned_less [of n, where ?'a = nat] by (simp add: nat_text_digits digits_val_nat_text)

lemma dec_int64_text: "- (2 ^ 63) \<le> i \<Longrightarrow> i < 2 ^ 63 \<Longrightarrow> dec_int64 (JNum (Itoa i)) old = Some i"
proof (cases "i < 0")
  case False
  have "hd (nat_text (nat i)) \<noteq> CHR ''-''"
    using nat_text_digits [of "nat i"] is_digit_signs by (cases "nat_text (nat i)") auto
  with False show "i < 2 ^ 63 \<Longrightarrow> dec_int64 (JNum (Itoa i)) old = Some i"
    by (simp add: Itoa_def Let_def nat_text_digits digits_val_nat_text)
qed (simp add: Itoa_def Let_def nat_text_digits digits_val_nat_text)

definition snapshot_ok :: "AuthSnapshot \<Rightarrow> bool" where
  "snapshot_ok a \<longleftrightarrow> valid_utf8 (DeviceID a) \<and> valid_utf8 (Role a) \<and> valid_utf8 (LastAction a) \<and>
     valid_utf8 (LastMessage a) \<and> - (2 ^ 63) \<le> LastUnixTime a \<and> LastUnixTime a < 2 ^ 63"

lemma dec_auth_json:
  assumes "snapshot_ok a" shows "dec_auth (JObj (auth_json a)) = Some a"
  using assms
  by (cases a) (simp add: dec_auth_def auth_json_def dec_members_append dec_members_omit_empty auth_fields_def
      set_auth_field_def zero_auth_def snapshot_ok_def field_named_def dec_int64_text
      del: dec_uint32.simps dec_int64.simps)

lemma auth_json_parse:
  assumes "snapshot_ok a" shows "unmarshal dec_auth (json_indent (auth_json a)) = Inr a"
proof -
  have "json_ok (JObj (auth_json a))"
    using assms by (auto simp: auth_json_def omit_empty_def snapshot_ok_def valid_utf8_all_ascii)
  moreover have "json_depth (JObj (auth_json a)) \<le> max_depth"
    by (auto simp: auth_json_def omit_empty_def max_depth_def)
  ultimately show ?thesis
    by (simp add: unmarshal_def json_parse_indent dec_auth_json [OF assms])
qed

text \<open>
  A snapshot that was saved on a disk that works is the identity the next start loads, no
  longer logged in.
\<close>

lemma snapshot_restart:
  assumes s: "saveAuthSnapshot H st r = (None, r1)" and ok: "snapshot_ok st" and d: "script (rt_disk r1) = []"
    and c: "path_clean H (authSnapshotPath H r) = authSnapshotPath H r"
    and q: "rt_workDir q = rt_workDir r" "rt_disk q = rt_disk r1"
  shows "fst (loadAuthSnapshot H q) = None \<and>
    (if LoggedIn st then \<not> LoggedIn (rt_auth (snd (loadAuthSnapshot H q))) \<and>
       DeviceID (rt_auth (snd (loadAuthSnapshot H q))) = DeviceID st \<and>
       NodeID (rt_auth (snd (loadAuthSnapshot H q))) = NodeID st \<and>
       HubID (rt_auth (snd (loadAuthSnapshot H q))) = HubID st \<and>
       Role (rt_auth (snd (loadAuthSnapshot H q))) = Role st
     else rt_auth (snd (loadAuthSnapshot H q)) = st)"
proof -
  let ?p = "authSnapshotPath H r"
  have p: "?p \<noteq> []" using s by (auto simp: saveAuthSnapshot_def)
  obtain d1 where w: "writeFileAtomic H ?p (json_indent (auth_json st)) (rt_disk r) = (None, d1)" "rt_disk r1 = d1"
    using s p by (auto simp: saveAuthSnapshot_def Let_def split: prod.splits)
  have "replace_file ?p (json_indent (auth_json st)) (rt_disk r) = (None, d1)"
    using w(1) by (simp add: writeFileAtomic_def c)
  from replace_file_cases [OF this] have "files d1 ?p = Some (json_indent (auth_json st))" by simp
  then have "ReadFile (authSnapshotPath H q) (rt_disk q) = (Inr (json_indent (auth_json st)), rt_disk q)"
    using d q w(2) by (simp add: ReadFile_def next_op_def authSnapshotPath_def)
  then show ?thesis
    by (simp add: loadAuthSnapshot_def auth_json_parse [OF ok] Let_def)
qed

end
