(* ===== verification/Reporting.thy ===== *)
theory Reporting
  imports RuntimeState
begin

text \<open>
  Publishing metric values (\<^verbatim>\<open>core/runtime/runtime.go\<close>,
  \<^verbatim>\<open>core/runtime/config.go\<close>, \<^verbatim>\<open>core/varstore/varstore.go\<close>): a collector's
  value is remembered, transformed and sent to the hub's variable store once per change.
\<close>

section \<open>The code\<close>

definition VarClient_Set ::
  "'w host \<Rightarrow> u32 \<Rightarrow> u32 \<Rightarrow> SetReq \<Rightarrow> 'w runtime \<Rightarrow> go_error option \<times> 'w runtime" where
  "VarClient_Set H sourceID targetID req0 r =
     (let req = req0\<lparr>sr_Name := TrimSpace (sr_Name req0), sr_Value := TrimSpace (sr_Value req0),
            sr_Visibility := TrimSpace (sr_Visibility req0)\<rparr> in
      if \<not> ValidVarName (sr_Name req) then (Some (ErrQ ''invalid var name'' (sr_Name req)), r)
      else if sr_Value req = [] then (Some (ErrNew ''value is required''), r)
      else
        let req' = (if sr_Visibility req = [] then req\<lparr>sr_Visibility := VisibilityPublic\<rparr> else req) in
        case encode_message H (ActionSet (proto H)) (MsgSet req') of
          Inl e \<Rightarrow> (Some e, r)
        | Inr payload \<Rightarrow>
            Send H \<lparr>hdr_Major = MajorCmd (proto H), hdr_SubProto = SubProtoVarStore (proto H),
                hdr_SourceID = sourceID, hdr_TargetID = targetID,
                hdr_MsgID = word_of_int (unix_nano H (rt_world r)),
                hdr_Timestamp = word_of_int (unix_sec H (rt_world r))\<rparr> payload r)"

definition publishVar ::
  "'w host \<Rightarrow> u32 \<Rightarrow> u32 \<Rightarrow> string \<Rightarrow> string \<Rightarrow> string \<Rightarrow> 'w runtime \<Rightarrow> 'w runtime" where
  "publishVar H sourceID targetID varName0 value0 visibility0 r =
     (let varName = TrimSpace varName0; val = TrimSpace value0;
          vis0 = ToLower H (TrimSpace visibility0) in
      if varName = [] \<or> val = [] then r
      else
        let vis = (if vis0 = [] then VisibilityPublic else vis0) in
        if \<not> ValidVarName varName then r
        else if rt_lastPublished r varName = Some \<lparr>pv_Value = val, pv_Visibility = vis\<rparr> then r
        else
          let r1 = ensureClient (r\<lparr>rt_lastPublished :=
                (rt_lastPublished r)(varName \<mapsto> \<lparr>pv_Value = val, pv_Visibility = vis\<rparr>)\<rparr>)
          in note_error H (VarClient_Set H sourceID targetID
               \<lparr>sr_Name = varName, sr_Value = val, sr_Visibility = vis, sr_Type = ''string'',
                sr_Owner = sourceID\<rparr> r1))"

definition handleMetricUpdate :: "'w host \<Rightarrow> string \<Rightarrow> string \<Rightarrow> 'w runtime \<Rightarrow> 'w runtime" where
  "handleMetricUpdate H metric0 value0 r =
     (let metric = TrimSpace metric0; rawValue = TrimSpace value0; auth = rt_auth r in
      if metric = [] \<or> rawValue = [] then r
      else if \<not> rt_reportEnabled r then r
      else if \<not> logged_in auth then r
      else
        let r1 = r\<lparr>rt_lastMetrics := (rt_lastMetrics r)(metric \<mapsto> rawValue)\<rparr>; cfg = rt_cfg r1 in
        if cfg_Bindings cfg = [] then r1
        else
          let visibility = (if TrimSpace (VisibilityDefault cfg) = [] then VisibilityPublic
                            else TrimSpace (VisibilityDefault cfg));
              publishValue = transformMetricValue metric rawValue cfg
          in if publishValue = [] then r1
             else foldl (\<lambda>r b. publishVar H (NodeID auth) (HubID auth) (b_VarName b) publishValue visibility r)
                    r1 (filter (\<lambda>b. b_Metric b = metric) (cfg_Bindings cfg)))"

definition UpdateMetric :: "'w host \<Rightarrow> string \<Rightarrow> string \<Rightarrow> 'w runtime \<Rightarrow> 'w runtime" where
  "UpdateMetric H metric val r = handleMetricUpdate H (TrimSpace metric) (TrimSpace val) r"

definition republish_binding ::
  "'w host \<Rightarrow> AuthSnapshot \<Rightarrow> runtimeConfig \<Rightarrow> (string \<rightharpoonup> string) \<Rightarrow> Binding \<Rightarrow> 'w runtime \<Rightarrow> 'w runtime" where
  "republish_binding H auth cfg rawMetrics b r =
     (case rawMetrics (b_Metric b) of
        None \<Rightarrow> r
      | Some raw \<Rightarrow>
          if TrimSpace raw = [] then r
          else publishVar H (NodeID auth) (HubID auth) (b_VarName b)
                 (transformMetricValue (b_Metric b) raw cfg) (VisibilityDefault cfg) r)"

definition republishFromConfig :: "'w host \<Rightarrow> 'w runtime \<Rightarrow> 'w runtime" where
  "republishFromConfig H r =
     (if \<not> rt_reportEnabled r then r
      else if \<not> logged_in (rt_auth r) then r
      else foldl (\<lambda>s b. republish_binding H (rt_auth r) (rt_cfg r) (rt_lastMetrics r) b s)
             r (cfg_Bindings (rt_cfg r)))"

definition forceRepublishFromConfig :: "'w host \<Rightarrow> 'w runtime \<Rightarrow> 'w runtime" where
  "forceRepublishFromConfig H r =
     (if \<not> rt_reportEnabled r then r
      else republishFromConfig H (r\<lparr>rt_lastPublished := Map.empty\<rparr>))"

text \<open>
  \<^verbatim>\<open>StartReporting\<close> starts the collectors and the control worker, which are goroutines
  of their own; \<open>rt_reportRunning\<close> stands for the context they share.
\<close>

definition StartReporting :: "'w runtime \<Rightarrow> go_error option \<times> 'w runtime" where
  "StartReporting r =
     (if \<not> logged_in (rt_auth r) then (Some (ErrNew ''login required''), r)
      else if rt_reportRunning r then (None, r)
      else (None, r\<lparr>rt_reportRunning := True, rt_reportEnabled := True\<rparr>))"

definition collector_enabled :: "string \<Rightarrow> 'w runtime \<Rightarrow> bool" where
  "collector_enabled metric r =
     (TrimSpace metric \<noteq> [] \<and> EnabledByMetric (rt_cfg r) (TrimSpace metric) = Some True)"

definition StopReporting :: "'w runtime \<Rightarrow> 'w runtime" where
  "StopReporting r = r\<lparr>rt_reportRunning := False, rt_reportEnabled := False\<rparr>"

section \<open>What publishing leaves alone\<close>

text \<open>
  Publishing may change the world, the sent frames, the client, the last error and
  \<open>rt_lastPublished\<close>; \<open>publish_kept\<close> is the rest of the state.
\<close>

definition publish_kept where
  "publish_kept r = ((rt_workDir r, rt_addr r, rt_connected r, rt_reconnectCtx r, rt_reconnectRunning r,
     rt_reconnectDesired r, rt_auth r, rt_keys r, rt_cfgStore r, rt_cfg r), rt_cfgGen r, rt_reportRunning r,
     rt_reportEnabled r, rt_lastMetrics r, rt_controlQ r, rt_notifyRunning r, rt_notifyTopics r,
     rt_notifyQ r, rt_disk r)"

lemma publish_kept_simps [simp]:
  "publish_kept (storeLastError H e r) = publish_kept r"
  "publish_kept (note_error H x) = publish_kept (snd x)"
  "publish_kept (ensureClient r) = publish_kept r"
  "publish_kept (r\<lparr>rt_lastPublished := p\<rparr>) = publish_kept r"
  "publish_kept (r\<lparr>rt_world := w, rt_sent := s\<rparr>) = publish_kept r"
  by (simp_all add: publish_kept_def storeLastError_def ensureClient_def)

lemma Send_kept: "publish_kept (snd (Send H hdr p r)) = publish_kept r"
  by (simp add: Send_def case_prod_beta)

lemma VarClient_Set_kept: "publish_kept (snd (VarClient_Set H s t req r)) = publish_kept r"
  by (simp add: VarClient_Set_def Let_def Send_kept split: sum.split)

lemma publishVar_kept [frame_simps]: "publish_kept (publishVar H s t n v vis r) = publish_kept r"
  by (simp add: publishVar_def Let_def VarClient_Set_kept)

lemma foldl_kept: "(\<And>r x. publish_kept (f r x) = publish_kept r) \<Longrightarrow> publish_kept (foldl f r xs) = publish_kept r"
  by (induction xs arbitrary: r) simp_all

lemma republish_kept [frame_simps]: "publish_kept (republishFromConfig H r) = publish_kept r"
  unfolding republishFromConfig_def republish_binding_def
  by (auto intro!: foldl_kept simp: publishVar_kept split: option.split)

section \<open>When a value is sent\<close>

text \<open>The variable names and values of the set requests a list of frames carries are read off
  \<open>rt_sent\<close>; \<open>sent_since\<close> is what an operation added.\<close>

definition sent_since :: "'w runtime \<Rightarrow> 'w runtime \<Rightarrow> (frameHdr \<times> string) list" where
  "sent_since r r' = drop (length (rt_sent r)) (rt_sent r')"

lemma publishVar_published:
  assumes "ValidVarName (TrimSpace n)" and "TrimSpace v \<noteq> []"
  shows "rt_lastPublished (publishVar H s t n v vis r) = (rt_lastPublished r)(TrimSpace n \<mapsto>
    \<lparr>pv_Value = TrimSpace v,
     pv_Visibility = (if ToLower H (TrimSpace vis) = [] then VisibilityPublic else ToLower H (TrimSpace vis))\<rparr>)"
proof -
  have set: "rt_lastPublished (snd (VarClient_Set H s t req q)) = rt_lastPublished q" for req q
    by (simp add: VarClient_Set_def Let_def Send_def case_prod_beta split: sum.split)
  then show ?thesis
    using assms by (auto simp: publishVar_def Let_def ensureClient_def fun_upd_idem)
qed

lemma publishVar_invalid:
  "\<not> ValidVarName (TrimSpace n) \<or> TrimSpace v = [] \<Longrightarrow> publishVar H s t n v vis r = r"
  by (auto simp: publishVar_def Let_def)

text \<open>Publishing the same value again does nothing.\<close>

lemma publishVar_again:
  "publishVar H s t n v vis (publishVar H s t n v vis r) = publishVar H s t n v vis r"
proof (cases "ValidVarName (TrimSpace n) \<and> TrimSpace v \<noteq> []")
  case True
  then show ?thesis
    by (subst publishVar_def) (simp add: Let_def publishVar_published)
qed (simp add: publishVar_invalid)

text \<open>The frame a publication sends, if any: a set request from \<open>s\<close> to \<open>t\<close>.\<close>

definition set_frame :: "'w host \<Rightarrow> u32 \<Rightarrow> u32 \<Rightarrow> string \<Rightarrow> string \<Rightarrow> frameHdr \<times> string \<Rightarrow> bool" where
  "set_frame H s t n v f \<longleftrightarrow> hdr_SubProto (fst f) = SubProtoVarStore (proto H) \<and>
     hdr_SourceID (fst f) = s \<and> hdr_TargetID (fst f) = t \<and>
     (\<exists>vis. encode_message H (ActionSet (proto H)) (MsgSet \<lparr>sr_Name = n, sr_Value = v,
        sr_Visibility = vis, sr_Type = ''string'', sr_Owner = s\<rparr>) = Inr (snd f))"

lemma VarClient_Set_sent:
  assumes "VarClient_Set H s t \<lparr>sr_Name = n, sr_Value = v, sr_Visibility = vis, sr_Type = ''string'',
    sr_Owner = s\<rparr> q = (e, q')" and "trimmed n" and "trimmed v"
  shows "rt_sent q' = rt_sent q \<or> (\<exists>f. rt_sent q' = rt_sent q @ [f] \<and> set_frame H s t n v f)"
  using assms by (auto simp: VarClient_Set_def Send_def Let_def TrimSpace_id set_frame_def case_prod_beta
      split: if_splits sum.splits)

lemma publishVar_sent:
  "rt_sent (publishVar H s t n v vis r) = rt_sent r \<or>
   (\<exists>f. rt_sent (publishVar H s t n v vis r) = rt_sent r @ [f] \<and>
      set_frame H s t (TrimSpace n) (TrimSpace v) f \<and> ValidVarName (TrimSpace n))"
proof -
  have "rt_sent (snd (VarClient_Set H s t \<lparr>sr_Name = TrimSpace n, sr_Value = TrimSpace v,
      sr_Visibility = u, sr_Type = ''string'', sr_Owner = s\<rparr> q)) = rt_sent q \<or>
      (\<exists>f. rt_sent (snd (VarClient_Set H s t \<lparr>sr_Name = TrimSpace n, sr_Value = TrimSpace v,
      sr_Visibility = u, sr_Type = ''string'', sr_Owner = s\<rparr> q)) = rt_sent q @ [f] \<and>
        set_frame H s t (TrimSpace n) (TrimSpace v) f)" for u q
    by (rule VarClient_Set_sent [OF surjective_pairing]) simp_all
  note this [of _ "ensureClient (r\<lparr>rt_lastPublished := p\<rparr>)" for p]
  then show ?thesis by (auto simp: publishVar_def Let_def ensureClient_def)
qed

text \<open>Folding publications: what was sent satisfies whatever each publication guarantees.\<close>

lemma foldl_sent:
  assumes "\<And>r x. x \<in> set xs \<Longrightarrow> rt_sent (f r x) = rt_sent r \<or> (\<exists>m. rt_sent (f r x) = rt_sent r @ [m] \<and> P x m)"
  shows "\<exists>ms. rt_sent (foldl f r xs) = rt_sent r @ ms \<and> (\<forall>m\<in>set ms. \<exists>x\<in>set xs. P x m)"
  using assms
proof (induction xs arbitrary: r)
  case (Cons x xs)
  obtain ms where ms: "rt_sent (foldl f (f r x) xs) = rt_sent (f r x) @ ms" "\<forall>m\<in>set ms. \<exists>x\<in>set xs. P x m"
    using Cons.IH [of "f r x"] Cons.prems by fastforce
  have "rt_sent (f r x) = rt_sent r \<or> (\<exists>m. rt_sent (f r x) = rt_sent r @ [m] \<and> P x m)"
    using Cons.prems [of x r] by simp
  then show ?case
  proof (elim disjE exE conjE)
    fix m assume "rt_sent (f r x) = rt_sent r @ [m]" "P x m"
    with ms show ?case by (intro exI [of _ "m # ms"]) auto
  qed (use ms in auto)
qed simp

text \<open>Publishing one value to many variables settles: doing it again changes nothing.\<close>

lemma foldl_publish_published:
  assumes "TrimSpace v \<noteq> []"
  shows "rt_lastPublished (foldl (\<lambda>r b. publishVar H s t (b_VarName b) v vis r) r bs) k =
    (if ValidVarName k \<and> k \<in> (\<lambda>b. TrimSpace (b_VarName b)) ` set bs
     then Some \<lparr>pv_Value = TrimSpace v,
       pv_Visibility = (if ToLower H (TrimSpace vis) = [] then VisibilityPublic else ToLower H (TrimSpace vis))\<rparr>
     else rt_lastPublished r k)"
proof (induction bs arbitrary: r)
  case (Cons b bs)
  show ?case
  proof (cases "ValidVarName (TrimSpace (b_VarName b))")
    case True
    then show ?thesis using assms by (auto simp: Cons.IH publishVar_published)
  next
    case False
    then show ?thesis by (auto simp: Cons.IH publishVar_invalid)
  qed
qed simp

lemma publishVar_settled:
  "rt_lastPublished r (TrimSpace n) = Some \<lparr>pv_Value = TrimSpace v,
     pv_Visibility = (if ToLower H (TrimSpace vis) = [] then VisibilityPublic else ToLower H (TrimSpace vis))\<rparr> \<Longrightarrow>
   publishVar H s t n v vis r = r"
  by (simp add: publishVar_def Let_def)

lemma foldl_publish_settled:
  assumes "\<And>b. b \<in> set bs \<Longrightarrow> publishVar H s t (b_VarName b) v vis r = r"
  shows "foldl (\<lambda>r b. publishVar H s t (b_VarName b) v vis r) r bs = r"
  using assms by (induction bs) simp_all

lemma foldl_publish_again:
  assumes v: "TrimSpace v \<noteq> []"
  shows "foldl (\<lambda>r b. publishVar H s t (b_VarName b) v vis r)
      (foldl (\<lambda>r b. publishVar H s t (b_VarName b) v vis r) r bs) bs =
    foldl (\<lambda>r b. publishVar H s t (b_VarName b) v vis r) r bs"
proof (rule foldl_publish_settled)
  fix b assume b: "b \<in> set bs"
  let ?r = "foldl (\<lambda>r b. publishVar H s t (b_VarName b) v vis r) r bs"
  show "publishVar H s t (b_VarName b) v vis ?r = ?r"
  proof (cases "ValidVarName (TrimSpace (b_VarName b))")
    case True
    with b v show ?thesis by (intro publishVar_settled) (simp add: foldl_publish_published)
  qed (simp add: publishVar_invalid)
qed

section \<open>Metric updates\<close>

abbreviation reporting :: "'w runtime \<Rightarrow> bool" where
  "reporting r \<equiv> rt_reportEnabled r \<and> logged_in (rt_auth r)"

text \<open>The bindings of one metric, and the value and visibility an update publishes.\<close>

definition bound_to :: "string \<Rightarrow> 'w runtime \<Rightarrow> Binding list" where
  "bound_to m r = filter (\<lambda>b. b_Metric b = m) (cfg_Bindings (rt_cfg r))"

definition update_visibility :: "'w runtime \<Rightarrow> string" where
  "update_visibility r =
     (if TrimSpace (VisibilityDefault (rt_cfg r)) = [] then VisibilityPublic
      else TrimSpace (VisibilityDefault (rt_cfg r)))"

definition remember :: "string \<Rightarrow> string \<Rightarrow> 'w runtime \<Rightarrow> 'w runtime" where
  "remember m v r = r\<lparr>rt_lastMetrics := (rt_lastMetrics r)(m \<mapsto> v)\<rparr>"

lemma handleMetricUpdate_eq:
  "handleMetricUpdate H m v r =
     (if TrimSpace m = [] \<or> TrimSpace v = [] \<or> \<not> reporting r then r
      else foldl (\<lambda>s b. publishVar H (NodeID (rt_auth r)) (HubID (rt_auth r)) (b_VarName b)
             (transformMetricValue (TrimSpace m) (TrimSpace v) (rt_cfg r)) (update_visibility r) s)
           (remember (TrimSpace m) (TrimSpace v) r) (bound_to (TrimSpace m) r))"
  by (simp add: handleMetricUpdate_def Let_def bound_to_def update_visibility_def remember_def
      transformMetricValue_empty)

lemma publish_kept_fields:
  "publish_kept r' = publish_kept r \<Longrightarrow> rt_auth r' = rt_auth r \<and> rt_cfg r' = rt_cfg r \<and>
     rt_reportEnabled r' = rt_reportEnabled r \<and> rt_lastMetrics r' = rt_lastMetrics r \<and>
     rt_controlQ r' = rt_controlQ r \<and> rt_disk r' = rt_disk r \<and> rt_cfgStore r' = rt_cfgStore r"
  by (simp add: publish_kept_def)

lemma foldl_publish_kept:
  "publish_kept (foldl (\<lambda>s b. publishVar H sid tid (b_VarName b) v vis s) r bs) = publish_kept r"
  by (rule foldl_kept) (rule publishVar_kept)

text \<open>The same value twice is sent once: the second update changes nothing at all.\<close>

lemma handleMetricUpdate_again:
  "handleMetricUpdate H m v (handleMetricUpdate H m v r) = handleMetricUpdate H m v r"
proof (cases "TrimSpace m = [] \<or> TrimSpace v = [] \<or> \<not> reporting r")
  case True
  then show ?thesis by (simp add: handleMetricUpdate_eq)
next
  case False
  let ?m = "TrimSpace m" and ?v = "TrimSpace v"
  let ?w = "transformMetricValue ?m ?v (rt_cfg r)"
  define f where "f = (\<lambda>s (b::Binding). publishVar H (NodeID (rt_auth r)) (HubID (rt_auth r)) (b_VarName b) ?w
    (update_visibility r) s)"
  define r' where "r' = foldl f (remember ?m ?v r) (bound_to ?m r)"
  have once: "handleMetricUpdate H m v r = r'"
    using False by (simp add: handleMetricUpdate_eq f_def r'_def)
  have k: "publish_kept r' = publish_kept (remember ?m ?v r)"
    unfolding r'_def f_def by (rule foldl_publish_kept)
  from publish_kept_fields [OF k] have same: "rt_auth r' = rt_auth r" "rt_cfg r' = rt_cfg r"
      "rt_reportEnabled r' = rt_reportEnabled r" "remember ?m ?v r' = r'"
    by (simp_all add: remember_def)
  have "?w \<noteq> []" using False by (simp add: transformMetricValue_empty)
  moreover have "TrimSpace ?w = ?w" using transformMetricValue_trimmed by (rule TrimSpace_id)
  ultimately have "foldl f r' (bound_to ?m r) = r'"
    unfolding r'_def f_def by (intro foldl_publish_again) simp
  moreover have "handleMetricUpdate H m v r' = foldl f r' (bound_to ?m r)"
    using False same by (simp add: handleMetricUpdate_eq f_def bound_to_def update_visibility_def)
  ultimately show ?thesis by (simp add: once)
qed

text \<open>What an update sends: set requests for variables bound to the metric, with its value.\<close>

lemma handleMetricUpdate_sent:
  "\<exists>ms. rt_sent (handleMetricUpdate H m v r) = rt_sent r @ ms \<and>
     (ms \<noteq> [] \<longrightarrow> reporting r) \<and>
     (\<forall>f\<in>set ms. \<exists>b\<in>set (cfg_Bindings (rt_cfg r)). b_Metric b = TrimSpace m \<and> ValidVarName (TrimSpace (b_VarName b)) \<and>
        set_frame H (NodeID (rt_auth r)) (HubID (rt_auth r)) (TrimSpace (b_VarName b))
          (transformMetricValue (TrimSpace m) (TrimSpace v) (rt_cfg r)) f)"
proof (cases "TrimSpace m = [] \<or> TrimSpace v = [] \<or> \<not> reporting r")
  case False
  let ?w = "transformMetricValue (TrimSpace m) (TrimSpace v) (rt_cfg r)"
  have w: "TrimSpace ?w = ?w" using transformMetricValue_trimmed by (rule TrimSpace_id)
  let ?P = "\<lambda>b f. set_frame H (NodeID (rt_auth r)) (HubID (rt_auth r)) (TrimSpace (b_VarName b)) ?w f \<and>
    ValidVarName (TrimSpace (b_VarName b))"
  have "\<exists>ms. rt_sent (foldl (\<lambda>s b. publishVar H (NodeID (rt_auth r)) (HubID (rt_auth r)) (b_VarName b) ?w
      (update_visibility r) s) (remember (TrimSpace m) (TrimSpace v) r) (bound_to (TrimSpace m) r)) =
      rt_sent (remember (TrimSpace m) (TrimSpace v) r) @ ms \<and>
      (\<forall>f\<in>set ms. \<exists>b\<in>set (bound_to (TrimSpace m) r). ?P b f)"
    by (rule foldl_sent) (rule publishVar_sent [of _ _ _ _ ?w, unfolded w])
  then obtain ms where "rt_sent (handleMetricUpdate H m v r) = rt_sent r @ ms"
    "\<forall>f\<in>set ms. \<exists>b\<in>set (bound_to (TrimSpace m) r). ?P b f"
    using False by (auto simp: handleMetricUpdate_eq remember_def)
  then show ?thesis using False by (intro exI [of _ ms]) (fastforce simp: bound_to_def)
qed (simp add: handleMetricUpdate_eq)

lemma handleMetricUpdate_shadow:
  assumes "reporting r" and "TrimSpace m \<noteq> []" and "TrimSpace v \<noteq> []"
    and "b \<in> set (cfg_Bindings (rt_cfg r))" and "b_Metric b = TrimSpace m" and "ValidVarName (b_VarName b)"
  shows "map_option pv_Value (rt_lastPublished (handleMetricUpdate H m v r) (b_VarName b)) =
    Some (transformMetricValue (TrimSpace m) (TrimSpace v) (rt_cfg r))"
proof -
  let ?w = "transformMetricValue (TrimSpace m) (TrimSpace v) (rt_cfg r)"
  have w: "TrimSpace ?w = ?w" "?w \<noteq> []"
    using assms(3) by (simp_all add: TrimSpace_id transformMetricValue_trimmed transformMetricValue_empty)
  have "TrimSpace (b_VarName b) = b_VarName b" using assms(6) by (simp add: TrimSpace_id ValidVarName_trimmed)
  then have "b_VarName b \<in> (\<lambda>b. TrimSpace (b_VarName b)) ` set (bound_to (TrimSpace m) r)"
    using assms(4,5) by (force simp: bound_to_def)
  then show ?thesis
    using assms w by (simp add: handleMetricUpdate_eq foldl_publish_published)
qed

end
