(* ===== verification/NotifyRuntime.thy ===== *)
theory NotifyRuntime
  imports Reporting
begin

text \<open>
  \<^verbatim>\<open>core/runtime/notify.go\<close> without the configuration's setter: subscribing to the
  enabled topics, starting and stopping the listener, and queueing the events of topics
  that are enabled.
\<close>

section \<open>The code\<close>

definition NotifySettingsGet :: "'w runtime \<Rightarrow> TopicSetting list" where
  "NotifySettingsGet r = cfg_NotifySettings (rt_cfg r)"

definition subscribeNotifyTopics :: "'w host \<Rightarrow> 'w runtime \<Rightarrow> go_error option \<times> 'w runtime" where
  "subscribeNotifyTopics H r =
     (let auth = rt_auth r; P = proto H; topics = EnabledTopics (cfg_NotifySettings (rt_cfg r)) in
      if \<not> logged_in auth then (Some (ErrNew ''login required''), r)
      else if \<not> rt_connected r then (Some (ErrNew ''not connected''), r)
      else if topics = [] then (None, r\<lparr>rt_notifyTopics := {}\<rparr>)
      else case encode_message H (ActionSubscribeBatch P) (MsgSubscribeBatch topics) of
        Inl e \<Rightarrow> (Some e, r)
      | Inr payload \<Rightarrow>
          (case sendAndAwait H (SubProtoTopicBus P) (NodeID auth) (HubID auth) payload
                  (ActionSubscribeBatchResp P) r of
             (Inl e, r1) \<Rightarrow> (Some e, r1)
           | (Inr resp, r1) \<Rightarrow>
               (case dec_topic_resp (decode H) (msg_Data resp) of
                  Inl e \<Rightarrow> (Some e, r1)
                | Inr (code, msg0) \<Rightarrow>
                    if code \<noteq> 1 then
                      (Some (ErrNew (if TrimSpace msg0 = []
                         then ''topicbus subscribe_batch failed (code='' @ Itoa code @ '')''
                         else TrimSpace msg0)), r1)
                    else (None, r1\<lparr>rt_notifyTopics := EnabledTopicSet (cfg_NotifySettings (rt_cfg r1))\<rparr>))))"

definition StartNotify :: "'w host \<Rightarrow> 'w runtime \<Rightarrow> go_error option \<times> 'w runtime" where
  "StartNotify H r =
     (if \<not> logged_in (rt_auth r) then (Some (ErrNew ''login required''), r)
      else if EnabledTopics (cfg_NotifySettings (rt_cfg r)) = [] then
        (Some (ErrNew ''notify topics are required''), r)
      else case subscribeNotifyTopics H r of
        (Some e, r1) \<Rightarrow> (Some e, storeLastError H (Some e) (r1\<lparr>rt_notifyRunning := False\<rparr>))
      | (None, r1) \<Rightarrow> (None, r1\<lparr>rt_notifyRunning := True\<rparr>))"

definition StopNotify :: "'w runtime \<Rightarrow> 'w runtime" where
  "StopNotify r = r\<lparr>rt_notifyRunning := False, rt_notifyTopics := {}\<rparr>"

definition DequeueNotifications :: "'w runtime \<Rightarrow> Event list \<times> 'w runtime" where
  "DequeueNotifications r =
     (let (es, q) = QueueDequeueAll (rt_notifyQ r) in (es, r\<lparr>rt_notifyQ := q\<rparr>))"

definition isNotifyTopicEnabled :: "'w runtime \<Rightarrow> string \<Rightarrow> bool" where
  "isNotifyTopicEnabled r topic0 =
     (let topic = TrimSpace topic0 in
      if topic = [] then False
      else topic \<in> rt_notifyTopics r \<or>
        list_ex (\<lambda>item. ts_Enabled item \<and> TrimSpace (ts_Topic item) = topic)
          (cfg_NotifySettings (rt_cfg r)))"

definition handleTopicBusFrame :: "'w host \<Rightarrow> string \<Rightarrow> 'w runtime \<Rightarrow> 'w runtime" where
  "handleTopicBusFrame H payload r =
     (if \<not> rt_notifyRunning r then r
      else case ParsePublishEnvelope H payload of
        Inl e \<Rightarrow> r
      | Inr req \<Rightarrow>
          (case EventFromPublish (num H) req (isNotifyTopicEnabled r) (unix_milli H (rt_world r)) of
             None \<Rightarrow> r
           | Some evt \<Rightarrow> r\<lparr>rt_notifyQ := QueueEnqueue evt (rt_notifyQ r)\<rparr>))"

definition cmd_or_msg :: "'w host \<Rightarrow> frameHdr \<Rightarrow> bool" where
  "cmd_or_msg H hdr \<longleftrightarrow> hdr_Major hdr = MajorCmd (proto H) \<or> hdr_Major hdr = MajorMsg (proto H)"

definition tryHandleTopicBusFrame :: "'w host \<Rightarrow> frameHdr \<Rightarrow> string \<Rightarrow> 'w runtime \<Rightarrow> bool \<times> 'w runtime" where
  "tryHandleTopicBusFrame H hdr payload r =
     (if payload = [] then (False, r)
      else if hdr_SubProto hdr \<noteq> SubProtoTopicBus (proto H) then (False, r)
      else if \<not> cmd_or_msg H hdr then (False, r)
      else (True, handleTopicBusFrame H payload r))"

section \<open>Subscribing\<close>

text \<open>A subscription changes the world, the sent frames, the client and the topics only.\<close>

definition subscribe_kept where
  "subscribe_kept r = ((rt_workDir r, rt_addr r, rt_connected r, rt_reconnectCtx r, rt_reconnectRunning r,
     rt_reconnectDesired r, rt_auth r, rt_lastErr r, rt_keys r, rt_cfgStore r, rt_cfg r), rt_cfgGen r,
     rt_reportRunning r, rt_reportEnabled r, rt_lastMetrics r, rt_lastPublished r, rt_controlQ r,
     rt_notifyRunning r, rt_notifyQ r, rt_disk r)"

lemma sendAndAwait_kept:
  "subscribe_kept (snd (sendAndAwait H sub s t p act r)) = subscribe_kept r \<and>
   rt_notifyTopics (snd (sendAndAwait H sub s t p act r)) = rt_notifyTopics r"
  by (auto simp: sendAndAwait_def Let_def subscribe_kept_def ensureClient_def split: prod.split sum.split)

lemma subscribe_kept_eq [frame_simps]:
  "subscribe_kept (snd (subscribeNotifyTopics H r)) = subscribe_kept r"
proof -
  have k: "subscribe_kept r1 = subscribe_kept r"
    if "sendAndAwait H sub s t p act r = (x, r1)" for sub s t p act x r1
    using sendAndAwait_kept [of H sub s t p act r] that by simp
  have t: "subscribe_kept (q\<lparr>rt_notifyTopics := T\<rparr>) = subscribe_kept q" for q T
    by (simp add: subscribe_kept_def)
  show ?thesis
    by (auto simp: subscribeNotifyTopics_def Let_def t split: sum.split prod.split dest: k)
qed

text \<open>
  After a subscription the accepted topics are the enabled ones of the configuration; a
  failed one leaves the accepted topics as they were.
\<close>

lemma subscribe_topics:
  "rt_notifyTopics (snd (subscribeNotifyTopics H r)) =
     (if fst (subscribeNotifyTopics H r) = None
      then EnabledTopicSet (cfg_NotifySettings (rt_cfg r)) else rt_notifyTopics r)"
proof -
  have k: "rt_notifyTopics r1 = rt_notifyTopics r \<and> rt_cfg r1 = rt_cfg r"
    if "sendAndAwait H sub s t p act r = (x, r1)" for sub s t p act x r1
    using sendAndAwait_kept [of H sub s t p act r] that by (simp add: subscribe_kept_def)
  show ?thesis
    by (auto simp: subscribeNotifyTopics_def Let_def EnabledTopicSet_def split: sum.split prod.split dest: k)
qed

text \<open>A successful subscription with topics has sent them all, from the node to the hub.\<close>

lemma subscribe_sent:
  assumes "fst (subscribeNotifyTopics H r) = None"
    and "EnabledTopics (cfg_NotifySettings (rt_cfg r)) \<noteq> []"
  shows "\<exists>hdr payload. rt_sent (snd (subscribeNotifyTopics H r)) = rt_sent r @ [(hdr, payload)] \<and>
    hdr_SubProto hdr = SubProtoTopicBus (proto H) \<and> hdr_SourceID hdr = NodeID (rt_auth r) \<and>
    hdr_TargetID hdr = HubID (rt_auth r) \<and>
    encode_message H (ActionSubscribeBatch (proto H))
      (MsgSubscribeBatch (EnabledTopics (cfg_NotifySettings (rt_cfg r)))) = Inr payload"
  using assms
  by (auto simp: subscribeNotifyTopics_def Let_def sendAndAwait_def ensureClient_def
      split: if_splits sum.splits prod.splits)

lemma subscribe_ok_connected:
  "fst (subscribeNotifyTopics H r) = None \<Longrightarrow> logged_in (rt_auth r) \<and> rt_connected r"
  by (auto simp: subscribeNotifyTopics_def Let_def split: if_splits)

lemma StartNotify_running:
  assumes "logged_in (rt_auth r)" and "EnabledTopics (cfg_NotifySettings (rt_cfg r)) \<noteq> []"
  shows "rt_notifyRunning (snd (StartNotify H r)) \<longleftrightarrow> fst (StartNotify H r) = None"
  using assms
  by (cases "subscribeNotifyTopics H r"; cases "fst (subscribeNotifyTopics H r)")
    (simp_all add: StartNotify_def storeLastError_def)

lemma StartNotify_None:
  "fst (StartNotify H r) = None \<Longrightarrow>
     fst (subscribeNotifyTopics H r) = None \<and> EnabledTopics (cfg_NotifySettings (rt_cfg r)) \<noteq> [] \<and>
     snd (StartNotify H r) = (snd (subscribeNotifyTopics H r))\<lparr>rt_notifyRunning := True\<rparr>"
  by (cases "subscribeNotifyTopics H r"; cases "fst (subscribeNotifyTopics H r)")
    (simp_all add: StartNotify_def split: if_splits)

section \<open>Events\<close>

lemma isNotifyTopicEnabled_iff:
  "isNotifyTopicEnabled r t \<longleftrightarrow> TrimSpace t \<noteq> [] \<and>
     (TrimSpace t \<in> rt_notifyTopics r \<or> TrimSpace t \<in> EnabledTopicSet (cfg_NotifySettings (rt_cfg r)))"
  by (auto simp: isNotifyTopicEnabled_def Let_def EnabledTopicSet_def EnabledTopics_def enabled_from_set
      list_ex_iff)

text \<open>The events an inbound frame queues: at most one, of an enabled topic, in bounds.\<close>

lemma handleTopicBusFrame_cases:
  "handleTopicBusFrame H payload r = r \<or>
   (\<exists>e. handleTopicBusFrame H payload r = r\<lparr>rt_notifyQ := QueueEnqueue e (rt_notifyQ r)\<rparr> \<and>
      rt_notifyRunning r \<and> event_ok e \<and> isNotifyTopicEnabled r (ev_Topic e))"
proof (cases "ParsePublishEnvelope H payload")
  case (Inr req)
  let ?e = "EventFromPublish (num H) req (isNotifyTopicEnabled r) (unix_milli H (rt_world r))"
  show ?thesis
  proof (cases "rt_notifyRunning r \<and> ?e \<noteq> None")
    case True
    then obtain e where e: "?e = Some e" by blast
    have "handleTopicBusFrame H payload r = r\<lparr>rt_notifyQ := QueueEnqueue e (rt_notifyQ r)\<rparr>"
      using True by (simp add: handleTopicBusFrame_def Inr e)
    with True EventFromPublish_SomeD [OF e] show ?thesis by blast
  qed (auto simp: handleTopicBusFrame_def Inr)
qed (simp add: handleTopicBusFrame_def)

end
