(* ===== verification/RuntimeConfig.thy ===== *)
theory RuntimeConfig
  imports NotifyRuntime
begin

text \<open>
  The stateful part of \<^verbatim>\<open>core/runtime/config.go\<close> and the setter of
  \<^verbatim>\<open>core/runtime/notify.go\<close>: creating the configuration with its migration,
  setting a key, and reloading, which rebuilds the configuration in force from the store
  and writes the derived texts back. \<open>cfg_sync\<close> says that store and configuration agree.
\<close>

section \<open>The code\<close>

definition RuntimeConfigKeys :: "'w runtime \<Rightarrow> string list option" where
  "RuntimeConfigKeys r = map_option Store_Keys (rt_cfgStore r)"

definition RuntimeConfigGet :: "string \<Rightarrow> 'w runtime \<Rightarrow> string option" where
  "RuntimeConfigGet key r = (case rt_cfgStore r of None \<Rightarrow> None | Some s \<Rightarrow> Store_Get key s)"

text \<open>\<^verbatim>\<open>raw, _ := r.cfgStore.Get(key)\<close>: a missing key reads as the empty text.\<close>

definition get_text :: "string \<Rightarrow> 'w runtime \<Rightarrow> string" where
  "get_text key r = (case RuntimeConfigGet key r of None \<Rightarrow> [] | Some v \<Rightarrow> v)"

definition store_set :: "'w host \<Rightarrow> string \<Rightarrow> string \<Rightarrow> 'w runtime \<Rightarrow> go_error option \<times> 'w runtime" where
  "store_set H key val r =
     (case rt_cfgStore r of
        None \<Rightarrow> (Some (ErrNew ''config store not initialized''), r)
      | Some s \<Rightarrow>
          let (e, s', d) = Store_Set H key val s (rt_disk r)
          in (e, r\<lparr>rt_cfgStore := Some s', rt_disk := d\<rparr>))"

definition storeSetIfChanged :: "'w host \<Rightarrow> string \<Rightarrow> string \<Rightarrow> 'w runtime \<Rightarrow> 'w runtime" where
  "storeSetIfChanged H key val r =
     (if rt_cfgStore r = None then r
      else if RuntimeConfigGet key r = Some val then r
      else snd (store_set H key val r))"

definition reload_settings :: "'w host \<Rightarrow> string \<Rightarrow> 'w runtime \<Rightarrow> MetricSetting list \<times> 'w runtime" where
  "reload_settings H reasonKey r =
     (if reasonKey = KeyMetricsBindingsJSON then
        let bindings = (case parseBindingsJSON H (get_text KeyMetricsBindingsJSON r) of
              Inl e \<Rightarrow> defaultBindings H | Inr bs \<Rightarrow> bs);
            settings = settingsFromBindings bindings (defaultBindingsForOS (GOOS H))
        in (settings, storeSetIfChanged H KeyMetricsSettingsJSON (marshal_settings settings) r)
      else
        let fallback = defaultSettingsForOS (GOOS H);
            reset = (fallback, storeSetIfChanged H KeyMetricsSettingsJSON (marshal_settings fallback) r)
        in case RuntimeConfigGet KeyMetricsSettingsJSON r of
             None \<Rightarrow> reset
           | Some raw \<Rightarrow> (case parseSettingsJSON raw (GOOS H) of Inl e \<Rightarrow> reset | Inr list \<Rightarrow> (list, r)))"

definition validateDerivedBindings :: "MetricSetting list \<Rightarrow> Binding list" where
  "validateDerivedBindings settings = settingsToBindings settings"

text \<open>The other values in force, with their fallbacks.\<close>

definition visibility_in_force :: "'w host \<Rightarrow> 'w runtime \<Rightarrow> string" where
  "visibility_in_force H r =
     (case normalizeVisibility H (get_text KeyMetricsVisibilityDefault r) of
        Inl e \<Rightarrow> VisibilityPublic | Inr v \<Rightarrow> v)"

definition no_battery_in_force :: "'w runtime \<Rightarrow> string" where
  "no_battery_in_force r =
     (case normalizeNoBatteryValue (get_text KeyMetricsBatteryNoBattery r) of
        Inl e \<Rightarrow> defaultNoBatteryValue | Inr v \<Rightarrow> v)"

definition topics_in_force :: "'w runtime \<Rightarrow> TopicSetting list" where
  "topics_in_force r = (case ParseTopicsJSON (get_text KeyNotifyTopicsJSON r) of Inl e \<Rightarrow> [] | Inr ts \<Rightarrow> ts)"

definition reloadRuntimeConfig :: "'w host \<Rightarrow> string \<Rightarrow> 'w runtime \<Rightarrow> 'w runtime" where
  "reloadRuntimeConfig H reasonKey r =
     (if rt_cfgStore r = None then r
      else
        let (settings, r1) = reload_settings H reasonKey r;
            bindings = validateDerivedBindings settings;
            r2 = storeSetIfChanged H KeyMetricsBindingsJSON (marshal_bindings bindings) r1;
            notifySettings = topics_in_force r2;
            r3 = storeSetIfChanged H KeyNotifyTopicsJSON (marshal_topics notifySettings) r2;
            r4 = signalConfigChanged (r3\<lparr>rt_cfg := \<lparr>cfg_Bindings = bindings, cfg_Settings = settings,
                  EnabledByMetric = enabled_map settings, BindingByVarName = var_map settings,
                  VisibilityDefault = visibility_in_force H r2, NoBatteryValue = no_battery_in_force r2,
                  cfg_NotifySettings = notifySettings\<rparr>\<rparr>);
            r5 = republishFromConfig H r4
        in if reasonKey = KeyNotifyTopicsJSON \<and> rt_notifyRunning r5 then
             (if EnabledTopics notifySettings = [] then StopNotify r5
              else snd (subscribeNotifyTopics H r5))
           else r5)"

text \<open>The value a known key is stored as, or why it is refused.\<close>

definition checked_value :: "'w host \<Rightarrow> string \<Rightarrow> string \<Rightarrow> string result" where
  "checked_value H key val =
     (if key = KeyMetricsSettingsJSON then map_sum id marshal_settings (parseSettingsJSON val (GOOS H))
      else if key = KeyMetricsBindingsJSON then map_sum id (\<lambda>_. val) (parseBindingsJSON H val)
      else if key = KeyMetricsVisibilityDefault then map_sum id (\<lambda>_. val) (normalizeVisibility H val)
      else if key = KeyMetricsBatteryNoBattery then map_sum id (\<lambda>_. val) (normalizeNoBatteryValue val)
      else if key = KeyNotifyTopicsJSON then map_sum id marshal_topics (ParseTopicsJSON val)
      else Inr val)"

definition RuntimeConfigSet :: "'w host \<Rightarrow> string \<Rightarrow> string \<Rightarrow> 'w runtime \<Rightarrow> go_error option \<times> 'w runtime" where
  "RuntimeConfigSet H key0 value0 r =
     (let key = TrimSpace key0 in
      if rt_cfgStore r = None then (Some (ErrNew ''runtime not initialized''), r)
      else if key = [] then (Some (ErrNew ''key is required''), r)
      else case checked_value H key value0 of
        Inl e \<Rightarrow> (Some e, r)
      | Inr val \<Rightarrow>
          (case store_set H key val r of
             (Some e, r1) \<Rightarrow> (Some e, r1)
           | (None, r1) \<Rightarrow> (None, reloadRuntimeConfig H key r1)))"

definition NotifySettingsSet ::
  "'w host \<Rightarrow> TopicSetting list \<Rightarrow> 'w runtime \<Rightarrow> go_error option \<times> 'w runtime" where
  "NotifySettingsSet H settings r =
     (case SettingsJSON settings of
        Inl e \<Rightarrow> (Some e, storeLastError H (Some e) r)
      | Inr raw \<Rightarrow> RuntimeConfigSet H KeyNotifyTopicsJSON raw r)"

section \<open>Initialisation\<close>

definition config_defaults :: "'w host \<Rightarrow> (string, string) gomap" where
  "config_defaults H = [(KeyMetricsBindingsJSON, defaultBindingsJSON H),
     (KeyMetricsVisibilityDefault, VisibilityPublic), (KeyMetricsBatteryNoBattery, defaultNoBatteryValue),
     (KeyNotifyTopicsJSON, DefaultSettingsJSON)]"

text \<open>The migration of the two legacy defaults, and the settings derived when missing.\<close>

definition migrate_bindings :: "'w host \<Rightarrow> 'w runtime \<Rightarrow> 'w runtime" where
  "migrate_bindings H r =
     (case RuntimeConfigGet KeyMetricsBindingsJSON r of
        None \<Rightarrow> r
      | Some raw \<Rightarrow>
          (case parseBindingsJSON H raw of
             Inl e \<Rightarrow> r
           | Inr list \<Rightarrow>
               if equalBindings list legacyDefaultBindingsV0 \<or> equalBindings list legacyDefaultBindingsV1
               then snd (store_set H KeyMetricsBindingsJSON (defaultBindingsJSON H) r) else r))"

definition derive_missing_settings :: "'w host \<Rightarrow> 'w runtime \<Rightarrow> 'w runtime" where
  "derive_missing_settings H r =
     (if RuntimeConfigGet KeyMetricsSettingsJSON r \<noteq> None then r
      else
        let bindings = (case parseBindingsJSON H (get_text KeyMetricsBindingsJSON r) of
              Inl e \<Rightarrow> defaultBindings H | Inr bs \<Rightarrow> bs)
        in snd (store_set H KeyMetricsSettingsJSON
             (marshal_settings (settingsFromBindings bindings (defaultBindingsForOS (GOOS H)))) r))"

definition initRuntimeConfig :: "'w host \<Rightarrow> 'w runtime \<Rightarrow> go_error option \<times> 'w runtime" where
  "initRuntimeConfig H r =
     (case Store_New H (path_join H (rt_workDir r) ''runtime_config.json'') (config_defaults H) (rt_disk r) of
        (Inl e, d) \<Rightarrow> (Some e, r\<lparr>rt_disk := d\<rparr>)
      | (Inr s, d) \<Rightarrow>
          (None, reloadRuntimeConfig H ''init''
             (derive_missing_settings H (migrate_bindings H (r\<lparr>rt_cfgStore := Some s, rt_disk := d\<rparr>)))))"

section \<open>Reading the store after a write\<close>

lemma config_keys_trim [simp]:
  "TrimSpace KeyMetricsBindingsJSON = KeyMetricsBindingsJSON"
  "TrimSpace KeyMetricsSettingsJSON = KeyMetricsSettingsJSON"
  "TrimSpace KeyMetricsVisibilityDefault = KeyMetricsVisibilityDefault"
  "TrimSpace KeyMetricsBatteryNoBattery = KeyMetricsBatteryNoBattery"
  "TrimSpace KeyNotifyTopicsJSON = KeyNotifyTopicsJSON"
  by (rule TrimSpace_graphic; simp add: go_defs graphic_def)+

definition config_keys :: "string list" where
  "config_keys = [KeyMetricsBindingsJSON, KeyMetricsSettingsJSON, KeyMetricsVisibilityDefault,
     KeyMetricsBatteryNoBattery, KeyNotifyTopicsJSON]"

lemma config_keys_distinct: "distinct config_keys" "distinct (rev config_keys)" "\<forall>k\<in>set config_keys. k \<noteq> []"
  by (simp_all add: config_keys_def go_defs)

lemmas config_keys_neq [simp] = config_keys_distinct [unfolded config_keys_def, simplified]

lemma store_set_store:
  "rt_cfgStore r = Some s \<Longrightarrow> rt_cfgStore (snd (store_set H key val r)) = Some (put key val s)"
  using Store_Set_put [of H key val s "rt_disk r"] by (simp add: store_set_def case_prod_beta Let_def)

lemma store_set_frame [simp, frame_simps]:
  "rt_workDir (snd (store_set H key val r)) = rt_workDir r"
  "rt_client (snd (store_set H key val r)) = rt_client r"
  "rt_addr (snd (store_set H key val r)) = rt_addr r"
  "rt_connected (snd (store_set H key val r)) = rt_connected r"
  "rt_reconnectCtx (snd (store_set H key val r)) = rt_reconnectCtx r"
  "rt_reconnectRunning (snd (store_set H key val r)) = rt_reconnectRunning r"
  "rt_reconnectDesired (snd (store_set H key val r)) = rt_reconnectDesired r"
  "rt_auth (snd (store_set H key val r)) = rt_auth r"
  "rt_lastErr (snd (store_set H key val r)) = rt_lastErr r"
  "rt_keys (snd (store_set H key val r)) = rt_keys r"
  "rt_cfg (snd (store_set H key val r)) = rt_cfg r"
  "rt_cfgGen (snd (store_set H key val r)) = rt_cfgGen r"
  "rt_reportRunning (snd (store_set H key val r)) = rt_reportRunning r"
  "rt_reportEnabled (snd (store_set H key val r)) = rt_reportEnabled r"
  "rt_lastMetrics (snd (store_set H key val r)) = rt_lastMetrics r"
  "rt_lastPublished (snd (store_set H key val r)) = rt_lastPublished r"
  "rt_controlQ (snd (store_set H key val r)) = rt_controlQ r"
  "rt_notifyRunning (snd (store_set H key val r)) = rt_notifyRunning r"
  "rt_notifyTopics (snd (store_set H key val r)) = rt_notifyTopics r"
  "rt_notifyQ (snd (store_set H key val r)) = rt_notifyQ r"
  "rt_world (snd (store_set H key val r)) = rt_world r"
  "rt_sent (snd (store_set H key val r)) = rt_sent r"
  by (simp_all add: store_set_def case_prod_beta Let_def split: option.split)

lemma storeSetIfChanged_frame [simp, frame_simps]:
  "rt_workDir (storeSetIfChanged H key val r) = rt_workDir r"
  "rt_client (storeSetIfChanged H key val r) = rt_client r"
  "rt_addr (storeSetIfChanged H key val r) = rt_addr r"
  "rt_connected (storeSetIfChanged H key val r) = rt_connected r"
  "rt_reconnectCtx (storeSetIfChanged H key val r) = rt_reconnectCtx r"
  "rt_reconnectRunning (storeSetIfChanged H key val r) = rt_reconnectRunning r"
  "rt_reconnectDesired (storeSetIfChanged H key val r) = rt_reconnectDesired r"
  "rt_auth (storeSetIfChanged H key val r) = rt_auth r"
  "rt_lastErr (storeSetIfChanged H key val r) = rt_lastErr r"
  "rt_keys (storeSetIfChanged H key val r) = rt_keys r"
  "rt_cfg (storeSetIfChanged H key val r) = rt_cfg r"
  "rt_cfgGen (storeSetIfChanged H key val r) = rt_cfgGen r"
  "rt_reportRunning (storeSetIfChanged H key val r) = rt_reportRunning r"
  "rt_reportEnabled (storeSetIfChanged H key val r) = rt_reportEnabled r"
  "rt_lastMetrics (storeSetIfChanged H key val r) = rt_lastMetrics r"
  "rt_lastPublished (storeSetIfChanged H key val r) = rt_lastPublished r"
  "rt_controlQ (storeSetIfChanged H key val r) = rt_controlQ r"
  "rt_notifyRunning (storeSetIfChanged H key val r) = rt_notifyRunning r"
  "rt_notifyTopics (storeSetIfChanged H key val r) = rt_notifyTopics r"
  "rt_notifyQ (storeSetIfChanged H key val r) = rt_notifyQ r"
  "rt_world (storeSetIfChanged H key val r) = rt_world r"
  "rt_sent (storeSetIfChanged H key val r) = rt_sent r"
  by (simp_all add: storeSetIfChanged_def)

lemma store_set_None [simp]: "rt_cfgStore (snd (store_set H key val r)) = None \<longleftrightarrow> rt_cfgStore r = None"
  by (cases "rt_cfgStore r") (simp_all add: store_set_store, simp add: store_set_def)

lemma storeSetIfChanged_None [simp]:
  "rt_cfgStore (storeSetIfChanged H key val r) = None \<longleftrightarrow> rt_cfgStore r = None"
  by (simp add: storeSetIfChanged_def)

lemma Get_store_set:
  assumes "rt_cfgStore r \<noteq> None" and "TrimSpace key \<noteq> []"
  shows "RuntimeConfigGet k (snd (store_set H key val r)) =
    (if TrimSpace k = TrimSpace key then Some val else RuntimeConfigGet k r)"
proof -
  obtain s where s: "rt_cfgStore r = Some s" using assms(1) by blast
  then show ?thesis
    using assms(2) by (simp add: RuntimeConfigGet_def store_set_store cs.get_set)
qed

lemma Get_same_key: "TrimSpace k = TrimSpace k' \<Longrightarrow> RuntimeConfigGet k r = RuntimeConfigGet k' r"
  by (simp add: RuntimeConfigGet_def Store_Get_def split: option.split)

lemma Get_storeSetIfChanged:
  assumes "rt_cfgStore r \<noteq> None" and "TrimSpace key \<noteq> []"
  shows "RuntimeConfigGet k (storeSetIfChanged H key val r) =
    (if TrimSpace k = TrimSpace key then Some val else RuntimeConfigGet k r)"
  using assms Get_same_key [of k key r] by (auto simp: storeSetIfChanged_def Get_store_set)

text \<open>A write of the value a key already has is no write at all.\<close>

lemma storeSetIfChanged_idle: "RuntimeConfigGet key r = Some val \<Longrightarrow> storeSetIfChanged H key val r = r"
  by (simp add: storeSetIfChanged_def)

section \<open>Store and configuration agree\<close>

definition cfg_sync :: "'w host \<Rightarrow> 'w runtime \<Rightarrow> bool" where
  "cfg_sync H r \<longleftrightarrow>
     rt_cfgStore r \<noteq> None \<and>
     settings_wf (GOOS H) (cfg_Settings (rt_cfg r)) \<and>
     (\<exists>raw. RuntimeConfigGet KeyMetricsSettingsJSON r = Some raw \<and>
        parseSettingsJSON raw (GOOS H) = Inr (cfg_Settings (rt_cfg r))) \<and>
     cfg_Bindings (rt_cfg r) = settingsToBindings (cfg_Settings (rt_cfg r)) \<and>
     RuntimeConfigGet KeyMetricsBindingsJSON r = Some (marshal_bindings (cfg_Bindings (rt_cfg r))) \<and>
     EnabledByMetric (rt_cfg r) = enabled_map (cfg_Settings (rt_cfg r)) \<and>
     BindingByVarName (rt_cfg r) = var_map (cfg_Settings (rt_cfg r)) \<and>
     VisibilityDefault (rt_cfg r) = visibility_in_force H r \<and>
     NoBatteryValue (rt_cfg r) = no_battery_in_force r \<and>
     topics_ok (cfg_NotifySettings (rt_cfg r)) \<and>
     RuntimeConfigGet KeyNotifyTopicsJSON r = Some (marshal_topics (cfg_NotifySettings (rt_cfg r)))"

text \<open>
  What of this holds whatever the store says: the configuration in force is well-formed,
  and its bindings and lookup maps are those of its settings.
\<close>

definition cfg_ok :: "'w host \<Rightarrow> runtimeConfig \<Rightarrow> bool" where
  "cfg_ok H c \<longleftrightarrow> settings_wf (GOOS H) (cfg_Settings c) \<and> cfg_Bindings c = settingsToBindings (cfg_Settings c) \<and>
     EnabledByMetric c = enabled_map (cfg_Settings c) \<and> BindingByVarName c = var_map (cfg_Settings c) \<and>
     topics_ok (cfg_NotifySettings c)"

lemma cfg_sync_ok: "cfg_sync H r \<Longrightarrow> cfg_ok H (rt_cfg r)"
  by (simp add: cfg_sync_def cfg_ok_def)

text \<open>The invariant is about the store and the configuration alone.\<close>

lemma cfg_sync_cong:
  "rt_cfgStore r' = rt_cfgStore r \<Longrightarrow> rt_cfg r' = rt_cfg r \<Longrightarrow> cfg_sync H r' = cfg_sync H r"
  by (simp add: cfg_sync_def RuntimeConfigGet_def visibility_in_force_def no_battery_in_force_def get_text_def)

lemma cfg_sync_publish: "publish_kept r' = publish_kept r \<Longrightarrow> cfg_sync H r' = cfg_sync H r"
  by (rule cfg_sync_cong) (simp_all add: publish_kept_def)

lemma cfg_sync_subscribe: "subscribe_kept r' = subscribe_kept r \<Longrightarrow> cfg_sync H r' = cfg_sync H r"
  by (rule cfg_sync_cong) (simp_all add: subscribe_kept_def)

lemma cfg_sync_StopNotify [simp]: "cfg_sync H (StopNotify r) = cfg_sync H r"
  by (rule cfg_sync_cong) (simp_all add: StopNotify_def)

text \<open>The settings a reload takes are well-formed and are what the store then holds.\<close>

lemma reload_settings_ok:
  assumes "reload_settings H key r = (ss, r1)" and "rt_cfgStore r \<noteq> None"
  shows "settings_wf (GOOS H) ss \<and> rt_cfgStore r1 \<noteq> None \<and>
    (\<exists>raw. RuntimeConfigGet KeyMetricsSettingsJSON r1 = Some raw \<and> parseSettingsJSON raw (GOOS H) = Inr ss)"
proof (cases "key = KeyMetricsBindingsJSON")
  case True
  let ?bs = "case parseBindingsJSON H (get_text KeyMetricsBindingsJSON r) of Inl e \<Rightarrow> defaultBindings H | Inr bs \<Rightarrow> bs"
  have "bindings_wf (GOOS H) ?bs"
    by (auto simp: defaultBindings_def split: sum.split intro: parseBindingsJSON_wf)
  then have w: "settings_wf (GOOS H) ss"
    using True assms settingsFromBindings_wf by (auto simp: reload_settings_def Let_def)
  moreover have "r1 = storeSetIfChanged H KeyMetricsSettingsJSON (marshal_settings ss) r"
    using True assms by (auto simp: reload_settings_def Let_def)
  ultimately show ?thesis
    using assms(2) by (simp add: Get_storeSetIfChanged marshal_settings_parse)
next
  case False
  then consider (kept) raw where "RuntimeConfigGet KeyMetricsSettingsJSON r = Some raw"
      "parseSettingsJSON raw (GOOS H) = Inr ss" "r1 = r"
    | (reset) "ss = defaultSettingsForOS (GOOS H)"
      "r1 = storeSetIfChanged H KeyMetricsSettingsJSON (marshal_settings ss) r"
    using assms by (auto simp: reload_settings_def Let_def split: option.splits sum.splits)
  then show ?thesis
  proof cases
    case kept
    then show ?thesis using assms(2) parseSettingsJSON_wf by auto
  next
    case reset
    then show ?thesis using assms(2) by (simp add: Get_storeSetIfChanged marshal_settings_parse)
  qed
qed

lemma visibility_in_force_range: "visibility_in_force H r \<in> {VisibilityPublic, VisibilityPrivate}"
  using normalizeVisibility_range [of H] by (auto simp: visibility_in_force_def split: sum.split)

lemma no_battery_in_force_range: "no_battery_in_force r \<noteq> [] \<and> trimmed (no_battery_in_force r)"
  by (auto simp: no_battery_in_force_def go_defs graphic_ends_trimmed graphic_def
      split: sum.splits dest: normalizeNoBatteryValue_range)

lemma topics_in_force_ok: "topics_ok (topics_in_force r)"
  by (auto simp: topics_in_force_def topics_ok_def topics_wf_def split: sum.split dest: ParseTopicsJSON_ok)

text \<open>The configuration a reload puts in force, as a function of the store it starts from.\<close>

definition config_from :: "'w host \<Rightarrow> MetricSetting list \<Rightarrow> 'w runtime \<Rightarrow> runtimeConfig" where
  "config_from H ss r = \<lparr>cfg_Bindings = settingsToBindings ss, cfg_Settings = ss,
     EnabledByMetric = enabled_map ss, BindingByVarName = var_map ss,
     VisibilityDefault = visibility_in_force H r, NoBatteryValue = no_battery_in_force r,
     cfg_NotifySettings = topics_in_force r\<rparr>"

lemma Get_storeSetIfChanged_other:
  "TrimSpace k \<noteq> TrimSpace key \<Longrightarrow> TrimSpace key \<noteq> [] \<Longrightarrow>
     RuntimeConfigGet k (storeSetIfChanged H key val r) = RuntimeConfigGet k r"
  by (cases "rt_cfgStore r") (simp add: storeSetIfChanged_def, simp add: Get_storeSetIfChanged)

lemma reload_settings_Get:
  assumes "reload_settings H key r = (ss, r1)" and "TrimSpace k \<noteq> KeyMetricsSettingsJSON"
  shows "RuntimeConfigGet k r1 = RuntimeConfigGet k r"
proof -
  have "r1 = r \<or> r1 = storeSetIfChanged H KeyMetricsSettingsJSON (marshal_settings ss) r"
    using assms(1) by (auto simp: reload_settings_def Let_def split: if_splits option.splits sum.splits)
  with assms(2) show ?thesis by (auto simp: Get_storeSetIfChanged_other)
qed

text \<open>
  A reload is: read the settings, write back the derived keys, put the configuration in
  force and republish, which yields \<open>r5\<close>; then, for a change of the topics, the listener is
  stopped or subscribed again.
\<close>

lemma reload_shape:
  assumes store: "rt_cfgStore r \<noteq> None" and l: "reload_settings H key r = (ss, r1)"
  obtains r3 r5 where
    "r3 = storeSetIfChanged H KeyNotifyTopicsJSON (marshal_topics (topics_in_force r))
       (storeSetIfChanged H KeyMetricsBindingsJSON (marshal_bindings (settingsToBindings ss)) r1)"
    and "publish_kept r5 = publish_kept (signalConfigChanged (r3\<lparr>rt_cfg := config_from H ss r\<rparr>))"
    and "reloadRuntimeConfig H key r = (if key = KeyNotifyTopicsJSON \<and> rt_notifyRunning r5 then
      (if EnabledTopics (topics_in_force r) = [] then StopNotify r5 else snd (subscribeNotifyTopics H r5)) else r5)"
proof -
  obtain s where s: "rt_cfgStore r = Some s" using store by blast
  note ok = reload_settings_ok [OF l store]
  let ?r2 = "storeSetIfChanged H KeyMetricsBindingsJSON (marshal_bindings (settingsToBindings ss)) r1"
  have get2: "get_text k ?r2 = get_text k r"
    if "TrimSpace k \<noteq> KeyMetricsBindingsJSON" "TrimSpace k \<noteq> KeyMetricsSettingsJSON" for k
    using that ok reload_settings_Get [OF l, of k] by (simp add: get_text_def Get_storeSetIfChanged)
  then have in_force: "visibility_in_force H ?r2 = visibility_in_force H r"
    "no_battery_in_force ?r2 = no_battery_in_force r" "topics_in_force ?r2 = topics_in_force r"
    by (simp_all add: visibility_in_force_def no_battery_in_force_def topics_in_force_def)
  let ?r3 = "storeSetIfChanged H KeyNotifyTopicsJSON (marshal_topics (topics_in_force r)) ?r2"
  define r5 where "r5 = republishFromConfig H (signalConfigChanged (?r3\<lparr>rt_cfg := config_from H ss r\<rparr>))"
  have "reloadRuntimeConfig H key r = (if key = KeyNotifyTopicsJSON \<and> rt_notifyRunning r5 then
      (if EnabledTopics (topics_in_force r) = [] then StopNotify r5 else snd (subscribeNotifyTopics H r5)) else r5)"
    unfolding reloadRuntimeConfig_def l r5_def
    by (simp add: s Let_def in_force config_from_def validateDerivedBindings_def)
  moreover have "publish_kept r5 = publish_kept (signalConfigChanged (?r3\<lparr>rt_cfg := config_from H ss r\<rparr>))"
    unfolding r5_def by (rule republish_kept)
  ultimately show thesis by (intro that [OF refl])
qed

lemma reloaded:
  assumes store: "rt_cfgStore r \<noteq> None" and l: "reload_settings H key r = (ss, r1)"
  shows "rt_cfg (reloadRuntimeConfig H key r) = config_from H ss r \<and>
    rt_cfgStore (reloadRuntimeConfig H key r) \<noteq> None \<and>
    RuntimeConfigGet k (reloadRuntimeConfig H key r) =
      (if TrimSpace k = KeyNotifyTopicsJSON then Some (marshal_topics (topics_in_force r))
       else if TrimSpace k = KeyMetricsBindingsJSON then Some (marshal_bindings (settingsToBindings ss))
       else RuntimeConfigGet k r1)"
proof -
  let ?r' = "reloadRuntimeConfig H key r"
  note ok = reload_settings_ok [OF l store]
  obtain r3 r5 where r3: "r3 = storeSetIfChanged H KeyNotifyTopicsJSON (marshal_topics (topics_in_force r))
       (storeSetIfChanged H KeyMetricsBindingsJSON (marshal_bindings (settingsToBindings ss)) r1)"
    and k5: "publish_kept r5 = publish_kept (signalConfigChanged (r3\<lparr>rt_cfg := config_from H ss r\<rparr>))"
    and r': "?r' = (if key = KeyNotifyTopicsJSON \<and> rt_notifyRunning r5 then
      (if EnabledTopics (topics_in_force r) = [] then StopNotify r5 else snd (subscribeNotifyTopics H r5)) else r5)"
    by (rule reload_shape [OF store l])
  from k5 have r5: "rt_cfg r5 = config_from H ss r" "rt_cfgStore r5 = rt_cfgStore r3"
    by (simp_all add: publish_kept_def signalConfigChanged_def)
  have "rt_cfg ?r' = rt_cfg r5 \<and> rt_cfgStore ?r' = rt_cfgStore r5"
    using subscribe_kept_eq [of H r5] by (simp add: r' StopNotify_def subscribe_kept_def)
  with r5 have keep: "rt_cfg ?r' = config_from H ss r" "rt_cfgStore ?r' = rt_cfgStore r3" by simp_all
  have "RuntimeConfigGet k ?r' = RuntimeConfigGet k r3" by (simp add: RuntimeConfigGet_def keep)
  then show ?thesis using ok keep by (simp add: r3 Get_storeSetIfChanged)
qed

theorem reload_cfg_sync:
  assumes "rt_cfgStore r \<noteq> None" shows "cfg_sync H (reloadRuntimeConfig H key r)"
proof -
  obtain ss r1 where l: "reload_settings H key r = (ss, r1)" by force
  note ok = reload_settings_ok [OF l assms] and re = reloaded [OF assms l]
  let ?r' = "reloadRuntimeConfig H key r"
  have "get_text k ?r' = get_text k r"
    if "TrimSpace k \<notin> {KeyNotifyTopicsJSON, KeyMetricsBindingsJSON, KeyMetricsSettingsJSON}" for k
    using that re [of k] reload_settings_Get [OF l, of k] by (simp add: get_text_def)
  then have "visibility_in_force H ?r' = visibility_in_force H r" "no_battery_in_force ?r' = no_battery_in_force r"
    by (simp_all add: visibility_in_force_def no_battery_in_force_def)
  with ok re show ?thesis by (simp add: cfg_sync_def config_from_def topics_in_force_ok)
qed

text \<open>
  Reloading a store that agrees with the configuration changes neither, unless the reload
  is told that the bindings changed.
\<close>

theorem reload_idem:
  assumes sync: "cfg_sync H r" and key: "key \<noteq> KeyMetricsBindingsJSON"
  shows "rt_cfg (reloadRuntimeConfig H key r) = rt_cfg r \<and>
    RuntimeConfigGet k (reloadRuntimeConfig H key r) = RuntimeConfigGet k r"
proof -
  have store: "rt_cfgStore r \<noteq> None" using sync by (simp add: cfg_sync_def)
  have l: "reload_settings H key r = (cfg_Settings (rt_cfg r), r)"
    using sync key by (auto simp: cfg_sync_def reload_settings_def Let_def)
  have t: "topics_in_force r = cfg_NotifySettings (rt_cfg r)"
    using sync by (simp add: cfg_sync_def topics_in_force_def get_text_def marshal_topics_parse)
  have c: "config_from H (cfg_Settings (rt_cfg r)) r = rt_cfg r"
    using sync unfolding cfg_sync_def config_from_def t by (cases "rt_cfg r") simp
  have g: "RuntimeConfigGet KeyNotifyTopicsJSON r = Some (marshal_topics (topics_in_force r))"
    "RuntimeConfigGet KeyMetricsBindingsJSON r = Some (marshal_bindings (settingsToBindings (cfg_Settings (rt_cfg r))))"
    using sync unfolding cfg_sync_def t by simp_all
  have "RuntimeConfigGet k r = RuntimeConfigGet k' r" if "TrimSpace k = k'" for k'
    using that by (auto intro: Get_same_key)
  then show ?thesis using reloaded [OF store l, of k] g by (simp add: c)
qed

section \<open>Setting a key\<close>

lemma RuntimeConfigSet_cases:
  assumes "RuntimeConfigSet H key val r = (None, r')"
  obtains v r1 where "checked_value H (TrimSpace key) val = Inr v" and "rt_cfgStore r \<noteq> None"
    and "TrimSpace key \<noteq> []" and "store_set H (TrimSpace key) v r = (None, r1)"
    and "r' = reloadRuntimeConfig H (TrimSpace key) r1"
  using assms by (auto simp: RuntimeConfigSet_def Let_def split: if_splits sum.splits prod.splits option.splits)

lemma RuntimeConfigSet_sync:
  assumes "RuntimeConfigSet H key val r = (None, r')" shows "cfg_sync H r'"
proof -
  from assms obtain v r1 where "rt_cfgStore r \<noteq> None" "store_set H (TrimSpace key) v r = (None, r1)"
    "r' = reloadRuntimeConfig H (TrimSpace key) r1"
    by (rule RuntimeConfigSet_cases)
  then show ?thesis using store_set_None [of H "TrimSpace key" v r] by (simp add: reload_cfg_sync)
qed

text \<open>A refused value changes nothing.\<close>

lemma RuntimeConfigSet_refused:
  "checked_value H (TrimSpace key) val = Inl e \<Longrightarrow> snd (RuntimeConfigSet H key val r) = r"
  by (simp add: RuntimeConfigSet_def Let_def)

text \<open>What an accepted value puts in force, key by key.\<close>

lemma RuntimeConfigSet_cfg:
  assumes s: "RuntimeConfigSet H key val r = (None, r')"
  shows
    "TrimSpace key = KeyMetricsSettingsJSON \<Longrightarrow> Inr (cfg_Settings (rt_cfg r')) = parseSettingsJSON val (GOOS H)"
    "TrimSpace key = KeyMetricsBindingsJSON \<Longrightarrow>
       (\<exists>bs. parseBindingsJSON H val = Inr bs \<and>
          cfg_Settings (rt_cfg r') = settingsFromBindings bs (defaultBindingsForOS (GOOS H)))"
    "TrimSpace key = KeyMetricsVisibilityDefault \<Longrightarrow> Inr (VisibilityDefault (rt_cfg r')) = normalizeVisibility H val"
    "TrimSpace key = KeyMetricsBatteryNoBattery \<Longrightarrow> Inr (NoBatteryValue (rt_cfg r')) = normalizeNoBatteryValue val"
    "TrimSpace key = KeyNotifyTopicsJSON \<Longrightarrow> Inr (cfg_NotifySettings (rt_cfg r')) = ParseTopicsJSON val"
proof -
  from s obtain v r1 where chk: "checked_value H (TrimSpace key) val = Inr v" and st: "rt_cfgStore r \<noteq> None"
    and k: "TrimSpace key \<noteq> []" and set: "store_set H (TrimSpace key) v r = (None, r1)"
    and r': "r' = reloadRuntimeConfig H (TrimSpace key) r1"
    by (rule RuntimeConfigSet_cases)
  have st1: "rt_cfgStore r1 \<noteq> None" using st set store_set_None [of H "TrimSpace key" v r] by simp
  have get: "RuntimeConfigGet (TrimSpace key) r1 = Some v" "get_text (TrimSpace key) r1 = v"
    using Get_store_set [OF st, of "TrimSpace key" "TrimSpace key" H v] k set by (simp_all add: get_text_def)
  obtain ss r2 where l: "reload_settings H (TrimSpace key) r1 = (ss, r2)" by force
  have c: "rt_cfg r' = config_from H ss r1" unfolding r' using reloaded [OF st1 l] by blast
  show "Inr (cfg_Settings (rt_cfg r')) = parseSettingsJSON val (GOOS H)" if t: "TrimSpace key = KeyMetricsSettingsJSON"
  proof -
    from chk t obtain ss' where p: "parseSettingsJSON val (GOOS H) = Inr ss'" and v: "v = marshal_settings ss'"
      by (auto simp: checked_value_def map_sum_Inr_iff)
    then have "parseSettingsJSON v (GOOS H) = Inr ss'" using parseSettingsJSON_wf marshal_settings_parse by blast
    with l get t show ?thesis by (simp add: reload_settings_def Let_def c config_from_def p)
  qed
  show "\<exists>bs. parseBindingsJSON H val = Inr bs \<and>
      cfg_Settings (rt_cfg r') = settingsFromBindings bs (defaultBindingsForOS (GOOS H))"
    if t: "TrimSpace key = KeyMetricsBindingsJSON"
    using chk l get t by (auto simp: checked_value_def map_sum_Inr_iff reload_settings_def Let_def c config_from_def)
  show "Inr (VisibilityDefault (rt_cfg r')) = normalizeVisibility H val"
    if t: "TrimSpace key = KeyMetricsVisibilityDefault"
    using chk get t by (auto simp: checked_value_def map_sum_Inr_iff c config_from_def visibility_in_force_def)
  show "Inr (NoBatteryValue (rt_cfg r')) = normalizeNoBatteryValue val"
    if t: "TrimSpace key = KeyMetricsBatteryNoBattery"
    using chk get t by (auto simp: checked_value_def map_sum_Inr_iff c config_from_def no_battery_in_force_def)
  show "Inr (cfg_NotifySettings (rt_cfg r')) = ParseTopicsJSON val" if t: "TrimSpace key = KeyNotifyTopicsJSON"
  proof -
    from chk t obtain ts where p: "ParseTopicsJSON val = Inr ts" and v: "v = marshal_topics ts"
      by (auto simp: checked_value_def map_sum_Inr_iff)
    then have "ParseTopicsJSON v = Inr ts" using ParseTopicsJSON_ok marshal_topics_parse by blast
    with get t show ?thesis by (simp add: c config_from_def topics_in_force_def p)
  qed
qed

section \<open>Initialisation\<close>

lemma migrate_bindings_None [simp]:
  "rt_cfgStore (migrate_bindings H r) = None \<longleftrightarrow> rt_cfgStore r = None"
  by (simp add: migrate_bindings_def split: option.split sum.split)

lemma derive_missing_settings_None [simp]:
  "rt_cfgStore (derive_missing_settings H r) = None \<longleftrightarrow> rt_cfgStore r = None"
  by (simp add: derive_missing_settings_def Let_def)

lemma initRuntimeConfig_sync:
  assumes "initRuntimeConfig H r = (None, r')" shows "cfg_sync H r'"
proof -
  obtain s d where r': "r' = reloadRuntimeConfig H ''init'' (derive_missing_settings H
      (migrate_bindings H (r\<lparr>rt_cfgStore := Some s, rt_disk := d\<rparr>)))"
    using assms by (auto simp: initRuntimeConfig_def split: prod.splits sum.splits)
  show ?thesis unfolding r' by (rule reload_cfg_sync) (simp del: not_None_eq)
qed

section \<open>The first start\<close>

lemma settingsToBindings_default: "settingsToBindings (defaultSettingsForOS goos) = defaultBindingsForOS goos"
proof -
  have "filter ms_Enabled (defaultSettingsForOS goos) = defaultSettingsForOS goos"
    by (rule filter_True) (auto simp: defaultSettingsForOS_def)
  moreover have "map (\<lambda>s. bind (ms_Metric s) (ms_VarName s)) (defaultSettingsForOS goos) = defaultBindingsForOS goos"
    unfolding defaultSettingsForOS_def map_map by (rule map_idI) simp
  ultimately show ?thesis by (simp add: settingsToBindings_eq [OF default_settings_wf])
qed

lemma settingsFromBindings_default:
  "settingsFromBindings (defaultBindingsForOS goos) (defaultBindingsForOS goos) = defaultSettingsForOS goos"
proof -
  let ?ss = "settingsFromBindings (defaultBindingsForOS goos) (defaultBindingsForOS goos)"
  have all: "filter ms_Enabled (defaultSettingsForOS goos) = defaultSettingsForOS goos"
    by (rule filter_True) (auto simp: defaultSettingsForOS_def)
  have "map (\<lambda>s. s\<lparr>ms_Writable := IsControllable (ms_Metric s)\<rparr>) (defaultSettingsForOS goos) = defaultSettingsForOS goos"
    by (rule map_idI) (auto simp: defaultSettingsForOS_def)
  then have f: "filter ms_Enabled ?ss = defaultSettingsForOS goos"
    using bindings_keep_enabled [OF default_settings_wf, of goos] by (simp add: settingsToBindings_default all)
  moreover have "length ?ss = length (defaultSettingsForOS goos)"
    by (simp add: settingsFromBindings_def defaultSettingsForOS_def)
  ultimately have "filter ms_Enabled ?ss = ?ss" by (metis filter_True length_filter_less less_irrefl)
  with f show ?thesis by simp
qed

lemma legacy_not_default:
  "\<not> equalBindings (defaultBindingsForOS goos) legacyDefaultBindingsV0"
  "\<not> equalBindings (defaultBindingsForOS goos) legacyDefaultBindingsV1"
  by (simp_all add: equalBindings_def legacyDefaultBindingsV0_def legacyDefaultBindingsV1_def
      defaultBindingsForOS_def)

lemma first_start:
  assumes p: "path_clean H (TrimSpace (path_join H (rt_workDir r) ''runtime_config.json'')) = p" "p \<noteq> []"
    and d: "files (rt_disk r) p = None" "script (rt_disk r) = []"
  shows "fst (initRuntimeConfig H r) = None \<and>
    cfg_Settings (rt_cfg (snd (initRuntimeConfig H r))) = defaultSettingsForOS (GOOS H) \<and>
    VisibilityDefault (rt_cfg (snd (initRuntimeConfig H r))) = VisibilityPublic \<and>
    NoBatteryValue (rt_cfg (snd (initRuntimeConfig H r))) = defaultNoBatteryValue \<and>
    cfg_NotifySettings (rt_cfg (snd (initRuntimeConfig H r))) = []"
proof -
  let ?s = "\<lparr>st_path = p, st_data = copy_into (config_defaults H) []\<rparr>"
  have "ReadFile p (rt_disk r) = (Inl not_exist, rt_disk r)" using d by (simp add: ReadFile_def next_op_def)
  then obtain d1 where new: "Store_New H (path_join H (rt_workDir r) ''runtime_config.json'') (config_defaults H) (rt_disk r) =
      (Inr ?s, d1)"
    using p by (simp add: Store_New_def Let_def load_def not_exist_def case_prod_beta)
  define r0 where "r0 = r\<lparr>rt_cfgStore := Some ?s, rt_disk := d1\<rparr>"
  have wf: "gm_wf (config_defaults H)" by (simp add: config_defaults_def)
  have get: "RuntimeConfigGet k r0 = map_of (config_defaults H) k" if "k \<in> set config_keys" for k
    using that by (auto simp: RuntimeConfigGet_def r0_def Store_Get_def map_of_copy_into [OF wf] config_keys_def)
  have b: "RuntimeConfigGet KeyMetricsBindingsJSON r0 = Some (defaultBindingsJSON H)"
    and v: "RuntimeConfigGet KeyMetricsVisibilityDefault r0 = Some VisibilityPublic"
    and n: "RuntimeConfigGet KeyMetricsBatteryNoBattery r0 = Some defaultNoBatteryValue"
    and t: "RuntimeConfigGet KeyNotifyTopicsJSON r0 = Some DefaultSettingsJSON"
    and s: "RuntimeConfigGet KeyMetricsSettingsJSON r0 = None"
    by (simp_all add: get config_keys_def config_defaults_def)
  have parse: "parseBindingsJSON H (defaultBindingsJSON H) = Inr (defaultBindingsForOS (GOOS H))"
    by (simp add: defaultBindingsJSON_def defaultBindings_def marshal_bindings_parse)
  have m: "migrate_bindings H r0 = r0" by (simp add: migrate_bindings_def b parse legacy_not_default)
  define r1 where "r1 = snd (store_set H KeyMetricsSettingsJSON (marshal_settings (defaultSettingsForOS (GOOS H))) r0)"
  have dm: "derive_missing_settings H r0 = r1"
    by (simp add: derive_missing_settings_def s get_text_def b parse r1_def settingsFromBindings_default)
  have st: "rt_cfgStore r0 \<noteq> None" by (simp add: r0_def)
  have get1: "RuntimeConfigGet k r1 = (if TrimSpace k = KeyMetricsSettingsJSON
      then Some (marshal_settings (defaultSettingsForOS (GOOS H))) else RuntimeConfigGet k r0)" for k
    unfolding r1_def by (simp add: Get_store_set [OF st])
  have st1: "rt_cfgStore r1 \<noteq> None" using st by (simp add: r1_def)
  have key: "''init'' \<noteq> KeyMetricsBindingsJSON" by (simp add: go_defs)
  have l: "reload_settings H ''init'' r1 = (defaultSettingsForOS (GOOS H), r1)"
    using key by (simp add: reload_settings_def Let_def get1 marshal_settings_parse)
  have i: "initRuntimeConfig H r = (None, reloadRuntimeConfig H ''init'' r1)"
    unfolding initRuntimeConfig_def new by (simp add: m dm flip: r0_def)
  let ?r' = "reloadRuntimeConfig H ''init'' r1"
  note re = reloaded [OF st1 l]
  have low: "ToLower H VisibilityPublic = VisibilityPublic" "TrimSpace VisibilityPublic = VisibilityPublic"
    by (simp_all add: VisibilityPublic_def lower_char_def TrimSpace_graphic graphic_def char_of_eq_iff)
  have vis: "normalizeVisibility H VisibilityPublic = Inr VisibilityPublic"
    by (simp add: normalizeVisibility_def low Let_def)
  have f: "visibility_in_force H r1 = VisibilityPublic" "no_battery_in_force r1 = defaultNoBatteryValue"
    "topics_in_force r1 = []"
    using topics.dec_enc [of "[]"]
    by (simp_all add: visibility_in_force_def vis no_battery_in_force_def topics_in_force_def get_text_def get1 v n t
        normalizeNoBatteryValue_def defaultNoBatteryValue_def
        TrimSpace_graphic graphic_def DefaultSettingsJSON_def marshal_topics_def json_print_def topics_ok_def topics_wf_def)
  have "rt_cfg ?r' = config_from H (defaultSettingsForOS (GOOS H)) r1" using re by blast
  then show ?thesis by (simp add: i config_from_def f)
qed

section \<open>Unknown keys and unsaved values\<close>

lemma RuntimeConfigSet_other:
  assumes s: "RuntimeConfigSet H key val r = (None, r')" and k: "TrimSpace key \<notin> set config_keys"
  shows "RuntimeConfigGet key r' = Some val"
proof -
  from s obtain v r1 where chk: "checked_value H (TrimSpace key) val = Inr v" and st: "rt_cfgStore r \<noteq> None"
    and ne: "TrimSpace key \<noteq> []" and set: "store_set H (TrimSpace key) v r = (None, r1)"
    and r': "r' = reloadRuntimeConfig H (TrimSpace key) r1"
    by (rule RuntimeConfigSet_cases)
  have v: "v = val" using chk k by (auto simp: checked_value_def config_keys_def)
  have st1: "rt_cfgStore r1 \<noteq> None" using st set store_set_None [of H "TrimSpace key" v r] by simp
  obtain ss r2 where l: "reload_settings H (TrimSpace key) r1 = (ss, r2)" by force
  have "RuntimeConfigGet key r' = RuntimeConfigGet key r1"
    using reloaded [OF st1 l, of key] reload_settings_Get [OF l, of key] k by (simp add: r' config_keys_def)
  then show ?thesis using Get_store_set [OF st, of "TrimSpace key" key H v] ne set v by simp
qed

lemma RuntimeConfigSet_unsaved:
  assumes "rt_cfgStore r = Some s" and "TrimSpace key \<noteq> []" and "checked_value H (TrimSpace key) val = Inr v"
    and "fst (Store_Set H (TrimSpace key) v s (rt_disk r)) = Some e"
  shows "fst (RuntimeConfigSet H key val r) = Some e \<and> rt_cfg (snd (RuntimeConfigSet H key val r)) = rt_cfg r \<and>
    RuntimeConfigGet key (snd (RuntimeConfigSet H key val r)) = Some v"
proof -
  have "fst (store_set H (TrimSpace key) v r) = Some e"
    using assms(1,4) by (simp add: store_set_def Let_def case_prod_beta)
  then have eq: "RuntimeConfigSet H key val r = (Some e, snd (store_set H (TrimSpace key) v r))"
    using assms(1-3) by (simp add: RuntimeConfigSet_def Let_def case_prod_beta)
  have "rt_cfgStore r \<noteq> None" using assms(1) by simp
  then show ?thesis using assms(2) by (simp add: eq Get_store_set)
qed

section \<open>Changing the topics without a connection\<close>

lemma reload_settings_session:
  assumes "reload_settings H key r = (ss, r1)"
  shows "rt_connected r1 = rt_connected r \<and> rt_auth r1 = rt_auth r \<and>
    rt_notifyRunning r1 = rt_notifyRunning r \<and> rt_notifyTopics r1 = rt_notifyTopics r"
  using assms by (auto simp: reload_settings_def Let_def split: if_splits option.splits sum.splits)

lemma RuntimeConfigSet_offline:
  assumes ok: "fst (RuntimeConfigSet H KeyNotifyTopicsJSON val r) = None" and off: "\<not> rt_connected r"
    and run: "rt_notifyRunning r" and ts: "ParseTopicsJSON val = Inr ts" "EnabledTopics ts \<noteq> []"
  shows "rt_notifyTopics (snd (RuntimeConfigSet H KeyNotifyTopicsJSON val r)) = rt_notifyTopics r"
proof -
  let ?r' = "snd (RuntimeConfigSet H KeyNotifyTopicsJSON val r)"
  from ok have "RuntimeConfigSet H KeyNotifyTopicsJSON val r = (None, ?r')" by (simp add: prod_eq_iff)
  then obtain v r1 where chk: "checked_value H KeyNotifyTopicsJSON val = Inr v" and st: "rt_cfgStore r \<noteq> None"
    and set: "store_set H KeyNotifyTopicsJSON v r = (None, r1)"
    and r': "?r' = reloadRuntimeConfig H KeyNotifyTopicsJSON r1"
    by (rule RuntimeConfigSet_cases) simp
  have st1: "rt_cfgStore r1 \<noteq> None" using st set store_set_None [of H KeyNotifyTopicsJSON v r] by simp
  have v: "v = marshal_topics ts" using chk ts by (simp add: checked_value_def)
  have "RuntimeConfigGet KeyNotifyTopicsJSON r1 = Some v"
    using Get_store_set [OF st, of KeyNotifyTopicsJSON KeyNotifyTopicsJSON H v] set by simp
  then have in_force: "topics_in_force r1 = ts"
    using marshal_topics_parse [OF ParseTopicsJSON_ok [OF ts(1)]] by (simp add: topics_in_force_def get_text_def v)
  obtain ss r2 where l: "reload_settings H KeyNotifyTopicsJSON r1 = (ss, r2)" by force
  obtain r3 r5 where r3: "r3 = storeSetIfChanged H KeyNotifyTopicsJSON (marshal_topics (topics_in_force r1))
       (storeSetIfChanged H KeyMetricsBindingsJSON (marshal_bindings (settingsToBindings ss)) r2)"
    and k5: "publish_kept r5 = publish_kept (signalConfigChanged (r3\<lparr>rt_cfg := config_from H ss r1\<rparr>))"
    and re: "reloadRuntimeConfig H KeyNotifyTopicsJSON r1 =
      (if KeyNotifyTopicsJSON = KeyNotifyTopicsJSON \<and> rt_notifyRunning r5 then
      (if EnabledTopics (topics_in_force r1) = [] then StopNotify r5 else snd (subscribeNotifyTopics H r5)) else r5)"
    by (rule reload_shape [OF st1 l])
  have "rt_connected r1 = rt_connected r" "rt_notifyRunning r1 = rt_notifyRunning r"
    "rt_notifyTopics r1 = rt_notifyTopics r"
    using store_set_frame [of H KeyNotifyTopicsJSON v r] by (simp_all add: set)
  with k5 reload_settings_session [OF l] off run
  have r5: "\<not> rt_connected r5" "rt_notifyRunning r5" "rt_notifyTopics r5 = rt_notifyTopics r"
    by (simp_all add: publish_kept_def signalConfigChanged_def r3)
  have "fst (subscribeNotifyTopics H r5) \<noteq> None" using subscribe_ok_connected r5(1) by blast
  then have "rt_notifyTopics (snd (subscribeNotifyTopics H r5)) = rt_notifyTopics r5"
    by (simp only: subscribe_topics if_False)
  then show ?thesis
    using r5 ts(2) unfolding r' re in_force by simp
qed

end
