(* ===== verification/Inbound.thy ===== *)
theory Inbound
  imports RuntimeConfig
begin

text \<open>
  Frames from the hub (\<^verbatim>\<open>core/runtime/varstore_inbound.go\<close>,
  \<^verbatim>\<open>core/runtime/management.go\<close>, \<^verbatim>\<open>onUnmatchedFrame\<close> of
  \<^verbatim>\<open>core/runtime/runtime.go\<close>): writes to the node's variables become control actions
  or are corrected, management commands read and set the configuration.
\<close>

section \<open>Parsing values\<close>

definition parseInt :: "('a) platform_scheme \<Rightarrow> string \<Rightarrow> int option" where
  "parseInt P txt = Atoi P (TrimSpace txt)"

definition parseBoolish :: "('a) platform_scheme \<Rightarrow> string \<Rightarrow> bool option" where
  "parseBoolish P txt =
     (let v = ToLower P (TrimSpace txt) in
      if v \<in> {''1'', ''true'', ''yes'', ''y'', ''on''} then Some True
      else if v \<in> {''0'', ''false'', ''no'', ''n'', ''off''} then Some False
      else None)"

definition clampInt :: "int \<Rightarrow> int \<Rightarrow> int \<Rightarrow> int" where
  "clampInt n lo hi = (if n < lo then lo else if hi < n then hi else n)"

section \<open>Variable store\<close>

definition bindingByVarName :: "runtimeConfig \<Rightarrow> string \<Rightarrow> varBinding option" where
  "bindingByVarName cfg varName0 =
     (let varName = TrimSpace varName0;
          listed = (case find (\<lambda>b. b_VarName b = varName) (cfg_Bindings cfg) of
            None \<Rightarrow> None
          | Some b \<Rightarrow> Some \<lparr>vb_Metric = b_Metric b, vb_Writable = IsControllable (b_Metric b)\<rparr>)
      in if varName = [] then None
         else case BindingByVarName cfg varName of
           Some b \<Rightarrow> if TrimSpace (vb_Metric b) \<noteq> [] then Some b else listed
         | None \<Rightarrow> listed)"

definition metricByVarName :: "runtimeConfig \<Rightarrow> string \<Rightarrow> string option" where
  "metricByVarName cfg varName = map_option vb_Metric (bindingByVarName cfg varName)"

definition updatePublishedShadow ::
  "'w host \<Rightarrow> string \<Rightarrow> string \<Rightarrow> string \<Rightarrow> 'w runtime \<Rightarrow> 'w runtime" where
  "updatePublishedShadow H varName0 value0 visibility0 r =
     (let varName = TrimSpace varName0; val = TrimSpace value0;
          vis0 = ToLower H (TrimSpace visibility0);
          vis = (if vis0 = [] then VisibilityPublic else vis0) in
      if varName = [] \<or> val = [] then r
      else r\<lparr>rt_lastPublished :=
        (rt_lastPublished r)(varName \<mapsto> \<lparr>pv_Value = val, pv_Visibility = vis\<rparr>)\<rparr>)"

definition enqueueControlAction :: "string \<Rightarrow> string \<Rightarrow> 'w runtime \<Rightarrow> 'w runtime" where
  "enqueueControlAction metric val r = r\<lparr>rt_controlQ := ActionEnqueue metric val (rt_controlQ r)\<rparr>"

definition currentPublishedMetricValue :: "string \<Rightarrow> runtimeConfig \<Rightarrow> 'w runtime \<Rightarrow> string option" where
  "currentPublishedMetricValue metric cfg r =
     (case rt_lastMetrics r metric of
        None \<Rightarrow> None
      | Some raw \<Rightarrow>
          let val = transformMetricValue metric raw cfg in
          if TrimSpace val = [] then None else Some val)"

text \<open>Sending the node's own value back over a write it does not accept.\<close>

definition correct_var :: "'w host \<Rightarrow> string \<Rightarrow> string \<Rightarrow> string \<Rightarrow> 'w runtime \<Rightarrow> 'w runtime" where
  "correct_var H metric name val r =
     (case currentPublishedMetricValue metric (rt_cfg r) r of
        None \<Rightarrow> r
      | Some correct \<Rightarrow>
          if correct = [] \<or> val = correct then r
          else publishVar H (NodeID (rt_auth r)) (HubID (rt_auth r)) name correct
                 (VisibilityDefault (rt_cfg r)) r)"

definition enqueue_percent :: "'w host \<Rightarrow> string \<Rightarrow> string \<Rightarrow> 'w runtime \<Rightarrow> 'w runtime" where
  "enqueue_percent H metric val r =
     (case parseInt H val of
        None \<Rightarrow> r
      | Some percent \<Rightarrow> enqueueControlAction metric (Itoa (clampInt percent 0 100)) r)"

definition enqueue_switch :: "'w host \<Rightarrow> string \<Rightarrow> string \<Rightarrow> 'w runtime \<Rightarrow> 'w runtime" where
  "enqueue_switch H metric val r =
     (case parseBoolish H val of
        None \<Rightarrow> r
      | Some b \<Rightarrow> enqueueControlAction metric (if b then ''1'' else ''0'') r)"

definition handleVarStoreNotifySet :: "'w host \<Rightarrow> VarResp \<Rightarrow> 'w runtime \<Rightarrow> 'w runtime" where
  "handleVarStoreNotifySet H resp r =
     (let auth = rt_auth r; name = TrimSpace (vr_Name resp); val = TrimSpace (vr_Value resp) in
      if \<not> logged_in auth then r
      else if name = [] \<or> val = [] then r
      else if vr_Owner resp \<noteq> 0 \<and> vr_Owner resp \<noteq> NodeID auth then r
      else case bindingByVarName (rt_cfg r) name of
        None \<Rightarrow> r
      | Some binding \<Rightarrow>
          let metric = vb_Metric binding;
              r1 = updatePublishedShadow H name val (vr_Visibility resp) r
          in if IsControllable metric \<and> \<not> vb_Writable binding then correct_var H metric name val r1
             else if metric = MetricVolumePercent then enqueue_percent H metric val r1
             else if metric = MetricVolumeMuted then enqueue_switch H metric val r1
             else if metric = MetricBrightnessPercent then enqueue_percent H metric val r1
             else if metric = MetricFlashlightEnabled then enqueue_switch H metric val r1
             else if \<not> IsReadOnly metric then r1
             else correct_var H metric name val r1)"

definition handleVarStoreFrame :: "'w host \<Rightarrow> string \<Rightarrow> 'w runtime \<Rightarrow> 'w runtime" where
  "handleVarStoreFrame H payload r =
     (case decode_message H payload of
        Inl e \<Rightarrow> r
      | Inr msg \<Rightarrow>
          if msg_Action msg = ActionNotifySet (proto H) then
            (case dec_var_resp (decode H) (msg_Data msg) of
               Inl e \<Rightarrow> r
             | Inr resp \<Rightarrow> handleVarStoreNotifySet H resp r)
          else r)"

definition tryHandleVarStoreFrame :: "'w host \<Rightarrow> frameHdr \<Rightarrow> string \<Rightarrow> 'w runtime \<Rightarrow> bool \<times> 'w runtime" where
  "tryHandleVarStoreFrame H hdr payload r =
     (if payload = [] then (False, r)
      else if hdr_SubProto hdr \<noteq> SubProtoVarStore (proto H) then (False, r)
      else if \<not> cmd_or_msg H hdr then (False, r)
      else (True, handleVarStoreFrame H payload r))"

section \<open>Management\<close>

definition sendManagementResp :: "'w host \<Rightarrow> frameHdr \<Rightarrow> string \<Rightarrow> outMsg \<Rightarrow> 'w runtime \<Rightarrow> 'w runtime" where
  "sendManagementResp H req action data r =
     (case encode_message H action data of
        Inl e \<Rightarrow> r
      | Inr body \<Rightarrow>
          let selfID = (if NodeID (rt_auth r) = 0 then hdr_TargetID req else NodeID (rt_auth r)) in
          case build_response H req (length body) (SubProtoManagement (proto H)) of
            None \<Rightarrow> r
          | Some respHdr \<Rightarrow>
              let hdr = (if selfID \<noteq> 0 then respHdr\<lparr>hdr_SourceID := selfID\<rparr> else respHdr)
              in note_error H (Send H hdr body (ensureClient r)))"

definition handleManagementCmd :: "'w host \<Rightarrow> frameHdr \<Rightarrow> string \<Rightarrow> 'w runtime \<Rightarrow> 'w runtime" where
  "handleManagementCmd H hdr payload r =
     (case decode_message H payload of
        Inl e \<Rightarrow> r
      | Inr msg \<Rightarrow>
          let P = proto H; act = msg_Action msg in
          if act = ActionConfigList P then
            (case RuntimeConfigKeys r of
               None \<Rightarrow> sendManagementResp H hdr (ActionConfigListResp P)
                 (MsgConfigList 500 ''config unavailable'' []) r
             | Some keys \<Rightarrow> sendManagementResp H hdr (ActionConfigListResp P) (MsgConfigList 1 ''ok'' keys) r)
          else if act = ActionConfigGet P then
            (case dec_config_get (decode H) (msg_Data msg) of
               Inl e \<Rightarrow> sendManagementResp H hdr (ActionConfigGetResp P) (MsgConfig 400 ''invalid key'' [] []) r
             | Inr key0 \<Rightarrow>
                 let key = TrimSpace key0 in
                 if key = [] then
                   sendManagementResp H hdr (ActionConfigGetResp P) (MsgConfig 400 ''invalid key'' [] []) r
                 else case RuntimeConfigGet key r of
                   None \<Rightarrow> sendManagementResp H hdr (ActionConfigGetResp P) (MsgConfig 404 ''not found'' key []) r
                 | Some val \<Rightarrow> sendManagementResp H hdr (ActionConfigGetResp P) (MsgConfig 1 ''ok'' key val) r)
          else if act = ActionConfigSet P then
            (case dec_config_set (decode H) (msg_Data msg) of
               Inl e \<Rightarrow> sendManagementResp H hdr (ActionConfigSetResp P) (MsgConfig 400 ''invalid key'' [] []) r
             | Inr (key0, val) \<Rightarrow>
                 let key = TrimSpace key0 in
                 if key = [] then
                   sendManagementResp H hdr (ActionConfigSetResp P) (MsgConfig 400 ''invalid key'' [] []) r
                 else case RuntimeConfigSet H key val r of
                   (Some e, r1) \<Rightarrow>
                     sendManagementResp H hdr (ActionConfigSetResp P) (MsgConfig 400 (error_text H e) key val) r1
                 | (None, r1) \<Rightarrow>
                     sendManagementResp H hdr (ActionConfigSetResp P) (MsgConfig 1 ''ok'' key val) r1)
          else r)"

definition tryHandleManagementFrame :: "'w host \<Rightarrow> frameHdr \<Rightarrow> string \<Rightarrow> 'w runtime \<Rightarrow> bool \<times> 'w runtime" where
  "tryHandleManagementFrame H hdr payload r =
     (if payload = [] then (False, r)
      else if hdr_SubProto hdr \<noteq> SubProtoManagement (proto H) then (False, r)
      else if hdr_Major hdr \<noteq> MajorCmd (proto H) then (False, r)
      else (True, handleManagementCmd H hdr payload r))"

definition onUnmatchedFrame :: "'w host \<Rightarrow> frameHdr \<Rightarrow> string \<Rightarrow> 'w runtime \<Rightarrow> 'w runtime" where
  "onUnmatchedFrame H hdr payload r =
     (if payload = [] then r
      else case tryHandleVarStoreFrame H hdr payload r of
        (True, r1) \<Rightarrow> r1
      | (False, r1) \<Rightarrow>
          (case tryHandleManagementFrame H hdr payload r1 of
             (True, r2) \<Rightarrow> r2
           | (False, r2) \<Rightarrow> snd (tryHandleTopicBusFrame H hdr payload r2)))"

section \<open>Bindings by name\<close>

text \<open>With a well-formed configuration a name is bound exactly when an enabled setting has it.\<close>

lemma bindingByVarName_sync:
  assumes sync: "cfg_ok H (rt_cfg r)"
  shows "bindingByVarName (rt_cfg r) name = Some b \<longleftrightarrow>
    (\<exists>s\<in>set (cfg_Settings (rt_cfg r)). ms_Enabled s \<and> ms_VarName s = TrimSpace name \<and>
       b = \<lparr>vb_Metric = ms_Metric s, vb_Writable = ms_Writable s\<rparr>)"
    (is "_ \<longleftrightarrow> ?R")
proof -
  let ?ss = "cfg_Settings (rt_cfg r)" and ?n = "TrimSpace name"
  have w: "settings_wf (GOOS H) ?ss" and maps: "BindingByVarName (rt_cfg r) = var_map ?ss"
    "cfg_Bindings (rt_cfg r) = settingsToBindings ?ss" using sync unfolding cfg_ok_def by simp_all
  have ne: "ms_VarName s \<noteq> [] \<and> ms_Metric s \<noteq> [] \<and> TrimSpace (ms_Metric s) = ms_Metric s" if "s \<in> set ?ss" for s
    using settings_wf_entry [OF w that] w that default_binding_wf by (fastforce simp: settings_wf_def)
  have var: "var_map ?ss ?n = Some b' \<longleftrightarrow> (\<exists>s\<in>set ?ss. ms_Enabled s \<and> ms_VarName s = ?n \<and>
      b' = \<lparr>vb_Metric = ms_Metric s, vb_Writable = ms_Writable s\<rparr>)" for b'
    by (rule var_map_iff [OF w])
  have listed: "find (\<lambda>b. b_VarName b = ?n) (settingsToBindings ?ss) = None" if "var_map ?ss ?n = None"
    using that var by (force simp: find_None_iff settingsToBindings_eq [OF w])
  show ?thesis
  proof (cases "var_map ?ss ?n")
    case None
    with listed var show ?thesis by (auto simp: bindingByVarName_def Let_def maps)
  next
    case (Some b')
    with var obtain s where s: "s \<in> set ?ss" "ms_Enabled s" "ms_VarName s = ?n"
      "b' = \<lparr>vb_Metric = ms_Metric s, vb_Writable = ms_Writable s\<rparr>" by blast
    then have "bindingByVarName (rt_cfg r) name = Some b'"
      using Some ne [OF s(1)] by (auto simp: bindingByVarName_def Let_def maps)
    then show ?thesis using var [of b] Some by auto
  qed
qed

section \<open>Writes to the node's variables\<close>

definition control_value :: "string \<Rightarrow> string \<Rightarrow> bool" where
  "control_value m v \<longleftrightarrow>
     (m \<in> {MetricVolumePercent, MetricBrightnessPercent} \<and> (\<exists>p. 0 \<le> p \<and> p \<le> 100 \<and> v = Itoa p)) \<or>
     (m \<in> {MetricVolumeMuted, MetricFlashlightEnabled} \<and> v \<in> {''0'', ''1''})"

lemma clampInt_range: "lo \<le> hi \<Longrightarrow> lo \<le> clampInt n lo hi \<and> clampInt n lo hi \<le> hi"
  by (simp add: clampInt_def)

text \<open>The action an accepted write stands for.\<close>

definition control_action :: "'w host \<Rightarrow> string \<Rightarrow> string \<Rightarrow> string option" where
  "control_action H metric val =
     (if metric \<in> {MetricVolumePercent, MetricBrightnessPercent} then
        map_option (\<lambda>p. Itoa (clampInt p 0 100)) (parseInt H val)
      else map_option (\<lambda>b. if b then ''1'' else ''0'') (parseBoolish H val))"

lemma control_action_value:
  "IsControllable m \<Longrightarrow> control_action H m val = Some v \<Longrightarrow> control_value m v"
  using clampInt_range [of 0 100]
  by (auto simp: control_action_def control_value_def IsControllable_def split: if_splits)

text \<open>
  The state after a write, by the kind of binding: an action for a writable metric, a
  correction for every other one.
\<close>

definition apply_action :: "string \<Rightarrow> string option \<Rightarrow> 'w runtime \<Rightarrow> 'w runtime" where
  "apply_action m v r = (case v of None \<Rightarrow> r | Some x \<Rightarrow> enqueueControlAction m x r)"

definition addressed :: "VarResp \<Rightarrow> 'w runtime \<Rightarrow> bool" where
  "addressed resp r \<longleftrightarrow> logged_in (rt_auth r) \<and> TrimSpace (vr_Name resp) \<noteq> [] \<and> TrimSpace (vr_Value resp) \<noteq> [] \<and>
     (vr_Owner resp = 0 \<or> vr_Owner resp = NodeID (rt_auth r))"

lemma metric_cases:
  assumes "settings_wf goos ss" and "s \<in> set ss"
  shows "IsControllable (ms_Metric s) \<or> IsReadOnly (ms_Metric s)"
proof -
  have "ms_Metric s \<in> set (supported_metrics goos)" using settings_wf_entry [OF assms] by simp
  then show ?thesis
    by (auto simp: defaultBindingsForOS_def IsControllable_def IsReadOnly_def split: if_splits)
qed

theorem notify_set_eq:
  assumes sync: "cfg_ok H (rt_cfg r)" and a: "addressed resp r"
    and s: "s \<in> set (cfg_Settings (rt_cfg r))" "ms_Enabled s" "ms_VarName s = TrimSpace (vr_Name resp)"
  shows "handleVarStoreNotifySet H resp r =
    (let r1 = updatePublishedShadow H (TrimSpace (vr_Name resp)) (TrimSpace (vr_Value resp)) (vr_Visibility resp) r in
     if ms_Writable s then apply_action (ms_Metric s) (control_action H (ms_Metric s) (TrimSpace (vr_Value resp))) r1
     else correct_var H (ms_Metric s) (TrimSpace (vr_Name resp)) (TrimSpace (vr_Value resp)) r1)"
proof -
  have w: "settings_wf (GOOS H) (cfg_Settings (rt_cfg r))" using sync by (simp add: cfg_ok_def)
  have b: "bindingByVarName (rt_cfg r) (TrimSpace (vr_Name resp)) =
      Some \<lparr>vb_Metric = ms_Metric s, vb_Writable = ms_Writable s\<rparr>"
    using bindingByVarName_sync [OF sync, of "TrimSpace (vr_Name resp)"] s by auto
  have wr: "ms_Writable s \<Longrightarrow> IsControllable (ms_Metric s)" using w s(1) by (simp add: settings_wf_def)
  have guard: "logged_in (rt_auth r)" "TrimSpace (vr_Name resp) \<noteq> []" "TrimSpace (vr_Value resp) \<noteq> []"
    "\<not> (vr_Owner resp \<noteq> 0 \<and> vr_Owner resp \<noteq> NodeID (rt_auth r))" using a by (auto simp: addressed_def)
  have e: "enqueue_percent H m v q = apply_action m (map_option (\<lambda>p. Itoa (clampInt p 0 100)) (parseInt H v)) q"
    "enqueue_switch H m v q = apply_action m (map_option (\<lambda>b. if b then ''1'' else ''0'') (parseBoolish H v)) q" for m v q
    by (simp_all add: enqueue_percent_def enqueue_switch_def apply_action_def split: option.split)
  show ?thesis
  proof (cases "ms_Writable s")
    case True
    then show ?thesis
      using wr guard by (auto simp: handleVarStoreNotifySet_def b Let_def e control_action_def IsControllable_def go_defs)
  next
    case False
    from metric_cases [OF w s(1)] controllable_not_readonly [of "ms_Metric s"] show ?thesis
      using guard False
      by (auto simp: handleVarStoreNotifySet_def b Let_def IsReadOnly_def IsControllable_def go_defs)
  qed
qed

lemma notify_set_ignored:
  assumes "cfg_ok H (rt_cfg r)"
    and "\<not> addressed resp r \<or> \<not> (\<exists>s\<in>set (cfg_Settings (rt_cfg r)). ms_Enabled s \<and> ms_VarName s = TrimSpace (vr_Name resp))"
  shows "handleVarStoreNotifySet H resp r = r"
proof (cases "addressed resp r")
  case True
  then have "bindingByVarName (rt_cfg r) (TrimSpace (vr_Name resp)) = None"
    using assms bindingByVarName_sync [OF assms(1), of "TrimSpace (vr_Name resp)"] by (metis TrimSpace_idem not_None_eq)
  then show ?thesis by (simp add: handleVarStoreNotifySet_def Let_def)
qed (auto simp: handleVarStoreNotifySet_def addressed_def Let_def)

lemma updatePublishedShadow_kept [simp, frame_simps]:
  "publish_kept (updatePublishedShadow H n v vis r) = publish_kept r"
  "rt_sent (updatePublishedShadow H n v vis r) = rt_sent r"
  by (simp_all add: updatePublishedShadow_def Let_def)

lemma correct_var_kept [frame_simps]: "publish_kept (correct_var H m n v r) = publish_kept r"
  by (simp add: correct_var_def publishVar_kept split: option.split)

lemma notify_set_queue:
  assumes sync: "cfg_ok H (rt_cfg r)"
  shows "rt_controlQ (handleVarStoreNotifySet H resp r) = rt_controlQ r \<or>
    (\<exists>s\<in>set (cfg_Settings (rt_cfg r)). \<exists>v. addressed resp r \<and> ms_Enabled s \<and> ms_Writable s \<and>
       ms_VarName s = TrimSpace (vr_Name resp) \<and> control_value (ms_Metric s) v \<and>
       rt_controlQ (handleVarStoreNotifySet H resp r) = ActionEnqueue (ms_Metric s) v (rt_controlQ r))"
proof (cases "addressed resp r \<and>
    (\<exists>s\<in>set (cfg_Settings (rt_cfg r)). ms_Enabled s \<and> ms_VarName s = TrimSpace (vr_Name resp))")
  case False
  then show ?thesis using notify_set_ignored [OF sync, of resp] by auto
next
  case True
  then obtain s where a: "addressed resp r" and s: "s \<in> set (cfg_Settings (rt_cfg r))" "ms_Enabled s"
    "ms_VarName s = TrimSpace (vr_Name resp)" by blast
  let ?r1 = "updatePublishedShadow H (TrimSpace (vr_Name resp)) (TrimSpace (vr_Value resp)) (vr_Visibility resp) r"
  have q: "rt_controlQ ?r1 = rt_controlQ r" "\<And>m n v. rt_controlQ (correct_var H m n v ?r1) = rt_controlQ r"
    using correct_var_kept [of H _ _ _ ?r1] by (simp_all add: publish_kept_def updatePublishedShadow_def Let_def)
  have wr: "ms_Writable s \<Longrightarrow> IsControllable (ms_Metric s)"
    using sync s(1) by (simp add: cfg_ok_def settings_wf_def)
  show ?thesis
  proof (cases "ms_Writable s \<and> control_action H (ms_Metric s) (TrimSpace (vr_Value resp)) \<noteq> None")
    case True
    then obtain v where v: "control_action H (ms_Metric s) (TrimSpace (vr_Value resp)) = Some v" by blast
    with True wr have "control_value (ms_Metric s) v" by (blast intro: control_action_value)
    moreover have "rt_controlQ (handleVarStoreNotifySet H resp r) = ActionEnqueue (ms_Metric s) v (rt_controlQ r)"
      using True by (simp add: notify_set_eq [OF sync a s] v apply_action_def enqueueControlAction_def q)
    ultimately show ?thesis using a s True by blast
  next
    case False
    then have "rt_controlQ (handleVarStoreNotifySet H resp r) = rt_controlQ r"
      by (auto simp: notify_set_eq [OF sync a s] Let_def apply_action_def q split: option.split)
    then show ?thesis by (rule disjI1)
  qed
qed

text \<open>
  A write the node does not accept is answered with the node's own value: a set request
  for the variable, unless the written value is already that value.
\<close>

lemma publishVar_sends:
  assumes n: "ValidVarName (TrimSpace n)" and v: "TrimSpace v \<noteq> []"
    and new: "map_option pv_Value (rt_lastPublished r (TrimSpace n)) \<noteq> Some (TrimSpace v)"
    and enc: "\<And>req. \<exists>p. encode_message H (ActionSet (proto H)) (MsgSet req) = Inr p"
  shows "\<exists>f. rt_sent (publishVar H s t n v vis r) = rt_sent r @ [f] \<and> set_frame H s t (TrimSpace n) (TrimSpace v) f"
proof -
  have no_err: "encode_message H (ActionSet (proto H)) (MsgSet req) \<noteq> Inl e" for req e
    using enc [of req] by auto
  have "\<exists>f. rt_sent (snd (VarClient_Set H s t \<lparr>sr_Name = TrimSpace n, sr_Value = TrimSpace v,
      sr_Visibility = u, sr_Type = ''string'', sr_Owner = s\<rparr> q)) = rt_sent q @ [f]" for u q
    using n v by (auto simp: VarClient_Set_def Let_def Send_def case_prod_beta no_err split: sum.split)
  then have len: "length (rt_sent (snd (VarClient_Set H s t \<lparr>sr_Name = TrimSpace n, sr_Value = TrimSpace v,
      sr_Visibility = u, sr_Type = ''string'', sr_Owner = s\<rparr> q))) = Suc (length (rt_sent q))" for u q
    by (metis length_append_singleton)
  have fresh: "rt_lastPublished r (TrimSpace n) \<noteq> Some \<lparr>pv_Value = TrimSpace v, pv_Visibility = u\<rparr>" for u
    using new by auto
  have "TrimSpace n \<noteq> []" using n by auto
  then have "length (rt_sent (publishVar H s t n v vis r)) = Suc (length (rt_sent r))"
    using n v by (simp add: publishVar_def Let_def fresh len) (simp add: ensureClient_def)
  then show ?thesis using publishVar_sent [of H s t n v vis r] by auto
qed

lemma notify_set_correction:
  assumes sync: "cfg_ok H (rt_cfg r)" and a: "addressed resp r"
    and s: "s \<in> set (cfg_Settings (rt_cfg r))" "ms_Enabled s" "ms_VarName s = TrimSpace (vr_Name resp)"
    and ro: "\<not> ms_Writable s"
    and cur: "currentPublishedMetricValue (ms_Metric s) (rt_cfg r) r = Some c"
    and diff: "c \<noteq> TrimSpace (vr_Value resp)"
    and enc: "\<And>req. \<exists>p. encode_message H (ActionSet (proto H)) (MsgSet req) = Inr p"
  shows "\<exists>f. rt_sent (handleVarStoreNotifySet H resp r) = rt_sent r @ [f] \<and>
      set_frame H (NodeID (rt_auth r)) (HubID (rt_auth r)) (ms_VarName s) c f"
    and "map_option pv_Value (rt_lastPublished (handleVarStoreNotifySet H resp r) (ms_VarName s)) = Some c"
proof -
  let ?r1 = "updatePublishedShadow H (TrimSpace (vr_Name resp)) (TrimSpace (vr_Value resp)) (vr_Visibility resp) r"
  have name: "ValidVarName (TrimSpace (vr_Name resp))"
    using sync s(1,3) by (auto simp: cfg_ok_def settings_wf_def)
  have c: "TrimSpace c = c" "c \<noteq> []"
    using cur transformMetricValue_trimmed
    by (auto simp: currentPublishedMetricValue_def Let_def TrimSpace_id split: option.splits if_splits)
  have kept: "rt_auth ?r1 = rt_auth r" "rt_cfg ?r1 = rt_cfg r" "rt_lastMetrics ?r1 = rt_lastMetrics r"
    by (simp_all add: updatePublishedShadow_def Let_def)
  have shadow: "map_option pv_Value (rt_lastPublished ?r1 (TrimSpace (vr_Name resp))) = Some (TrimSpace (vr_Value resp))"
    using a by (simp add: updatePublishedShadow_def Let_def addressed_def)
  have cur1: "currentPublishedMetricValue (ms_Metric s) (rt_cfg r) ?r1 = Some c"
    using cur kept by (simp add: currentPublishedMetricValue_def)
  have eq: "handleVarStoreNotifySet H resp r = publishVar H (NodeID (rt_auth r)) (HubID (rt_auth r))
      (TrimSpace (vr_Name resp)) c (VisibilityDefault (rt_cfg r)) ?r1"
    using ro diff c by (simp add: notify_set_eq [OF sync a s] Let_def correct_var_def cur1 kept)
  show "\<exists>f. rt_sent (handleVarStoreNotifySet H resp r) = rt_sent r @ [f] \<and>
      set_frame H (NodeID (rt_auth r)) (HubID (rt_auth r)) (ms_VarName s) c f"
    using publishVar_sends [of "TrimSpace (vr_Name resp)" c ?r1 H] name c shadow diff enc by (simp add: eq s(3))
  show "map_option pv_Value (rt_lastPublished (handleVarStoreNotifySet H resp r) (ms_VarName s)) = Some c"
    using name c by (simp add: eq s(3) publishVar_published)
qed

section \<open>What an inbound frame can change\<close>

text \<open>The fields no configuration change touches.\<close>

definition config_kept where
  "config_kept r = (rt_workDir r, rt_addr r, rt_connected r, rt_reconnectCtx r, rt_reconnectRunning r,
     rt_reconnectDesired r, rt_auth r, rt_keys r, rt_reportRunning r, rt_reportEnabled r, rt_lastMetrics r,
     rt_controlQ r, rt_notifyQ r)"

lemma config_kept_publish: "publish_kept r' = publish_kept r \<Longrightarrow> config_kept r' = config_kept r"
  by (simp add: publish_kept_def config_kept_def)

lemma config_kept_subscribe: "subscribe_kept r' = subscribe_kept r \<Longrightarrow> config_kept r' = config_kept r"
  by (simp add: subscribe_kept_def config_kept_def)

lemma config_kept_simps [simp]:
  "config_kept (snd (store_set H k v r)) = config_kept r"
  "config_kept (storeSetIfChanged H k v r) = config_kept r"
  "config_kept (StopNotify r) = config_kept r" "config_kept (signalConfigChanged r) = config_kept r"
  "config_kept (r\<lparr>rt_cfg := c\<rparr>) = config_kept r" "config_kept (ensureClient r) = config_kept r"
  by (simp_all add: config_kept_def StopNotify_def signalConfigChanged_def ensureClient_def)

lemma reload_kept: "config_kept (reloadRuntimeConfig H key r) = config_kept r"
proof -
  obtain ss r1 where l: "reload_settings H key r = (ss, r1)" by force
  then have "config_kept r1 = config_kept r"
    by (auto simp: reload_settings_def Let_def split: option.splits sum.splits if_splits)
  then show ?thesis
    unfolding reloadRuntimeConfig_def l
    by (simp add: Let_def config_kept_publish [OF republish_kept] config_kept_subscribe [OF subscribe_kept_eq])
qed

text \<open>Initialising touches the identity, the queues and the collected values not at all.\<close>

lemma initRuntimeConfig_kept: "config_kept (snd (initRuntimeConfig H r)) = config_kept r"
proof -
  have m: "config_kept (migrate_bindings H q) = config_kept q" for q
    by (simp add: migrate_bindings_def split: option.split sum.split)
  have d: "config_kept (derive_missing_settings H q) = config_kept q" for q
    by (simp add: derive_missing_settings_def Let_def)
  have s: "config_kept (q\<lparr>rt_disk := x\<rparr>) = config_kept q"
    "config_kept (q\<lparr>rt_cfgStore := y\<rparr>) = config_kept q" for q :: "'a runtime" and x y
    by (simp_all add: config_kept_def)
  show ?thesis
    by (simp add: initRuntimeConfig_def reload_kept m d s split: prod.split sum.split)
qed

lemma RuntimeConfigSet_kept: "config_kept (snd (RuntimeConfigSet H key v r)) = config_kept r"
proof -
  have "config_kept r1 = config_kept r" if "store_set H k u r = (e, r1)" for k u e r1
    using that config_kept_simps(1) [of H k u r] by simp
  then show ?thesis
    by (auto simp: RuntimeConfigSet_def Let_def reload_kept split: sum.split prod.split option.split)
qed

lemma sendManagementResp_kept: "publish_kept (sendManagementResp H hdr act m r) = publish_kept r"
  by (simp add: sendManagementResp_def Let_def Send_kept split: sum.split option.split)

lemma handleManagementCmd_kept: "config_kept (handleManagementCmd H hdr payload r) = config_kept r"
proof (cases "decode_message H payload")
  case (Inr msg)
  note send = config_kept_publish [OF sendManagementResp_kept]
  have set: "config_kept (case RuntimeConfigSet H k u r of (Some e, r1) \<Rightarrow> sendManagementResp H hdr act (f e) r1
      | (None, r1) \<Rightarrow> sendManagementResp H hdr act m r1) = config_kept r" for k u act f m
    using RuntimeConfigSet_kept [of H k u r] by (auto simp: send split: prod.split option.split)
  show ?thesis
    by (simp add: handleManagementCmd_def Inr Let_def send set split: sum.split prod.split option.split)
qed (simp add: handleManagementCmd_def)

lemma publish_kept_controlQ:
  "publish_kept q = publish_kept r \<Longrightarrow> publish_kept (q\<lparr>rt_controlQ := c\<rparr>) = publish_kept (r\<lparr>rt_controlQ := c\<rparr>)"
  by (simp add: publish_kept_def)

lemma notify_set_kept:
  "publish_kept ((handleVarStoreNotifySet H resp r)\<lparr>rt_controlQ := c\<rparr>) = publish_kept (r\<lparr>rt_controlQ := c\<rparr>)"
proof -
  have e: "publish_kept ((enqueue_percent H m v q)\<lparr>rt_controlQ := c\<rparr>) = publish_kept (q\<lparr>rt_controlQ := c\<rparr>)"
    "publish_kept ((enqueue_switch H m v q)\<lparr>rt_controlQ := c\<rparr>) = publish_kept (q\<lparr>rt_controlQ := c\<rparr>)" for m v q
    by (simp_all add: enqueue_percent_def enqueue_switch_def enqueueControlAction_def split: option.split)
  show ?thesis
    by (auto simp: handleVarStoreNotifySet_def Let_def e publish_kept_controlQ [OF correct_var_kept]
        publish_kept_controlQ [OF updatePublishedShadow_kept(1)] split: option.split)
qed

text \<open>An inbound frame goes to at most one handler.\<close>

lemma onUnmatchedFrame_eq:
  "onUnmatchedFrame H hdr payload r =
     (if payload = [] then r
      else if hdr_SubProto hdr = SubProtoVarStore (proto H) \<and> cmd_or_msg H hdr then handleVarStoreFrame H payload r
      else if hdr_SubProto hdr = SubProtoManagement (proto H) \<and> hdr_Major hdr = MajorCmd (proto H)
      then handleManagementCmd H hdr payload r
      else if hdr_SubProto hdr = SubProtoTopicBus (proto H) \<and> cmd_or_msg H hdr then handleTopicBusFrame H payload r
      else r)"
  unfolding onUnmatchedFrame_def tryHandleVarStoreFrame_def tryHandleManagementFrame_def tryHandleTopicBusFrame_def
  by (cases "payload = []"; cases "hdr_SubProto hdr = SubProtoVarStore (proto H) \<and> cmd_or_msg H hdr";
      cases "hdr_SubProto hdr = SubProtoManagement (proto H) \<and> hdr_Major hdr = MajorCmd (proto H)") auto

lemma handleVarStoreFrame_cases:
  obtains "handleVarStoreFrame H payload r = r"
    | resp where "handleVarStoreFrame H payload r = handleVarStoreNotifySet H resp r"
proof -
  have "handleVarStoreFrame H payload r \<in> insert r (range (\<lambda>resp. handleVarStoreNotifySet H resp r))"
    by (simp add: handleVarStoreFrame_def split: sum.split)
  then show thesis using that by (elim insertE rangeE)
qed

lemma onUnmatchedFrame_cases:
  obtains (none) "onUnmatchedFrame H hdr payload r = r"
    | (var) resp where "onUnmatchedFrame H hdr payload r = handleVarStoreNotifySet H resp r"
    | (mgmt) "onUnmatchedFrame H hdr payload r = handleManagementCmd H hdr payload r"
    | (topic) "onUnmatchedFrame H hdr payload r = handleTopicBusFrame H payload r"
  by (rule handleVarStoreFrame_cases [of H payload r])
    (use that onUnmatchedFrame_eq [of H hdr payload r] in \<open>simp_all split: if_split_asm\<close>)

theorem inbound_effect:
  assumes sync: "cfg_ok H (rt_cfg r)" and r': "r' = onUnmatchedFrame H hdr payload r"
  shows "rt_auth r' = rt_auth r \<and> rt_lastMetrics r' = rt_lastMetrics r \<and> rt_reportEnabled r' = rt_reportEnabled r \<and>
    (rt_controlQ r' = rt_controlQ r \<or>
      (\<exists>s\<in>set (cfg_Settings (rt_cfg r)). \<exists>v. ms_Enabled s \<and> ms_Writable s \<and> control_value (ms_Metric s) v \<and>
         logged_in (rt_auth r) \<and> rt_controlQ r' = ActionEnqueue (ms_Metric s) v (rt_controlQ r))) \<and>
    (rt_notifyQ r' = rt_notifyQ r \<or>
      (\<exists>e. event_ok e \<and> rt_notifyRunning r \<and> isNotifyTopicEnabled r (ev_Topic e) \<and>
         rt_notifyQ r' = QueueEnqueue e (rt_notifyQ r)))"
proof (cases rule: onUnmatchedFrame_cases [of H hdr payload r])
  case none
  then show ?thesis by (simp add: r')
next
  case (var resp)
  then have v: "r' = handleVarStoreNotifySet H resp r" by (simp add: r')
  have "rt_auth r' = rt_auth r" "rt_lastMetrics r' = rt_lastMetrics r" "rt_reportEnabled r' = rt_reportEnabled r"
    "rt_notifyQ r' = rt_notifyQ r"
    using notify_set_kept [where H = H and resp = resp and r = r and c = "rt_controlQ r"]
    by (simp_all add: publish_kept_def v)
  then show ?thesis using notify_set_queue [OF sync, of resp] by (fastforce simp: v addressed_def)
next
  case mgmt
  then show ?thesis using handleManagementCmd_kept [of H hdr payload r] by (simp add: r' config_kept_def)
next
  case topic
  then show ?thesis using handleTopicBusFrame_cases [of H payload r] by (auto simp: r')
qed

end
