(* ===== verification/Session.thy ===== *)
theory Session
  imports Inbound
begin

text \<open>
  The connection to the hub and the login (\<^verbatim>\<open>core/runtime/runtime.go\<close>): starting the
  runtime, connecting, closing, registering, logging in and what happens when the
  connection breaks. The reconnect loop itself is a goroutine of its own (theory
  Reconnect); \<open>rt_reconnectRunning\<close> and \<open>rt_reconnectCtx\<close> are what the operations here
  share with it.
\<close>

section \<open>The transport\<close>

definition client_connect :: "'w host \<Rightarrow> string \<Rightarrow> 'w runtime \<Rightarrow> go_error option \<times> 'w runtime" where
  "client_connect H addr r = (let (e, w) = dial H addr (rt_world r) in (e, r\<lparr>rt_world := w\<rparr>))"

definition closeClientForReconnect :: "'w host \<Rightarrow> 'w runtime \<Rightarrow> 'w runtime" where
  "closeClientForReconnect H r =
     (if rt_client r then r\<lparr>rt_world := hangup H (rt_world r), rt_connected := False\<rparr>
      else r\<lparr>rt_connected := False\<rparr>)"

definition already_connected :: "go_error \<Rightarrow> bool" where
  "already_connected e = (case err_root e of ErrAlreadyConnected _ \<Rightarrow> True | _ \<Rightarrow> False)"

definition connectTransport :: "'w host \<Rightarrow> string \<Rightarrow> 'w runtime \<Rightarrow> go_error option \<times> 'w runtime" where
  "connectTransport H addr0 r =
     (let addr = TrimSpace addr0 in
      if addr = [] then (Some (ErrNew ''addr is required''), r)
      else case client_connect H addr (ensureClient r) of
        (None, r1) \<Rightarrow> (None, r1\<lparr>rt_connected := True, rt_addr := addr\<rparr>)
      | (Some e, r1) \<Rightarrow>
          if \<not> already_connected e then (Some e, storeLastError H (Some e) r1)
          else if rt_connected r1 then (None, r1\<lparr>rt_addr := addr\<rparr>)
          else
            (case client_connect H addr (ensureClient (closeClientForReconnect H r1)) of
               (Some e2, r2) \<Rightarrow> (Some e2, storeLastError H (Some e2) r2)
             | (None, r2) \<Rightarrow> (None, r2\<lparr>rt_connected := True, rt_addr := addr\<rparr>)))"

definition scheduleReconnect :: "'w runtime \<Rightarrow> 'w runtime" where
  "scheduleReconnect r =
     (if \<not> rt_reconnectDesired r then r
      else if rt_reconnectRunning r then r
      else r\<lparr>rt_reconnectCtx := Some False, rt_reconnectRunning := True\<rparr>)"

definition cancelReconnect :: "'w runtime \<Rightarrow> 'w runtime" where
  "cancelReconnect r = (if rt_reconnectCtx r = None then r else r\<lparr>rt_reconnectCtx := Some True\<rparr>)"

definition onClientError :: "'w host \<Rightarrow> go_error option \<Rightarrow> 'w runtime \<Rightarrow> 'w runtime" where
  "onClientError H err r =
     (case err of
        None \<Rightarrow> r
      | Some e \<Rightarrow> scheduleReconnect (markSessionLoggedOut H ''session_error'' (error_text H e)
          (storeLastError H (Some e) (r\<lparr>rt_connected := False\<rparr>))))"

section \<open>Connecting and closing\<close>

definition Close :: "'w host \<Rightarrow> 'w runtime \<Rightarrow> 'w runtime" where
  "Close H r =
     (let r1 = cancelReconnect (r\<lparr>rt_reconnectDesired := False\<rparr>);
          r2 = StopNotify (StopReporting r1);
          r3 = markSessionLoggedOut H ''disconnect'' ''client closed'' r2
      in (closeClientForReconnect H r3)\<lparr>rt_addr := []\<rparr>)"

definition Connect :: "'w host \<Rightarrow> string \<Rightarrow> 'w runtime \<Rightarrow> go_error option \<times> 'w runtime" where
  "Connect H addr0 r =
     (let addr = TrimSpace addr0 in
      if addr = [] then (Some (ErrNew ''addr is required''), r)
      else
        let prevAddr = rt_addr r; r1 = r\<lparr>rt_addr := addr\<rparr>;
            r2 = (if prevAddr \<noteq> [] \<and> prevAddr \<noteq> addr then (Close H r1)\<lparr>rt_addr := addr\<rparr> else r1)
        in case connectTransport H addr r2 of
             (Some e, r3) \<Rightarrow> (Some e, r3)
           | (None, r3) \<Rightarrow>
               let r4 = r3\<lparr>rt_reconnectDesired := True\<rparr>
               in (None, if rt_notifyRunning r4 then snd (subscribeNotifyTopics H r4) else r4))"

section \<open>Registering and logging in\<close>

text \<open>
  Both end the same way: the reply is awaited, decoded and its code checked; a failure is
  kept as last error and as the outcome of the authentication.
\<close>

definition auth_failed :: "'w host \<Rightarrow> string \<Rightarrow> go_error \<Rightarrow> 'w runtime \<Rightarrow> RespData result \<times> 'w runtime" where
  "auth_failed H action e r =
     (Inl e, setAuthResult H False action (error_text H e) (storeLastError H (Some e) r))"

definition auth_exchange ::
  "'w host \<Rightarrow> string \<Rightarrow> string \<Rightarrow> string \<Rightarrow> 'w runtime \<Rightarrow> RespData result \<times> 'w runtime" where
  "auth_exchange H verb action payload r =
     (case sendAndAwait H (SubProtoAuth (proto H)) 0 0 payload action r of
        (Inl e, r1) \<Rightarrow> auth_failed H action e r1
      | (Inr resp, r1) \<Rightarrow>
          (case dec_resp_data (decode H) (msg_Data resp) of
             Inl e \<Rightarrow> auth_failed H action e r1
           | Inr data \<Rightarrow>
               if rd_Code data \<noteq> 1 then
                 auth_failed H action (ErrNew (if TrimSpace (rd_Msg data) = []
                   then ''auth '' @ verb @ '' failed (code='' @ Itoa (rd_Code data) @ '')''
                   else TrimSpace (rd_Msg data))) r1
               else (Inr data, r1)))"

definition Register :: "'w host \<Rightarrow> string \<Rightarrow> 'w runtime \<Rightarrow> RespData result \<times> 'w runtime" where
  "Register H deviceID0 r =
     (let deviceID = TrimSpace deviceID0; P = proto H in
      if deviceID = [] then (Inl (ErrNew ''device_id is required''), r)
      else if \<not> rt_connected r then (Inl (ErrNew ''not connected''), r)
      else case EnsureKeys H r of
        (Inl e, r1) \<Rightarrow> (Inl e, r1)
      | (Inr pub, r1) \<Rightarrow>
          (case encode_message H (ActionRegister P) (MsgRegister deviceID pub pub) of
             Inl e \<Rightarrow> (Inl e, r1)
           | Inr payload \<Rightarrow>
               (case auth_exchange H ''register'' (ActionRegisterResp P) payload r1 of
                  (Inl e, r2) \<Rightarrow> (Inl e, r2)
                | (Inr data, r2) \<Rightarrow>
                    let r3 = setAuthSnapshot H (ActionRegisterResp P) deviceID data r2
                    in (Inr data, note_error H (saveAuthSnapshot H (rt_auth r3) r3)))))"

definition SignLogin_rt ::
  "'w host \<Rightarrow> string \<Rightarrow> u32 \<Rightarrow> int \<Rightarrow> string \<Rightarrow> 'w runtime \<Rightarrow> string result \<times> 'w runtime" where
  "SignLogin_rt H deviceID nodeID ts nonce r =
     (let (res, ks, d, w) = SignLogin H deviceID nodeID ts nonce (rt_keys r) (rt_disk r) (rt_world r)
      in (res, r\<lparr>rt_keys := ks, rt_disk := d, rt_world := w\<rparr>))"

definition login_done :: "'w host \<Rightarrow> string \<Rightarrow> RespData \<Rightarrow> 'w runtime \<Rightarrow> 'w runtime" where
  "login_done H deviceID data r =
     (let r1 = setAuthSnapshot H (ActionLoginResp (proto H)) deviceID data r;
          r2 = note_error H (saveAuthSnapshot H (rt_auth r1) r1);
          r3 = r2\<lparr>rt_reconnectDesired := True\<rparr>;
          r4 = (if rt_notifyRunning r3 then snd (subscribeNotifyTopics H r3) else r3)
      in forceRepublishFromConfig H r4)"

definition Login :: "'w host \<Rightarrow> string \<Rightarrow> u32 \<Rightarrow> 'w runtime \<Rightarrow> RespData result \<times> 'w runtime" where
  "Login H deviceID0 nodeID r =
     (let deviceID = TrimSpace deviceID0; P = proto H in
      if deviceID = [] then (Inl (ErrNew ''device_id is required''), r)
      else if nodeID = 0 then (Inl (ErrNew ''node_id is required''), r)
      else if \<not> rt_connected r then (Inl (ErrNew ''not connected''), r)
      else
        let ts = unix_sec H (rt_world r); (nonce, w) = GenerateNonce H 12 (rt_world r)
        in case SignLogin_rt H deviceID nodeID ts nonce (r\<lparr>rt_world := w\<rparr>) of
             (Inl e, r1) \<Rightarrow> (Inl e, storeLastError H (Some e) r1)
           | (Inr sig, r1) \<Rightarrow>
               (case encode_message H (ActionLogin P) (MsgLogin \<lparr>ld_DeviceID = deviceID, ld_NodeID = nodeID,
                       ld_TS = ts, ld_Nonce = nonce, ld_Sig = sig, ld_Alg = ''ES256''\<rparr>) of
                  Inl e \<Rightarrow> (Inl e, r1)
                | Inr payload \<Rightarrow>
                    (case auth_exchange H ''login'' (ActionLoginResp P) payload r1 of
                       (Inl e, r2) \<Rightarrow> (Inl e, r2)
                     | (Inr data, r2) \<Rightarrow> (Inr data, login_done H deviceID data r2))))"

section \<open>Starting the runtime\<close>

definition MetricsSnapshot :: "'w runtime \<Rightarrow> string \<rightharpoonup> string" where
  "MetricsSnapshot r = rt_lastMetrics r"

definition DequeueActions :: "'w runtime \<Rightarrow> ControlAction list \<times> 'w runtime" where
  "DequeueActions r = (let (as, q) = ActionDequeueAll (rt_controlQ r) in (as, r\<lparr>rt_controlQ := q\<rparr>))"

definition blank_runtime :: "'w host \<Rightarrow> string \<Rightarrow> disk \<Rightarrow> 'w \<Rightarrow> 'w runtime" where
  "blank_runtime H dir d w = \<lparr>rt_workDir = dir, rt_client = False, rt_addr = [], rt_connected = False,
     rt_reconnectCtx = None, rt_reconnectRunning = False, rt_reconnectDesired = False, rt_auth = zero_auth,
     rt_lastErr = [], rt_keys = NewKeyStore H (path_join H dir ''node_keys.json''), rt_cfgStore = None,
     rt_cfg = zero_config, rt_cfgGen = 0, rt_reportRunning = False, rt_reportEnabled = False,
     rt_lastMetrics = Map.empty, rt_lastPublished = Map.empty, rt_controlQ = newActionQueue,
     rt_notifyRunning = False, rt_notifyTopics = {}, rt_notifyQ = NewQueue DefaultQueueCapacity,
     rt_disk = d, rt_world = w, rt_sent = []\<rparr>"

definition New :: "'w host \<Rightarrow> string \<Rightarrow> disk \<Rightarrow> 'w \<Rightarrow> 'w runtime result \<times> disk" where
  "New H workDir0 d w =
     (let workDir = TrimSpace workDir0 in
      if workDir = [] then (Inl (ErrNew ''workDir is required''), d)
      else
        let dir = (if path_is_abs H workDir then workDir
                   else case getwd H w of
                     Inl e \<Rightarrow> workDir
                   | Inr wd \<Rightarrow> if TrimSpace wd = [] then workDir else path_join H wd workDir)
        in case MkdirAll d of
             (Some e, d1) \<Rightarrow> (Inl e, d1)
           | (None, d1) \<Rightarrow>
               (case initRuntimeConfig H (snd (loadAuthSnapshot H (blank_runtime H dir d1 w))) of
                  (Some e, r) \<Rightarrow> (Inl e, rt_disk r)
                | (None, r) \<Rightarrow> (Inr r, rt_disk r)))"

section \<open>Closing\<close>

lemma closeClient_fields [simp, frame_simps]:
  "rt_connected (closeClientForReconnect H r) = False" "rt_client (closeClientForReconnect H r) = rt_client r"
  "rt_addr (closeClientForReconnect H r) = rt_addr r" "rt_auth (closeClientForReconnect H r) = rt_auth r"
  "rt_reconnectDesired (closeClientForReconnect H r) = rt_reconnectDesired r"
  "rt_reconnectCtx (closeClientForReconnect H r) = rt_reconnectCtx r"
  "rt_reconnectRunning (closeClientForReconnect H r) = rt_reconnectRunning r"
  "rt_reportEnabled (closeClientForReconnect H r) = rt_reportEnabled r"
  "rt_reportRunning (closeClientForReconnect H r) = rt_reportRunning r"
  "rt_notifyRunning (closeClientForReconnect H r) = rt_notifyRunning r"
  "rt_notifyTopics (closeClientForReconnect H r) = rt_notifyTopics r"
  "rt_cfg (closeClientForReconnect H r) = rt_cfg r" "rt_cfgStore (closeClientForReconnect H r) = rt_cfgStore r"
  "rt_keys (closeClientForReconnect H r) = rt_keys r" "rt_controlQ (closeClientForReconnect H r) = rt_controlQ r"
  "rt_notifyQ (closeClientForReconnect H r) = rt_notifyQ r" "rt_sent (closeClientForReconnect H r) = rt_sent r"
  by (simp_all add: closeClientForReconnect_def)

text \<open>The part of the identity that survives the end of a session.\<close>

definition identity :: "AuthSnapshot \<Rightarrow> string \<times> u32 \<times> u32 \<times> string" where
  "identity a = (DeviceID a, NodeID a, HubID a, Role a)"

lemma Close_fields [simp, frame_simps]:
  "rt_connected (Close H r) = False" "rt_reconnectDesired (Close H r) = False"
  "LoggedIn (rt_auth (Close H r)) = False" "identity (rt_auth (Close H r)) = identity (rt_auth r)"
  "rt_reportEnabled (Close H r) = False" "rt_reportRunning (Close H r) = False"
  "rt_notifyRunning (Close H r) = False" "rt_notifyTopics (Close H r) = {}" "rt_addr (Close H r) = []"
  "rt_client (Close H r) = rt_client r" "rt_reconnectRunning (Close H r) = rt_reconnectRunning r"
  "rt_reconnectCtx (Close H r) = (if rt_reconnectCtx r = None then None else Some True)"
  "rt_cfg (Close H r) = rt_cfg r" "rt_cfgStore (Close H r) = rt_cfgStore r" "rt_keys (Close H r) = rt_keys r"
  "rt_controlQ (Close H r) = rt_controlQ r" "rt_notifyQ (Close H r) = rt_notifyQ r" "rt_sent (Close H r) = rt_sent r"
  by (simp_all add: Close_def Let_def StopNotify_def StopReporting_def cancelReconnect_def
      markSessionLoggedOut_auth identity_def)

section \<open>Connecting\<close>

text \<open>
  Connecting touches the world, the client, the connection, its address and the last error;
  \<open>link_kept\<close> is the rest of the state.
\<close>

definition link_kept where
  "link_kept r = ((rt_workDir r, rt_reconnectCtx r, rt_reconnectRunning r, rt_reconnectDesired r, rt_auth r,
     rt_keys r, rt_cfgStore r, rt_cfg r), rt_cfgGen r, rt_reportRunning r, rt_reportEnabled r, rt_lastMetrics r,
     rt_lastPublished r, rt_controlQ r, rt_notifyRunning r, rt_notifyTopics r, rt_notifyQ r, rt_disk r, rt_sent r)"

lemma link_kept_simps [simp]:
  "link_kept (snd (client_connect H a r)) = link_kept r" "link_kept (closeClientForReconnect H r) = link_kept r"
  "link_kept (ensureClient r) = link_kept r" "link_kept (storeLastError H e r) = link_kept r"
  "link_kept (r\<lparr>rt_connected := b\<rparr>) = link_kept r" "link_kept (r\<lparr>rt_addr := a\<rparr>) = link_kept r"
  by (simp_all add: link_kept_def client_connect_def closeClientForReconnect_def ensureClient_def
      storeLastError_def case_prod_beta)

lemma client_connect_fields [simp]:
  "rt_connected (snd (client_connect H a r)) = rt_connected r" "rt_client (snd (client_connect H a r)) = rt_client r"
  "rt_addr (snd (client_connect H a r)) = rt_addr r"
  by (simp_all add: client_connect_def case_prod_beta)

lemma connectTransport_eq:
  "connectTransport H addr r =
     (let a = TrimSpace addr; c1 = client_connect H a (ensureClient r);
          c2 = client_connect H a (ensureClient (closeClientForReconnect H (snd c1))) in
      if a = [] then (Some (ErrNew ''addr is required''), r)
      else case fst c1 of
        None \<Rightarrow> (None, (snd c1)\<lparr>rt_connected := True, rt_addr := a\<rparr>)
      | Some e \<Rightarrow>
          if \<not> already_connected e then (Some e, storeLastError H (Some e) (snd c1))
          else if rt_connected r then (None, (snd c1)\<lparr>rt_addr := a\<rparr>)
          else case fst c2 of
            Some e2 \<Rightarrow> (Some e2, storeLastError H (Some e2) (snd c2))
          | None \<Rightarrow> (None, (snd c2)\<lparr>rt_connected := True, rt_addr := a\<rparr>))"
proof -
  obtain e1 r1 where c1: "client_connect H (TrimSpace addr) (ensureClient r) = (e1, r1)" by force
  obtain e2 r2 where c2: "client_connect H (TrimSpace addr) (ensureClient (closeClientForReconnect H r1)) = (e2, r2)"
    by force
  have "rt_connected (ensureClient r) = rt_connected r" by (simp add: ensureClient_def)
  then have "rt_connected r1 = rt_connected r"
    using client_connect_fields(1) [of H "TrimSpace addr" "ensureClient r"] by (simp add: c1)
  then show ?thesis
    by (cases e1; cases e2) (simp_all add: connectTransport_def Let_def c1 c2)
qed

lemma connectTransport_kept [frame_simps]: "link_kept (snd (connectTransport H addr r)) = link_kept r"
  by (simp add: connectTransport_eq Let_def split: option.split)

text \<open>After a success the node is connected to the address; a failure never connects it.\<close>

lemma connectTransport_result:
  "if fst (connectTransport H addr r) = None
   then rt_connected (snd (connectTransport H addr r)) \<and> rt_client (snd (connectTransport H addr r)) \<and>
     rt_addr (snd (connectTransport H addr r)) = TrimSpace addr \<and> TrimSpace addr \<noteq> []
   else rt_addr (snd (connectTransport H addr r)) = rt_addr r \<and>
     rt_client (snd (connectTransport H addr r)) = (rt_client r \<or> TrimSpace addr \<noteq> []) \<and>
     (rt_connected (snd (connectTransport H addr r)) \<longrightarrow> rt_connected r)"
  by (simp add: connectTransport_eq Let_def ensureClient_def storeLastError_def split: option.split)

section \<open>Authenticating\<close>

text \<open>
  Registering and logging in leave the connection, the reconnect loop, the configuration,
  the collected values and the queues alone: \<open>login_kept\<close>.
\<close>

definition login_kept where
  "login_kept r = ((rt_workDir r, rt_addr r, rt_connected r, rt_reconnectCtx r, rt_reconnectRunning r,
     rt_cfgStore r, rt_cfg r), rt_cfgGen r, rt_reportRunning r, rt_reportEnabled r, rt_lastMetrics r,
     rt_controlQ r, rt_notifyRunning r, rt_notifyQ r)"

lemma login_kept_simps [simp]:
  "login_kept (setAuthSnapshot H act dev data r) = login_kept r" "login_kept (setAuthResult H ok act msg r) = login_kept r"
  "login_kept (storeLastError H e r) = login_kept r" "login_kept (note_error H x) = login_kept (snd x)"
  "login_kept (snd (saveAuthSnapshot H st r)) = login_kept r" "login_kept (r\<lparr>rt_reconnectDesired := b\<rparr>) = login_kept r"
  "login_kept (r\<lparr>rt_world := w\<rparr>) = login_kept r" "login_kept (r\<lparr>rt_keys := k\<rparr>) = login_kept r"
  "login_kept (r\<lparr>rt_disk := d\<rparr>) = login_kept r"
  by (simp_all add: login_kept_def setAuthSnapshot_def setAuthResult_def storeLastError_def)

lemma login_kept_subscribe: "subscribe_kept r' = subscribe_kept r \<Longrightarrow> login_kept r' = login_kept r"
  by (simp add: subscribe_kept_def login_kept_def)

lemma login_kept_publish: "publish_kept r' = publish_kept r \<Longrightarrow> login_kept r' = login_kept r"
  by (simp add: publish_kept_def login_kept_def)

lemma forceRepublish_kept [frame_simps]: "publish_kept (forceRepublishFromConfig H r) = publish_kept r"
  by (simp add: forceRepublishFromConfig_def republish_kept)

lemma EnsureKeys_fields [frame_simps]:
  "login_kept (snd (EnsureKeys H r)) = login_kept r" "rt_auth (snd (EnsureKeys H r)) = rt_auth r"
  "rt_reconnectDesired (snd (EnsureKeys H r)) = rt_reconnectDesired r"
  by (simp_all add: EnsureKeys_def Let_def storeLastError_def login_kept_def split: prod.split sum.split)

lemma SignLogin_rt_fields [frame_simps]:
  "login_kept (snd (SignLogin_rt H dev n ts nonce r)) = login_kept r"
  "rt_auth (snd (SignLogin_rt H dev n ts nonce r)) = rt_auth r"
  "rt_reconnectDesired (snd (SignLogin_rt H dev n ts nonce r)) = rt_reconnectDesired r"
  by (simp_all add: SignLogin_rt_def split: prod.split)

lemma auth_failed_fields [simp]:
  "fst (auth_failed H act e r) = Inl e" "login_kept (snd (auth_failed H act e r)) = login_kept r"
  "rt_reconnectDesired (snd (auth_failed H act e r)) = rt_reconnectDesired r"
  "LoggedIn (rt_auth (snd (auth_failed H act e r))) = False"
  "identity (rt_auth (snd (auth_failed H act e r))) = identity (rt_auth r)"
  by (simp_all add: auth_failed_def) (simp_all add: setAuthResult_def storeLastError_def identity_def)

lemma auth_exchange_result:
  "login_kept (snd (auth_exchange H verb act payload r)) = login_kept r \<and>
   rt_reconnectDesired (snd (auth_exchange H verb act payload r)) = rt_reconnectDesired r \<and>
   (case fst (auth_exchange H verb act payload r) of
      Inl e \<Rightarrow> \<not> LoggedIn (rt_auth (snd (auth_exchange H verb act payload r))) \<and>
        identity (rt_auth (snd (auth_exchange H verb act payload r))) = identity (rt_auth r)
    | Inr data \<Rightarrow> rt_auth (snd (auth_exchange H verb act payload r)) = rt_auth r \<and> rd_Code data = 1)"
proof -
  obtain res1 r1 where s: "sendAndAwait H (SubProtoAuth (proto H)) 0 0 payload act r = (res1, r1)" by force
  have k: "subscribe_kept r1 = subscribe_kept r"
    using sendAndAwait_kept [of H "SubProtoAuth (proto H)" 0 0 payload act r] by (simp add: s)
  have r1: "login_kept r1 = login_kept r" "rt_auth r1 = rt_auth r" "rt_reconnectDesired r1 = rt_reconnectDesired r"
    using k login_kept_subscribe [OF k] by (simp_all add: subscribe_kept_def)
  show ?thesis by (simp add: auth_exchange_def s r1 split: sum.split)
qed

lemma login_done_fields:
  "login_kept (login_done H dev data r) = login_kept r" "rt_reconnectDesired (login_done H dev data r)"
  "rt_auth (login_done H dev data r) = rt_auth (setAuthSnapshot H (ActionLoginResp (proto H)) dev data r)"
proof -
  let ?r1 = "setAuthSnapshot H (ActionLoginResp (proto H)) dev data r"
  define r3 where "r3 = (note_error H (saveAuthSnapshot H (rt_auth ?r1) ?r1))\<lparr>rt_reconnectDesired := True\<rparr>"
  define r4 where "r4 = (if rt_notifyRunning r3 then snd (subscribeNotifyTopics H r3) else r3)"
  have k4: "subscribe_kept r4 = subscribe_kept r3" by (simp add: r4_def subscribe_kept_eq)
  have eq: "login_done H dev data r = forceRepublishFromConfig H r4"
    by (simp only: login_done_def Let_def r3_def r4_def)
  have p: "publish_kept (login_done H dev data r) = publish_kept r4" by (simp add: eq forceRepublish_kept)
  have k3: "login_kept r3 = login_kept r" by (simp add: r3_def)
  show "login_kept (login_done H dev data r) = login_kept r"
    using login_kept_publish [OF p] login_kept_subscribe [OF k4] k3 by simp
  have d3: "rt_reconnectDesired r3" "rt_auth r3 = rt_auth ?r1" by (simp_all add: r3_def)
  have "rt_reconnectDesired (login_done H dev data r) = rt_reconnectDesired r4 \<and>
      rt_auth (login_done H dev data r) = rt_auth r4"
    using p by (simp add: publish_kept_def)
  moreover have "rt_reconnectDesired r4 = rt_reconnectDesired r3 \<and> rt_auth r4 = rt_auth r3"
    using k4 by (simp add: subscribe_kept_def)
  ultimately show "rt_reconnectDesired (login_done H dev data r)"
    "rt_auth (login_done H dev data r) = rt_auth ?r1" using d3 by simp_all
qed

lemma setAuthSnapshot_auth [simp]:
  "LoggedIn (rt_auth (setAuthSnapshot H act dev data r))"
  "identity (rt_auth (setAuthSnapshot H act dev data r)) =
     (dev, rd_NodeID data, rd_HubID data, TrimSpace (rd_Role data))"
  "rt_reconnectDesired (setAuthSnapshot H act dev data r) = rt_reconnectDesired r"
  by (simp_all add: setAuthSnapshot_def identity_def)

text \<open>A login either puts the identity of the reply in force or leaves the one it found.\<close>

lemma Login_result:
  "login_kept (snd (Login H dev n r)) = login_kept r \<and>
   (case fst (Login H dev n r) of
      Inl e \<Rightarrow> identity (rt_auth (snd (Login H dev n r))) = identity (rt_auth r) \<and>
        (LoggedIn (rt_auth (snd (Login H dev n r))) \<longrightarrow> LoggedIn (rt_auth r)) \<and>
        rt_reconnectDesired (snd (Login H dev n r)) = rt_reconnectDesired r
    | Inr data \<Rightarrow> rt_connected r \<and> rd_Code data = 1 \<and> TrimSpace dev \<noteq> [] \<and> n \<noteq> 0 \<and>
        LoggedIn (rt_auth (snd (Login H dev n r))) \<and> rt_reconnectDesired (snd (Login H dev n r)) \<and>
        identity (rt_auth (snd (Login H dev n r))) =
          (TrimSpace dev, rd_NodeID data, rd_HubID data, TrimSpace (rd_Role data)))"
proof (cases "TrimSpace dev = [] \<or> n = 0 \<or> \<not> rt_connected r")
  case True
  then show ?thesis by (auto simp: Login_def Let_def)
next
  case False
  let ?d = "TrimSpace dev"
  obtain nonce w where g: "GenerateNonce H 12 (rt_world r) = (nonce, w)" by force
  let ?r0 = "r\<lparr>rt_world := w\<rparr>" and ?ts = "unix_sec H (rt_world r)"
  obtain res1 r1 where s: "SignLogin_rt H ?d n ?ts nonce ?r0 = (res1, r1)" by force
  have r1: "login_kept r1 = login_kept r" "rt_auth r1 = rt_auth r" "rt_reconnectDesired r1 = rt_reconnectDesired r"
    using SignLogin_rt_fields [of H ?d n ?ts nonce ?r0] by (simp_all add: s)
  have err: "login_kept (storeLastError H x r1) = login_kept r" "rt_auth (storeLastError H x r1) = rt_auth r"
    "rt_reconnectDesired (storeLastError H x r1) = rt_reconnectDesired r" for x
    using r1 by (simp_all add: storeLastError_def login_kept_def)
  show ?thesis
  proof (cases res1)
    case Inl
    then show ?thesis using False by (simp add: Login_def Let_def g s err r1)
  next
    case (Inr sig)
    let ?m = "MsgLogin \<lparr>ld_DeviceID = ?d, ld_NodeID = n, ld_TS = ?ts, ld_Nonce = nonce, ld_Sig = sig, ld_Alg = ''ES256''\<rparr>"
    have eq: "Login H dev n r = (case encode_message H (ActionLogin (proto H)) ?m of
        Inl e \<Rightarrow> (Inl e, r1)
      | Inr payload \<Rightarrow>
          (case auth_exchange H ''login'' (ActionLoginResp (proto H)) payload r1 of
             (Inl e, r2) \<Rightarrow> (Inl e, r2) | (Inr data, r2) \<Rightarrow> (Inr data, login_done H ?d data r2)))"
      using False by (simp add: Login_def Let_def g s Inr)
    show ?thesis
    proof (cases "encode_message H (ActionLogin (proto H)) ?m")
      case (Inr payload)
      obtain res2 r2 where x: "auth_exchange H ''login'' (ActionLoginResp (proto H)) payload r1 = (res2, r2)" by force
      note auth_exchange_result [of H "''login''" "ActionLoginResp (proto H)" payload r1, unfolded x]
      with False r1 show ?thesis by (cases res2) (simp_all add: eq Inr x login_done_fields)
    qed (simp add: eq r1)
  qed
qed

lemma Register_result:
  "login_kept (snd (Register H dev r)) = login_kept r \<and>
   rt_reconnectDesired (snd (Register H dev r)) = rt_reconnectDesired r \<and>
   (case fst (Register H dev r) of
      Inl e \<Rightarrow> identity (rt_auth (snd (Register H dev r))) = identity (rt_auth r) \<and>
        (LoggedIn (rt_auth (snd (Register H dev r))) \<longrightarrow> LoggedIn (rt_auth r))
    | Inr data \<Rightarrow> rt_connected r \<and> rd_Code data = 1 \<and> TrimSpace dev \<noteq> [] \<and>
        LoggedIn (rt_auth (snd (Register H dev r))) \<and>
        identity (rt_auth (snd (Register H dev r))) =
          (TrimSpace dev, rd_NodeID data, rd_HubID data, TrimSpace (rd_Role data)))"
proof (cases "TrimSpace dev = [] \<or> \<not> rt_connected r")
  case True
  then show ?thesis by (auto simp: Register_def Let_def)
next
  case False
  obtain res1 r1 where s: "EnsureKeys H r = (res1, r1)" by force
  have r1: "login_kept r1 = login_kept r" "rt_auth r1 = rt_auth r" "rt_reconnectDesired r1 = rt_reconnectDesired r"
    using EnsureKeys_fields [of H r] by (simp_all add: s)
  show ?thesis
  proof (cases res1)
    case Inl
    then show ?thesis using False r1 by (simp add: Register_def Let_def s)
  next
    case (Inr pub)
    have eq: "Register H dev r = (case encode_message H (ActionRegister (proto H)) (MsgRegister (TrimSpace dev) pub pub) of
        Inl e \<Rightarrow> (Inl e, r1)
      | Inr payload \<Rightarrow>
          (case auth_exchange H ''register'' (ActionRegisterResp (proto H)) payload r1 of
             (Inl e, r2) \<Rightarrow> (Inl e, r2)
           | (Inr data, r2) \<Rightarrow>
               let r3 = setAuthSnapshot H (ActionRegisterResp (proto H)) (TrimSpace dev) data r2
               in (Inr data, note_error H (saveAuthSnapshot H (rt_auth r3) r3))))"
      using False by (simp add: Register_def Let_def s Inr)
    show ?thesis
    proof (cases "encode_message H (ActionRegister (proto H)) (MsgRegister (TrimSpace dev) pub pub)")
      case (Inr payload)
      obtain res2 r2 where x: "auth_exchange H ''register'' (ActionRegisterResp (proto H)) payload r1 = (res2, r2)"
        by force
      note auth_exchange_result [of H "''register''" "ActionRegisterResp (proto H)" payload r1, unfolded x]
      with False r1 show ?thesis by (cases res2) (simp_all add: eq Inr x Let_def)
    qed (simp add: eq r1)
  qed
qed

section \<open>Starting\<close>

text \<open>Whatever the snapshot file says, a loaded identity is not logged in.\<close>

lemma loadAuthSnapshot_logged_out:
  "\<not> LoggedIn (rt_auth r) \<Longrightarrow> \<not> LoggedIn (rt_auth (snd (loadAuthSnapshot H r)))"
  by (simp add: loadAuthSnapshot_def Let_def split: prod.split sum.split go_error.split)

lemma loadAuthSnapshot_fields [frame_simps]:
  "rt_connected (snd (loadAuthSnapshot H r)) = rt_connected r" "rt_addr (snd (loadAuthSnapshot H r)) = rt_addr r"
  "rt_reconnectDesired (snd (loadAuthSnapshot H r)) = rt_reconnectDesired r"
  "rt_reconnectCtx (snd (loadAuthSnapshot H r)) = rt_reconnectCtx r"
  "rt_reconnectRunning (snd (loadAuthSnapshot H r)) = rt_reconnectRunning r"
  "rt_reportEnabled (snd (loadAuthSnapshot H r)) = rt_reportEnabled r"
  "rt_reportRunning (snd (loadAuthSnapshot H r)) = rt_reportRunning r"
  "rt_notifyRunning (snd (loadAuthSnapshot H r)) = rt_notifyRunning r"
  "rt_lastMetrics (snd (loadAuthSnapshot H r)) = rt_lastMetrics r"
  "rt_controlQ (snd (loadAuthSnapshot H r)) = rt_controlQ r" "rt_notifyQ (snd (loadAuthSnapshot H r)) = rt_notifyQ r"
  "rt_keys (snd (loadAuthSnapshot H r)) = rt_keys r" "rt_workDir (snd (loadAuthSnapshot H r)) = rt_workDir r"
  "rt_client (snd (loadAuthSnapshot H r)) = rt_client r"
  by (simp_all add: loadAuthSnapshot_def Let_def split: prod.split sum.split go_error.split)

lemma New_fresh:
  assumes "fst (New H dir d w) = Inr r"
  shows "cfg_sync H r \<and> \<not> LoggedIn (rt_auth r) \<and> \<not> rt_connected r \<and> rt_addr r = [] \<and>
    \<not> rt_reconnectDesired r \<and> \<not> rt_reconnectRunning r \<and> rt_reconnectCtx r = None \<and>
    \<not> rt_reportEnabled r \<and> \<not> rt_reportRunning r \<and> rt_lastMetrics r = Map.empty \<and>
    rt_controlQ r = newActionQueue \<and> rt_notifyQ r = NewQueue DefaultQueueCapacity"
proof -
  obtain wd d1 where i: "initRuntimeConfig H (snd (loadAuthSnapshot H (blank_runtime H wd d1 w))) = (None, r)"
    using assms by (auto simp: New_def Let_def split: if_splits prod.splits option.splits)
  define b where "b = blank_runtime H wd d1 w"
  have k: "config_kept r = config_kept (snd (loadAuthSnapshot H b))"
    using initRuntimeConfig_kept [of H "snd (loadAuthSnapshot H b)"] by (simp add: i b_def)
  have "\<not> LoggedIn (rt_auth (snd (loadAuthSnapshot H b)))"
    by (rule loadAuthSnapshot_logged_out) (simp add: b_def blank_runtime_def zero_auth_def)
  then show ?thesis
    using initRuntimeConfig_sync [OF i] k
    by (simp add: config_kept_def loadAuthSnapshot_fields) (simp add: b_def blank_runtime_def)
qed

end
