(* ===== verification/Reconnect.thy ===== *)
theory Reconnect
  imports Session
begin

text \<open>
  The reconnect loop of \<^verbatim>\<open>core/runtime/runtime.go\<close> (\<^verbatim>\<open>reconnectLoop\<close>,
  \<^verbatim>\<open>recoverOnce\<close>), a goroutine of its own: a step relation whose program counter stands
  at the points where another goroutine can get in between. The loop's context is
  cancelled when \<open>rt_reconnectCtx\<close> is \<open>Some True\<close>; delays are in nanoseconds.
\<close>

section \<open>Backoff\<close>

definition second :: int where
  "second = 1000000000"

definition reconnectInitialDelay :: int where
  "reconnectInitialDelay = 1 * second"

definition reconnectMaxDelay :: int where
  "reconnectMaxDelay = 30 * second"

definition wait_delay :: "int \<Rightarrow> int" where
  "wait_delay d = (if d \<le> 0 then second else d)"

definition next_delay :: "int \<Rightarrow> int" where
  "next_delay d =
     (if d < reconnectMaxDelay then (if d * 2 > reconnectMaxDelay then reconnectMaxDelay else d * 2) else d)"

section \<open>One attempt\<close>

definition ctx_cancelled :: "'w runtime \<Rightarrow> bool" where
  "ctx_cancelled r \<longleftrightarrow> rt_reconnectCtx r = Some True"

text \<open>Up to the first point where the context is looked at again.\<close>

definition recover_dial :: "'w host \<Rightarrow> 'w runtime \<Rightarrow> AuthSnapshot result \<times> 'w runtime" where
  "recover_dial H r =
     (let addr = TrimSpace (rt_addr r); auth = rt_auth r in
      if addr = [] then (Inl (ErrNew ''reconnect addr is required''), r)
      else case connectTransport H addr (closeClientForReconnect H r) of
        (Some e, r1) \<Rightarrow> (Inl e, r1)
      | (None, r1) \<Rightarrow> (Inr auth, r1))"

text \<open>The login with the saved identity; the result tells whether there was one.\<close>

definition recover_login :: "'w host \<Rightarrow> AuthSnapshot \<Rightarrow> 'w runtime \<Rightarrow> bool result \<times> 'w runtime" where
  "recover_login H auth r =
     (let deviceID = TrimSpace (DeviceID auth) in
      if deviceID = [] \<or> NodeID auth = 0 then
        (if rt_reportEnabled r \<or> rt_notifyRunning r
         then (Inl (ErrNew ''saved auth identity is required to restore reporting or notify''), r)
         else (Inr False, r))
      else case Login H deviceID (NodeID auth) r of
        (Inl e, r1) \<Rightarrow> (Inl e, r1)
      | (Inr _, r1) \<Rightarrow> (Inr True, r1))"

definition recover_cancelled :: "'w host \<Rightarrow> 'w runtime \<Rightarrow> 'w runtime" where
  "recover_cancelled H r = closeClientForReconnect H
     (markSessionLoggedOut H ''reconnect_cancelled'' (error_text H ErrCanceled)
        (r\<lparr>rt_reconnectDesired := False\<rparr>))"

section \<open>The loop\<close>

text \<open>
  \<open>Head d\<close>: at the loop's condition; \<open>Dialled a d\<close>: the transport is up again, the identity
  \<open>a\<close> was read before; \<open>Confirm d\<close>: logged in again, the context not yet looked at;
  \<open>Waiting d\<close>: between two attempts.
\<close>

datatype loop_pc = Idle | Head int | Dialled AuthSnapshot int | Confirm int | Waiting int

definition loop_end :: "'w runtime \<Rightarrow> 'w runtime" where
  "loop_end r = r\<lparr>rt_reconnectCtx := None, rt_reconnectRunning := False\<rparr>"

definition attempt_failed :: "'w host \<Rightarrow> go_error \<Rightarrow> int \<Rightarrow> 'w runtime \<Rightarrow> 'w runtime \<times> loop_pc" where
  "attempt_failed H e d r = (storeLastError H (Some e) r, Waiting (wait_delay d))"

definition attempt_done :: "int \<Rightarrow> 'w runtime \<Rightarrow> 'w runtime \<times> loop_pc" where
  "attempt_done d r = (if rt_connected r then (loop_end r, Idle) else (r, Waiting (wait_delay d)))"

inductive loop_step :: "'w host \<Rightarrow> 'w runtime \<times> loop_pc \<Rightarrow> 'w runtime \<times> loop_pc \<Rightarrow> bool" for H where
  stop: "\<not> rt_reconnectDesired r \<or> ctx_cancelled r \<Longrightarrow> loop_step H (r, Head d) (loop_end r, Idle)"
| dial_failed: "rt_reconnectDesired r \<Longrightarrow> \<not> ctx_cancelled r \<Longrightarrow> recover_dial H r = (Inl e, r1) \<Longrightarrow>
     loop_step H (r, Head d) (attempt_failed H e d r1)"
| dialled: "rt_reconnectDesired r \<Longrightarrow> \<not> ctx_cancelled r \<Longrightarrow> recover_dial H r = (Inr a, r1) \<Longrightarrow>
     loop_step H (r, Head d) (r1, Dialled a d)"
| dial_cancelled: "ctx_cancelled r \<Longrightarrow>
     loop_step H (r, Dialled a d) (attempt_failed H ErrCanceled d (closeClientForReconnect H r))"
| login_failed: "\<not> ctx_cancelled r \<Longrightarrow> recover_login H a r = (Inl e, r1) \<Longrightarrow>
     loop_step H (r, Dialled a d) (attempt_failed H e d r1)"
| no_identity: "\<not> ctx_cancelled r \<Longrightarrow> recover_login H a r = (Inr False, r1) \<Longrightarrow>
     loop_step H (r, Dialled a d) (attempt_done d r1)"
| logged_in: "\<not> ctx_cancelled r \<Longrightarrow> recover_login H a r = (Inr True, r1) \<Longrightarrow>
     loop_step H (r, Dialled a d) (r1, Confirm d)"
| login_cancelled: "ctx_cancelled r \<Longrightarrow>
     loop_step H (r, Confirm d) (attempt_failed H ErrCanceled d (recover_cancelled H r))"
| confirmed: "\<not> ctx_cancelled r \<Longrightarrow> loop_step H (r, Confirm d) (attempt_done d r)"
| timer: "loop_step H (r, Waiting d) (r, Head (next_delay d))"
| wait_cancelled: "ctx_cancelled r \<Longrightarrow> loop_step H (r, Waiting d) (loop_end r, Idle)"

inductive_cases loop_step_HeadE: "loop_step H (r, Head d) s"
inductive_cases loop_step_DialledE: "loop_step H (r, Dialled a d) s"
inductive_cases loop_step_ConfirmE: "loop_step H (r, Confirm d) s"
inductive_cases loop_step_WaitingE: "loop_step H (r, Waiting d) s"
inductive_simps loop_step_Idle [simp]: "loop_step H (r, Idle) s"

section \<open>The delay\<close>

lemmas delay_defs = reconnectInitialDelay_def reconnectMaxDelay_def second_def

lemma next_delay_bounds:
  "reconnectInitialDelay \<le> d \<Longrightarrow> d \<le> reconnectMaxDelay \<Longrightarrow>
     d \<le> next_delay d \<and> next_delay d \<le> reconnectMaxDelay"
  by (simp add: next_delay_def delay_defs)

lemma wait_delay_id [simp]: "reconnectInitialDelay \<le> d \<Longrightarrow> wait_delay d = d"
  by (simp add: wait_delay_def delay_defs)

text \<open>The delays double from one second up to thirty.\<close>

lemma delays: "(next_delay ^^ n) reconnectInitialDelay = min (2 ^ n * second) reconnectMaxDelay"
proof (induction n)
  case (Suc n)
  then show ?case by (simp add: next_delay_def delay_defs min_def)
qed (simp add: delay_defs)

section \<open>How far a loop is from its end\<close>

fun pc_delay :: "loop_pc \<Rightarrow> int option" where
  "pc_delay Idle = None"
| "pc_delay (Head d) = Some d"
| "pc_delay (Dialled a d) = Some d"
| "pc_delay (Confirm d) = Some d"
| "pc_delay (Waiting d) = Some d"

fun pc_rank :: "loop_pc \<Rightarrow> nat" where
  "pc_rank Idle = 0"
| "pc_rank (Head d) = 1"
| "pc_rank (Waiting d) = 2"
| "pc_rank (Confirm d) = 3"
| "pc_rank (Dialled a d) = 3"

end
