(* ===== verification/System.thy ===== *)
theory System
  imports Reconnect
begin

text \<open>
  The runtime among its goroutines: a state is the runtime and the program counter of the
  reconnect loop, a step is one public operation, one callback of the client or one step
  of the loop. The invariants proved here hold in every state the process can reach.
\<close>

section \<open>Steps\<close>

inductive runtime_op :: "'w host \<Rightarrow> 'w runtime \<Rightarrow> 'w runtime \<Rightarrow> bool" for H r where
  connect: "runtime_op H r (snd (Connect H addr r))"
| close: "runtime_op H r (Close H r)"
| client_error: "runtime_op H r (onClientError H e r)"
| frame: "runtime_op H r (onUnmatchedFrame H hdr payload r)"
| ensure_keys: "runtime_op H r (snd (EnsureKeys H r))"
| register: "runtime_op H r (snd (Register H dev r))"
| login: "runtime_op H r (snd (Login H dev n r))"
| clear_auth: "runtime_op H r (snd (ClearAuth H r))"
| start_reporting: "runtime_op H r (snd (StartReporting r))"
| stop_reporting: "runtime_op H r (StopReporting r)"
| update_metric: "runtime_op H r (UpdateMetric H m v r)"
| config_set: "runtime_op H r (snd (RuntimeConfigSet H key val r))"
| notify_set: "runtime_op H r (snd (NotifySettingsSet H ts r))"
| start_notify: "runtime_op H r (snd (StartNotify H r))"
| stop_notify: "runtime_op H r (StopNotify r)"
| take_actions: "runtime_op H r (snd (DequeueActions r))"
| take_notifications: "runtime_op H r (snd (DequeueNotifications r))"

text \<open>An operation that schedules a reconnect starts a loop.\<close>

definition spawn :: "'w runtime \<Rightarrow> 'w runtime \<Rightarrow> loop_pc \<Rightarrow> loop_pc" where
  "spawn r r' pc = (if rt_reconnectRunning r' \<and> \<not> rt_reconnectRunning r then Head reconnectInitialDelay else pc)"

inductive sys_step :: "'w host \<Rightarrow> 'w runtime \<times> loop_pc \<Rightarrow> 'w runtime \<times> loop_pc \<Rightarrow> bool" for H where
  operation: "runtime_op H r r' \<Longrightarrow> sys_step H (r, pc) (r', spawn r r' pc)"
| loop: "loop_step H s t \<Longrightarrow> sys_step H s t"

definition sys_init :: "'w host \<Rightarrow> 'w runtime \<times> loop_pc \<Rightarrow> bool" where
  "sys_init H s \<longleftrightarrow> (\<exists>dir d w. fst (New H dir d w) = Inr (fst s)) \<and> snd s = Idle"

section \<open>The invariant\<close>

definition link_ok :: "'w runtime \<Rightarrow> loop_pc \<Rightarrow> bool" where
  "link_ok r pc \<longleftrightarrow> (rt_reconnectRunning r \<longleftrightarrow> pc \<noteq> Idle) \<and> (rt_reconnectCtx r \<noteq> None \<longleftrightarrow> pc \<noteq> Idle) \<and>
     (\<forall>d. pc_delay pc = Some d \<longrightarrow> reconnectInitialDelay \<le> d \<and> d \<le> reconnectMaxDelay) \<and>
     (rt_connected r \<longrightarrow> rt_addr r \<noteq> []) \<and> rt_reportRunning r = rt_reportEnabled r"

definition queues_ok :: "'w runtime \<Rightarrow> bool" where
  "queues_ok r \<longleftrightarrow> action_inv (rt_controlQ r) \<and>
     list_all (\<lambda>(m, v). control_value m v) (latest (rt_controlQ r)) \<and>
     queue_inv (rt_notifyQ r) \<and> q_cap (rt_notifyQ r) = DefaultQueueCapacity \<and>
     list_all event_ok (q_items (rt_notifyQ r))"

definition sys_ok :: "'w host \<Rightarrow> 'w runtime \<times> loop_pc \<Rightarrow> bool" where
  "sys_ok H s \<longleftrightarrow> link_ok (fst s) (snd s) \<and> queues_ok (fst s) \<and> cfg_ok H (rt_cfg (fst s))"

text \<open>The fields the invariant is about.\<close>

definition sys_view where
  "sys_view r = ((rt_connected r, rt_addr r, rt_reconnectCtx r, rt_reconnectRunning r), rt_reportRunning r,
     rt_reportEnabled r, rt_cfg r, rt_controlQ r, rt_notifyQ r)"

lemma sys_ok_cong: "sys_view r' = sys_view r \<Longrightarrow> sys_ok H (r', pc) = sys_ok H (r, pc)"
  by (simp add: sys_view_def sys_ok_def link_ok_def queues_ok_def)

lemma sys_view_publish: "publish_kept r' = publish_kept r \<Longrightarrow> sys_view r' = sys_view r"
  by (simp add: publish_kept_def sys_view_def)

lemma sys_view_subscribe: "subscribe_kept r' = subscribe_kept r \<Longrightarrow> sys_view r' = sys_view r"
  by (simp add: subscribe_kept_def sys_view_def)

lemma sys_view_login: "login_kept r' = login_kept r \<Longrightarrow> sys_view r' = sys_view r"
  by (simp add: login_kept_def sys_view_def)

lemma sys_view_simps [simp]:
  "sys_view (storeLastError H e r) = sys_view r" "sys_view (r\<lparr>rt_notifyRunning := b\<rparr>) = sys_view r"
  "sys_view (StopNotify r) = sys_view r" "sys_view (r\<lparr>rt_reconnectDesired := b\<rparr>) = sys_view r"
  "sys_view (r\<lparr>rt_auth := a\<rparr>) = sys_view r"
  "sys_view (snd (saveAuthSnapshot H st r)) = sys_view r" "sys_view (note_error H x) = sys_view (snd x)"
  "sys_view (markSessionLoggedOut H act msg r) = sys_view r"
  by (simp_all add: sys_view_def storeLastError_def StopNotify_def)

lemma StartNotify_view: "sys_view (snd (StartNotify H r)) = sys_view r"
  using sys_view_subscribe [OF subscribe_kept_eq [of H r]]
  by (auto simp: StartNotify_def split: prod.split option.split)

lemma remember_view [simp]: "sys_view (remember m v r) = sys_view r"
  by (simp add: remember_def sys_view_def)

lemma UpdateMetric_view: "sys_view (UpdateMetric H m v r) = sys_view r"
  by (simp add: UpdateMetric_def handleMetricUpdate_eq sys_view_publish [OF foldl_publish_kept])

lemma ClearAuth_view: "sys_view (snd (ClearAuth H r)) = sys_view r"
  by (simp add: ClearAuth_def case_prod_beta Let_def)

lemmas quiet_views = StartNotify_view UpdateMetric_view ClearAuth_view
  sys_view_login [OF EnsureKeys_fields(1)] sys_view_login [OF conjunct1 [OF Login_result]]
  sys_view_login [OF conjunct1 [OF Register_result]]

section \<open>Every operation keeps the invariant\<close>

lemma Connect_fields:
  "rt_reconnectRunning (snd (Connect H addr r)) = rt_reconnectRunning r \<and>
   (rt_reconnectCtx (snd (Connect H addr r)) = None \<longleftrightarrow> rt_reconnectCtx r = None) \<and>
   rt_cfg (snd (Connect H addr r)) = rt_cfg r \<and> rt_controlQ (snd (Connect H addr r)) = rt_controlQ r \<and>
   rt_notifyQ (snd (Connect H addr r)) = rt_notifyQ r \<and>
   (rt_reportRunning r = rt_reportEnabled r \<longrightarrow>
      rt_reportRunning (snd (Connect H addr r)) = rt_reportEnabled (snd (Connect H addr r))) \<and>
   (rt_addr (snd (Connect H addr r)) \<noteq> [] \<or> snd (Connect H addr r) = r)"
proof (cases "TrimSpace addr = []")
  case True
  then show ?thesis by (simp add: Connect_def)
next
  case False
  define r2 where "r2 = (if rt_addr r \<noteq> [] \<and> rt_addr r \<noteq> TrimSpace addr
    then (Close H (r\<lparr>rt_addr := TrimSpace addr\<rparr>))\<lparr>rt_addr := TrimSpace addr\<rparr> else r\<lparr>rt_addr := TrimSpace addr\<rparr>)"
  obtain e r3 where c: "connectTransport H (TrimSpace addr) r2 = (e, r3)" by force
  define r4 where "r4 = r3\<lparr>rt_reconnectDesired := True\<rparr>"
  have eq: "Connect H addr r = (case e of Some x \<Rightarrow> (Some x, r3)
      | None \<Rightarrow> (None, if rt_notifyRunning r4 then snd (subscribeNotifyTopics H r4) else r4))"
    using False by (simp add: Connect_def Let_def c r4_def flip: r2_def split: option.split)
  have "sys_view (snd (Connect H addr r)) = sys_view r3"
    using sys_view_subscribe [OF subscribe_kept_eq [of H r4]] by (simp add: eq r4_def split: option.split)
  moreover have "link_kept r3 = link_kept r2" using connectTransport_kept [of H "TrimSpace addr" r2] by (simp add: c)
  moreover have "rt_addr r2 = TrimSpace addr" by (simp add: r2_def)
  then have "rt_addr r3 \<noteq> []"
    using connectTransport_result [of H "TrimSpace addr" r2] False by (cases e) (simp_all add: c)
  ultimately show ?thesis
    by (simp add: sys_view_def link_kept_def) (simp add: r2_def)
qed

lemma store_set_cfg: "store_set H k v r = (e, r') \<Longrightarrow> rt_cfg r' = rt_cfg r"
  using store_set_frame [of H k v r] by simp

lemma RuntimeConfigSet_error: "RuntimeConfigSet H k v r = (Some e, r') \<Longrightarrow> rt_cfg r' = rt_cfg r"
  by (auto simp: RuntimeConfigSet_def Let_def dest: store_set_cfg split: if_splits sum.splits prod.splits option.splits)

lemma RuntimeConfigSet_cfg_ok:
  assumes "cfg_ok H (rt_cfg r)" shows "cfg_ok H (rt_cfg (snd (RuntimeConfigSet H k v r)))"
proof (cases "RuntimeConfigSet H k v r")
  case (Pair e r')
  with assms RuntimeConfigSet_error RuntimeConfigSet_sync cfg_sync_ok show ?thesis
    by (cases e) (simp add: cfg_sync_ok RuntimeConfigSet_sync, simp add: RuntimeConfigSet_error)
qed

lemma mgmt_cfg:
  assumes "cfg_ok H (rt_cfg r)" shows "cfg_ok H (rt_cfg (handleManagementCmd H hdr payload r))"
proof (cases "decode_message H payload")
  case (Inr msg)
  have send: "rt_cfg (sendManagementResp H hdr act m q) = rt_cfg q" for act m q
    using sendManagementResp_kept [of H hdr act m q] by (simp add: publish_kept_def)
  have set: "cfg_ok H (rt_cfg (case RuntimeConfigSet H k u r of (Some e, r1) \<Rightarrow> sendManagementResp H hdr act (f e) r1
      | (None, r1) \<Rightarrow> sendManagementResp H hdr act m r1))" for k u act f m
    using RuntimeConfigSet_cfg_ok [OF assms, of k u] by (auto simp: send split: prod.split option.split)
  show ?thesis
    using assms by (simp add: handleManagementCmd_def Inr Let_def send set split: sum.split prod.split option.split)
qed (use assms in \<open>simp add: handleManagementCmd_def\<close>)

lemma control_value_trimmed:
  assumes "control_value m v" shows "TrimSpace m = m" "TrimSpace v = v" "m \<noteq> []" "v \<noteq> []"
proof -
  have t: "TrimSpace (Itoa p) = Itoa p" for p by (rule TrimSpace_id) (rule Itoa_trimmed)
  have m: "TrimSpace ''volume_percent'' = ''volume_percent''" "TrimSpace ''brightness_percent'' = ''brightness_percent''"
    "TrimSpace ''volume_muted'' = ''volume_muted''" "TrimSpace ''flashlight_enabled'' = ''flashlight_enabled''"
    "TrimSpace ''0'' = ''0''" "TrimSpace ''1'' = ''1''"
    by (rule TrimSpace_graphic; simp add: graphic_def)+
  show "TrimSpace m = m" "TrimSpace v = v" "m \<noteq> []" "v \<noteq> []"
    using assms Itoa_nonempty by (auto simp: control_value_def t m go_defs) (metis Itoa_nonempty)+
qed

lemma list_all_update: "list_all P m \<Longrightarrow> P (k, v) \<Longrightarrow> list_all P (AList.update k v m)"
  by (induction m) auto

lemma ActionEnqueue_ok:
  assumes "action_inv q" and "list_all (\<lambda>(m, v). control_value m v) (latest q)" and "control_value m v"
  shows "action_inv (ActionEnqueue m v q) \<and> list_all (\<lambda>(m, v). control_value m v) (latest (ActionEnqueue m v q))"
  using assms(1,2) control_value_trimmed [OF assms(3)] assms(3)
  by (simp add: ActionEnqueue_def enqueue_entry_def enqueue_write_def enqueue_signal_def action_inv_def list_all_update)

lemma list_all_last_n: "list_all P xs \<Longrightarrow> list_all P (last_n n xs)"
  by (auto simp: last_n_def list_all_iff dest: in_set_dropD)

lemma QueueEnqueue_ok:
  assumes "queue_inv q" and "list_all event_ok (q_items q)" and "event_ok e"
  shows "queue_inv (QueueEnqueue e q) \<and> list_all event_ok (q_items (QueueEnqueue e q))"
  using assms nq.inv_enq [OF assms(1), of e] by (simp add: QueueEnqueue_items list_all_last_n)

lemma frame_ok:
  assumes "sys_ok H (r, pc)" shows "sys_ok H (onUnmatchedFrame H hdr payload r, pc)"
proof (cases rule: onUnmatchedFrame_cases [of H hdr payload r])
  case none
  with assms show ?thesis by simp
next
  case (var resp)
  let ?r' = "handleVarStoreNotifySet H resp r"
  have c: "cfg_ok H (rt_cfg r)" using assms by (simp add: sys_ok_def)
  have k: "publish_kept (?r'\<lparr>rt_controlQ := rt_controlQ r\<rparr>) = publish_kept (r\<lparr>rt_controlQ := rt_controlQ r\<rparr>)"
    by (rule notify_set_kept)
  have "sys_ok H (?r'\<lparr>rt_controlQ := rt_controlQ r\<rparr>, pc)"
    using assms sys_ok_cong [OF sys_view_publish [OF k], of H pc] by simp
  moreover have "action_inv (rt_controlQ ?r') \<and> list_all (\<lambda>(m, v). control_value m v) (latest (rt_controlQ ?r'))"
    using notify_set_queue [OF c, of resp] assms ActionEnqueue_ok
    by (auto simp: sys_ok_def queues_ok_def)
  ultimately show ?thesis by (simp add: var sys_ok_def link_ok_def queues_ok_def)
next
  case mgmt
  then show ?thesis
    using assms handleManagementCmd_kept [of H hdr payload r] mgmt_cfg [of H r hdr payload]
    by (simp add: sys_ok_def link_ok_def queues_ok_def config_kept_def)
next
  case topic
  then show ?thesis
    using handleTopicBusFrame_cases [of H payload r] assms
    by (auto simp: sys_ok_def link_ok_def queues_ok_def QueueEnqueue_ok)
qed

lemma client_error_ok:
  assumes "sys_ok H (r, pc)" shows "sys_ok H (onClientError H e r, spawn r (onClientError H e r) pc)"
proof (cases e)
  case None
  with assms show ?thesis by (simp add: onClientError_def spawn_def)
next
  case (Some x)
  define r1 where "r1 = markSessionLoggedOut H ''session_error'' (error_text H x)
    (storeLastError H (Some x) (r\<lparr>rt_connected := False\<rparr>))"
  have v: "sys_view r1 = sys_view (r\<lparr>rt_connected := False\<rparr>)" by (simp add: r1_def)
  have eq: "onClientError H e r = scheduleReconnect r1" by (simp add: onClientError_def Some r1_def)
  have run: "rt_reconnectRunning r1 = rt_reconnectRunning r" using v by (simp add: sys_view_def)
  have ok: "sys_ok H (r1, pc)"
    unfolding sys_ok_cong [OF v] using assms by (simp add: sys_ok_def link_ok_def queues_ok_def)
  show ?thesis
  proof (cases "rt_reconnectDesired r1 \<and> \<not> rt_reconnectRunning r1")
    case True
    then show ?thesis
      using ok run by (simp add: eq scheduleReconnect_def spawn_def sys_ok_def link_ok_def queues_ok_def delay_defs)
  next
    case False
    then have "scheduleReconnect r1 = r1" by (auto simp: scheduleReconnect_def)
    then show ?thesis using ok run by (simp add: eq spawn_def)
  qed
qed

text \<open>An operation that keeps the fields of the invariant keeps the invariant.\<close>

lemma quiet_ok:
  assumes "sys_view r' = sys_view r" and "sys_ok H (r, pc)" shows "sys_ok H (r', spawn r r' pc)"
proof -
  have "spawn r r' pc = pc" using assms(1) by (simp add: spawn_def sys_view_def)
  then show ?thesis using assms sys_ok_cong [OF assms(1)] by simp
qed

lemma config_ok:
  assumes "sys_ok H (r, pc)" and "config_kept r' = config_kept r" and "cfg_ok H (rt_cfg r')"
  shows "sys_ok H (r', spawn r r' pc)"
  using assms by (simp add: sys_ok_def link_ok_def queues_ok_def config_kept_def spawn_def)

lemma frame_running: "rt_reconnectRunning (onUnmatchedFrame H hdr payload r) = rt_reconnectRunning r"
proof (cases rule: onUnmatchedFrame_cases [of H hdr payload r])
  case (var resp)
  then show ?thesis
    using notify_set_kept [where H = H and resp = resp and r = r and c = "rt_controlQ r"]
    by (simp add: publish_kept_def)
next
  case mgmt
  then show ?thesis using handleManagementCmd_kept [of H hdr payload r] by (simp add: config_kept_def)
next
  case topic
  then show ?thesis using handleTopicBusFrame_cases [of H payload r] by auto
qed simp

lemma runtime_op_ok:
  assumes "runtime_op H r r'" and ok: "sys_ok H (r, pc)" shows "sys_ok H (r', spawn r r' pc)"
  using assms(1)
proof cases
  case (connect addr)
  show ?thesis
    using Connect_fields [of H addr r] ok
    by (auto simp: connect spawn_def sys_ok_def link_ok_def queues_ok_def)
next
  case close
  then show ?thesis using ok by (auto simp: spawn_def sys_ok_def link_ok_def queues_ok_def)
next
  case (client_error e)
  then show ?thesis using client_error_ok [OF ok] by simp
next
  case (frame hdr payload)
  show ?thesis
    using frame_ok [OF ok, of hdr payload] frame_running [of H hdr payload r] by (simp add: frame spawn_def)
next
  case start_reporting
  then show ?thesis
    using ok by (simp add: StartReporting_def spawn_def sys_ok_def link_ok_def queues_ok_def)
next
  case stop_reporting
  then show ?thesis
    using ok by (simp add: StopReporting_def spawn_def sys_ok_def link_ok_def queues_ok_def)
next
  case (config_set key val)
  have c: "cfg_ok H (rt_cfg r)" using ok by (simp add: sys_ok_def)
  show ?thesis
    using config_ok [OF ok RuntimeConfigSet_kept [of H key val r]] RuntimeConfigSet_cfg_ok [OF c] by (simp add: config_set)
next
  case (notify_set ts)
  have c: "cfg_ok H (rt_cfg r)" using ok by (simp add: sys_ok_def)
  show ?thesis
  proof (cases "SettingsJSON ts")
    case Inl
    then have "sys_view r' = sys_view r" by (simp add: notify_set NotifySettingsSet_def)
    then show ?thesis using ok by (rule quiet_ok)
  next
    case (Inr raw)
    then show ?thesis
      using config_ok [OF ok RuntimeConfigSet_kept [of H KeyNotifyTopicsJSON raw r]] RuntimeConfigSet_cfg_ok [OF c]
      by (simp add: notify_set NotifySettingsSet_def)
  qed
next
  case take_actions
  then show ?thesis
    using ok by (simp add: DequeueActions_def ActionDequeueAll_def action_inv_def case_prod_beta Let_def spawn_def
        sys_ok_def link_ok_def queues_ok_def)
next
  case take_notifications
  then show ?thesis
    using ok by (simp add: DequeueNotifications_def QueueDequeueAll_def queue_inv_def case_prod_beta Let_def spawn_def
        sys_ok_def link_ok_def queues_ok_def)
qed (simp_all add: quiet_ok [OF _ ok] quiet_views)

text \<open>A step of the loop keeps it too.\<close>

lemma recover_dial_view:
  assumes "recover_dial H r = (res, r1)"
  shows "link_kept r1 = link_kept r \<and> (rt_connected r1 \<longrightarrow> rt_addr r1 \<noteq> [] \<or> r1 = r)"
proof (cases "TrimSpace (rt_addr r) = []")
  case True
  then show ?thesis using assms by (auto simp: recover_dial_def)
next
  case False
  obtain e q where c: "connectTransport H (TrimSpace (rt_addr r)) (closeClientForReconnect H r) = (e, q)" by force
  have "q = r1" using assms False by (auto simp: recover_dial_def Let_def c split: option.splits)
  then show ?thesis
    using connectTransport_kept [of H "TrimSpace (rt_addr r)" "closeClientForReconnect H r"] False
      connectTransport_result [of H "TrimSpace (rt_addr r)" "closeClientForReconnect H r"]
    by (cases e) (simp_all add: c)
qed

lemma recover_login_view:
  assumes "recover_login H a r = (res, r1)" shows "sys_view r1 = sys_view r"
  using assms sys_view_login [OF conjunct1 [OF Login_result [of H "TrimSpace (DeviceID a)" "NodeID a" r]]]
  by (cases "Login H (TrimSpace (DeviceID a)) (NodeID a) r")
    (auto simp: recover_login_def Let_def split: if_splits sum.splits)

lemma recover_cancelled_view: "sys_view (recover_cancelled H r) = sys_view (r\<lparr>rt_connected := False\<rparr>)"
proof -
  define q where "q = markSessionLoggedOut H ''reconnect_cancelled'' (error_text H ErrCanceled) (r\<lparr>rt_reconnectDesired := False\<rparr>)"
  have "sys_view q = sys_view r" by (simp add: q_def)
  moreover have "recover_cancelled H r = closeClientForReconnect H q" by (simp add: recover_cancelled_def q_def)
  ultimately show ?thesis by (simp add: sys_view_def)
qed

lemma recover_login_ok: "recover_login H a r = (res, r1) \<Longrightarrow> sys_ok H (r, pc) \<Longrightarrow> sys_ok H (r1, pc)"
  using sys_ok_cong [OF recover_login_view] by blast

text \<open>Inside the loop the program counter may move between its working points.\<close>

lemma pc_move_ok:
  assumes "sys_ok H (r, pc)" and "pc_delay pc = Some d" and "pc_delay pc' = Some d'"
    and "reconnectInitialDelay \<le> d \<Longrightarrow> d \<le> reconnectMaxDelay \<Longrightarrow>
      reconnectInitialDelay \<le> d' \<and> d' \<le> reconnectMaxDelay"
  shows "sys_ok H (r, pc')"
proof -
  have "pc \<noteq> Idle" "pc' \<noteq> Idle" using assms(2,3) by auto
  with assms show ?thesis by (simp add: sys_ok_def link_ok_def)
qed

lemma loop_end_ok: "sys_ok H (r, pc) \<Longrightarrow> sys_ok H (loop_end r, Idle)"
  by (simp add: sys_ok_def link_ok_def loop_end_def queues_ok_def)

lemma attempt_failed_ok:
  assumes "sys_ok H (r, pc)" and "pc_delay pc = Some d" shows "sys_ok H (attempt_failed H e d r)"
proof -
  have "sys_ok H (r, Waiting (wait_delay d))" by (rule pc_move_ok [OF assms, of _ "wait_delay d"]) simp_all
  then show ?thesis using sys_ok_cong [OF sys_view_simps(1) [of H "Some e" r]] by (simp add: attempt_failed_def)
qed

lemma attempt_done_ok:
  assumes "sys_ok H (r, pc)" and "pc_delay pc = Some d" shows "sys_ok H (attempt_done d r)"
  using loop_end_ok [OF assms(1)] pc_move_ok [OF assms, of "Waiting (wait_delay d)" "wait_delay d"]
  by (auto simp: attempt_done_def)

lemma link_kept_ok:
  assumes "sys_ok H (r, pc)" and "link_kept r1 = link_kept r" and "rt_connected r1 \<longrightarrow> rt_addr r1 \<noteq> []"
  shows "sys_ok H (r1, pc)"
  using assms by (simp add: sys_ok_def link_ok_def queues_ok_def link_kept_def)

lemma dial_ok:
  assumes "recover_dial H r = (res, r1)" and "sys_ok H (r, pc)" shows "sys_ok H (r1, pc)"
proof (cases "r1 = r")
  case False
  then show ?thesis using recover_dial_view [OF assms(1)] link_kept_ok [OF assms(2)] by simp
qed (use assms in simp)

lemma disconnected_ok:
  assumes "sys_ok H (r, pc)" and "sys_view r1 = sys_view (r\<lparr>rt_connected := False\<rparr>)" shows "sys_ok H (r1, pc)"
  using assms(1) unfolding sys_ok_cong [OF assms(2)] by (simp add: sys_ok_def link_ok_def queues_ok_def)

lemma loop_step_ok:
  assumes "loop_step H s t" and "sys_ok H s" shows "sys_ok H t"
  using assms
proof cases
  case (dial_failed r e r1 d)
  then show ?thesis using assms(2) by (auto intro!: attempt_failed_ok dest: dial_ok)
next
  case (dialled r a r1 d)
  then have "sys_ok H (r1, Head d)" using assms(2) dial_ok by simp
  then show ?thesis unfolding dialled by (rule pc_move_ok) auto
next
  case (dial_cancelled r a d)
  have "sys_ok H (closeClientForReconnect H r, Dialled a d)"
    by (rule disconnected_ok [OF assms(2) [unfolded dial_cancelled]]) (simp add: sys_view_def)
  then show ?thesis unfolding dial_cancelled by (rule attempt_failed_ok) simp
next
  case (login_failed r a e r1 d)
  then have "sys_ok H (r1, Dialled a d)" using assms(2) recover_login_ok by simp
  then show ?thesis unfolding login_failed by (rule attempt_failed_ok) simp
next
  case (no_identity r a r1 d)
  then have "sys_ok H (r1, Dialled a d)" using assms(2) recover_login_ok by simp
  then show ?thesis unfolding no_identity by (rule attempt_done_ok) simp
next
  case (logged_in r a r1 d)
  then have "sys_ok H (r1, Dialled a d)" using assms(2) recover_login_ok by simp
  then show ?thesis unfolding logged_in by (rule pc_move_ok) auto
next
  case (login_cancelled r d)
  have "sys_ok H (recover_cancelled H r, Confirm d)"
    by (rule disconnected_ok [OF assms(2) [unfolded login_cancelled] recover_cancelled_view])
  then show ?thesis unfolding login_cancelled by (rule attempt_failed_ok) simp
next
  case (confirmed r d)
  then show ?thesis using assms(2) by (auto intro!: attempt_done_ok)
next
  case (timer r d)
  then show ?thesis using assms(2) next_delay_bounds [of d]
    by (auto intro!: pc_move_ok [where pc = "Waiting d"])
qed (use assms(2) loop_end_ok in auto)

lemma New_ok:
  assumes "fst (New H dir d w) = Inr r" shows "sys_ok H (r, Idle)"
  using New_fresh [OF assms] cfg_sync_ok [of H r] queue_inv_new [of DefaultQueueCapacity] action_inv_new
  by (simp add: sys_ok_def link_ok_def queues_ok_def newActionQueue_def) (simp add: NewQueue_def go_defs)

interpretation system: invariant_of "sys_init H" "sys_step H" "sys_ok H" for H
proof unfold_locales
  fix s t :: "'a runtime \<times> loop_pc"
  show "sys_init H s \<Longrightarrow> sys_ok H s"
    using New_ok by (cases s) (auto simp: sys_init_def)
  show "sys_step H s t \<Longrightarrow> sys_ok H s \<Longrightarrow> sys_ok H t"
    by (cases rule: sys_step.cases) (auto intro: runtime_op_ok loop_step_ok)
qed

section \<open>After a close\<close>

text \<open>
  The runtime after the user closed it, and what a loop still running can make of it: it
  may dial once more, but never stays connected or logged in, and it ends.
\<close>

definition closed_for_good :: "'w runtime \<times> loop_pc \<Rightarrow> bool" where
  "closed_for_good s \<longleftrightarrow> (snd s = Idle \<or> ctx_cancelled (fst s)) \<and> \<not> rt_reconnectDesired (fst s) \<and>
     \<not> rt_connected (fst s) \<and> \<not> LoggedIn (rt_auth (fst s))"

lemma Close_closed: "link_ok r pc \<Longrightarrow> closed_for_good (Close H r, spawn r (Close H r) pc)"
  by (auto simp: closed_for_good_def ctx_cancelled_def link_ok_def spawn_def)

lemma loop_closed:
  assumes "loop_step H s t" and "closed_for_good s"
  shows "closed_for_good t \<and> pc_rank (snd t) < pc_rank (snd s)"
  using assms
proof cases
  case (login_cancelled r d)
  then show ?thesis
    using assms(2) by (auto simp: closed_for_good_def attempt_failed_def recover_cancelled_def ctx_cancelled_def
        storeLastError_def markSessionLoggedOut_auth)
qed (use assms(2) in \<open>auto simp: closed_for_good_def attempt_failed_def loop_end_def ctx_cancelled_def
  storeLastError_def\<close>)

lemma loop_closed_steps:
  "(loop_step H)\<^sup>*\<^sup>* s t \<Longrightarrow> closed_for_good s \<Longrightarrow> closed_for_good t \<and> pc_rank (snd t) \<le> pc_rank (snd s)"
proof (induction rule: rtranclp_induct)
  case (step t u)
  then show ?case using loop_closed [OF step.hyps(2)] by fastforce
qed simp

text \<open>A loop that is not at its end can always go on.\<close>

lemma loop_step_exists:
  assumes "snd s \<noteq> Idle" obtains t where "loop_step H s t"
proof -
  obtain r pc where s: "s = (r, pc)" by force
  have "\<exists>t. loop_step H (r, pc) t"
  proof (cases pc)
    case (Head d)
    then show ?thesis
      by (cases "recover_dial H r"; cases "fst (recover_dial H r)";
          cases "rt_reconnectDesired r \<and> \<not> ctx_cancelled r")
        (auto intro: loop_step.intros simp del: split_paired_Ex)
  next
    case (Dialled a d)
    obtain res r1 where l: "recover_login H a r = (res, r1)" by force
    consider "ctx_cancelled r" | e where "\<not> ctx_cancelled r" "res = Inl e"
      | "\<not> ctx_cancelled r" "res = Inr False" | "\<not> ctx_cancelled r" "res = Inr True"
      by (cases res) (blast, metis (full_types))
    then show ?thesis using l Dialled by cases (blast intro: loop_step.intros)+
  next
    case (Confirm d)
    then show ?thesis by (cases "ctx_cancelled r") (blast intro: loop_step.intros)+
  next
    case (Waiting d)
    then show ?thesis by (blast intro: loop_step.intros)
  qed (use assms s in simp)
  with that s show thesis by blast
qed

text \<open>Each step of the loop takes it closer to its end.\<close>

lemma loop_closed_count:
  "(loop_step H ^^ n) s t \<Longrightarrow> closed_for_good s \<Longrightarrow> n + pc_rank (snd t) \<le> pc_rank (snd s)"
proof (induction n arbitrary: s)
  case (Suc n)
  from Suc.prems(1) obtain u where "loop_step H s u" "(loop_step H ^^ n) u t" by (rule relpowp_Suc_E2)
  with Suc.IH [of u] loop_closed [of H s u] Suc.prems(2) show ?case by fastforce
qed simp

lemma pc_rank_le: "pc_rank pc \<le> 3"
  by (cases pc) simp_all

end
