(* ===== verification/Demo.thy ===== *)
theory Demo
  imports System
begin

text \<open>
  A concrete host and runtime, on which the witnesses of the properties are evaluated: a
  machine whose connection always works, whose messages are the action name in front of
  the data, and whose key operations are the simplest ones that fit together.
\<close>

definition demo_proto :: protocol where
  "demo_proto = \<lparr>MajorCmd = 1, MajorMsg = 2, SubProtoVarStore = 3, SubProtoTopicBus = 4,
     SubProtoManagement = 5, SubProtoAuth = 6, ActionSet = ''set'', ActionNotifySet = ''notify_set'',
     ActionRegister = ''register'', ActionRegisterResp = ''register_resp'', ActionLogin = ''login'',
     ActionLoginResp = ''login_resp'', ActionSubscribeBatch = ''sub'', ActionSubscribeBatchResp = ''sub_resp'',
     ActionPublish = ''publish'', ActionConfigList = ''list'', ActionConfigListResp = ''list_resp'',
     ActionConfigGet = ''get'', ActionConfigGetResp = ''get_resp'', ActionConfigSet = ''cset'',
     ActionConfigSetResp = ''cset_resp''\<rparr>"

text \<open>Replies: every request is granted, to node 7 of hub 1.\<close>

definition demo_decoders :: decoders where
  "demo_decoders = \<lparr>
     dec_var_resp = (\<lambda>d. Inr \<lparr>vr_Name = ''sys_volume_percent'', vr_Value = d, vr_Visibility = [], vr_Owner = 7\<rparr>),
     dec_resp_data = (\<lambda>d. Inr \<lparr>rd_Code = 1, rd_Msg = d, rd_NodeID = 7, rd_HubID = 1, rd_Role = []\<rparr>),
     dec_topic_resp = (\<lambda>d. Inr (1, d)),
     dec_publish = (\<lambda>d. Inr \<lparr>pr_Topic = ''t'', pr_Name = ''n'', pr_TS = 5, pr_Payload = d\<rparr>),
     dec_config_get = Inr, dec_config_set = (\<lambda>d. Inr (d, ''v''))\<rparr>"

definition demo_floats :: floats where
  "demo_floats = \<lparr>float_ok = (\<lambda>_. True), float_text = (\<lambda>n. n), float_json = (\<lambda>n. n)\<rparr>"

definition demo_crypto :: "nat crypto" where
  "demo_crypto = \<lparr>ec_parse = (\<lambda>k. Inr (k, ''P-256'')),
     ec_generate = (\<lambda>w. (Inr ''key'', Suc w)), ec_public = (\<lambda>k. ''pub''),
     ec_sign = (\<lambda>k m w. (Inr ''sig'', w)), rand_bytes = (\<lambda>n w. (Inr (replicate n CHR ''r''), w))\<rparr>"

definition demo_host :: "nat host" where
  "demo_host = \<lparr>GOOS = ''linux'', int_bits = 64, rune_lower = (\<lambda>s. s), quote = (\<lambda>s. s),
     json_error_text = (\<lambda>s. ''json''), path_clean = (\<lambda>s. s), path_join = (\<lambda>a b. a @ ''/'' @ b), path_is_abs = (\<lambda>p. p \<noteq> [] \<and> hd p = CHR ''/''),
     dial = (\<lambda>a w. (None, w)), hangup = Suc, transmit = (\<lambda>h p w. (None, Suc w)),
     await_reply = (\<lambda>h p a w. (Inr \<lparr>msg_Action = a, msg_Data = []\<rparr>, Suc w)),
     encode_message = (\<lambda>a m. Inr a), decode_message = (\<lambda>p. Inr \<lparr>msg_Action = ''notify_set'', msg_Data = p\<rparr>),
     build_response = (\<lambda>h n s. Some h), proto = demo_proto, decode = demo_decoders, num = demo_floats,
     crypt = demo_crypto, unix_sec = int, unix_milli = int, unix_nano = int, getwd = (\<lambda>w. Inr ''/root'')\<rparr>"

definition demo_auth :: AuthSnapshot where
  "demo_auth = zero_auth\<lparr>DeviceID := ''dev'', NodeID := 7, HubID := 1, LoggedIn := True\<rparr>"

definition demo_disk :: disk where
  "demo_disk = \<lparr>files = Map.empty, script = []\<rparr>"

definition demo_runtime :: "nat runtime" where
  "demo_runtime = \<lparr>rt_workDir = ''w'', rt_client = True, rt_addr = ''hub:1'', rt_connected = True,
     rt_reconnectCtx = None, rt_reconnectRunning = False, rt_reconnectDesired = True, rt_auth = demo_auth,
     rt_lastErr = [], rt_keys = NewKeyStore demo_host ''k'', rt_cfgStore = None, rt_cfg = zero_config,
     rt_cfgGen = 0, rt_reportRunning = True, rt_reportEnabled = True, rt_lastMetrics = Map.empty,
     rt_lastPublished = Map.empty, rt_controlQ = newActionQueue, rt_notifyRunning = True,
     rt_notifyTopics = {''t''}, rt_notifyQ = NewQueue 2, rt_disk = demo_disk, rt_world = 0, rt_sent = []\<rparr>"

text \<open>The runtime after its first start.\<close>

definition demo_ready :: "nat runtime" where
  "demo_ready = snd (initRuntimeConfig demo_host demo_runtime)"

lemma demo_path [simp]: "TrimSpace ''w/runtime_config.json'' = ''w/runtime_config.json''"
  by (rule TrimSpace_graphic) (simp add: graphic_def)

lemma demo_start:
  "fst (initRuntimeConfig demo_host demo_runtime) = None \<and>
   cfg_Settings (rt_cfg demo_ready) = defaultSettingsForOS ''linux'' \<and>
   VisibilityDefault (rt_cfg demo_ready) = VisibilityPublic"
  using first_start [of demo_host demo_runtime "''w/runtime_config.json''"]
  by (simp add: demo_ready_def demo_host_def demo_runtime_def demo_disk_def)

lemma demo_init: "initRuntimeConfig demo_host demo_runtime = (None, demo_ready)"
  using demo_start by (simp add: demo_ready_def prod_eq_iff)

lemma demo_sync: "cfg_sync demo_host demo_ready"
  by (rule initRuntimeConfig_sync [OF demo_init])

lemma demo_kept: "config_kept demo_ready = config_kept demo_runtime"
  by (simp add: demo_ready_def initRuntimeConfig_kept)

lemmas demo_fields = demo_kept [unfolded config_kept_def demo_runtime_def, simplified]

lemma demo_GOOS [simp]: "GOOS demo_host = ''linux''"
  by (simp add: demo_host_def)

text \<open>A runtime with an empty store and nothing else initialised.\<close>

definition demo_store :: "nat runtime" where
  "demo_store = demo_runtime\<lparr>rt_cfgStore := Some \<lparr>st_path = ''p'', st_data = []\<rparr>\<rparr>"

lemma demo_p [simp]: "TrimSpace ''p'' = ''p''" "TrimSpace ''note'' = ''note''"
  by (rule TrimSpace_graphic, simp add: graphic_def)+

lemma demo_set_when:
  assumes "checked_value demo_host (TrimSpace k) v = Inr u" and "TrimSpace k \<noteq> []"
    and "rt_cfgStore r = Some \<lparr>st_path = ''p'', st_data = []\<rparr>" and "rt_disk r = demo_disk"
  shows "fst (RuntimeConfigSet demo_host k v r) = None"
proof -
  have "fst (store_set demo_host (TrimSpace k) u r) = None"
    using assms(2-4)
    by (simp add: store_set_def Store_Set_def Let_def save_def
        store_writeFileAtomic_def MkdirAll_def next_op_def demo_disk_def replace_file_ok demo_host_def)
  then show ?thesis
    using assms by (cases "store_set demo_host (TrimSpace k) u r")
      (simp add: RuntimeConfigSet_def Let_def)
qed

lemma demo_set:
  assumes "checked_value demo_host (TrimSpace k) v = Inr u" and "TrimSpace k \<noteq> []"
  shows "fst (RuntimeConfigSet demo_host k v demo_store) = None"
  by (rule demo_set_when [OF assms]) (simp_all add: demo_store_def demo_runtime_def)

lemma demo_set_offline:
  assumes "checked_value demo_host (TrimSpace k) v = Inr u" and "TrimSpace k \<noteq> []"
  shows "fst (RuntimeConfigSet demo_host k v (demo_store\<lparr>rt_connected := False\<rparr>)) = None"
  by (rule demo_set_when [OF assms]) (simp_all add: demo_store_def demo_runtime_def)

lemma demo_note: "checked_value H ''note'' v = Inr v"
  by (simp add: checked_value_def go_defs)

lemma demo_private:
  "normalizeVisibility demo_host ''private'' = Inr ''private''"
  "checked_value demo_host KeyMetricsVisibilityDefault ''private'' = Inr ''private''"
proof -
  have "ToLower demo_host ''private'' = ''private''" "TrimSpace ''private'' = ''private''"
    by (simp_all add: lower_char_def TrimSpace_graphic graphic_def)
  then show n: "normalizeVisibility demo_host ''private'' = Inr ''private''"
    by (simp add: normalizeVisibility_def VisibilityPrivate_def)
  then show "checked_value demo_host KeyMetricsVisibilityDefault ''private'' = Inr ''private''"
    by (simp add: checked_value_def)
qed

section \<open>Sessions on the demo host\<close>

lemma demo_connect:
  assumes "TrimSpace addr \<noteq> []"
  shows "rt_connected (snd (Connect demo_host addr r)) \<and> rt_reconnectDesired (snd (Connect demo_host addr r)) \<and>
    rt_auth (snd (Connect demo_host addr r)) = rt_auth (if rt_addr r \<noteq> [] \<and> rt_addr r \<noteq> TrimSpace addr
      then Close demo_host (r\<lparr>rt_addr := TrimSpace addr\<rparr>) else r) \<and>
    rt_reconnectCtx (snd (Connect demo_host addr r)) = rt_reconnectCtx (if rt_addr r \<noteq> [] \<and> rt_addr r \<noteq> TrimSpace addr
      then Close demo_host (r\<lparr>rt_addr := TrimSpace addr\<rparr>) else r) \<and>
    rt_addr (snd (Connect demo_host addr r)) = TrimSpace addr"
proof -
  have c: "\<exists>q3. connectTransport demo_host (TrimSpace addr) q = (None, q3) \<and> rt_connected q3 \<and>
      rt_auth q3 = rt_auth q \<and> rt_reconnectCtx q3 = rt_reconnectCtx q \<and> rt_addr q3 = TrimSpace addr" for q
    using assms by (simp add: connectTransport_def client_connect_def demo_host_def ensureClient_def)
  define r2 where "r2 = (if rt_addr r \<noteq> [] \<and> rt_addr r \<noteq> TrimSpace addr
    then (Close demo_host (r\<lparr>rt_addr := TrimSpace addr\<rparr>))\<lparr>rt_addr := TrimSpace addr\<rparr> else r\<lparr>rt_addr := TrimSpace addr\<rparr>)"
  obtain r3 where r3: "connectTransport demo_host (TrimSpace addr) r2 = (None, r3)" "rt_connected r3"
    "rt_auth r3 = rt_auth r2" "rt_reconnectCtx r3 = rt_reconnectCtx r2" "rt_addr r3 = TrimSpace addr" using c by blast
  define r4 where "r4 = r3\<lparr>rt_reconnectDesired := True\<rparr>"
  have "snd (Connect demo_host addr r) = (if rt_notifyRunning r4 then snd (subscribeNotifyTopics demo_host r4) else r4)"
    using assms r3 by (simp add: Connect_def Let_def r4_def flip: r2_def)
  then have "subscribe_kept (snd (Connect demo_host addr r)) = subscribe_kept r4" by (simp add: subscribe_kept_eq)
  then show ?thesis using r3 by (simp add: subscribe_kept_def r4_def) (simp add: r2_def)
qed

lemma demo_keys: "\<exists>pub ks d w'. Ensure demo_host s dk w = (Inr pub, ks, d, w') \<and> ks_priv ks \<noteq> None"
proof -
  have "\<exists>priv pub d w'. loadOrCreateNodeKeys demo_host p dk w = (Inr (priv, pub), d, w')" for p
    by (auto simp: loadOrCreateNodeKeys_def Let_def demo_host_def demo_crypto_def
        split: prod.split sum.split option.split)
  then obtain priv pub d w' where "loadOrCreateNodeKeys demo_host (ks_path s) dk w = (Inr (priv, pub), d, w')" by blast
  then show ?thesis by (auto simp: Ensure_def)
qed

lemma demo_login:
  assumes "rt_connected r" and "TrimSpace dev \<noteq> []" and "n \<noteq> 0"
  shows "fst (Login demo_host dev n r) = Inr \<lparr>rd_Code = 1, rd_Msg = [], rd_NodeID = 7, rd_HubID = 1, rd_Role = []\<rparr>"
proof -
  obtain nonce w where g: "GenerateNonce demo_host 12 (rt_world r) = (nonce, w)" by force
  have nonce: "TrimSpace nonce \<noteq> []"
  proof -
    have "nonce = hex_text (replicate 12 CHR ''r'')" using g by (simp add: GenerateNonce_def demo_host_def demo_crypto_def)
    also have "\<dots> = concat (replicate 12 ''72'')"
    proof -
      have "hex_lower 7 = CHR ''7''" "hex_lower 2 = CHR ''2''" by (simp_all add: hex_lower_def char_of_eq_iff)
      then show ?thesis by (simp add: hex_text_def map_replicate_const)
    qed
    also have "\<dots> = ''727272727272727272727272''" by (simp add: numeral_eq_Suc)
    finally show ?thesis by (simp add: TrimSpace_graphic graphic_def)
  qed
  obtain pub ks d w' where e: "Ensure demo_host (rt_keys r) (rt_disk r) w = (Inr pub, ks, d, w')" "ks_priv ks \<noteq> None"
    using demo_keys by blast
  have sl: "signLogin demo_host p d n t no w = (Inr (base64_encode ''sig''), w)" for p d n t no w
    by (simp add: signLogin_def demo_host_def demo_crypto_def)
  from e obtain r1 where s: "SignLogin_rt demo_host (TrimSpace dev) n (unix_sec demo_host (rt_world r)) nonce (r\<lparr>rt_world := w\<rparr>) =
      (Inr (base64_encode ''sig''), r1)"
    using assms nonce by (auto simp: SignLogin_rt_def SignLogin_def Let_def sl)
  have enc: "encode_message demo_host a m = Inr a" for a m by (simp add: demo_host_def)
  have "fst (auth_exchange demo_host v a p q) = Inr \<lparr>rd_Code = 1, rd_Msg = [], rd_NodeID = 7, rd_HubID = 1, rd_Role = []\<rparr>"
    for v a p q
    by (simp add: auth_exchange_def sendAndAwait_def Let_def demo_host_def demo_decoders_def)
  then obtain r2 where "auth_exchange demo_host ''login'' (ActionLoginResp (proto demo_host)) (ActionLogin (proto demo_host)) r1 =
      (Inr \<lparr>rd_Code = 1, rd_Msg = [], rd_NodeID = 7, rd_HubID = 1, rd_Role = []\<rparr>, r2)"
    by (metis prod.collapse)
  then show ?thesis
    using assms by (simp add: Login_def Let_def g s enc)
qed

lemma demo_trim [simp]: "TrimSpace ''w'' = ''w''" "TrimSpace ''hub:1'' = ''hub:1''" "TrimSpace ''dev'' = ''dev''"
  "TrimSpace ''/root'' = ''/root''" "TrimSpace ''/root/w/runtime_config.json'' = ''/root/w/runtime_config.json''"
  by (rule TrimSpace_graphic; simp add: graphic_def)+

lemma demo_New: "\<exists>r. fst (New demo_host ''w'' demo_disk 0) = Inr r"
proof -
  let ?b = "blank_runtime demo_host ''/root/w'' demo_disk 0"
  have l: "snd (loadAuthSnapshot demo_host ?b) = ?b"
    by (simp add: loadAuthSnapshot_def ReadFile_def next_op_def demo_disk_def blank_runtime_def not_exist_def)
  have "fst (initRuntimeConfig demo_host ?b) = None"
    using first_start [of demo_host ?b "''/root/w/runtime_config.json''"]
    by (simp add: demo_host_def blank_runtime_def demo_disk_def)
  then obtain r where "initRuntimeConfig demo_host ?b = (None, r)" by (metis prod.collapse)
  then have "fst (New demo_host ''w'' demo_disk 0) = Inr r"
    using l by (simp add: New_def Let_def MkdirAll_def next_op_def demo_disk_def) (simp add: demo_host_def)
  then show ?thesis by blast
qed

lemma demo_login_state:
  assumes "rt_connected r"
  shows "LoggedIn (rt_auth (snd (Login demo_host ''dev'' 7 r)))" "rt_reconnectDesired (snd (Login demo_host ''dev'' 7 r))"
    "identity (rt_auth (snd (Login demo_host ''dev'' 7 r))) = (''dev'', 7, 1, [])"
    "login_kept (snd (Login demo_host ''dev'' 7 r)) = login_kept r"
  using Login_result [of demo_host "''dev''" 7 r] demo_login [OF assms, of "''dev''" 7] by simp_all

text \<open>
  The user closes a session while the loop restores it, and opens another one before the
  loop has noticed.
\<close>

lemma demo_stale:
  "\<exists>r d. reach (sys_init demo_host) (sys_step demo_host) (r, Confirm d) \<and> ctx_cancelled r \<and> rt_connected r \<and>
     rt_reconnectDesired r \<and> LoggedIn (rt_auth r)"
proof -
  let ?H = demo_host and ?R = "reach (sys_init demo_host) (sys_step demo_host)"
  obtain r0 where new: "fst (New ?H ''w'' demo_disk 0) = Inr r0" using demo_New by blast
  define r1 where "r1 = snd (Connect ?H ''hub:1'' r0)"
  define r2 where "r2 = snd (Login ?H ''dev'' 7 r1)"
  define r3 where "r3 = onClientError ?H (Some ErrCanceled) r2"
  have op: "?R (r, pc) \<Longrightarrow> runtime_op ?H r r' \<Longrightarrow> rt_reconnectRunning r' = rt_reconnectRunning r \<Longrightarrow> ?R (r', pc)" for r r' pc
    using reach_step [of "sys_init ?H" "sys_step ?H" "(r, pc)" "(r', spawn r r' pc)"] sys_step.operation [of ?H r r' pc]
    by (simp add: spawn_def)
  have 0: "?R (r0, Idle)" by (rule reach_init) (use new in \<open>auto simp: sys_init_def\<close>)
  note f0 = New_fresh [OF new]
  have c1: "rt_connected r1" "rt_addr r1 = ''hub:1''" "rt_reconnectCtx r1 = None"
    using demo_connect [of "''hub:1''" r0] f0 by (simp_all add: r1_def)
  have n1: "rt_reconnectRunning r1 = rt_reconnectRunning r0"
    using Connect_fields [of ?H "''hub:1''" r0] by (simp add: r1_def)
  have 1: "?R (r1, Idle)" by (rule op [OF 0 _ n1]) (simp add: r1_def runtime_op.connect)
  note l2 = demo_login_state [OF c1(1), folded r2_def]
  have n2: "rt_reconnectRunning r2 = rt_reconnectRunning r1" "rt_addr r2 = ''hub:1''"
    using l2(4) c1 by (simp_all add: login_kept_def)
  have 2: "?R (r2, Idle)" by (rule op [OF 1 _ n2(1)]) (simp add: r2_def runtime_op.login)
  have run2: "\<not> rt_reconnectRunning r2" using n1 n2 f0 by simp
  have s3: "rt_reconnectRunning r3" "rt_reconnectCtx r3 = Some False" "rt_reconnectDesired r3" "rt_addr r3 = ''hub:1''"
    "identity (rt_auth r3) = (''dev'', 7, 1, [])"
    using run2 l2 n2 by (simp_all add: r3_def onClientError_def scheduleReconnect_def storeLastError_def
        markSessionLoggedOut_auth identity_def)
  have 3: "?R (r3, Head reconnectInitialDelay)"
    using reach_step [OF 2 sys_step.operation [OF runtime_op.client_error [of ?H r2 "Some ErrCanceled"]]] run2 s3
    by (simp add: spawn_def flip: r3_def)
  obtain r4 where d4: "recover_dial ?H r3 = (Inr (rt_auth r3), r4)" "rt_connected r4" "link_kept r4 = link_kept r3"
    using s3(4) by (simp add: recover_dial_def connectTransport_def client_connect_def ensureClient_def link_kept_def
        closeClientForReconnect_def demo_host_def)
  have c4: "\<not> ctx_cancelled r4" "\<not> ctx_cancelled r3" using d4(3) s3 by (simp_all add: link_kept_def ctx_cancelled_def)
  have 4: "?R (r4, Dialled (rt_auth r3) reconnectInitialDelay)"
    using reach_step [OF 3 sys_step.loop [OF loop_step.dialled [OF s3(3) c4(2) d4(1)]]] .
  define r5 where "r5 = snd (Login ?H ''dev'' 7 r4)"
  note l5 = demo_login_state [OF d4(2), folded r5_def]
  have "recover_login ?H (rt_auth r3) r4 = (Inr True, r5)"
    using s3(5) demo_login [OF d4(2), of "''dev''" 7]
    by (cases "Login ?H ''dev'' 7 r4") (simp add: recover_login_def Let_def identity_def r5_def)
  from reach_step [OF 4 sys_step.loop [OF loop_step.logged_in [OF c4(1) this]]]
  have 5: "?R (r5, Confirm reconnectInitialDelay)" .
  have c5: "rt_reconnectCtx r5 = Some False"
    using l5(4) d4(3) s3 by (simp add: login_kept_def link_kept_def)
  define r6 where "r6 = Close ?H r5"
  have 6: "?R (r6, Confirm reconnectInitialDelay)"
    by (rule op [OF 5]) (simp_all add: r6_def runtime_op.close)
  define r7 where "r7 = snd (Connect ?H ''hub:1'' r6)"
  have c7: "rt_connected r7" "rt_reconnectCtx r7 = Some True"
    using demo_connect [of "''hub:1''" r6] c5 by (simp_all add: r7_def r6_def)
  have 7: "?R (r7, Confirm reconnectInitialDelay)"
    using Connect_fields [of ?H "''hub:1''" r6] by (intro op [OF 6]) (simp_all add: r7_def runtime_op.connect)
  define r8 where "r8 = snd (Login ?H ''dev'' 7 r7)"
  note l8 = demo_login_state [OF c7(1), folded r8_def]
  have 8: "?R (r8, Confirm reconnectInitialDelay)"
    using l8(4) by (intro op [OF 7]) (simp_all add: r8_def runtime_op.login login_kept_def)
  have "ctx_cancelled r8" "rt_connected r8" using l8(4) c7 by (simp_all add: login_kept_def ctx_cancelled_def)
  with 8 l8 show ?thesis by blast
qed

end
