(* ===== verification/Floats.thy ===== *)
theory Floats
  imports Complex_Main Prelude
begin

text \<open>
  The floating-point arithmetic the collectors and the volume control do, on non-negative
  numbers. A finite binary float is a dyadic fraction; an operation is the exact result
  rounded to the width of the type (24 bits for \<^verbatim>\<open>float32\<close>, 53 for
  \<^verbatim>\<open>float64\<close>), ties to even. All results here lie between $2^{-70}$ and $2^{71}$, or are zero, so the
  exponent range of neither type is left.
\<close>

section \<open>Operations\<close>

text \<open>\<open>Dyadic m k\<close> is $m / 2^k$.\<close>

datatype dyadic = Dyadic nat nat

fun bit_length :: "nat \<Rightarrow> nat" where
  "bit_length n = (if n = 0 then 0 else Suc (bit_length (n div 2)))"

declare bit_length.simps [simp del]

text \<open>The integer nearest to \<open>a / b\<close>, ties to even.\<close>

definition round_even :: "nat \<Rightarrow> nat \<Rightarrow> nat" where
  "round_even a b =
     (let q = a div b; r = a mod b in
      if 2 * r < b then q else if b < 2 * r then q + 1 else if even q then q else q + 1)"

text \<open>\<open>a / b\<close> scaled by $2^k$, as a fraction again.\<close>

definition scale_num :: "int \<Rightarrow> nat \<Rightarrow> nat" where
  "scale_num k a = (if 0 \<le> k then a * 2 ^ nat k else a)"

definition scale_den :: "int \<Rightarrow> nat \<Rightarrow> nat" where
  "scale_den k b = (if 0 \<le> k then b else b * 2 ^ nat (- k))"

definition float_scale :: "nat \<Rightarrow> nat \<Rightarrow> nat \<Rightarrow> int" where
  "float_scale p a b =
     (let k = int p + int (bit_length b) - int (bit_length a)
      in if scale_num k a < scale_den k b * 2 ^ p then k else k - 1)"

definition round_bits :: "nat \<Rightarrow> nat \<Rightarrow> nat \<Rightarrow> dyadic" where
  "round_bits p a b =
     (if a = 0 then Dyadic 0 0
      else let k = float_scale p a b; m = round_even (scale_num k a) (scale_den k b)
           in if 0 \<le> k then Dyadic m (nat k) else Dyadic (m * 2 ^ nat (- k)) 0)"

definition f64_of_nat :: "nat \<Rightarrow> dyadic" where
  "f64_of_nat n = round_bits 53 n 1"

fun f64_mul :: "dyadic \<Rightarrow> dyadic \<Rightarrow> dyadic" where
  "f64_mul (Dyadic m k) (Dyadic n l) = round_bits 53 (m * n) (2 ^ (k + l))"

fun f64_div :: "dyadic \<Rightarrow> dyadic \<Rightarrow> dyadic" where
  "f64_div (Dyadic m k) (Dyadic n l) = round_bits 53 (m * 2 ^ l) (n * 2 ^ k)"

fun f32_of_f64 :: "dyadic \<Rightarrow> dyadic" where
  "f32_of_f64 (Dyadic m k) = round_bits 24 m (2 ^ k)"

fun f32_mul :: "dyadic \<Rightarrow> dyadic \<Rightarrow> dyadic" where
  "f32_mul (Dyadic m k) (Dyadic n l) = round_bits 24 (m * n) (2 ^ (k + l))"

fun dyadic_less :: "dyadic \<Rightarrow> dyadic \<Rightarrow> bool" where
  "dyadic_less (Dyadic m k) (Dyadic n l) = (m * 2 ^ l < n * 2 ^ k)"

text \<open>\<^verbatim>\<open>math.Round\<close> rounds half away from zero.\<close>

fun math_Round :: "dyadic \<Rightarrow> nat" where
  "math_Round (Dyadic m k) = (2 * m + 2 ^ k) div 2 ^ (k + 1)"

section \<open>Bit lengths\<close>

lemma bit_length_0 [simp]: "bit_length 0 = 0"
  by (simp add: bit_length.simps)

lemma bit_length_bounds: "0 < n \<Longrightarrow> n < 2 ^ bit_length n \<and> 2 ^ (bit_length n - 1) \<le> n"
proof (induction n rule: bit_length.induct)
  case (1 n)
  show ?case
  proof (cases "n = 1")
    case True
    then show ?thesis by (simp add: bit_length.simps)
  next
    case False
    with 1 have h: "0 < n div 2" "n div 2 < 2 ^ bit_length (n div 2)" "2 ^ (bit_length (n div 2) - 1) \<le> n div 2"
      by auto
    obtain l where l: "bit_length (n div 2) = Suc l" using h(1) by (simp add: bit_length.simps [of "n div 2"])
    show ?thesis using h l 1(2) by (simp add: bit_length.simps [of n]) linarith
  qed
qed

lemma bit_length_pos: "0 < n \<Longrightarrow> 0 < bit_length n"
  by (simp add: bit_length.simps [of n])

lemma bit_length_le: "n < 2 ^ k \<Longrightarrow> bit_length n \<le> k"
proof (cases "n = 0")
  case False
  assume "n < 2 ^ k"
  then have "(2::nat) ^ (bit_length n - 1) < 2 ^ k" using bit_length_bounds [of n] False by linarith
  then show ?thesis by (simp add: power_strict_increasing_iff)
qed simp

lemma bit_length_shift: "0 < n \<Longrightarrow> bit_length (n * 2 ^ j) = bit_length n + j"
proof (induction j)
  case (Suc j)
  have "bit_length (n * 2 ^ Suc j) = Suc (bit_length (n * 2 ^ Suc j div 2))"
    using Suc.prems by (subst bit_length.simps) simp
  also have "n * 2 ^ Suc j div 2 = n * 2 ^ j" by simp
  finally show ?case using Suc by simp
qed simp

lemma bit_length_mult_le: "bit_length (m * n) \<le> bit_length m + bit_length n"
proof (cases "m = 0 \<or> n = 0")
  case False
  then have "m * n < 2 ^ bit_length m * 2 ^ bit_length n"
    using bit_length_bounds [of m] bit_length_bounds [of n] by (intro mult_strict_mono) auto
  then show ?thesis by (intro bit_length_le) (simp add: power_add)
qed auto

section \<open>Rounding\<close>

lemma round_even_bounds:
  assumes "0 < b" shows "a div b \<le> round_even a b" "round_even a b \<le> (2 * a + b) div (2 * b)"
proof -
  have a: "a = b * (a div b) + a mod b" by simp
  show "a div b \<le> round_even a b" by (simp add: round_even_def Let_def)
  show "round_even a b \<le> (2 * a + b) div (2 * b)"
    using assms
    by (auto simp: round_even_def Let_def less_eq_div_iff_mult_less_eq algebra_simps) (use a in \<open>linarith\<close>)+
qed

lemma round_even_exact: "0 < b \<Longrightarrow> round_even (v * b) b = v"
  by (simp add: round_even_def)

lemma round_even_cong: "0 < c \<Longrightarrow> round_even (a * c) (b * c) = round_even a b"
proof -
  assume c: "0 < c"
  have "2 * (a mod b) * c = 2 * (a mod b * c)" by simp
  then have "(2 * (a mod b * c) < b * c) = (2 * (a mod b) < b)" "(b * c < 2 * (a mod b * c)) = (b < 2 * (a mod b))"
    using c by (metis mult_less_cancel2)+
  then show ?thesis using c by (simp add: round_even_def Let_def mult_mod_left)
qed

lemma scale_den_pos: "0 < b \<Longrightarrow> 0 < scale_den k b"
  by (simp add: scale_den_def)

lemma scale_shift [simp]: "scale_num k (a * 2 ^ j) = scale_num k a * 2 ^ j" "scale_den k (b * 2 ^ j) = scale_den k b * 2 ^ j"
  by (simp_all add: scale_num_def scale_den_def)

text \<open>A common power of two in numerator and denominator makes no difference.\<close>

lemma round_bits_shift:
  assumes "0 < b" shows "round_bits p (a * 2 ^ j) (b * 2 ^ j) = round_bits p a b"
proof (cases "a = 0")
  case False
  have "scale_num k a * 2 ^ j < scale_den k b * 2 ^ j * 2 ^ p \<longleftrightarrow> scale_num k a < scale_den k b * 2 ^ p" for k
  proof -
    have "scale_den k b * 2 ^ j * 2 ^ p = scale_den k b * 2 ^ p * 2 ^ j" by simp
    then show ?thesis by (metis mult_less_cancel2 zero_less_numeral zero_less_power)
  qed
  moreover have "int p + int (bit_length (b * 2 ^ j)) - int (bit_length (a * 2 ^ j)) =
      int p + int (bit_length b) - int (bit_length a)"
    using False assms by (simp add: bit_length_shift)
  ultimately have "float_scale p (a * 2 ^ j) (b * 2 ^ j) = float_scale p a b"
    by (simp only: float_scale_def Let_def scale_shift)
  then show ?thesis using False by (simp add: round_bits_def Let_def round_even_cong)
qed (simp add: round_bits_def)

lemma float_scale_nonneg:
  assumes "0 < a" and "0 < b" and "bit_length a \<le> p + bit_length b" and "a < b * 2 ^ p"
  shows "0 \<le> float_scale p a b"
proof -
  define k where "k = int p + int (bit_length b) - int (bit_length a)"
  have "0 \<le> k" using assms(3) by (simp add: k_def)
  moreover have "scale_num k a < scale_den k b * 2 ^ p" if "k = 0"
    using assms(4) by (simp add: that scale_num_def scale_den_def)
  ultimately show ?thesis by (cases "k = 0") (simp_all add: float_scale_def Let_def flip: k_def)
qed

lemma float_scale_small:
  assumes "a \<le> 120 * b" and "0 < a" and "0 < b" and "7 \<le> p"
  shows "\<exists>k. float_scale p a b = int k"
proof -
  have "bit_length (120 * b) \<le> bit_length 120 + bit_length b" by (rule bit_length_mult_le)
  moreover have "bit_length 120 \<le> 7" by (rule bit_length_le) simp
  moreover have "bit_length a \<le> bit_length (120 * b)"
    using assms(1,3) bit_length_bounds [of "120 * b"] by (intro bit_length_le) linarith
  ultimately have "bit_length a \<le> p + bit_length b" using assms(4) by linarith
  moreover have "(2::nat) ^ 7 \<le> 2 ^ p" using assms(4) by (intro power_increasing) simp_all
  then have "b * 128 \<le> b * 2 ^ p" by (intro mult_le_mono2) simp
  then have "a < b * 2 ^ p" using assms(1,3) by linarith
  ultimately have "0 \<le> float_scale p a b" using assms(2,3) by (intro float_scale_nonneg)
  then show ?thesis by (metis nonneg_int_cases)
qed

text \<open>A whole number that fits is represented exactly.\<close>

lemma round_bits_whole:
  assumes "0 < v" and "v < 2 ^ p" and "0 < b"
  shows "\<exists>k. round_bits p (v * b) b = Dyadic (v * 2 ^ k) k"
proof -
  have "bit_length (v * b) \<le> p + bit_length b"
    using bit_length_mult_le [of v b] bit_length_le [OF assms(2)] by linarith
  then have k: "0 \<le> float_scale p (v * b) b"
    using assms by (intro float_scale_nonneg) simp_all
  have "round_even (v * b * 2 ^ i) b = v * 2 ^ i" for i
    using round_even_exact [OF assms(3), of "v * 2 ^ i"] by (simp add: mult_ac)
  with k assms show ?thesis by (auto simp: round_bits_def Let_def scale_num_def scale_den_def)
qed

lemma f64_of_nat_exact:
  assumes "0 < n" and "n < 2 ^ 53" shows "\<exists>k. f64_of_nat n = Dyadic (n * 2 ^ k) k"
  using round_bits_whole [OF assms, of 1] by (simp add: f64_of_nat_def)

text \<open>
  At least \<open>p - 1\<close> bits of the quotient are kept.
\<close>

lemma float_scale_large:
  assumes "0 < a" and "0 < b" and "0 < p" and "float_scale p a b = int k"
  shows "b * 2 ^ (p - 1) \<le> a * 2 ^ k"
proof -
  define k0 where "k0 = int p + int (bit_length b) - int (bit_length a)"
  have ab: "2 ^ (bit_length a - 1) \<le> a" "b < 2 ^ bit_length b" "0 < bit_length a"
    using bit_length_bounds [OF assms(1)] bit_length_bounds [OF assms(2)] bit_length_pos [OF assms(1)] by simp_all
  consider "float_scale p a b = k0" | "float_scale p a b = k0 - 1" "scale_den k0 b * 2 ^ p \<le> scale_num k0 a"
    unfolding float_scale_def Let_def k0_def by (metis not_le)
  then show ?thesis
  proof cases
    case 1
    then have "p - 1 + bit_length b = bit_length a - 1 + k" using assms(3,4) ab(3) by (simp add: k0_def)
    moreover have "b * 2 ^ (p - 1) \<le> 2 ^ (p - 1 + bit_length b)" using ab(2) by (simp add: power_add mult.commute)
    moreover have "2 ^ (bit_length a - 1 + k) \<le> a * 2 ^ k" using ab(1) by (simp add: power_add)
    ultimately show ?thesis by (metis order_trans)
  next
    case 2
    then have k0: "k0 = int (Suc k)" using assms(4) by simp
    then have "b * 2 ^ p \<le> a * 2 ^ Suc k" using 2(2) by (simp add: scale_num_def scale_den_def nat_add_distrib)
    moreover have "(2::nat) ^ p = 2 * 2 ^ (p - 1)" using assms(3) by (cases p) simp_all
    ultimately show ?thesis by simp
  qed
qed

section \<open>Rounding a quotient to an integer\<close>

text \<open>
  Rounding first to 53 bits and then to an integer is rounding to an integer at once, as long
  as the divisor is small enough for the quotient to keep clear of the halves.
\<close>

lemma round_twice:
  assumes "0 < b" and "b < 2 ^ k" and "0 < k" and "m = round_even (a * 2 ^ k) b"
  shows "(2 * m + 2 ^ k) div 2 ^ (k + 1) = (2 * a + b) div (2 * b)"
proof -
  obtain j where j: "k = Suc j" using assms(3) by (cases k) simp_all
  have "n \<le> (2 * m + 2 ^ k) div 2 ^ (k + 1) \<longleftrightarrow> n \<le> (2 * a + b) div (2 * b)" for n
  proof (cases n)
    case (Suc i)
    define c where "c = (2 * i + 1) * 2 ^ j"
    have l: "n \<le> (2 * m + 2 ^ k) div 2 ^ (k + 1) \<longleftrightarrow> c \<le> m"
    proof -
      have "n \<le> (2 * m + 2 ^ k) div 2 ^ (k + 1) \<longleftrightarrow> n * 2 ^ (k + 1) \<le> 2 * m + 2 ^ k"
        by (rule less_eq_div_iff_mult_less_eq) simp
      also have "n * 2 ^ (k + 1) = 2 * c + 2 ^ k" by (simp add: Suc c_def j algebra_simps)
      finally show ?thesis by simp
    qed
    have r: "n \<le> (2 * a + b) div (2 * b) \<longleftrightarrow> (2 * i + 1) * b \<le> 2 * a"
    proof -
      have "n \<le> (2 * a + b) div (2 * b) \<longleftrightarrow> n * (2 * b) \<le> 2 * a + b"
        by (rule less_eq_div_iff_mult_less_eq) (simp add: assms(1))
      also have "n * (2 * b) = (2 * i + 1) * b + b" by (simp add: Suc algebra_simps)
      finally show ?thesis by simp
    qed
    show ?thesis
    proof (cases "(2 * i + 1) * b \<le> 2 * a")
      case True
      then have "(2 * i + 1) * b * 2 ^ j \<le> 2 * a * 2 ^ j" by (rule mult_le_mono1)
      moreover have "c * b = (2 * i + 1) * b * 2 ^ j" "a * 2 ^ k = 2 * a * 2 ^ j" by (simp_all add: c_def j algebra_simps)
      ultimately have "c * b \<le> a * 2 ^ k" by (simp only:)
      then have "c \<le> a * 2 ^ k div b" by (simp add: less_eq_div_iff_mult_less_eq assms(1))
      also have "\<dots> \<le> m" unfolding assms(4) by (rule round_even_bounds) (rule assms(1))
      finally show ?thesis using l r True by simp
    next
      case False
      then have "2 * a + 1 \<le> (2 * i + 1) * b" by simp
      then have "(2 * a + 1) * 2 ^ j \<le> (2 * i + 1) * b * 2 ^ j" by (rule mult_le_mono1)
      then have "a * 2 ^ k + 2 ^ j \<le> c * b" by (simp add: c_def j algebra_simps)
      then have "2 * (a * 2 ^ k) + b < c * (2 * b)" using assms(2) by (simp add: j)
      then have "(2 * (a * 2 ^ k) + b) div (2 * b) < c" by (simp add: div_less_iff_less_mult assms(1))
      then have "m < c" using round_even_bounds(2) [OF assms(1), of "a * 2 ^ k"] unfolding assms(4) by linarith
      then show ?thesis using l r False by simp
    qed
  qed simp
  then show ?thesis by (metis order_antisym order_refl)
qed

lemma math_Round_quotient:
  assumes "a \<le> 100 * b" and "0 < b" and "b \<le> 2 ^ 45"
  shows "math_Round (round_bits 53 a b) = (2 * a + b) div (2 * b)"
proof (cases "a = 0")
  case False
  then obtain k where k: "float_scale 53 a b = int k"
    using float_scale_small [of a b 53] assms(1,2) by auto
  have "b * 2 ^ 52 \<le> a * 2 ^ k" using float_scale_large [OF _ assms(2) _ k] False by simp
  also have "\<dots> \<le> 100 * b * 2 ^ k" using assms(1) by simp
  finally have "2 ^ 52 \<le> 100 * (2::nat) ^ k" using assms(2) by simp
  then have k45: "(2::nat) ^ 45 < 2 ^ k" by simp
  then have "0 < k" by (cases k) simp_all
  then show ?thesis
    using round_twice [OF assms(2) _ _ refl, of k a] False assms(3) k45
    by (simp add: round_bits_def Let_def k scale_num_def scale_den_def)
qed (use assms in \<open>simp add: round_bits_def\<close>)

section \<open>The two computations of the program\<close>

text \<open>\<^verbatim>\<open>float64(busy) * 100 / float64(whole)\<close> rounded, in the CPU collector.\<close>

definition percent_of :: "nat \<Rightarrow> nat \<Rightarrow> nat" where
  "percent_of part whole = math_Round (f64_div (f64_mul (f64_of_nat part) (f64_of_nat 100)) (f64_of_nat whole))"

text \<open>For counters below $2^{45}$ it is the percentage rounded half up, in whole numbers.\<close>

lemma percent_of_exact:
  assumes "part \<le> whole" and "0 < whole" and "whole \<le> 2 ^ 45"
  shows "percent_of part whole = (200 * part + whole) div (2 * whole)"
proof (cases "part = 0")
  case False
  obtain k1 where a: "f64_of_nat part = Dyadic (part * 2 ^ k1) k1"
    using f64_of_nat_exact [of part] assms False by auto
  obtain k2 where h: "f64_of_nat 100 = Dyadic (100 * 2 ^ k2) k2" using f64_of_nat_exact [of 100] by auto
  obtain k3 where t: "f64_of_nat whole = Dyadic (whole * 2 ^ k3) k3"
    using f64_of_nat_exact [of whole] assms by auto
  have "f64_mul (f64_of_nat part) (f64_of_nat 100) = round_bits 53 (part * 100 * 2 ^ (k1 + k2)) (1 * 2 ^ (k1 + k2))"
    by (simp add: a h power_add mult_ac)
  also have "\<dots> = round_bits 53 (part * 100 * 1) 1" by (subst round_bits_shift) simp_all
  finally obtain k4 where m: "f64_mul (f64_of_nat part) (f64_of_nat 100) = Dyadic (part * 100 * 2 ^ k4) k4"
    using round_bits_whole [of "part * 100" 53 1] assms False by auto
  have "f64_div (Dyadic (part * 100 * 2 ^ k4) k4) (f64_of_nat whole) =
      round_bits 53 (part * 100 * 2 ^ (k4 + k3)) (whole * 2 ^ (k4 + k3))"
    by (simp add: t power_add mult_ac)
  also have "\<dots> = round_bits 53 (part * 100) whole" using assms(2) by (rule round_bits_shift)
  finally have "percent_of part whole = math_Round (round_bits 53 (part * 100) whole)"
    by (simp add: percent_of_def m)
  also have "\<dots> = (2 * (part * 100) + whole) div (2 * whole)"
    using assms by (intro math_Round_quotient) simp_all
  finally show ?thesis by (simp add: mult_ac)
next
  case True
  then show ?thesis using assms
    by (cases "f64_of_nat 100"; cases "f64_of_nat whole") (simp add: percent_of_def f64_of_nat_def round_bits_def)
qed

text \<open>
  \<^verbatim>\<open>float32(float64(percent) / 100.0)\<close>, the volume level of a percentage, and
  \<^verbatim>\<open>math.Round(float64(level * 100))\<close>, the percentage of a level.
\<close>

definition level_of :: "nat \<Rightarrow> dyadic" where
  "level_of percent = f32_of_f64 (f64_div (f64_of_nat percent) (f64_of_nat 100))"

definition percent_of_level :: "dyadic \<Rightarrow> nat" where
  "percent_of_level level = math_Round (f32_mul level (f32_of_f64 (f64_of_nat 100)))"


text \<open>Each rounding is off by at most half a unit of the last bit.\<close>

fun dyadic_val :: "dyadic \<Rightarrow> real" where
  "dyadic_val (Dyadic m k) = real m / 2 ^ k"

lemma round_even_error:
  assumes "0 < b" shows "\<bar>real (round_even a b) - real a / real b\<bar> \<le> 1 / 2"
proof -
  have "real a = real b * real (a div b) + real (a mod b)"
    by (metis mult_div_mod_eq of_nat_add of_nat_mult)
  then have q: "real a / real b = real (a div b) + real (a mod b) / real b" using assms by (simp add: field_simps)
  have "a mod b < b" using assms by simp
  then show ?thesis
    using assms by (auto simp: q round_even_def Let_def abs_le_iff field_simps)
qed

lemma round_bits_error:
  assumes "a \<le> 120 * b" and "0 < b" and "7 \<le> p"
  shows "\<bar>dyadic_val (round_bits p a b) - real a / real b\<bar> \<le> real a / real b / 2 ^ p"
proof (cases "a = 0")
  case False
  then obtain k where k: "float_scale p a b = int k" using float_scale_small [OF assms(1) _ assms(2,3)] by blast
  let ?q = "real a / real b" and ?m = "round_even (a * 2 ^ k) b"
  have "b * 2 ^ (p - 1) \<le> a * 2 ^ k" using float_scale_large [OF _ assms(2) _ k] False assms(3) by simp
  then have "real (b * 2 ^ (p - 1)) \<le> real (a * 2 ^ k)" by (simp only: of_nat_le_iff)
  then have "real b * 2 ^ (p - 1) \<le> real a * 2 ^ k" by simp
  moreover have "(2::real) ^ p = 2 * 2 ^ (p - 1)" using assms(3) by (cases p) simp_all
  ultimately have "1 / 2 \<le> ?q * 2 ^ k / 2 ^ p" using assms(2) by (simp add: field_simps)
  moreover have "\<bar>real ?m - ?q * 2 ^ k\<bar> \<le> 1 / 2" using round_even_error [OF assms(2), of "a * 2 ^ k"] by simp
  ultimately have "\<bar>real ?m - ?q * 2 ^ k\<bar> \<le> ?q * 2 ^ k / 2 ^ p" by linarith
  then have "\<bar>real ?m - ?q * 2 ^ k\<bar> / 2 ^ k \<le> ?q * 2 ^ k / 2 ^ p / 2 ^ k" by (rule divide_right_mono) simp
  moreover have "?q * 2 ^ k / 2 ^ p / 2 ^ k = ?q / 2 ^ p" by simp
  moreover have "real ?m / 2 ^ k - ?q = (real ?m - ?q * 2 ^ k) / 2 ^ k" by (simp add: diff_divide_distrib)
  then have "\<bar>real ?m / 2 ^ k - ?q\<bar> = \<bar>real ?m - ?q * 2 ^ k\<bar> / 2 ^ k" by (simp only: abs_divide) simp
  moreover have "dyadic_val (round_bits p a b) = real ?m / 2 ^ k"
    using False by (simp add: round_bits_def Let_def k scale_num_def scale_den_def)
  ultimately show ?thesis by linarith
qed (simp add: round_bits_def)

lemma math_Round_near:
  assumes "\<bar>dyadic_val x - real p\<bar> < 1 / 2" shows "math_Round x = p"
proof (cases x)
  case (Dyadic m k)
  have "real m / 2 ^ k < real p + 1 / 2" "real p - 1 / 2 < real m / 2 ^ k"
    using assms unfolding Dyadic dyadic_val.simps abs_less_iff by linarith+
  then have "real m < (real p + 1 / 2) * 2 ^ k" "(real p - 1 / 2) * 2 ^ k < real m"
    by (simp_all add: pos_divide_less_eq pos_less_divide_eq)
  then have "real (2 * m + 2 ^ k) < real ((p + 1) * 2 ^ (k + 1))" "real (p * 2 ^ (k + 1)) < real (2 * m + 2 ^ k)"
    by (simp_all add: algebra_simps)
  then have "2 * m + 2 ^ k < (p + 1) * 2 ^ (k + 1)" "p * 2 ^ (k + 1) \<le> 2 * m + 2 ^ k" by linarith+
  then show ?thesis
    unfolding Dyadic math_Round.simps by (intro div_nat_eqI) (simp_all add: mult.commute)
qed

lemma num_le: "real m / 2 ^ k \<le> real c \<Longrightarrow> m \<le> c * 2 ^ k"
proof -
  assume "real m / 2 ^ k \<le> real c"
  then have "real m \<le> real (c * 2 ^ k)" by (simp add: pos_divide_le_eq)
  then show ?thesis by (simp only: of_nat_le_iff)
qed

lemma f64_of_small: "n \<le> 100 \<Longrightarrow> \<exists>k. f64_of_nat n = Dyadic (n * 2 ^ k) k"
  using f64_of_nat_exact [of n] by (cases "n = 0") (auto simp: f64_of_nat_def round_bits_def)

lemma f32_mul_100_error:
  assumes "m * 100 \<le> 120 * 2 ^ k"
  defines "v \<equiv> f32_mul (Dyadic m k) (f32_of_f64 (f64_of_nat 100))"
  shows "\<bar>dyadic_val v - 100 * dyadic_val (Dyadic m k)\<bar> \<le> 100 * dyadic_val (Dyadic m k) / 2 ^ 24"
proof -
  obtain k2 where "f64_of_nat 100 = Dyadic (100 * 2 ^ k2) k2" using f64_of_small [of 100] by auto
  then have "f32_of_f64 (f64_of_nat 100) = round_bits 24 (100 * 2 ^ k2) (2 ^ k2)" by simp
  then obtain k3 where h: "f32_of_f64 (f64_of_nat 100) = Dyadic (100 * 2 ^ k3) k3"
    using round_bits_whole [of 100 24 "2 ^ k2"] by auto
  have "v = round_bits 24 (m * 100 * 2 ^ k3) (2 ^ k * 2 ^ k3)"
    by (simp add: v_def h power_add mult_ac)
  also have "\<dots> = round_bits 24 (m * 100) (2 ^ k)" by (rule round_bits_shift) simp
  finally show ?thesis
    using round_bits_error [of "m * 100" "2 ^ k" 24] assms(1) by (simp add: mult.commute)
qed

lemma percent_of_level_le:
  assumes "m \<le> 2 ^ k" shows "percent_of_level (Dyadic m k) \<le> 100"
proof -
  define v where "v = f32_mul (Dyadic m k) (f32_of_f64 (f64_of_nat 100))"
  have "real m \<le> real (2 ^ k)" using assms by (simp only: of_nat_le_iff)
  then have l: "dyadic_val (Dyadic m k) \<le> 1" by (simp add: pos_divide_le_eq)
  have "100 * x / 2 ^ 24 \<le> 1 / 1000" if "x \<le> 1" for x :: real using that by simp
  from this [OF l] have "100 * dyadic_val (Dyadic m k) / 2 ^ 24 \<le> 1 / 1000" .
  moreover have "\<bar>dyadic_val v - 100 * dyadic_val (Dyadic m k)\<bar> \<le> 100 * dyadic_val (Dyadic m k) / 2 ^ 24"
    using f32_mul_100_error [of m k] assms by (simp add: v_def)
  ultimately have "dyadic_val v < 100 + 1 / 2" using l unfolding abs_le_iff by linarith
  moreover obtain n l where v: "v = Dyadic n l" by (cases v)
  ultimately have "real n < (100 + 1 / 2) * 2 ^ l" by (simp add: pos_divide_less_eq)
  then have "real (2 * n + 2 ^ l) < real (101 * 2 ^ (l + 1))" by simp
  then have "2 * n + 2 ^ l < 101 * 2 ^ (l + 1)" by linarith
  then have "(2 * n + 2 ^ l) div 2 ^ (l + 1) < 101" by (simp add: div_less_iff_less_mult)
  then show ?thesis by (simp add: percent_of_level_def v flip: v_def)
qed

lemma level_of_error:
  assumes "p \<le> 100" shows "\<bar>dyadic_val (level_of p) - real p / 100\<bar> \<le> 1 / 500"
proof -
  obtain k1 k2 where n: "f64_of_nat p = Dyadic (p * 2 ^ k1) k1" "f64_of_nat 100 = Dyadic (100 * 2 ^ k2) k2"
    using f64_of_small [OF assms] f64_of_small [of 100] by auto
  define x where "x = f64_div (f64_of_nat p) (f64_of_nat 100)"
  have "x = round_bits 53 (p * 2 ^ (k1 + k2)) (100 * 2 ^ (k1 + k2))" by (simp add: x_def n power_add mult_ac)
  also have "\<dots> = round_bits 53 p 100" by (rule round_bits_shift) simp
  finally have "\<bar>dyadic_val x - real p / 100\<bar> \<le> real p / 100 / 2 ^ 53"
    using round_bits_error [of p 100 53] assms by simp
  moreover have P: "real p \<le> 100" using assms by simp
  then have "real p / 100 / 2 ^ 53 \<le> 1 / 1000" by simp
  ultimately have e1: "\<bar>dyadic_val x - real p / 100\<bar> \<le> 1 / 1000" by linarith
  obtain m k where x: "x = Dyadic m k" by (cases x)
  have x2: "dyadic_val x \<le> 2" using e1 P unfolding abs_le_iff by linarith
  then have "m \<le> 2 * 2 ^ k" using num_le [of m k 2] by (simp add: x)
  then have "\<bar>dyadic_val (level_of p) - dyadic_val x\<bar> \<le> dyadic_val x / 2 ^ 24"
    using round_bits_error [of m "2 ^ k" 24] by (simp add: level_of_def x flip: x_def)
  moreover have "dyadic_val x / 2 ^ 24 \<le> 1 / 1000" using x2 by simp
  ultimately show ?thesis using e1 by linarith
qed

text \<open>A volume that was set is the volume that is read.\<close>

lemma level_round_trip:
  assumes "p \<le> 100" shows "percent_of_level (level_of p) = p"
proof -
  have P: "real p \<le> 100" using assms by simp
  obtain m k where l: "level_of p = Dyadic m k" by (cases "level_of p")
  have l1: "100 * dyadic_val (level_of p) \<le> 101" using level_of_error [OF assms] P unfolding abs_le_iff by linarith
  then have "real (m * 100) / 2 ^ k \<le> real 101" by (simp add: l mult.commute)
  then have m: "m * 100 \<le> 101 * 2 ^ k" by (rule num_le)
  let ?v = "f32_mul (level_of p) (f32_of_f64 (f64_of_nat 100))"
  have "\<bar>dyadic_val ?v - 100 * dyadic_val (level_of p)\<bar> \<le> 100 * dyadic_val (level_of p) / 2 ^ 24"
    using f32_mul_100_error [of m k] m by (simp add: l)
  moreover have "100 * dyadic_val (level_of p) / 2 ^ 24 \<le> 1 / 1000" using l1 by simp
  ultimately have "\<bar>dyadic_val ?v - real p\<bar> < 1 / 2"
    using level_of_error [OF assms] unfolding abs_le_iff abs_less_iff by linarith
  then show ?thesis unfolding percent_of_level_def by (rule math_Round_near)
qed

text \<open>No percentage is a level above 1.\<close>

lemma level_of_le_1:
  assumes "p \<le> 100" shows "\<not> dyadic_less (Dyadic 1 0) (level_of p)"
proof (cases "p = 100")
  case True
  then show ?thesis
    by (simp add: level_of_def f64_of_nat_def round_bits_def float_scale_def scale_num_def scale_den_def
        round_even_def Let_def bit_length.simps)
next
  case False
  then have "real p \<le> 99" using assms by simp
  then have "dyadic_val (level_of p) \<le> 1" using level_of_error [OF assms] unfolding abs_le_iff by linarith
  moreover obtain m k where l: "level_of p = Dyadic m k" by (cases "level_of p")
  ultimately show ?thesis using num_le [of m k 1] by simp
qed

end
