(* ===== verification/WinApi.thy ===== *)
theory WinApi
  imports GoStrings Floats
begin

text \<open>
  What the Windows parts call in the operating system, as one record \<open>'w windows\<close> of
  parameters: the monitor functions of \<^verbatim>\<open>user32\<close> and \<^verbatim>\<open>dxva2\<close>, COM automation,
  Core Audio and the status functions of \<^verbatim>\<open>kernel32\<close>. Handles and interface pointers
  are numbers, 0 is the null one.
\<close>

section \<open>Calls\<close>

text \<open>
  A call that reports failure by returning 0 is \<open>Inl\<close> with the system error, if it left one;
  \<open>win_call\<close> is the code's \<^verbatim>\<open>if r1 == 0\<close>.
\<close>

type_synonym 'a wincall = "go_error option + 'a"
type_synonym handle = u64

definition win_call :: "string \<Rightarrow> 'a wincall \<times> 'w \<Rightarrow> 'a result \<times> 'w" where
  "win_call name x =
     (case x of
        (Inl (Some e), w) \<Rightarrow> (Inl e, w)
      | (Inl None, w) \<Rightarrow> (Inl (ErrNew (name @ '' failed'')), w)
      | (Inr a, w) \<Rightarrow> (Inr a, w))"

text \<open>\<open>then_do\<close> is the chain of \<^verbatim>\<open>if err != nil return\<close>, \<open>finally_do\<close> a deferred call.\<close>

definition then_do :: "'a result \<times> 'w \<Rightarrow> ('a \<Rightarrow> 'w \<Rightarrow> 'b result \<times> 'w) \<Rightarrow> 'b result \<times> 'w" where
  "then_do x f = (case x of (Inl e, w) \<Rightarrow> (Inl e, w) | (Inr a, w) \<Rightarrow> f a w)"

definition finally_do :: "('w \<Rightarrow> 'w) \<Rightarrow> 'a \<times> 'w \<Rightarrow> 'a \<times> 'w" where
  "finally_do g x = (fst x, g (snd x))"

text \<open>
  A VARIANT as the dynamic Go value it is read as, or an interface pointer; other kinds are
  \<open>VOther\<close>.
\<close>

datatype variant =
    VNil
  | VInt8 u8 | VUint8 u8 | VInt16 "16 word" | VUint16 "16 word" | VInt32 u32 | VUint32 u32
  | VInt64 u64 | VUint64 u64 | VInt u64 | VUint u64
  | VStr string | VDisp handle | VOther

fun ToIDispatch :: "variant \<Rightarrow> handle option" where
  "ToIDispatch (VDisp h) = (if h = 0 then None else Some h)"
| "ToIDispatch _ = None"

text \<open>The level of a volume: a finite \<^verbatim>\<open>float32\<close> with its sign.\<close>

record level =
  lv_negative :: bool
  lv_value :: dyadic

text \<open>\<^verbatim>\<open>systemPowerStatus\<close>: the fields the code reads.\<close>

record systemPowerStatus =
  ACLineStatus :: u8
  BatteryFlag :: u8
  BatteryLifePercent :: u8

record fileTime =
  LowDateTime :: u32
  HighDateTime :: u32

text \<open>
  \<^verbatim>\<open>GetAdaptersAddresses\<close> fails because the buffer is too small, and then says the
  size it wants, or for another reason.
\<close>

datatype adapters_failure = BufferOverflow u32 | AdaptersError go_error

text \<open>\<^verbatim>\<open>windows.IpAdapterAddresses\<close>: the fields the code reads.\<close>

record adapter =
  OperStatus :: u32
  IfType :: u32
  has_unicast :: bool

record 'w monitor_api =
  GetDesktopWindow :: "'w \<Rightarrow> handle wincall \<times> 'w"
  MonitorFromWindow :: "handle \<Rightarrow> 'w \<Rightarrow> handle wincall \<times> 'w"
  GetNumberOfPhysicalMonitors :: "handle \<Rightarrow> 'w \<Rightarrow> u32 wincall \<times> 'w"
  GetPhysicalMonitors :: "handle \<Rightarrow> u32 \<Rightarrow> 'w \<Rightarrow> handle list wincall \<times> 'w"
  DestroyPhysicalMonitor :: "handle \<Rightarrow> 'w \<Rightarrow> 'w"
  GetMonitorBrightness :: "handle \<Rightarrow> 'w \<Rightarrow> (u32 \<times> u32 \<times> u32) wincall \<times> 'w"
  SetMonitorBrightness :: "handle \<Rightarrow> u32 \<Rightarrow> 'w \<Rightarrow> unit wincall \<times> 'w"

text \<open>An error of \<^verbatim>\<open>CoInitialize\<close> comes with its OLE code, when it has one.\<close>

record 'w com_api =
  CoInitialize :: "'w \<Rightarrow> (int option \<times> go_error) option \<times> 'w"
  CoUninitialize :: "'w \<Rightarrow> 'w"
  CreateObject :: "string \<Rightarrow> 'w \<Rightarrow> handle result \<times> 'w"
  QueryDispatch :: "handle \<Rightarrow> 'w \<Rightarrow> handle result \<times> 'w"
  AddRef :: "handle \<Rightarrow> 'w \<Rightarrow> 'w"
  Release :: "handle \<Rightarrow> 'w \<Rightarrow> 'w"
  CallMethod :: "handle \<Rightarrow> string \<Rightarrow> variant list \<Rightarrow> 'w \<Rightarrow> (variant option \<times> go_error option) \<times> 'w"
  GetProperty :: "handle \<Rightarrow> string \<Rightarrow> 'w \<Rightarrow> (variant option \<times> go_error option) \<times> 'w"
  PutProperty :: "handle \<Rightarrow> string \<Rightarrow> variant \<Rightarrow> 'w \<Rightarrow> 'w"
  enum_items :: "handle \<Rightarrow> 'w \<Rightarrow> (variant list \<times> go_error option) \<times> 'w"
  Clear :: "variant \<Rightarrow> 'w \<Rightarrow> 'w"

record 'w audio_api =
  CreateEnumerator :: "'w \<Rightarrow> handle result \<times> 'w"
  GetDefaultAudioEndpoint :: "handle \<Rightarrow> 'w \<Rightarrow> handle result \<times> 'w"
  Activate :: "handle \<Rightarrow> 'w \<Rightarrow> handle result \<times> 'w"
  SetMasterVolume :: "handle \<Rightarrow> dyadic \<Rightarrow> 'w \<Rightarrow> go_error option \<times> 'w"
  GetMasterVolume :: "handle \<Rightarrow> 'w \<Rightarrow> level result \<times> 'w"
  SetMute :: "handle \<Rightarrow> bool \<Rightarrow> 'w \<Rightarrow> go_error option \<times> 'w"
  GetMute :: "handle \<Rightarrow> 'w \<Rightarrow> bool result \<times> 'w"
  audio_Release :: "handle \<Rightarrow> 'w \<Rightarrow> 'w"

record 'w system_api =
  GetSystemPowerStatus :: "'w \<Rightarrow> systemPowerStatus wincall \<times> 'w"
  GetSystemTimes :: "'w \<Rightarrow> (fileTime \<times> fileTime \<times> fileTime) wincall \<times> 'w"
  GlobalMemoryStatus :: "'w \<Rightarrow> u32 wincall \<times> 'w"
  GetAdapters :: "u32 \<Rightarrow> 'w \<Rightarrow> (adapters_failure + adapter list) \<times> 'w"
  time_now :: "'w \<Rightarrow> int"

record 'w windows =
  monitors :: "'w monitor_api"
  com :: "'w com_api"
  audio :: "'w audio_api"
  system_status :: "'w system_api"

section \<open>Sequences the actuators and the collectors share\<close>

text \<open>
  The primary monitor: its handles fill an array of \<open>count\<close> zeros, the first is used, and
  every handle is destroyed again when the work on it is done, whatever its outcome.
\<close>

definition handle_array :: "u32 \<Rightarrow> handle list \<Rightarrow> handle list" where
  "handle_array count hs = map (\<lambda>i. if i < length hs then hs ! i else 0) [0..<unat count]"

definition destroy_monitors :: "'w monitor_api \<Rightarrow> handle list \<Rightarrow> 'w \<Rightarrow> 'w" where
  "destroy_monitors M hs w = foldl (\<lambda>w h. if h = 0 then w else DestroyPhysicalMonitor M h w) w hs"

definition with_primary_monitor :: "'w monitor_api \<Rightarrow> (handle \<Rightarrow> 'w \<Rightarrow> 'a result \<times> 'w) \<Rightarrow> 'w \<Rightarrow> 'a result \<times> 'w" where
  "with_primary_monitor M body w =
     then_do (win_call ''GetDesktopWindow'' (GetDesktopWindow M w)) (\<lambda>hwnd w.
     then_do (win_call ''MonitorFromWindow'' (MonitorFromWindow M hwnd w)) (\<lambda>hmon w.
     then_do (win_call ''GetNumberOfPhysicalMonitorsFromHMONITOR'' (GetNumberOfPhysicalMonitors M hmon w)) (\<lambda>count w.
     if count = 0 then (Inl (ErrNew ''no physical monitors''), w)
     else then_do (win_call ''GetPhysicalMonitorsFromHMONITOR'' (GetPhysicalMonitors M hmon count w)) (\<lambda>filled w.
       let monitors = handle_array count filled
       in finally_do (destroy_monitors M monitors)
            (if hd monitors = 0 then (Inl (ErrNew ''physical monitor handle is 0''), w) else body (hd monitors) w)))))"

definition range_error :: "u32 \<Rightarrow> u32 \<Rightarrow> go_error" where
  "range_error lo hi = ErrNew (''brightness range invalid: min='' @ Itoa (uint lo) @ '' max='' @ Itoa (uint hi))"

text \<open>
  The WMI service: \<^verbatim>\<open>ConnectServer\<close> is tried with an absent server name and then with
  the local one. The service pointer is inside the VARIANT it came in.
\<close>

definition wmi_namespace :: string where
  "wmi_namespace = ''root'' @ [CHR 0x5C] @ ''wmi''"

definition connect_server :: "'w com_api \<Rightarrow> handle \<Rightarrow> 'w \<Rightarrow> variant option result \<times> 'w" where
  "connect_server C locator w =
     (case CallMethod C locator ''ConnectServer'' [VNil, VStr wmi_namespace] w of
        ((v, None), w) \<Rightarrow> (Inr v, w)
      | ((_, Some _), w) \<Rightarrow>
          (case CallMethod C locator ''ConnectServer'' [VStr ''.'', VStr wmi_namespace] w of
             ((v, None), w) \<Rightarrow> (Inr v, w)
           | ((_, Some e), w) \<Rightarrow> (Inl e, w)))"

definition with_wmi :: "'w com_api \<Rightarrow> (variant option \<Rightarrow> 'w \<Rightarrow> 'a result \<times> 'w) \<Rightarrow> 'w \<Rightarrow> 'a result \<times> 'w" where
  "with_wmi C body w =
     then_do (CreateObject C ''WbemScripting.SWbemLocator'' w) (\<lambda>unknown w.
     finally_do (Release C unknown) (then_do (QueryDispatch C unknown w) (\<lambda>locator w.
     finally_do (Release C locator) (then_do (connect_server C locator w) body))))"

definition wmi_impersonate :: "'w com_api \<Rightarrow> handle \<Rightarrow> 'w \<Rightarrow> 'w" where
  "wmi_impersonate C svc w =
     (case GetProperty C svc ''Security_'' w of
        ((None, _), w) \<Rightarrow> w
      | ((Some v, err), w) \<Rightarrow>
          Clear C v (case (err, ToIDispatch v) of
              (None, Some sec) \<Rightarrow> PutProperty C sec ''ImpersonationLevel'' (VInt 3) w
            | _ \<Rightarrow> w))"

text \<open>
  \<^verbatim>\<open>oleutil.ForEach\<close>: the callback sees the items in order until it stops the
  loop, with an error or with the sentinel \<^verbatim>\<open>errWMIFound\<close> (\<open>Some None\<close>).
\<close>

fun for_each :: "(variant \<Rightarrow> 's \<Rightarrow> go_error option option \<times> 's) \<Rightarrow> variant list \<Rightarrow> 's \<Rightarrow>
    go_error option option \<times> 's" where
  "for_each f [] s = (None, s)"
| "for_each f (v # vs) s = (case f v s of (Some stop, s) \<Rightarrow> (Some stop, s) | (None, s) \<Rightarrow> for_each f vs s)"

text \<open>The error the loop ends with: its own, or the one that ended the enumeration.\<close>

definition loop_error :: "go_error option option \<Rightarrow> go_error option \<Rightarrow> go_error option" where
  "loop_error stop enum_err = (case stop of Some e \<Rightarrow> e | None \<Rightarrow> enum_err)"

text \<open>A query of the service: its result set, which is cleared when the work on it is done.\<close>

definition with_query :: "'w com_api \<Rightarrow> handle \<Rightarrow> string \<Rightarrow> (handle \<Rightarrow> 'w \<Rightarrow> 'a result \<times> 'w) \<Rightarrow> 'w \<Rightarrow> 'a result \<times> 'w" where
  "with_query C svc query body w =
     (case CallMethod C svc ''ExecQuery'' [VStr query] w of
        ((_, Some e), w) \<Rightarrow> (Inl e, w)
      | ((None, None), w) \<Rightarrow> (Inl (ErrNew ''wmi query result is nil''), w)
      | ((Some v, None), w) \<Rightarrow>
          finally_do (Clear C v)
            (case ToIDispatch v of
               None \<Rightarrow> (Inl (ErrNew ''wmi query result is nil''), w)
             | Some rs \<Rightarrow> body rs w))"

end
