(* ===== verification/Actuators.thy ===== *)
theory Actuators
  imports WinApi
begin

text \<open>
  \<^verbatim>\<open>core/actuator\<close> on Windows: the default audio endpoint, with its volume and its
  mute switch, and the brightness of the primary monitor, over DXVA2 and, when that fails,
  over WMI.
\<close>

section \<open>Volume\<close>

record EndpointVolume =
  ev_enumerator :: handle
  ev_device :: handle
  ev_endpoint :: handle

definition OpenDefaultEndpointVolume :: "'w audio_api \<Rightarrow> 'w \<Rightarrow> EndpointVolume result \<times> 'w" where
  "OpenDefaultEndpointVolume A w =
     then_do (CreateEnumerator A w) (\<lambda>enumerator w.
     if enumerator = 0 then (Inl (ErrNew ''device enumerator nil''), w)
     else case GetDefaultAudioEndpoint A enumerator w of
       (Inl e, w) \<Rightarrow> (Inl e, audio_Release A enumerator w)
     | (Inr device, w) \<Rightarrow>
         if device = 0 then (Inl (ErrNew ''default audio device nil''), audio_Release A enumerator w)
         else case Activate A device w of
           (Inl e, w) \<Rightarrow> (Inl e, audio_Release A enumerator (audio_Release A device w))
         | (Inr endpoint, w) \<Rightarrow>
             if endpoint = 0
             then (Inl (ErrNew ''endpoint volume nil''), audio_Release A enumerator (audio_Release A device w))
             else (Inr \<lparr>ev_enumerator = enumerator, ev_device = device, ev_endpoint = endpoint\<rparr>, w))"

definition release_handle :: "'w audio_api \<Rightarrow> handle \<Rightarrow> 'w \<Rightarrow> 'w" where
  "release_handle A h w = (if h = 0 then w else audio_Release A h w)"

definition EndpointVolume_Release :: "'w audio_api \<Rightarrow> EndpointVolume option \<Rightarrow> 'w \<Rightarrow> 'w" where
  "EndpointVolume_Release A vo w =
     (case vo of
        None \<Rightarrow> w
      | Some v \<Rightarrow> release_handle A (ev_enumerator v) (release_handle A (ev_device v) (release_handle A (ev_endpoint v) w)))"

definition SetPercent :: "'w audio_api \<Rightarrow> EndpointVolume option \<Rightarrow> int \<Rightarrow> 'w \<Rightarrow> go_error option \<times> 'w" where
  "SetPercent A vo percent w =
     (case vo of
        None \<Rightarrow> (Some (ErrNew ''endpoint nil''), w)
      | Some v \<Rightarrow>
          if ev_endpoint v = 0 then (Some (ErrNew ''endpoint nil''), w)
          else
            let p0 = (if percent < 0 then 0 else percent); p = (if 100 < p0 then 100 else p0)
            in SetMasterVolume A (ev_endpoint v) (level_of (nat p)) w)"

definition SetMuted :: "'w audio_api \<Rightarrow> EndpointVolume option \<Rightarrow> bool \<Rightarrow> 'w \<Rightarrow> go_error option \<times> 'w" where
  "SetMuted A vo muted w =
     (case vo of
        None \<Rightarrow> (Some (ErrNew ''endpoint nil''), w)
      | Some v \<Rightarrow>
          if ev_endpoint v = 0 then (Some (ErrNew ''endpoint nil''), w) else SetMute A (ev_endpoint v) muted w)"

section \<open>Brightness\<close>

definition clampBrightnessPercent :: "int \<Rightarrow> int" where
  "clampBrightnessPercent percent = (if percent < 0 then 0 else if 100 < percent then 100 else percent)"

text \<open>
  The value to set in the range of the monitor. The sum is taken in 64 bits, its quotient
  cut to 32.
\<close>

definition brightness_value :: "u32 \<Rightarrow> u32 \<Rightarrow> int \<Rightarrow> u32" where
  "brightness_value lo hi percent =
     (let rangeVal = hi - lo;
          newVal = lo + (ucast ((ucast rangeVal * (word_of_int percent :: u64) + 50) div 100) :: u32);
          newVal1 = (if newVal < lo then lo else newVal)
      in if hi < newVal1 then hi else newVal1)"

definition setPrimaryMonitorBrightnessPercentDXVA2 :: "'w monitor_api \<Rightarrow> int \<Rightarrow> 'w \<Rightarrow> unit result \<times> 'w" where
  "setPrimaryMonitorBrightnessPercentDXVA2 M percent w =
     with_primary_monitor M (\<lambda>h w.
       then_do (win_call ''GetMonitorBrightness'' (GetMonitorBrightness M h w)) (\<lambda>(lo, cur, hi) w.
       if hi \<le> lo then (Inl (range_error lo hi), w)
       else win_call ''SetMonitorBrightness'' (SetMonitorBrightness M h (brightness_value lo hi percent) w))) w"

text \<open>
  \<^verbatim>\<open>WmiSetBrightness(Timeout, Brightness)\<close> is tried with argument types of several kinds.
\<close>

definition wmi_attempts :: "int \<Rightarrow> (variant \<times> variant) list" where
  "wmi_attempts percent =
     [(VUint32 0, VUint8 (word_of_int percent)), (VInt32 0, VInt32 (word_of_int percent)),
      (VInt32 0, VUint8 (word_of_int percent)), (VUint32 0, VInt32 (word_of_int percent)),
      (VInt 0, VInt (word_of_int percent))]"

fun try_attempts :: "'w com_api \<Rightarrow> handle \<Rightarrow> (variant \<times> variant) list \<Rightarrow> go_error list \<Rightarrow> 'w \<Rightarrow> go_error list option \<times> 'w" where
  "try_attempts C item [] errs w = (Some errs, w)"
| "try_attempts C item ((t, v) # as) errs w =
     (case CallMethod C item ''WmiSetBrightness'' [t, v] w of
        ((res, err), w) \<Rightarrow>
          let w1 = (case res of None \<Rightarrow> w | Some x \<Rightarrow> Clear C x w)
          in case err of None \<Rightarrow> (None, w1) | Some e \<Rightarrow> try_attempts C item as (errs @ [e]) w1)"

text \<open>The errors of all attempts are joined by line ends.\<close>

definition joined_errors :: "('a) platform_scheme \<Rightarrow> go_error list \<Rightarrow> go_error" where
  "joined_errors P errs = ErrNew (join_with [CHR 0x0A] (map (error_text P) errs))"

definition callWmiSetBrightness :: "('a) platform_scheme \<Rightarrow> 'w com_api \<Rightarrow> handle \<Rightarrow> int \<Rightarrow> 'w \<Rightarrow> go_error option \<times> 'w" where
  "callWmiSetBrightness P C item percent w =
     (case try_attempts C item (wmi_attempts (clampBrightnessPercent percent)) [] w of
        (None, w) \<Rightarrow> (None, w)
      | (Some errs, w) \<Rightarrow> (Some (ErrWrap ''wmi set brightness failed'' (joined_errors P errs)), w))"

text \<open>One instance of the loop over the monitors; the state is the last error and the world.\<close>

definition wmi_set_item ::
  "('a) platform_scheme \<Rightarrow> 'w com_api \<Rightarrow> int \<Rightarrow> variant \<Rightarrow> go_error option \<times> 'w \<Rightarrow>
     go_error option option \<times> go_error option \<times> 'w" where
  "wmi_set_item P C percent v s =
     (let (lastSetErr, w) = s;
          (stop, lastSetErr1, w1) =
            (case ToIDispatch v of
               None \<Rightarrow> (None, lastSetErr, w)
             | Some item \<Rightarrow> (case callWmiSetBrightness P C item percent w of
                 (Some e, w) \<Rightarrow> (None, Some e, w)
               | (None, w) \<Rightarrow> (Some None, lastSetErr, w)))
      in (stop, lastSetErr1, Clear C v w1))"

definition wmi_set_all :: "('a) platform_scheme \<Rightarrow> 'w com_api \<Rightarrow> int \<Rightarrow> handle \<Rightarrow> 'w \<Rightarrow> unit result \<times> 'w" where
  "wmi_set_all P C percent svc w =
     with_query C svc ''SELECT * FROM WmiMonitorBrightnessMethods'' (\<lambda>rs w.
       let ((items, enum_err), w) = enum_items C rs w;
           (stop, lastSetErr, w) = for_each (wmi_set_item P C percent) items (None, w)
       in case loop_error stop enum_err of
            Some e \<Rightarrow> (Inl e, w)
          | None \<Rightarrow>
              if stop \<noteq> None then (Inr (), w)
              else case lastSetErr of
                Some e \<Rightarrow> (Inl e, w)
              | None \<Rightarrow> (Inl (ErrNew ''wmi brightness methods not found''), w)) w"

text \<open>COM counts as initialised also when it already was (\<^verbatim>\<open>S_FALSE\<close>, code 1).\<close>

definition com_ready :: "(int option \<times> go_error) option \<Rightarrow> bool" where
  "com_ready res = (case res of None \<Rightarrow> True | Some (code, _) \<Rightarrow> code = Some 1)"

definition setBrightnessPercentWMI :: "('a) platform_scheme \<Rightarrow> 'w com_api \<Rightarrow> int \<Rightarrow> 'w \<Rightarrow> unit result \<times> 'w" where
  "setBrightnessPercentWMI P C percent w =
     (let (init, w) = CoInitialize C w in
      if \<not> com_ready init then (case init of Some (_, e) \<Rightarrow> (Inl e, w) | None \<Rightarrow> (Inr (), w))
      else finally_do (CoUninitialize C) (with_wmi C (\<lambda>svcVar w.
        case svcVar of
          None \<Rightarrow> (Inl (ErrNew ''wmi service is nil''), w)
        | Some v \<Rightarrow> finally_do (Clear C v)
            (case ToIDispatch v of
               None \<Rightarrow> (Inl (ErrNew ''wmi service is nil''), w)
             | Some svc \<Rightarrow> wmi_set_all P C percent svc (wmi_impersonate C svc w))) w))"

definition SetPrimaryMonitorBrightnessPercent ::
  "('a) platform_scheme \<Rightarrow> 'w monitor_api \<Rightarrow> 'w com_api \<Rightarrow> int \<Rightarrow> 'w \<Rightarrow> go_error option \<times> 'w" where
  "SetPrimaryMonitorBrightnessPercent P M C percent0 w =
     (let percent = clampBrightnessPercent percent0 in
      case setPrimaryMonitorBrightnessPercentDXVA2 M percent w of
        (Inr _, w) \<Rightarrow> (None, w)
      | (Inl err, w) \<Rightarrow> (case setBrightnessPercentWMI P C percent w of
          (Inr _, w) \<Rightarrow> (None, w)
        | (Inl wmiErr, w) \<Rightarrow> (Some (ErrNew (''set brightness failed: dxva2: '' @ error_text P err @
            ''; wmi: '' @ error_text P wmiErr)), w)))"

section \<open>The value that is set\<close>

text \<open>
  Nothing wraps around, the final clamping is never needed, and the value is the percentage
  of the range rounded to the nearest integer.
\<close>

lemma scaled_range_le: "p \<le> 100 \<Longrightarrow> (r * p + 50) div 100 \<le> (r::nat)"
proof -
  assume "p \<le> 100"
  then have "r * p \<le> r * 100" by (rule mult_le_mono2)
  then have "r * p + 50 < (r + 1) * 100" unfolding add_mult_distrib by linarith
  then show ?thesis by (simp add: div_less_iff_less_mult less_Suc_eq_le [symmetric])
qed

lemma brightness_value_eq:
  assumes "lo \<le> hi" and "0 \<le> p" and "p \<le> 100"
  shows "unat (brightness_value lo hi p) = unat lo + ((unat hi - unat lo) * nat p + 50) div 100"
    and "lo \<le> brightness_value lo hi p" "brightness_value lo hi p \<le> hi"
proof -
  define r where "r = unat hi - unat lo"
  let ?q = "(r * nat p + 50) div 100"
  have r: "unat (hi - lo) = r" using assms(1) by (simp add: r_def unat_sub word_le_nat_alt)
  have hi: "unat hi < 2 ^ 32" using unsigned_less [where w = hi] by simp
  then have r32: "r < 2 ^ 32" by (simp add: r_def)
  have q: "?q \<le> r" using assms(2,3) by (intro scaled_range_le) simp
  have p: "unat (word_of_int p :: u64) = nat p" using assms(2,3) by (simp add: unsigned_of_int take_bit_int_eq_self)
  have "r * nat p \<le> r * 100" using assms(3) by (intro mult_le_mono2) simp
  also have "\<dots> < 2 ^ 32 * 100" using r32 by simp
  finally have small: "r * nat p + 50 < 2 ^ 64" by simp
  have u: "unat (ucast (hi - lo) :: u64) = r" using r32 by (simp add: r unsigned_ucast_eq take_bit_nat_eq_self)
  have "unat (ucast (hi - lo) * word_of_int p + 50 :: u64) = r * nat p + 50"
    using small by (simp add: unat_word_ariths u p)
  then have "unat ((ucast (hi - lo) * word_of_int p + 50) div 100 :: u64) = ?q" by (simp add: unat_div)
  then have d: "unat (ucast ((ucast (hi - lo) * word_of_int p + 50) div 100 :: u64) :: u32) = ?q"
    using q r32 by (simp add: unsigned_ucast_eq take_bit_nat_eq_self)
  have "unat lo + ?q \<le> unat hi" using q assms(1) by (simp add: r_def word_le_nat_alt)
  with hi have v: "unat (lo + ucast ((ucast (hi - lo) * word_of_int p + 50) div 100 :: u64)) = unat lo + ?q"
    and le: "unat lo + ?q \<le> unat hi" using d by (simp_all add: unat_word_ariths)
  have "brightness_value lo hi p = lo + ucast ((ucast (hi - lo) * word_of_int p + 50) div 100 :: u64)"
    using v le by (simp add: brightness_value_def Let_def word_less_nat_alt)
  with v le show "unat (brightness_value lo hi p) = unat lo + ((unat hi - unat lo) * nat p + 50) div 100"
    "lo \<le> brightness_value lo hi p" "brightness_value lo hi p \<le> hi"
    by (simp_all add: word_le_nat_alt r_def)
qed

end
