(* ===== verification/Collectors.thy ===== *)
theory Collectors
  imports Metrics Actuators
begin

text \<open>
  \<^verbatim>\<open>core/metrics/collectors_windows.go\<close>: how each collector reads the machine and
  what one round of it (the closure \<^verbatim>\<open>push\<close>) reports. The loops around the rounds are in
  theory Poller. Values are reported as a list of metric and text, in the order of the calls
  of \<^verbatim>\<open>emit\<close>.
\<close>

type_synonym emits = "(string \<times> string) list"

section \<open>Battery\<close>

definition readSystemPowerStatus :: "'w system_api \<Rightarrow> 'w \<Rightarrow> systemPowerStatus result \<times> 'w" where
  "readSystemPowerStatus S w = win_call ''GetSystemPowerStatus'' (GetSystemPowerStatus S w)"

text \<open>The percentage, \<open>None\<close> when there is no battery or it is not known.\<close>

definition batteryPercentFromStatus :: "systemPowerStatus \<Rightarrow> int option result" where
  "batteryPercentFromStatus st =
     (if BatteryFlag st = 128 \<or> BatteryLifePercent st = 255 then Inr None
      else if 100 < BatteryLifePercent st
      then Inl (ErrNew (''battery percent out of range: '' @ Itoa (uint (BatteryLifePercent st))))
      else Inr (Some (uint (BatteryLifePercent st))))"

definition acLineStatusBoolish :: "u8 \<Rightarrow> string" where
  "acLineStatusBoolish v = (if v = 0 then ''0'' else if v = 1 then ''1'' else ''-1'')"

definition push_battery :: "'w system_api \<Rightarrow> 'w \<Rightarrow> emits \<times> 'w" where
  "push_battery S w =
     (case readSystemPowerStatus S w of
        (Inl _, w) \<Rightarrow> ([(MetricBatteryPercent, ''-1''), (MetricBatteryOnAC, ''-1''), (MetricBatteryCharging, ''-1'')], w)
      | (Inr st, w) \<Rightarrow>
          let percent = (case batteryPercentFromStatus st of
                Inl _ \<Rightarrow> ''-1'' | Inr None \<Rightarrow> ''-1'' | Inr (Some p) \<Rightarrow> Itoa p);
              ac = acLineStatusBoolish (ACLineStatus st)
          in ([(MetricBatteryPercent, percent), (MetricBatteryOnAC, ac), (MetricBatteryCharging, ac)], w))"

section \<open>CPU\<close>

text \<open>\<^verbatim>\<open>(uint64(t.HighDateTime) << 32) | uint64(t.LowDateTime)\<close>.\<close>

unbundle bit_operations_syntax

definition fileTime_uint64 :: "fileTime \<Rightarrow> u64" where
  "fileTime_uint64 t = push_bit 32 (ucast (HighDateTime t)) OR ucast (LowDateTime t)"

record cpu_times =
  ct_idle :: u64
  ct_kernel :: u64
  ct_user :: u64

definition readSystemTimes :: "'w system_api \<Rightarrow> 'w \<Rightarrow> cpu_times result \<times> 'w" where
  "readSystemTimes S w =
     (case win_call ''GetSystemTimes'' (GetSystemTimes S w) of
        (Inl e, w) \<Rightarrow> (Inl e, w)
      | (Inr (i, k, u), w) \<Rightarrow>
          (Inr \<lparr>ct_idle = fileTime_uint64 i, ct_kernel = fileTime_uint64 k, ct_user = fileTime_uint64 u\<rparr>, w))"

text \<open>
  \<open>None\<close> is \<^verbatim>\<open>havePrev = false\<close>. The closure \<^verbatim>\<open>initPrev\<close> also waits a moment, when
  it could read the counters.
\<close>

definition initPrev :: "'w system_api \<Rightarrow> 'w \<Rightarrow> emits \<times> cpu_times option \<times> 'w" where
  "initPrev S w =
     (case readSystemTimes S w of
        (Inl _, w) \<Rightarrow> ([(MetricCPUPercent, ''-1'')], None, w)
      | (Inr t, w) \<Rightarrow> ([], Some t, w))"

definition cpu_percent :: "cpu_times \<Rightarrow> cpu_times \<Rightarrow> string" where
  "cpu_percent prev cur =
     (if ct_idle cur < ct_idle prev \<or> ct_kernel cur < ct_kernel prev \<or> ct_user cur < ct_user prev then ''-1''
      else
        let dIdle = ct_idle cur - ct_idle prev; dKernel = ct_kernel cur - ct_kernel prev;
            dUser = ct_user cur - ct_user prev; sum = dKernel + dUser
        in if sum = 0 \<or> sum < dIdle then ''-1''
           else
             let busy = sum - dIdle; percent = int (percent_of (unat busy) (unat sum));
                 p0 = (if percent < 0 then 0 else percent)
             in Itoa (if 100 < p0 then 100 else p0))"

definition push_cpu :: "'w system_api \<Rightarrow> cpu_times option \<Rightarrow> 'w \<Rightarrow> emits \<times> cpu_times option \<times> 'w" where
  "push_cpu S prev w =
     (case readSystemTimes S w of
        (Inl _, w) \<Rightarrow> ([(MetricCPUPercent, ''-1'')], prev, w)
      | (Inr cur, w) \<Rightarrow>
          ([(MetricCPUPercent, case prev of None \<Rightarrow> ''-1'' | Some p \<Rightarrow> cpu_percent p cur)], Some cur, w))"

section \<open>Memory\<close>

definition readMemoryLoadPercent :: "'w system_api \<Rightarrow> 'w \<Rightarrow> int result \<times> 'w" where
  "readMemoryLoadPercent S w =
     then_do (win_call ''GlobalMemoryStatusEx'' (GlobalMemoryStatus S w)) (\<lambda>load w.
     (if 100 < load then Inl (ErrNew (''memory load out of range: '' @ Itoa (uint load))) else Inr (uint load), w))"

definition push_mem :: "'w system_api \<Rightarrow> 'w \<Rightarrow> emits \<times> 'w" where
  "push_mem S w =
     (case readMemoryLoadPercent S w of
        (Inl _, w) \<Rightarrow> ([(MetricMemPercent, ''-1'')], w)
      | (Inr percent, w) \<Rightarrow>
          let p0 = (if percent < 0 then 0 else percent)
          in ([(MetricMemPercent, Itoa (if 100 < p0 then 100 else p0))], w))"

section \<open>Network\<close>

text \<open>The constants of \<^verbatim>\<open>golang.org/x/sys/windows\<close> the code compares with.\<close>

record net_consts =
  IfOperStatusUp :: u32
  IF_TYPE_SOFTWARE_LOOPBACK :: u32
  IF_TYPE_TUNNEL :: u32
  IF_TYPE_IEEE80211 :: u32
  IF_TYPE_ETHERNET_CSMACD :: u32

definition netTypeFromIfType :: "net_consts \<Rightarrow> u32 \<Rightarrow> string" where
  "netTypeFromIfType N ifType =
     (if ifType = IF_TYPE_IEEE80211 N then ''wifi''
      else if ifType = IF_TYPE_ETHERNET_CSMACD N then ''ethernet''
      else if ifType = 243 \<or> ifType = 244 then ''cellular'' else ''unknown'')"

definition netTypeRank :: "string \<Rightarrow> int" where
  "netTypeRank t =
     (if t = ''ethernet'' then 3 else if t = ''wifi'' then 2 else if t = ''cellular'' then 1
      else if t = ''unknown'' then 0 else -1)"

definition net_candidate :: "net_consts \<Rightarrow> adapter \<Rightarrow> bool" where
  "net_candidate N p \<longleftrightarrow> OperStatus p = IfOperStatusUp N \<and>
     \<not> (IfType p = IF_TYPE_SOFTWARE_LOOPBACK N \<or> IfType p = IF_TYPE_TUNNEL N) \<and> has_unicast p"

text \<open>The loop over the adapters: best rank, best type and whether there was a candidate.\<close>

definition net_visit :: "net_consts \<Rightarrow> int \<times> string \<times> bool \<Rightarrow> adapter \<Rightarrow> int \<times> string \<times> bool" where
  "net_visit N s p =
     (let (bestRank, bestType, have) = s; nt = netTypeFromIfType N (IfType p); rank = netTypeRank nt in
      if \<not> net_candidate N p then s
      else if bestRank < rank then (rank, nt, True) else (bestRank, bestType, True))"

definition net_best :: "net_consts \<Rightarrow> adapter list \<Rightarrow> bool \<times> string" where
  "net_best N ps =
     (let (_, bestType, have) = foldl (net_visit N) (-1, ''unknown'', False) ps in
      if \<not> have then (False, ''none'')
      else (True, if TrimSpace bestType = [] then ''unknown'' else bestType))"

text \<open>The buffer grows to the size the system asks for, three times at most.\<close>

fun net_tries :: "net_consts \<Rightarrow> 'w system_api \<Rightarrow> nat \<Rightarrow> u32 \<Rightarrow> 'w \<Rightarrow> (bool \<times> string) result \<times> 'w" where
  "net_tries N S 0 sz w = (Inl (ErrNew ''GetAdaptersAddresses buffer overflow''), w)"
| "net_tries N S (Suc i) sz w =
     (case GetAdapters S sz w of
        (Inl (BufferOverflow sz'), w) \<Rightarrow> net_tries N S i sz' w
      | (Inl (AdaptersError e), w) \<Rightarrow> (Inl e, w)
      | (Inr ps, w) \<Rightarrow> (Inr (net_best N ps), w))"

definition readNetStatus :: "net_consts \<Rightarrow> 'w system_api \<Rightarrow> 'w \<Rightarrow> (bool \<times> string) result \<times> 'w" where
  "readNetStatus N S w = net_tries N S 3 (15 * 1024) w"

definition push_net :: "net_consts \<Rightarrow> 'w system_api \<Rightarrow> 'w \<Rightarrow> emits \<times> 'w" where
  "push_net N S w =
     (case readNetStatus N S w of
        (Inl _, w) \<Rightarrow> ([(MetricNetOnline, ''-1''), (MetricNetType, ''-1'')], w)
      | (Inr (online, netType), w) \<Rightarrow>
          ([(MetricNetOnline, if online then ''1'' else ''0''), (MetricNetType, netType)], w))"

section \<open>Volume\<close>

definition openDefaultEndpointVolume :: "'w audio_api \<Rightarrow> 'w \<Rightarrow> EndpointVolume result \<times> 'w" where
  "openDefaultEndpointVolume A w = OpenDefaultEndpointVolume A w"

text \<open>A level below 0 counts as 0, one above 1 as 1.\<close>

definition clamp_level :: "level \<Rightarrow> dyadic" where
  "clamp_level l =
     (if lv_negative l then Dyadic 0 0
      else if dyadic_less (Dyadic 1 0) (lv_value l) then Dyadic 1 0 else lv_value l)"

definition readEndpointVolume :: "'w audio_api \<Rightarrow> handle \<Rightarrow> 'w \<Rightarrow> (int \<times> bool) result \<times> 'w" where
  "readEndpointVolume A endpoint w =
     (if endpoint = 0 then (Inl (ErrNew ''endpoint nil''), w)
      else then_do (GetMasterVolume A endpoint w) (\<lambda>l w.
        let percent = int (percent_of_level (clamp_level l))
        in then_do (GetMute A endpoint w) (\<lambda>m w. (Inr (percent, m), w))))"

definition push_volume :: "'w audio_api \<Rightarrow> handle \<Rightarrow> 'w \<Rightarrow> emits \<times> 'w" where
  "push_volume A endpoint w =
     (case readEndpointVolume A endpoint w of
        (Inl _, w) \<Rightarrow> ([], w)
      | (Inr (volPercent, muted), w) \<Rightarrow>
          ([(MetricVolumePercent, Itoa volPercent), (MetricVolumeMuted, if muted then ''1'' else ''0'')], w))"

section \<open>Brightness\<close>

text \<open>The product is taken in 32 bits.\<close>

definition brightness_percent :: "u32 \<Rightarrow> u32 \<Rightarrow> u32 \<Rightarrow> int" where
  "brightness_percent lo cur0 hi =
     (let cur1 = (if cur0 < lo then lo else cur0);
          cur = (if hi < cur1 then hi else cur1);
          percent = uint ((cur - lo) * 100 div (hi - lo));
          p0 = (if percent < 0 then 0 else percent)
      in if 100 < p0 then 100 else p0)"

definition readPrimaryMonitorBrightnessPercentDXVA2 :: "'w monitor_api \<Rightarrow> 'w \<Rightarrow> int result \<times> 'w" where
  "readPrimaryMonitorBrightnessPercentDXVA2 M w =
     with_primary_monitor M (\<lambda>h w.
       then_do (win_call ''GetMonitorBrightness'' (GetMonitorBrightness M h w)) (\<lambda>(lo, cur, hi) w.
       (if hi \<le> lo then Inl (range_error lo hi) else Inr (brightness_percent lo cur hi), w))) w"

text \<open>
  Integers of a VARIANT as \<^verbatim>\<open>int\<close>, which is 64 bits wide. A 64-bit unsigned number
  passes the test against the largest \<^verbatim>\<open>uint\<close> and is then reinterpreted.
\<close>

fun variantNumberToInt :: "variant \<Rightarrow> int option" where
  "variantNumberToInt (VInt8 n) = Some (sint n)"
| "variantNumberToInt (VUint8 n) = Some (uint n)"
| "variantNumberToInt (VInt16 n) = Some (sint n)"
| "variantNumberToInt (VUint16 n) = Some (uint n)"
| "variantNumberToInt (VInt32 n) = Some (sint n)"
| "variantNumberToInt (VUint32 n) = Some (uint n)"
| "variantNumberToInt (VInt64 n) = Some (sint n)"
| "variantNumberToInt (VUint64 n) = (if (- 1 :: u64) < n then None else Some (sint n))"
| "variantNumberToInt (VInt n) = Some (sint n)"
| "variantNumberToInt (VUint n) = (if drop_bit 1 (- 1 :: u64) < n then None else Some (sint n))"
| "variantNumberToInt _ = None"

definition wmi_read_item :: "'w com_api \<Rightarrow> variant \<Rightarrow> int \<times> 'w \<Rightarrow> go_error option option \<times> int \<times> 'w" where
  "wmi_read_item C v s =
     (let (out, w) = s;
          (stop, out1, w1) =
            (case ToIDispatch v of
               None \<Rightarrow> (None, out, w)
             | Some item \<Rightarrow> (case GetProperty C item ''CurrentBrightness'' w of
                 ((Some x, Some e), w) \<Rightarrow> (Some (Some e), out, Clear C x w)
               | ((None, Some e), w) \<Rightarrow> (Some (Some e), out, w)
               | ((None, None), w) \<Rightarrow> (None, out, w)
               | ((Some x, None), w) \<Rightarrow>
                   let w = Clear C x w in
                   (case variantNumberToInt x of
                      None \<Rightarrow> (None, out, w)
                    | Some n \<Rightarrow>
                        let n0 = (if n < 0 then 0 else n)
                        in (Some None, if 100 < n0 then 100 else n0, w))))
      in (stop, out1, Clear C v w1))"

text \<open>The brightness, \<open>None\<close> when no monitor told one.\<close>

definition readBrightnessPercentWMI :: "'w com_api \<Rightarrow> handle \<Rightarrow> 'w \<Rightarrow> int option result \<times> 'w" where
  "readBrightnessPercentWMI C svc w =
     with_query C svc ''SELECT CurrentBrightness FROM WmiMonitorBrightness WHERE Active=TRUE'' (\<lambda>rs w.
       let ((items, enum_err), w) = enum_items C rs w;
           (stop, out, w) = for_each (wmi_read_item C) items (0, w)
       in case loop_error stop enum_err of
            Some e \<Rightarrow> (Inl e, w)
          | None \<Rightarrow> (Inr (if stop = None then None else Some out), w)) w"

definition connectWMIRootWMI :: "'w com_api \<Rightarrow> 'w \<Rightarrow> handle result \<times> 'w" where
  "connectWMIRootWMI C w =
     with_wmi C (\<lambda>svcVar w.
       case svcVar of
         None \<Rightarrow> (Inl (ErrNew ''wmi service is nil''), w)
       | Some v \<Rightarrow> (case ToIDispatch v of
           None \<Rightarrow> (Inl (ErrNew ''wmi service is nil''), Clear C v w)
         | Some svc \<Rightarrow> (Inr svc, wmi_impersonate C svc (Clear C v (AddRef C svc w))))) w"

text \<open>
  \<open>until\<close> is \<^verbatim>\<open>dxva2DisabledUntil\<close>, \<open>None\<close> the zero time, which lies before every
  reading of the clock. The service is \<open>None\<close> when WMI could not be reached.
\<close>

definition nano :: int where
  "nano = 1000000000"

definition passed :: "int \<Rightarrow> int option \<Rightarrow> bool" where
  "passed t until = (case until of None \<Rightarrow> True | Some u \<Rightarrow> u < t)"

definition still_off :: "int \<Rightarrow> int option \<Rightarrow> bool" where
  "still_off t until = (case until of None \<Rightarrow> False | Some u \<Rightarrow> t < u)"

text \<open>The three attempts: what was read, with the errors of the first two for the next.\<close>

definition try_dxva2 :: "bool \<Rightarrow> 'w monitor_api \<Rightarrow> 'w \<Rightarrow> int option \<times> go_error option \<times> 'w" where
  "try_dxva2 wanted M w =
     (if \<not> wanted then (None, None, w)
      else case readPrimaryMonitorBrightnessPercentDXVA2 M w of
        (Inr p, w) \<Rightarrow> (Some p, None, w)
      | (Inl e, w) \<Rightarrow> (None, Some e, w))"

definition try_wmi :: "handle option \<Rightarrow> 'w com_api \<Rightarrow> 'w \<Rightarrow> int option \<times> 'w" where
  "try_wmi svc C w =
     (case svc of
        None \<Rightarrow> (None, w)
      | Some s \<Rightarrow> (case readBrightnessPercentWMI C s w of (Inr po, w) \<Rightarrow> (po, w) | (Inl _, w) \<Rightarrow> (None, w)))"

definition push_brightness :: "'w windows \<Rightarrow> handle option \<Rightarrow> int option \<Rightarrow> 'w \<Rightarrow> emits \<times> int option \<times> 'w" where
  "push_brightness W svc until w =
     (let t = time_now (system_status W) w; report = (\<lambda>v. [(MetricBrightnessPercent, v)]) in
      case try_dxva2 (passed t until) (monitors W) w of
        (Some p, _, w) \<Rightarrow> (report (Itoa p), until, w)
      | (None, dxva2Err, w) \<Rightarrow>
          (case try_wmi svc (com W) w of
             (Some p, w) \<Rightarrow> (report (Itoa p), if dxva2Err \<noteq> None then Some (t + 30 * nano) else until, w)
           | (None, w) \<Rightarrow>
               (case try_dxva2 (still_off t until) (monitors W) w of
                  (Some p, _, w) \<Rightarrow> (report (Itoa p), until, w)
                | (None, _, w) \<Rightarrow> (report ''-1'', until, w))))"

section \<open>What is reported is in the format of the protocol\<close>

abbreviation wire_emits :: "emits \<Rightarrow> bool" where
  "wire_emits es \<equiv> list_all (\<lambda>(m, v). wire_value m v) es"

lemma wire_percent [simp]:
  "0 \<le> n \<Longrightarrow> n \<le> 100 \<Longrightarrow> wire_value MetricBatteryPercent (Itoa n)" "wire_value MetricBatteryPercent ''-1''"
  "0 \<le> n \<Longrightarrow> n \<le> 100 \<Longrightarrow> wire_value MetricCPUPercent (Itoa n)" "wire_value MetricCPUPercent ''-1''"
  "0 \<le> n \<Longrightarrow> n \<le> 100 \<Longrightarrow> wire_value MetricMemPercent (Itoa n)" "wire_value MetricMemPercent ''-1''"
  "0 \<le> n \<Longrightarrow> n \<le> 100 \<Longrightarrow> wire_value MetricBrightnessPercent (Itoa n)" "wire_value MetricBrightnessPercent ''-1''"
  "0 \<le> n \<Longrightarrow> n \<le> 100 \<Longrightarrow> wire_value MetricVolumePercent (Itoa n)"
  "wire_value MetricBatteryOnAC v = (v \<in> {''-1'', ''0'', ''1''})"
  "wire_value MetricBatteryCharging v = (v \<in> {''-1'', ''0'', ''1''})"
  "wire_value MetricNetOnline v = (v \<in> {''-1'', ''0'', ''1''})"
  "wire_value MetricVolumeMuted v = (v \<in> {''0'', ''1''})"
  "wire_value MetricNetType v = (v \<in> {''-1'', ''none'', ''wifi'', ''ethernet'', ''cellular'', ''unknown''})"
  by (simp_all add: wire_value_def percent_textI go_defs)

lemma battery_range: "batteryPercentFromStatus st = Inr (Some p) \<Longrightarrow> 0 \<le> p \<and> p \<le> 100"
  by (auto simp: batteryPercentFromStatus_def word_less_def not_less word_le_def split: if_splits)

lemma push_battery_wire: "wire_emits (fst (push_battery S w))"
proof -
  have "wire_value MetricBatteryPercent (case batteryPercentFromStatus st of
      Inl _ \<Rightarrow> ''-1'' | Inr None \<Rightarrow> ''-1'' | Inr (Some p) \<Rightarrow> Itoa p)" for st
    using battery_range [of st] by (auto split: sum.split option.split)
  then show ?thesis
    by (auto simp: push_battery_def acLineStatusBoolish_def Let_def split: prod.split sum.split)
qed

lemma cpu_percent_wire: "wire_value MetricCPUPercent (cpu_percent prev cur)"
  by (simp add: cpu_percent_def Let_def)

lemma push_cpu_wire: "wire_emits (fst (push_cpu S prev w))" "wire_emits (fst (initPrev S w))"
  by (simp_all add: push_cpu_def initPrev_def cpu_percent_wire split: prod.split sum.split option.split)

lemma push_mem_wire: "wire_emits (fst (push_mem S w))"
  by (simp add: push_mem_def Let_def split: prod.split sum.split)

lemma netTypeFromIfType_cases: "netTypeFromIfType N t \<in> {''wifi'', ''ethernet'', ''cellular'', ''unknown''}"
  by (simp add: netTypeFromIfType_def)

lemma clamp_level_le: "\<exists>m k. clamp_level l = Dyadic m k \<and> m \<le> 2 ^ k"
  by (cases "lv_value l") (auto simp: clamp_level_def intro: exI [of _ 0])

lemma clamp_percent: "percent_of_level (clamp_level l) \<le> 100"
  using clamp_level_le [of l] percent_of_level_le by auto

lemma readEndpointVolume_range:
  "readEndpointVolume A h w = (Inr (p, m), w') \<Longrightarrow> 0 \<le> p \<and> p \<le> 100"
  by (auto simp: readEndpointVolume_def then_do_def Let_def clamp_percent split: if_splits prod.splits sum.splits)

lemma push_volume_wire: "wire_emits (fst (push_volume A h w))"
  using readEndpointVolume_range [of A h w] by (auto simp: push_volume_def split: prod.split sum.split)

lemma brightness_percent_range: "0 \<le> brightness_percent lo cur hi \<and> brightness_percent lo cur hi \<le> 100"
  by (simp add: brightness_percent_def Let_def)

lemma with_primary_monitor_res:
  assumes "fst (with_primary_monitor M body w) = Inr a" shows "\<exists>h w'. fst (body h w') = Inr a"
  using assms
  by (auto simp: with_primary_monitor_def then_do_def finally_do_def Let_def split: prod.splits sum.splits if_splits)

lemma then_do_InrD:
  "fst (then_do x f) = Inr b \<Longrightarrow> \<exists>a w. x = (Inr a, w) \<and> fst (f a w) = Inr b"
  by (auto simp: then_do_def split: prod.splits sum.splits)

lemma dxva2_range:
  assumes "readPrimaryMonitorBrightnessPercentDXVA2 M w = (Inr p, w')" shows "0 \<le> p \<and> p \<le> 100"
proof -
  have "fst (readPrimaryMonitorBrightnessPercentDXVA2 M w) = Inr p" by (simp add: assms)
  from with_primary_monitor_res [OF this [unfolded readPrimaryMonitorBrightnessPercentDXVA2_def]]
  show ?thesis using brightness_percent_range by (auto dest!: then_do_InrD split: if_splits)
qed

lemma for_each_inv:
  assumes "for_each f vs s = (stop, s')" and "P s" and "\<And>v s stop s'. f v s = (stop, s') \<Longrightarrow> P s \<Longrightarrow> P s'"
  shows "P s'"
  using assms(1,2) by (induction vs arbitrary: s) (auto dest: assms(3) split: prod.splits option.splits)

lemma wmi_read_item_range:
  "wmi_read_item C v s = (stop, s') \<Longrightarrow> 0 \<le> fst s \<and> fst s \<le> 100 \<Longrightarrow> 0 \<le> fst s' \<and> fst s' \<le> 100"
  by (auto simp: wmi_read_item_def Let_def split: prod.splits option.splits if_splits)

lemma with_query_InrD:
  "with_query C svc q body w = (Inr a, w') \<Longrightarrow> \<exists>rs w1. fst (body rs w1) = Inr a"
  by (auto simp: with_query_def finally_do_def split: prod.splits option.splits)

lemma readBrightnessPercentWMI_range:
  assumes "readBrightnessPercentWMI C svc w = (Inr (Some p), w')" shows "0 \<le> p \<and> p \<le> 100"
proof -
  obtain rs w1 items enum_err w2 stop out w3
    where "for_each (wmi_read_item C) items (0, w2) = (stop, out, w3)" "p = out"
    using with_query_InrD [OF assms [unfolded readBrightnessPercentWMI_def]]
    by (auto simp: Let_def case_prod_beta split: option.splits if_splits) (metis prod.collapse)
  then show ?thesis
    using for_each_inv [of "wmi_read_item C" items "(0, w2)" stop "(out, w3)" "\<lambda>s. 0 \<le> fst s \<and> fst s \<le> 100"]
      wmi_read_item_range by (metis fst_conv order_refl zero_le_numeral)
qed

lemma attempts_range:
  "try_dxva2 b M w = (Some p, e, w') \<Longrightarrow> 0 \<le> p \<and> p \<le> 100"
  "try_wmi svc C w = (Some p, w') \<Longrightarrow> 0 \<le> p \<and> p \<le> 100"
  by (auto simp: try_dxva2_def try_wmi_def dest: dxva2_range readBrightnessPercentWMI_range
      split: if_splits prod.splits sum.splits option.splits)

lemma push_brightness_wire: "wire_emits (fst (push_brightness W svc until w))"
proof -
  let ?t = "time_now (system_status W) w"
  obtain p1 e1 w1 where a: "try_dxva2 (passed ?t until) (monitors W) w = (p1, e1, w1)" by (cases rule: prod_cases3)
  obtain p2 w2 where b: "try_wmi svc (com W) w1 = (p2, w2)" by force
  obtain p3 e3 w3 where c: "try_dxva2 (still_off ?t until) (monitors W) w2 = (p3, e3, w3)" by (cases rule: prod_cases3)
  have r: "p1 = Some p \<or> p2 = Some p \<or> p3 = Some p \<Longrightarrow> 0 \<le> p \<and> p \<le> 100" for p
    using attempts_range(1) [of _ "monitors W" _ p] attempts_range(2) [of svc "com W" _ p] a b c by auto
  show ?thesis
    using r by (cases p1; cases p2; cases p3) (simp_all add: push_brightness_def Let_def a b c)
qed

section \<open>The brightness that is set and the brightness that is read\<close>

lemma brightness_percent_eq:
  assumes "lo < hi" and "lo \<le> cur" and "cur \<le> hi" and "(unat hi - unat lo) * 100 < 2 ^ 32"
  shows "brightness_percent lo cur hi = int ((unat cur - unat lo) * 100 div (unat hi - unat lo))"
proof -
  define c where "c = unat cur - unat lo"
  define r where "r = unat hi - unat lo"
  have d: "unat (cur - lo) = c" "unat (hi - lo) = r"
    using assms by (simp_all add: c_def r_def unat_sub word_le_nat_alt word_less_nat_alt)
  have cr: "c \<le> r" "0 < r" using assms by (simp_all add: c_def r_def word_le_nat_alt word_less_nat_alt diff_le_mono)
  then have small: "c * 100 < 2 ^ 32" using assms(4) by (simp add: r_def)
  have "unat ((cur - lo) * 100) = c * 100"
    using small by (simp only: unat_word_ariths d) simp
  then have "unat ((cur - lo) * 100 div (hi - lo)) = c * 100 div r" by (simp only: unat_div d)
  then have u: "uint ((cur - lo) * 100 div (hi - lo)) = int (c * 100 div r)" by (metis uint_nat)
  have "c * 100 div r < 101" using cr by (simp add: div_less_iff_less_mult)
  moreover have "\<not> cur < lo" "\<not> hi < cur" using assms by simp_all
  ultimately show ?thesis unfolding brightness_percent_def Let_def by (simp only: if_False u) (simp add: c_def r_def)
qed

text \<open>
  The value set is rounded to the nearest, the percentage read is rounded down: reading may
  fall one short, and does not when a percent is a whole number of steps.
\<close>

lemma rounded_then_cut:
  fixes r p :: nat
  assumes "0 < r" and "p \<le> 100"
  shows "100 dvd r \<Longrightarrow> (r * p + 50) div 100 * 100 div r = p"
    and "100 \<le> r \<Longrightarrow> (r * p + 50) div 100 * 100 div r \<le> p \<and> p \<le> (r * p + 50) div 100 * 100 div r + 1"
proof -
  assume "100 dvd r"
  then obtain k where k: "r = 100 * k" by blast
  have "(r * p + 50) div 100 = k * p" by (simp add: k)
  then show "(r * p + 50) div 100 * 100 div r = p" using assms(1) by (simp add: k)
next
  assume r: "100 \<le> r"
  define s where "s = (r * p + 50) div 100"
  have "s * 100 \<le> r * p + 50" "r * p + 50 < s * 100 + 100"
    unfolding s_def using div_mult_mod_eq [of "r * p + 50" 100] mod_less_divisor [of 100 "r * p + 50"] by linarith+
  then have "s * 100 < (p + 1) * r" "p * r < s * 100 + 50" using r by (simp_all add: algebra_simps)
  then have "s * 100 div r < p + 1" using r by (subst div_less_iff_less_mult) simp_all
  moreover have "p \<le> s * 100 div r + 1"
  proof (cases p)
    case (Suc i)
    then have "i * r \<le> s * 100" using \<open>p * r < s * 100 + 50\<close> r by simp
    then have "i \<le> s * 100 div r" using r by (simp add: less_eq_div_iff_mult_less_eq)
    then show ?thesis by (simp add: Suc)
  qed simp
  ultimately show "(r * p + 50) div 100 * 100 div r \<le> p \<and> p \<le> (r * p + 50) div 100 * 100 div r + 1"
    by (simp flip: s_def)
qed

lemma brightness_readback:
  assumes "lo < hi" and "0 \<le> p" and "p \<le> 100" and "(unat hi - unat lo) * 100 < 2 ^ 32"
  shows "brightness_percent lo (brightness_value lo hi p) hi =
    int (((unat hi - unat lo) * nat p + 50) div 100 * 100 div (unat hi - unat lo))"
  using brightness_value_eq [of lo hi p] assms by (simp add: brightness_percent_eq)

section \<open>The load that is computed\<close>

lemma unat_diff_word: "a \<le> b \<Longrightarrow> unat (b - a) = unat b - unat (a :: 'a::len word)"
  by (simp add: unat_sub word_le_nat_alt)

text \<open>
  The difference of two readings, as the load is defined on: kernel time includes idle time.
\<close>

definition busy_time :: "cpu_times \<Rightarrow> cpu_times \<Rightarrow> nat" where
  "busy_time prev cur = (unat (ct_kernel cur) - unat (ct_kernel prev)) + (unat (ct_user cur) - unat (ct_user prev)) -
     (unat (ct_idle cur) - unat (ct_idle prev))"

definition all_time :: "cpu_times \<Rightarrow> cpu_times \<Rightarrow> nat" where
  "all_time prev cur = (unat (ct_kernel cur) - unat (ct_kernel prev)) + (unat (ct_user cur) - unat (ct_user prev))"

definition advanced :: "cpu_times \<Rightarrow> cpu_times \<Rightarrow> bool" where
  "advanced prev cur \<longleftrightarrow> ct_idle prev \<le> ct_idle cur \<and> ct_kernel prev \<le> ct_kernel cur \<and> ct_user prev \<le> ct_user cur"

lemma half_up_le: "0 < t \<Longrightarrow> b \<le> t \<Longrightarrow> (200 * b + t) div (2 * t) \<le> (100::nat)"
proof -
  assume "0 < t" "b \<le> t"
  then have "(200 * b + t) div (2 * t) < 101" by (subst div_less_iff_less_mult) simp_all
  then show ?thesis by simp
qed

lemma cpu_percent_eq:
  assumes adv: "advanced prev cur" and small: "all_time prev cur \<le> 2 ^ 45"
  shows "cpu_percent prev cur =
    (if all_time prev cur = 0 \<or> all_time prev cur < unat (ct_idle cur) - unat (ct_idle prev) then ''-1''
     else Itoa (int ((200 * busy_time prev cur + all_time prev cur) div (2 * all_time prev cur))))"
proof -
  define i k u where "i = ct_idle cur - ct_idle prev" and "k = ct_kernel cur - ct_kernel prev"
    and "u = ct_user cur - ct_user prev"
  have d: "unat i = unat (ct_idle cur) - unat (ct_idle prev)" "unat k = unat (ct_kernel cur) - unat (ct_kernel prev)"
    "unat u = unat (ct_user cur) - unat (ct_user prev)"
    using adv by (simp_all add: i_def k_def u_def advanced_def unat_diff_word)
  then have t: "all_time prev cur = unat k + unat u" by (simp add: all_time_def)
  with small have ku: "unat (k + u) = unat k + unat u" by (simp add: unat_word_ariths)
  have not_less: "\<not> (ct_idle cur < ct_idle prev \<or> ct_kernel cur < ct_kernel prev \<or> ct_user cur < ct_user prev)"
    using adv by (auto simp: advanced_def)
  show ?thesis
  proof (cases "k + u = 0 \<or> k + u < i")
    case True
    then have "all_time prev cur = 0 \<or> all_time prev cur < unat i"
      using t ku by (auto simp: word_less_nat_alt unat_eq_0 [symmetric])
    then show ?thesis using True not_less by (simp add: cpu_percent_def Let_def d flip: i_def k_def u_def)
  next
    case False
    then have f: "0 < all_time prev cur" "unat i \<le> all_time prev cur"
      using t ku by (auto simp: word_less_nat_alt unat_eq_0 [symmetric])
    have b: "unat (k + u - i) = busy_time prev cur"
      using False unat_diff_word [of i "k + u"] by (auto simp: not_less ku busy_time_def d)
    have le: "busy_time prev cur \<le> all_time prev cur" by (simp add: busy_time_def all_time_def)
    have "percent_of (unat (k + u - i)) (unat (k + u)) =
        (200 * busy_time prev cur + all_time prev cur) div (2 * all_time prev cur)"
      unfolding b ku t [symmetric] using le f(1) small by (rule percent_of_exact)
    then show ?thesis
      using False not_less half_up_le [OF f(1) le] f
      by (simp add: cpu_percent_def Let_def d(1) flip: i_def k_def u_def)
  qed
qed

section \<open>The network that is reported\<close>

lemma net_loop:
  "let (rank, t, found) = foldl (net_visit N) (-1, ''unknown'', False) ps in
   found = (\<exists>p\<in>set ps. net_candidate N p) \<and>
   (if found then (\<exists>p\<in>set ps. net_candidate N p \<and> t = netTypeFromIfType N (IfType p)) \<and> rank = netTypeRank t \<and>
      (\<forall>p\<in>set ps. net_candidate N p \<longrightarrow> netTypeRank (netTypeFromIfType N (IfType p)) \<le> rank)
    else rank = -1)"
proof (induction ps rule: rev_induct)
  case (snoc p ps)
  obtain rank t found where s: "foldl (net_visit N) (-1, ''unknown'', False) ps = (rank, t, found)" by (rule prod_cases3)
  have pos: "0 \<le> netTypeRank (netTypeFromIfType N (IfType p))"
    using netTypeFromIfType_cases [of N "IfType p"] by (auto simp: netTypeRank_def)
  show ?case
    using snoc pos unfolding s foldl_append Let_def prod.case
    by (simp add: net_visit_def Let_def s split: if_splits) (fastforce+)?
qed simp

text \<open>The node is online iff some adapter qualifies, and names the best kind among those.\<close>

lemma net_best_max:
  "fst (net_best N ps) = (\<exists>p\<in>set ps. net_candidate N p) \<and>
   (if fst (net_best N ps) then (\<exists>p\<in>set ps. net_candidate N p \<and> snd (net_best N ps) = netTypeFromIfType N (IfType p)) \<and>
      (\<forall>p\<in>set ps. net_candidate N p \<longrightarrow>
         netTypeRank (netTypeFromIfType N (IfType p)) \<le> netTypeRank (snd (net_best N ps)))
    else snd (net_best N ps) = ''none'')"
proof -
  obtain rank t found where s: "foldl (net_visit N) (-1, ''unknown'', False) ps = (rank, t, found)" by (rule prod_cases3)
  have "TrimSpace (netTypeFromIfType N i) \<noteq> []" for i
    using netTypeFromIfType_cases [of N i] by (auto simp: TrimSpace_graphic graphic_def)
  moreover note loop = net_loop [of N ps, unfolded s Let_def prod.case]
  ultimately have "net_best N ps = (found, if found then t else ''none'')"
    by (auto simp: net_best_def s split: if_splits)
  then show ?thesis using loop by (cases found) auto
qed

lemma net_tries_InrD: "net_tries N S i sz w = (Inr x, w') \<Longrightarrow> \<exists>ps. x = net_best N ps"
  by (induction i arbitrary: sz w) (auto split: prod.splits sum.splits adapters_failure.splits)

lemma push_net_wire: "wire_emits (fst (push_net N S w))"
proof -
  have "snd (net_best N ps) \<in> {''none'', ''wifi'', ''ethernet'', ''cellular'', ''unknown''}" for ps
  proof (cases "fst (net_best N ps)")
    case True
    then obtain i where "snd (net_best N ps) = netTypeFromIfType N i" using net_best_max [of N ps] by auto
    then show ?thesis using netTypeFromIfType_cases [of N i] by simp
  qed (use net_best_max [of N ps] in simp)
  moreover obtain res w1 where r: "readNetStatus N S w = (res, w1)" by force
  ultimately have "snd x \<in> {''none'', ''wifi'', ''ethernet'', ''cellular'', ''unknown''}" if "res = Inr x" for x
    using that r net_tries_InrD [of N S 3 "15 * 1024" w x w1] by (auto simp: readNetStatus_def)
  then show ?thesis
    by (cases res) (auto simp: push_net_def r split: prod.split)
qed

end
