(* ===== verification/Poller.thy ===== *)
theory Poller
  imports Collectors RuntimeState
begin

text \<open>
  The loops of \<^verbatim>\<open>core/metrics/collectors_windows.go\<close>. All six have one shape: wait until a
  metric of the collector is enabled, start the ticker with a first round, then a round per
  tick, until the configuration changes or the context is done. A collector is what differs
  between them; the loop is a step relation in which the configuration changes at any time.
\<close>

section \<open>The collectors\<close>

text \<open>The variables of the closures: previous counters, the pause of DXVA2, and the world.\<close>

record 'w locals =
  lc_prev :: "cpu_times option"
  lc_until :: "int option"
  lc_world :: 'w

text \<open>
  \<open>co_first\<close> is what happens before the first round (\<^verbatim>\<open>initPrev\<close>, which also watches the
  context), \<open>co_stop\<close> what the end of the ticker resets.
\<close>

record 'w collector =
  co_metrics :: "string list"
  co_first :: "'w locals \<Rightarrow> emits \<times> 'w locals"
  co_push :: "'w locals \<Rightarrow> emits \<times> 'w locals"
  co_stop :: "'w locals \<Rightarrow> 'w locals"

definition world_push :: "('w \<Rightarrow> emits \<times> 'w) \<Rightarrow> 'w locals \<Rightarrow> emits \<times> 'w locals" where
  "world_push f l = (let (es, w) = f (lc_world l) in (es, l\<lparr>lc_world := w\<rparr>))"

definition batteryLoop :: "'w system_api \<Rightarrow> 'w collector" where
  "batteryLoop S = \<lparr>co_metrics = [MetricBatteryPercent, MetricBatteryOnAC, MetricBatteryCharging],
     co_first = Pair [], co_push = world_push (push_battery S), co_stop = (\<lambda>l. l)\<rparr>"

definition cpuLoop :: "'w system_api \<Rightarrow> 'w collector" where
  "cpuLoop S = \<lparr>co_metrics = [MetricCPUPercent],
     co_first = (\<lambda>l. let (es, prev, w) = initPrev S (lc_world l) in (es, l\<lparr>lc_prev := prev, lc_world := w\<rparr>)),
     co_push = (\<lambda>l. let (es, prev, w) = push_cpu S (lc_prev l) (lc_world l) in (es, l\<lparr>lc_prev := prev, lc_world := w\<rparr>)),
     co_stop = (\<lambda>l. l\<lparr>lc_prev := None\<rparr>)\<rparr>"

definition memLoop :: "'w system_api \<Rightarrow> 'w collector" where
  "memLoop S = \<lparr>co_metrics = [MetricMemPercent],
     co_first = Pair [], co_push = world_push (push_mem S), co_stop = (\<lambda>l. l)\<rparr>"

definition netLoop :: "net_consts \<Rightarrow> 'w system_api \<Rightarrow> 'w collector" where
  "netLoop N S = \<lparr>co_metrics = [MetricNetOnline, MetricNetType],
     co_first = Pair [], co_push = world_push (push_net N S), co_stop = (\<lambda>l. l)\<rparr>"

definition volumeLoop :: "'w audio_api \<Rightarrow> handle \<Rightarrow> 'w collector" where
  "volumeLoop A endpoint = \<lparr>co_metrics = [MetricVolumePercent, MetricVolumeMuted],
     co_first = Pair [], co_push = world_push (push_volume A endpoint), co_stop = (\<lambda>l. l)\<rparr>"

definition brightnessLoop :: "'w windows \<Rightarrow> handle option \<Rightarrow> 'w collector" where
  "brightnessLoop W svc = \<lparr>co_metrics = [MetricBrightnessPercent], co_first = Pair [],
     co_push = (\<lambda>l. let (es, until, w) = push_brightness W svc (lc_until l) (lc_world l)
       in (es, l\<lparr>lc_until := until, lc_world := w\<rparr>)), co_stop = (\<lambda>l. l)\<rparr>"

text \<open>
  What the volume and the brightness goroutine do before their loop: the endpoint the first
  reads, \<open>None\<close> when it gives up, and the WMI service of the second, \<open>None\<close> when it does
  without.
\<close>

definition volume_start :: "'w windows \<Rightarrow> 'w \<Rightarrow> EndpointVolume option \<times> 'w" where
  "volume_start W w =
     (case CoInitialize (com W) w of
        (Some _, w) \<Rightarrow> (None, w)
      | (None, w) \<Rightarrow> (case openDefaultEndpointVolume (audio W) w of
          (Inl _, w) \<Rightarrow> (None, CoUninitialize (com W) w)
        | (Inr e, w) \<Rightarrow> (Some e, w)))"

definition brightness_start :: "'w windows \<Rightarrow> 'w \<Rightarrow> handle option \<times> 'w" where
  "brightness_start W w =
     (case CoInitialize (com W) w of
        (init, w) \<Rightarrow>
          if \<not> com_ready init then (None, w)
          else (case connectWMIRootWMI (com W) w of (Inl _, w) \<Rightarrow> (None, w) | (Inr svc, w) \<Rightarrow> (Some svc, w)))"

section \<open>The loop\<close>

text \<open>
  The configuration-changed channel is the generation of the configuration: the channel got
  in generation \<open>g\<close> is closed as soon as the generation is above \<open>g\<close>. A change of the
  configuration and its announcement are two steps; \<open>ps_unsignalled\<close> counts the changes not
  yet announced.
\<close>

datatype poll_pc =
    Check | Fetch | Recheck nat | Blocked nat | Enabled | FirstRound | FetchSelect | Select nat | Returned

record 'w poll_sys =
  ps_pc :: poll_pc
  ps_ticker :: bool
  ps_locals :: "'w locals"
  ps_emitted :: emits
  ps_enabled :: "string \<Rightarrow> bool"
  ps_gen :: nat
  ps_unsignalled :: nat
  ps_done :: bool

definition anyMetricEnabled :: "(string \<Rightarrow> bool) \<Rightarrow> string list \<Rightarrow> bool" where
  "anyMetricEnabled enabled metrics = list_ex enabled metrics"

definition wants :: "'w collector \<Rightarrow> 'w poll_sys \<Rightarrow> bool" where
  "wants K s = anyMetricEnabled (ps_enabled s) (co_metrics K)"

definition goto :: "poll_pc \<Rightarrow> 'w poll_sys \<Rightarrow> 'w poll_sys" where
  "goto pc s = s\<lparr>ps_pc := pc\<rparr>"

definition run_round :: "('w locals \<Rightarrow> emits \<times> 'w locals) \<Rightarrow> 'w poll_sys \<Rightarrow> 'w poll_sys" where
  "run_round f s = (let (es, l) = f (ps_locals s) in s\<lparr>ps_locals := l, ps_emitted := ps_emitted s @ es\<rparr>)"

definition stop_ticker :: "'w collector \<Rightarrow> 'w poll_sys \<Rightarrow> 'w poll_sys" where
  "stop_ticker K s = s\<lparr>ps_ticker := False, ps_locals := co_stop K (ps_locals s)\<rparr>"

inductive wait_step :: "'w collector \<Rightarrow> 'w poll_sys \<Rightarrow> 'w poll_sys \<Rightarrow> bool" for K s where
  check: "ps_pc s = Check \<Longrightarrow> wait_step K s (goto (if wants K s then Enabled else Fetch) s)"
| fetch: "ps_pc s = Fetch \<Longrightarrow> wait_step K s (goto (Recheck (ps_gen s)) s)"
| recheck: "ps_pc s = Recheck g \<Longrightarrow> wait_step K s (goto (if wants K s then Enabled else Blocked g) s)"
| wake: "ps_pc s = Blocked g \<Longrightarrow> g < ps_gen s \<Longrightarrow> wait_step K s (goto Fetch s)"
| give_up: "ps_pc s = Blocked g \<Longrightarrow> ps_done s \<Longrightarrow> wait_step K s (goto Returned s)"

inductive round_step :: "'w collector \<Rightarrow> 'w poll_sys \<Rightarrow> 'w poll_sys \<Rightarrow> bool" for K s where
  running: "ps_pc s = Enabled \<Longrightarrow> ps_ticker s \<Longrightarrow> round_step K s (goto FetchSelect s)"
| start: "ps_pc s = Enabled \<Longrightarrow> \<not> ps_ticker s \<Longrightarrow> round_step K s (goto FirstRound (run_round (co_first K) s))"
| cancelled: "ps_pc s = FirstRound \<Longrightarrow> ps_done s \<Longrightarrow> round_step K s (goto Returned s)"
| first: "ps_pc s = FirstRound \<Longrightarrow> round_step K s (goto FetchSelect (run_round (co_push K) (s\<lparr>ps_ticker := True\<rparr>)))"
| fetch: "ps_pc s = FetchSelect \<Longrightarrow> round_step K s (goto (Select (ps_gen s)) s)"
| finish: "ps_pc s = Select g \<Longrightarrow> ps_done s \<Longrightarrow> round_step K s (goto Returned s)"
| changed: "ps_pc s = Select g \<Longrightarrow> g < ps_gen s \<Longrightarrow>
     round_step K s (goto Check (if wants K s then s else stop_ticker K s))"
| tick: "ps_pc s = Select g \<Longrightarrow>
     round_step K s (goto Check (if wants K s then run_round (co_push K) s else stop_ticker K s))"

inductive env_step :: "'w poll_sys \<Rightarrow> 'w poll_sys \<Rightarrow> bool" for s where
  configure: "env_step s (s\<lparr>ps_enabled := en, ps_unsignalled := Suc (ps_unsignalled s)\<rparr>)"
| signal: "0 < ps_unsignalled s \<Longrightarrow> env_step s (s\<lparr>ps_gen := Suc (ps_gen s), ps_unsignalled := ps_unsignalled s - 1\<rparr>)"
| cancel: "env_step s (s\<lparr>ps_done := True\<rparr>)"

definition poll_step :: "'w collector \<Rightarrow> 'w poll_sys \<Rightarrow> 'w poll_sys \<Rightarrow> bool" where
  "poll_step K s t \<longleftrightarrow> wait_step K s t \<or> round_step K s t \<or> env_step s t"

definition poll_init :: "'w poll_sys \<Rightarrow> bool" where
  "poll_init s \<longleftrightarrow> ps_pc s = Check \<and> \<not> ps_ticker s \<and> lc_prev (ps_locals s) = None \<and> lc_until (ps_locals s) = None \<and>
     ps_emitted s = [] \<and> ps_unsignalled s = 0"

section \<open>What the six collectors report\<close>

definition windows_collectors :: "'w windows \<Rightarrow> net_consts \<Rightarrow> handle option \<Rightarrow> handle \<Rightarrow> 'w collector list" where
  "windows_collectors W N svc endpoint =
     [batteryLoop (system_status W), volumeLoop (audio W) endpoint, brightnessLoop W svc,
      cpuLoop (system_status W), memLoop (system_status W), netLoop N (system_status W)]"

text \<open>A report of a collector: one of its metrics with a value of the protocol.\<close>

definition report_ok :: "'w collector \<Rightarrow> emits \<Rightarrow> bool" where
  "report_ok K es \<longleftrightarrow> wire_emits es \<and> list_all (\<lambda>e. fst e \<in> set (co_metrics K)) es"

definition collector_ok :: "'w collector \<Rightarrow> bool" where
  "collector_ok K \<longleftrightarrow> (\<forall>l. report_ok K (fst (co_first K l)) \<and> report_ok K (fst (co_push K l)))"

lemma push_metrics:
  "list_all (\<lambda>e. fst e \<in> set [MetricBatteryPercent, MetricBatteryOnAC, MetricBatteryCharging]) (fst (push_battery S w))"
  "list_all (\<lambda>e. fst e \<in> set [MetricCPUPercent]) (fst (push_cpu S prev w))" "list_all (\<lambda>e. fst e \<in> set [MetricCPUPercent]) (fst (initPrev S w))"
  "list_all (\<lambda>e. fst e \<in> set [MetricMemPercent]) (fst (push_mem S w))"
  "list_all (\<lambda>e. fst e \<in> set [MetricNetOnline, MetricNetType]) (fst (push_net N S w))"
  "list_all (\<lambda>e. fst e \<in> set [MetricVolumePercent, MetricVolumeMuted]) (fst (push_volume A h w))"
  by (auto simp: push_battery_def push_cpu_def initPrev_def push_mem_def push_net_def push_volume_def Let_def
      split: prod.split sum.split)

lemma push_brightness_metrics: "list_all (\<lambda>e. fst e \<in> set [MetricBrightnessPercent]) (fst (push_brightness W svc until w))"
  by (simp add: push_brightness_def Let_def split: prod.split option.split)

lemma world_push_fst [simp]: "fst (world_push f l) = fst (f (lc_world l))"
  by (simp add: world_push_def split: prod.split)

lemma collectors_ok:
  assumes "K \<in> set (windows_collectors W N svc h)" shows "collector_ok K"
proof -
  note wire = push_battery_wire push_cpu_wire push_mem_wire push_net_wire push_volume_wire push_brightness_wire
  have pair: "fst (case x of (es, a, w) \<Rightarrow> (es, f a w)) = fst x" for x :: "emits \<times> 'b \<times> 'c" and f :: "'b \<Rightarrow> 'c \<Rightarrow> 'd"
    by (simp add: case_prod_beta)
  have "collector_ok (batteryLoop S)" "collector_ok (memLoop S)" "collector_ok (netLoop N S)" "collector_ok (cpuLoop S)"
    "collector_ok (volumeLoop A h)" "collector_ok (brightnessLoop W svc)" for S A
    by (simp_all add: collector_ok_def report_ok_def pair batteryLoop_def memLoop_def netLoop_def cpuLoop_def
        volumeLoop_def brightnessLoop_def wire push_metrics push_brightness_metrics del: list.set)
  then show ?thesis using assms by (auto simp: windows_collectors_def)
qed

section \<open>The loop loses no change of the configuration\<close>

definition poll_inv :: "'w collector \<Rightarrow> 'w poll_sys \<Rightarrow> bool" where
  "poll_inv K s \<longleftrightarrow> report_ok K (ps_emitted s) \<and>
     (\<forall>g. ps_pc s \<in> {Recheck g, Blocked g, Select g} \<longrightarrow> g \<le> ps_gen s) \<and>
     (\<forall>g. ps_pc s = Blocked g \<longrightarrow> wants K s \<longrightarrow> g < ps_gen s \<or> 0 < ps_unsignalled s)"

lemma report_ok_append: "report_ok K es \<Longrightarrow> report_ok K fs \<Longrightarrow> report_ok K (es @ fs)"
  by (simp add: report_ok_def)

lemma goto_fields [simp]:
  "ps_pc (goto pc s) = pc" "ps_emitted (goto pc s) = ps_emitted s" "ps_gen (goto pc s) = ps_gen s"
  "ps_unsignalled (goto pc s) = ps_unsignalled s" "wants K (goto pc s) = wants K s"
  by (simp_all add: goto_def wants_def)

lemma run_round_emitted [simp]: "ps_emitted (run_round f s) = ps_emitted s @ fst (f (ps_locals s))"
  by (simp add: run_round_def split: prod.split)

lemma poll_inv_step:
  assumes "collector_ok K" and "poll_step K s t" and "poll_inv K s" shows "poll_inv K t"
proof -
  from assms(2) consider "wait_step K s t" | "round_step K s t" | "env_step s t" by (auto simp: poll_step_def)
  then show ?thesis
  proof cases
    case 1
    then show ?thesis using assms(3) by cases (auto simp: poll_inv_def)
  next
    case 2
    then show ?thesis
      using assms(1,3) by cases (auto simp: poll_inv_def collector_ok_def stop_ticker_def intro: report_ok_append)
  next
    case 3
    then show ?thesis using assms(3) by cases (auto simp: poll_inv_def wants_def)
  qed
qed

interpretation poller: invariant_of poll_init "poll_step K" "\<lambda>s. collector_ok K \<longrightarrow> poll_inv K s" for K
proof unfold_locales
  show "collector_ok K \<longrightarrow> poll_inv K s" if "poll_init s" for K and s :: "'a poll_sys"
    using that by (simp add: poll_init_def poll_inv_def report_ok_def)
  show "collector_ok K \<longrightarrow> poll_inv K t" if "poll_step K s t" "collector_ok K \<longrightarrow> poll_inv K s" for K and s t :: "'a poll_sys"
    using that poll_inv_step by blast
qed

lemma collector_reports:
  assumes "K \<in> set (windows_collectors W N svc h)" and "reach poll_init (poll_step K) s"
  shows "poll_inv K s"
  using poller.reach_inv [OF assms(2)] collectors_ok [OF assms(1)] by blast

end
