(* ===== verification/Worker.thy ===== *)
theory Worker
  imports System Collectors
begin

text \<open>
  \<^verbatim>\<open>core/runtime/control_worker_windows.go\<close>: the goroutine that carries the queued
  control actions out. It owns at most one audio endpoint, opened when it is first needed
  and given up when a call on it fails. How it is woken is part of theory ControlQueue.
\<close>

section \<open>One round\<close>

text \<open>The last value asked of a metric among the actions taken.\<close>

definition wanted :: "string \<Rightarrow> ControlAction list \<Rightarrow> string option" where
  "wanted metric as = foldl (\<lambda>v a. if ca_Metric a = metric then Some (ca_Value a) else v) None as"

definition ensureEndpoint :: "'w audio_api \<Rightarrow> EndpointVolume option \<Rightarrow> 'w \<Rightarrow> bool \<times> EndpointVolume option \<times> 'w" where
  "ensureEndpoint A endpoint w =
     (case endpoint of
        Some e \<Rightarrow> (True, Some e, w)
      | None \<Rightarrow> (case OpenDefaultEndpointVolume A w of
          (Inl _, w) \<Rightarrow> (False, None, w)
        | (Inr e, w) \<Rightarrow> (True, Some e, w)))"

definition after_call :: "'w audio_api \<Rightarrow> EndpointVolume option \<Rightarrow> go_error option \<times> 'w \<Rightarrow> EndpointVolume option \<times> 'w" where
  "after_call A endpoint x =
     (case x of (None, w) \<Rightarrow> (endpoint, w) | (Some _, w) \<Rightarrow> (None, EndpointVolume_Release A endpoint w))"

definition apply_volume ::
  "('a) platform_scheme \<Rightarrow> 'w audio_api \<Rightarrow> string option \<Rightarrow> EndpointVolume option \<times> 'w \<Rightarrow> EndpointVolume option \<times> 'w" where
  "apply_volume P A vo s =
     (case Option.bind vo (parseInt P) of
        None \<Rightarrow> s
      | Some percent \<Rightarrow> after_call A (fst s) (SetPercent A (fst s) (clampInt percent 0 100) (snd s)))"

definition apply_mute ::
  "('a) platform_scheme \<Rightarrow> 'w audio_api \<Rightarrow> string option \<Rightarrow> EndpointVolume option \<times> 'w \<Rightarrow> EndpointVolume option \<times> 'w" where
  "apply_mute P A vo s =
     (case Option.bind vo (parseBoolish P) of
        None \<Rightarrow> s
      | Some m \<Rightarrow> after_call A (fst s) (SetMuted A (fst s) m (snd s)))"

definition apply_brightness ::
  "('a) platform_scheme \<Rightarrow> 'w windows \<Rightarrow> string option \<Rightarrow> EndpointVolume option \<times> 'w \<Rightarrow> EndpointVolume option \<times> 'w" where
  "apply_brightness P W vo s =
     (case Option.bind vo (parseInt P) of
        None \<Rightarrow> s
      | Some percent \<Rightarrow>
          (fst s, snd (SetPrimaryMonitorBrightnessPercent P (monitors W) (com W) (clampInt percent 0 100) (snd s))))"

definition worker_round ::
  "('a) platform_scheme \<Rightarrow> 'w windows \<Rightarrow> ControlAction list \<Rightarrow> EndpointVolume option \<times> 'w \<Rightarrow> EndpointVolume option \<times> 'w" where
  "worker_round P W as s =
     (let vol = wanted MetricVolumePercent as; muted = wanted MetricVolumeMuted as;
          brightness = wanted MetricBrightnessPercent as;
          (ready, s1) = (if vol \<noteq> None \<or> muted \<noteq> None then ensureEndpoint (audio W) (fst s) (snd s) else (True, s));
          s2 = (if ready then apply_mute P (audio W) muted (apply_volume P (audio W) vol s1) else s1)
      in apply_brightness P W brightness s2)"

text \<open>
  What the worker does after each wake-up, and how it starts and ends. It does not start
  when COM does not.
\<close>

definition worker_turn ::
  "'w host \<Rightarrow> 'w windows \<Rightarrow> EndpointVolume option \<times> 'w runtime \<Rightarrow> EndpointVolume option \<times> 'w runtime" where
  "worker_turn H W s =
     (let (as, r) = DequeueActions (snd s) in
      if as = [] then (fst s, r)
      else let (endpoint, w) = worker_round H W as (fst s, rt_world r) in (endpoint, r\<lparr>rt_world := w\<rparr>))"

definition worker_start :: "'w windows \<Rightarrow> 'w \<Rightarrow> bool \<times> 'w" where
  "worker_start W w = (case CoInitialize (com W) w of (Some _, w) \<Rightarrow> (False, w) | (None, w) \<Rightarrow> (True, w))"

definition worker_exit :: "'w windows \<Rightarrow> EndpointVolume option \<times> 'w \<Rightarrow> 'w" where
  "worker_exit W s = CoUninitialize (com W) (EndpointVolume_Release (audio W) (fst s) (snd s))"

section \<open>The actions taken\<close>

lemma wanted_simps [simp]:
  "wanted m [] = None"
  "wanted m (as @ [a]) = (if ca_Metric a = m then Some (ca_Value a) else wanted m as)"
  by (simp_all add: wanted_def)

lemma wanted_distinct:
  assumes "distinct (map ca_Metric as)"
  shows "wanted m as = map_of (map (\<lambda>a. (ca_Metric a, ca_Value a)) as) m"
  using assms
proof (induction as rule: rev_induct)
  case (snoc a as)
  then have "map_of (map (\<lambda>a. (ca_Metric a, ca_Value a)) as) (ca_Metric a) = None"
    by (auto simp: map_of_eq_None_iff)
  with snoc show ?case by (auto simp: map_add_def split: option.split)
qed simp

text \<open>The worker asks of every metric what the queue held for it.\<close>

lemma wanted_drained:
  assumes "action_inv q" shows "wanted m (fst (ActionDequeueAll q)) = action_view q m"
proof -
  have "distinct (map ca_Metric (fst (ActionDequeueAll q)))"
    using action_drain_sorted [OF assms] strict_sorted_iff by blast
  from wanted_distinct [OF this] show ?thesis using action_drain_map [OF assms] by simp
qed

section \<open>The endpoint is never a null one\<close>

definition endpoint_ok :: "EndpointVolume option \<Rightarrow> bool" where
  "endpoint_ok e \<longleftrightarrow> (\<forall>v. e = Some v \<longrightarrow> ev_endpoint v \<noteq> 0)"

lemma Open_endpoint: "OpenDefaultEndpointVolume A w = (Inr e, w') \<Longrightarrow> ev_endpoint e \<noteq> 0"
  by (auto simp: OpenDefaultEndpointVolume_def then_do_def split: prod.splits sum.splits if_splits)

lemma ensureEndpoint_ok:
  assumes "endpoint_ok e" and "ensureEndpoint A e w = (ready, e', w')"
  shows "endpoint_ok e' \<and> ready = (e' \<noteq> None)"
  using assms by (auto simp: ensureEndpoint_def endpoint_ok_def dest: Open_endpoint split: option.splits prod.splits sum.splits)

lemma after_call_ok: "endpoint_ok e \<Longrightarrow> endpoint_ok (fst (after_call A e x))"
  by (auto simp: after_call_def endpoint_ok_def split: prod.splits option.splits)

lemma worker_round_ok: "endpoint_ok (fst s) \<Longrightarrow> endpoint_ok (fst (worker_round P W as s))"
  using ensureEndpoint_ok [of "fst s" "audio W" "snd s"]
  by (auto simp: worker_round_def Let_def apply_brightness_def apply_mute_def apply_volume_def after_call_ok
      split: prod.splits option.splits if_splits)

lemma worker_turn_ok: "endpoint_ok (fst s) \<Longrightarrow> endpoint_ok (fst (worker_turn H W s))"
proof -
  assume e: "endpoint_ok (fst s)"
  obtain as r where d: "DequeueActions (snd s) = (as, r)" by force
  obtain e' w' where rd: "worker_round H W as (fst s, rt_world r) = (e', w')" by force
  have "endpoint_ok e'" using worker_round_ok [of "(fst s, rt_world r)" H W as] e by (simp add: rd)
  then show ?thesis using e by (simp add: worker_turn_def d rd)
qed

section \<open>Obeying\<close>

text \<open>
  What the documentation of Core Audio promises of an endpoint, as laws about the level and
  the mute switch observable in the world: setting one takes effect and leaves the other
  alone, reading tells them, and setting the brightness touches neither.
\<close>

definition volume_machine :: "('a) platform_scheme \<Rightarrow> 'w windows \<Rightarrow> ('w \<Rightarrow> dyadic) \<Rightarrow> ('w \<Rightarrow> bool) \<Rightarrow> bool" where
  "volume_machine P W lvl mute \<longleftrightarrow>
     (\<forall>h l w. h \<noteq> 0 \<longrightarrow> (\<exists>w'. SetMasterVolume (audio W) h l w = (None, w') \<and> lvl w' = l \<and> mute w' = mute w)) \<and>
     (\<forall>h b w. h \<noteq> 0 \<longrightarrow> (\<exists>w'. SetMute (audio W) h b w = (None, w') \<and> lvl w' = lvl w \<and> mute w' = b)) \<and>
     (\<forall>h w. \<exists>w'. GetMasterVolume (audio W) h w = (Inr \<lparr>lv_negative = False, lv_value = lvl w\<rparr>, w') \<and> mute w' = mute w) \<and>
     (\<forall>h w. \<exists>w'. GetMute (audio W) h w = (Inr (mute w), w')) \<and>
     (\<forall>p w. let w' = snd (SetPrimaryMonitorBrightnessPercent P (monitors W) (com W) p w)
        in lvl w' = lvl w \<and> mute w' = mute w)"

lemma machine_volume:
  assumes "volume_machine P W lvl mute" and "endpoint_ok (Some e)" and "parseInt P v = Some p"
  shows "\<exists>w'. apply_volume P (audio W) (Some v) (Some e, w) = (Some e, w') \<and>
    lvl w' = level_of (nat (clampInt p 0 100)) \<and> mute w' = mute w"
proof -
  have c: "\<not> clampInt p 0 100 < 0" "\<not> 100 < clampInt p 0 100" using clampInt_range [of 0 100 p] by simp_all
  obtain w' where "SetMasterVolume (audio W) (ev_endpoint e) (level_of (nat (clampInt p 0 100))) w = (None, w')"
    "lvl w' = level_of (nat (clampInt p 0 100))" "mute w' = mute w"
    using assms(1,2) unfolding volume_machine_def endpoint_ok_def by (metis option.inject)
  then show ?thesis
    using assms(2,3) c by (simp add: apply_volume_def SetPercent_def after_call_def endpoint_ok_def)
qed

lemma machine_mute:
  assumes "volume_machine P W lvl mute" and "endpoint_ok (Some e)"
  shows "\<exists>w'. apply_mute P (audio W) vo (Some e, w) = (Some e, w') \<and> lvl w' = lvl w \<and>
    mute w' = (case Option.bind vo (parseBoolish P) of None \<Rightarrow> mute w | Some b \<Rightarrow> b)"
proof (cases "Option.bind vo (parseBoolish P)")
  case (Some b)
  obtain w' where "SetMute (audio W) (ev_endpoint e) b w = (None, w')" "lvl w' = lvl w" "mute w' = b"
    using assms unfolding volume_machine_def endpoint_ok_def by (metis option.inject)
  then show ?thesis
    using assms(2) by (simp add: apply_mute_def Some SetMuted_def after_call_def endpoint_ok_def)
qed (simp add: apply_mute_def)

lemma machine_brightness:
  assumes "volume_machine P W lvl mute"
  shows "lvl (snd (apply_brightness P W vo s)) = lvl (snd s) \<and> mute (snd (apply_brightness P W vo s)) = mute (snd s)"
  using assms by (simp add: apply_brightness_def volume_machine_def Let_def split: option.split)

text \<open>A round that asks for a volume sets it, whatever else it asks for.\<close>

lemma worker_round_volume:
  assumes m: "volume_machine P W lvl mute" and e: "endpoint_ok (fst s)"
    and ready: "fst (ensureEndpoint (audio W) (fst s) (snd s))"
    and v: "wanted MetricVolumePercent as = Some v" and p: "parseInt P v = Some p"
  shows "lvl (snd (worker_round P W as s)) = level_of (nat (clampInt p 0 100))"
proof -
  obtain e1 w1 where o: "ensureEndpoint (audio W) (fst s) (snd s) = (True, Some e1, w1)" "endpoint_ok (Some e1)"
    using ensureEndpoint_ok [OF e] ready
    by (cases "ensureEndpoint (audio W) (fst s) (snd s)" rule: prod_cases3) fastforce
  obtain w2 where a: "apply_volume P (audio W) (Some v) (Some e1, w1) = (Some e1, w2)"
    "lvl w2 = level_of (nat (clampInt p 0 100))" using machine_volume [OF m o(2) p] by blast
  obtain w3 where b: "apply_mute P (audio W) (wanted MetricVolumeMuted as) (Some e1, w2) = (Some e1, w3)" "lvl w3 = lvl w2"
    using machine_mute [OF m o(2)] by blast
  have "worker_round P W as s = apply_brightness P W (wanted MetricBrightnessPercent as) (Some e1, w3)"
    by (simp add: worker_round_def Let_def v o(1) a(1) b(1))
  then show ?thesis using machine_brightness [OF m] a(2) b(2) by simp
qed

text \<open>The collector then reports that volume.\<close>

lemma push_volume_level:
  assumes m: "volume_machine P W lvl mute" and "h \<noteq> 0" and "lvl w = level_of n" and "n \<le> 100"
  shows "fst (push_volume (audio W) h w) =
    [(MetricVolumePercent, Itoa (int n)), (MetricVolumeMuted, if mute w then ''1'' else ''0'')]"
proof -
  obtain w1 where g: "GetMasterVolume (audio W) h w = (Inr \<lparr>lv_negative = False, lv_value = lvl w\<rparr>, w1)" "mute w1 = mute w"
    using m unfolding volume_machine_def by metis
  moreover obtain w2 where "GetMute (audio W) h w1 = (Inr (mute w1), w2)" using m unfolding volume_machine_def by metis
  moreover have "clamp_level \<lparr>lv_negative = False, lv_value = level_of n\<rparr> = level_of n"
    using level_of_le_1 [OF assms(4)] by (simp add: clamp_level_def)
  ultimately show ?thesis
    using assms(2,3) level_round_trip [OF assms(4)]
    by (simp add: push_volume_def readEndpointVolume_def then_do_def Let_def)
qed

section \<open>From the write of the hub to the report of the collector\<close>

lemma enqueued_view:
  assumes "action_inv q" and "control_value m v"
  shows "action_view (ActionEnqueue m v q) m = Some v"
  using control_value_trimmed [OF assms(2)]
  by (simp add: ActionEnqueue_def enqueue_entry_def enqueue_write_def enqueue_signal_def)

lemma worker_turn_world:
  assumes "fst (DequeueActions r) \<noteq> []"
  shows "rt_world (snd (worker_turn H W (e, r))) =
    snd (worker_round H W (fst (DequeueActions r)) (e, rt_world (snd (DequeueActions r))))"
  using assms by (cases "DequeueActions r") (simp add: worker_turn_def split: prod.split)

lemma volume_loop:
  assumes cfg: "cfg_ok H (rt_cfg r)" and a: "addressed resp r"
    and s: "s \<in> set (cfg_Settings (rt_cfg r))" "ms_Enabled s" "ms_VarName s = TrimSpace (vr_Name resp)"
      "ms_Writable s" "ms_Metric s = MetricVolumePercent"
    and n: "parseInt H (TrimSpace (vr_Value resp)) = Some n" and bits: "8 \<le> int_bits H"
    and q: "action_inv (rt_controlQ r)"
    and m: "volume_machine H W lvl mute" and e: "endpoint_ok e" "\<And>w. fst (ensureEndpoint (audio W) e w)" and h: "h \<noteq> 0"
  shows "(MetricVolumePercent, Itoa (clampInt n 0 100)) \<in> set (fst (push_volume (audio W) h
    (rt_world (snd (worker_turn H W (e, handleVarStoreNotifySet H resp r))))))"
proof -
  let ?c = "clampInt n 0 100" and ?r1 = "handleVarStoreNotifySet H resp r"
  have c: "0 \<le> ?c" "?c \<le> 100" using clampInt_range [of 0 100 n] by simp_all
  then have cv: "control_value MetricVolumePercent (Itoa ?c)" by (auto simp: control_value_def)
  let ?q = "ActionEnqueue MetricVolumePercent (Itoa ?c) (rt_controlQ r)"
  have "rt_controlQ ?r1 = ?q"
    using notify_set_eq [OF cfg a s(1-3)] s(4,5) n
    by (simp add: Let_def control_action_def apply_action_def enqueueControlAction_def updatePublishedShadow_def)
  then have d: "fst (DequeueActions ?r1) = fst (ActionDequeueAll ?q)"
    by (simp add: DequeueActions_def split: prod.split)
  have w: "wanted MetricVolumePercent (fst (DequeueActions ?r1)) = Some (Itoa ?c)"
    unfolding d using wanted_drained [OF aq.inv_enq [OF q]] enqueued_view [OF q cv] by simp
  then have ne: "fst (DequeueActions ?r1) \<noteq> []" by auto
  have "(100::int) < 2 ^ 7" by simp
  also have "\<dots> \<le> 2 ^ (int_bits H - 1)" using bits by (intro power_increasing) simp_all
  finally have p: "parseInt H (Itoa ?c) = Some ?c"
    using c Atoi_Itoa [of H ?c] by (simp add: parseInt_def TrimSpace_id)
  have lvl: "lvl (rt_world (snd (worker_turn H W (e, ?r1)))) = level_of (nat ?c)"
    unfolding worker_turn_world [OF ne]
    using worker_round_volume [OF m _ _ w p] e c by (simp add: clampInt_def)
  have "nat ?c \<le> 100" using c by simp
  from push_volume_level [OF m h lvl this] show ?thesis using c by simp
qed

end
