(* ===== verification/Bridge.thy ===== *)
theory Bridge
  imports System
begin

text \<open>
  \<^verbatim>\<open>nodemobile/nodemobile.go\<close>: what the Android host calls. A bridge holds the one
  runtime of the process, if there is one, and the text of the last error. Calls that answer
  with the status return the structure \<^verbatim>\<open>marshalStatus\<close> fills in (the host reads it
  as JSON text).
\<close>

section \<open>The bridge and its status\<close>

text \<open>
  The disk and the world belong to the runtime while there is one; \<open>br_disk\<close> and
  \<open>br_world\<close> are what the next runtime starts from.
\<close>

record 'w bridge =
  br_rt :: "'w runtime option"
  br_dir :: string
  br_lastErr :: string
  br_disk :: disk
  br_world :: 'w

record statusDTO =
  sd_Running :: bool
  sd_Connected :: bool
  sd_Addr :: string
  sd_WorkDir :: string
  sd_Auth :: AuthSnapshot
  sd_Reporting :: bool
  sd_Notify :: bool
  sd_Metrics :: "string \<rightharpoonup> string"
  sd_LastError :: string

definition marshalStatus :: "'w runtime option \<Rightarrow> statusDTO" where
  "marshalStatus ro =
     (case ro of
        None \<Rightarrow> \<lparr>sd_Running = False, sd_Connected = False, sd_Addr = [], sd_WorkDir = [], sd_Auth = zero_auth,
          sd_Reporting = False, sd_Notify = False, sd_Metrics = Map.empty, sd_LastError = []\<rparr>
      | Some r \<Rightarrow> \<lparr>sd_Running = True, sd_Connected = rt_connected r, sd_Addr = rt_addr r, sd_WorkDir = rt_workDir r,
          sd_Auth = rt_auth r, sd_Reporting = rt_reportEnabled r, sd_Notify = rt_notifyRunning r,
          sd_Metrics = MetricsSnapshot r, sd_LastError = TrimSpace (rt_lastErr r)\<rparr>)"

definition Status :: "'w bridge \<Rightarrow> statusDTO" where
  "Status b = (case br_rt b of
     None \<Rightarrow> (marshalStatus (br_rt b))\<lparr>sd_LastError := TrimSpace (br_lastErr b)\<rparr>
   | Some r \<Rightarrow> marshalStatus (Some r))"

text \<open>
  The shape most calls share: without a runtime they are refused (\<open>call_rt\<close>) or do nothing
  (\<open>quiet_rt\<close>); an error of the runtime is returned and kept as last error.
\<close>

definition no_runtime :: go_error where
  "no_runtime = ErrNew ''runtime not started''"

definition call_rt :: "'w host \<Rightarrow> ('w runtime \<Rightarrow> go_error option \<times> 'w runtime) \<Rightarrow> 'w bridge \<Rightarrow> statusDTO result \<times> 'w bridge" where
  "call_rt H f b =
     (case br_rt b of
        None \<Rightarrow> (Inl no_runtime, b)
      | Some r \<Rightarrow> (case f r of
          (Some e, r1) \<Rightarrow> (Inl e, b\<lparr>br_rt := Some r1, br_lastErr := error_text H e\<rparr>)
        | (None, r1) \<Rightarrow> (Inr (marshalStatus (Some r1)), b\<lparr>br_rt := Some r1\<rparr>)))"

definition quiet_rt :: "('w runtime \<Rightarrow> 'w runtime) \<Rightarrow> 'w bridge \<Rightarrow> statusDTO result \<times> 'w bridge" where
  "quiet_rt f b = (let b1 = b\<lparr>br_rt := map_option f (br_rt b)\<rparr> in (Inr (marshalStatus (br_rt b1)), b1))"

definition drop_result :: "'a result \<times> 's \<Rightarrow> go_error option \<times> 's" where
  "drop_result x = (case x of (Inl e, s) \<Rightarrow> (Some e, s) | (Inr _, s) \<Rightarrow> (None, s))"

section \<open>Starting, connecting and logging in\<close>

definition Mobile_Init :: "'w host \<Rightarrow> string \<Rightarrow> 'w bridge \<Rightarrow> statusDTO result \<times> 'w bridge" where
  "Mobile_Init H workDir0 b =
     (let workDir = TrimSpace workDir0 in
      if workDir = [] then (Inl (ErrNew ''workDir is required''), b)
      else case br_rt b of
        None \<Rightarrow> (case New H workDir (br_disk b) (br_world b) of
            (Inl e, d) \<Rightarrow> (Inl e, b\<lparr>br_lastErr := error_text H e, br_disk := d\<rparr>)
          | (Inr r, d) \<Rightarrow> (Inr (marshalStatus (Some r)), b\<lparr>br_rt := Some r, br_dir := workDir, br_disk := d\<rparr>))
      | Some r \<Rightarrow> (Inr (marshalStatus (Some r)), b\<lparr>br_dir := workDir\<rparr>))"

definition Mobile_Connect :: "'w host \<Rightarrow> string \<Rightarrow> 'w bridge \<Rightarrow> statusDTO result \<times> 'w bridge" where
  "Mobile_Connect H addr0 b =
     (if TrimSpace addr0 = [] then (Inl (ErrNew ''addr is required''), b)
      else call_rt H (Connect H (TrimSpace addr0)) b)"

definition Mobile_Disconnect :: "'w host \<Rightarrow> 'w bridge \<Rightarrow> statusDTO result \<times> 'w bridge" where
  "Mobile_Disconnect H b = quiet_rt (Close H) b"

definition Mobile_EnsureKeys :: "'w host \<Rightarrow> 'w bridge \<Rightarrow> statusDTO result \<times> 'w bridge" where
  "Mobile_EnsureKeys H b = call_rt H (\<lambda>r. drop_result (EnsureKeys H r)) b"

definition keys_then :: "'w host \<Rightarrow> ('w runtime \<Rightarrow> go_error option \<times> 'w runtime) \<Rightarrow> 'w runtime \<Rightarrow> go_error option \<times> 'w runtime" where
  "keys_then H f r = (case EnsureKeys H r of (Inl e, r1) \<Rightarrow> (Some e, r1) | (Inr _, r1) \<Rightarrow> f r1)"

definition Mobile_Register :: "'w host \<Rightarrow> string \<Rightarrow> 'w bridge \<Rightarrow> statusDTO result \<times> 'w bridge" where
  "Mobile_Register H deviceID0 b =
     (let deviceID = TrimSpace deviceID0 in
      if deviceID = [] then (Inl (ErrNew ''device_id is required''), b)
      else call_rt H (keys_then H (\<lambda>r. drop_result (Register H deviceID r))) b)"

text \<open>
  \<^verbatim>\<open>Login\<close> takes the saved node for an absent one; what it refuses itself is not
  kept as last error.
\<close>

definition login_node :: "int \<Rightarrow> 'w runtime \<Rightarrow> int" where
  "login_node nodeID r = (if nodeID \<le> 0 then uint (NodeID (rt_auth r)) else nodeID)"

definition Mobile_Login :: "'w host \<Rightarrow> string \<Rightarrow> int \<Rightarrow> 'w bridge \<Rightarrow> statusDTO result \<times> 'w bridge" where
  "Mobile_Login H deviceID0 nodeID b =
     (let deviceID = TrimSpace deviceID0 in
      if deviceID = [] then (Inl (ErrNew ''device_id is required''), b)
      else case br_rt b of
        None \<Rightarrow> (Inl no_runtime, b)
      | Some r \<Rightarrow> (case EnsureKeys H r of
          (Inl e, r1) \<Rightarrow> (Inl e, b\<lparr>br_rt := Some r1, br_lastErr := error_text H e\<rparr>)
        | (Inr _, r1) \<Rightarrow>
            let n = login_node nodeID r1; b1 = b\<lparr>br_rt := Some r1\<rparr> in
            if n = 0 then (Inl (ErrNew ''node_id is required''), b1)
            else if 2 ^ 32 - 1 < n then (Inl (ErrNew (''node_id out of range: '' @ Itoa n)), b1)
            else call_rt H (\<lambda>r. drop_result (Login H deviceID (word_of_int n) r)) b1))"

definition Mobile_StartReporting :: "'w host \<Rightarrow> 'w bridge \<Rightarrow> statusDTO result \<times> 'w bridge" where
  "Mobile_StartReporting H b = call_rt H StartReporting b"

definition Mobile_StopReporting :: "'w bridge \<Rightarrow> statusDTO result \<times> 'w bridge" where
  "Mobile_StopReporting b = quiet_rt StopReporting b"

definition Mobile_StartNotify :: "'w host \<Rightarrow> 'w bridge \<Rightarrow> statusDTO result \<times> 'w bridge" where
  "Mobile_StartNotify H b = call_rt H (StartNotify H) b"

definition Mobile_StopNotify :: "'w bridge \<Rightarrow> statusDTO result \<times> 'w bridge" where
  "Mobile_StopNotify b = quiet_rt StopNotify b"

definition StatusAuthSnapshot :: "'w bridge \<Rightarrow> AuthSnapshot" where
  "StatusAuthSnapshot b = (case br_rt b of None \<Rightarrow> zero_auth | Some r \<Rightarrow> rt_auth r)"

text \<open>\<open>and_then\<close> is the chain of \<^verbatim>\<open>if err != nil return\<close>.\<close>

definition and_then :: "'a result \<times> 's \<Rightarrow> ('s \<Rightarrow> 'b result \<times> 's) \<Rightarrow> 'b result \<times> 's" where
  "and_then x k = (case x of (Inl e, s) \<Rightarrow> (Inl e, s) | (Inr _, s) \<Rightarrow> k s)"

definition Mobile_Start :: "'w host \<Rightarrow> string \<Rightarrow> string \<Rightarrow> string \<Rightarrow> 'w bridge \<Rightarrow> statusDTO result \<times> 'w bridge" where
  "Mobile_Start H addr0 deviceID0 workDir0 b =
     (let addr = TrimSpace addr0; deviceID = TrimSpace deviceID0; workDir = TrimSpace workDir0 in
      if addr = [] then (Inl (ErrNew ''addr is required''), b)
      else if deviceID = [] then (Inl (ErrNew ''device_id is required''), b)
      else if workDir = [] then (Inl (ErrNew ''workDir is required''), b)
      else
        and_then (Mobile_Init H workDir b) (\<lambda>b. and_then (Mobile_Connect H addr b) (\<lambda>b.
        and_then (Mobile_EnsureKeys H b) (\<lambda>b.
        and_then (let auth = StatusAuthSnapshot b in
                  if NodeID auth \<noteq> 0 then Mobile_Login H deviceID (uint (NodeID auth)) b
                  else Mobile_Register H deviceID b) (Mobile_StartReporting H)))))"

definition Mobile_Stop :: "'w host \<Rightarrow> 'w bridge \<Rightarrow> statusDTO result \<times> 'w bridge" where
  "Mobile_Stop H b =
     (case br_rt b of
        None \<Rightarrow> (Inr (marshalStatus (br_rt b)), b\<lparr>br_dir := []\<rparr>)
      | Some r \<Rightarrow>
          let r1 = Close H (StopNotify (StopReporting r))
          in (Inr (marshalStatus (None :: 'w runtime option)), b\<lparr>br_rt := None, br_dir := [], br_disk := rt_disk r1, br_world := rt_world r1\<rparr>))"

definition Mobile_StopAll :: "'w host \<Rightarrow> 'w bridge \<Rightarrow> statusDTO result \<times> 'w bridge" where
  "Mobile_StopAll H b = Mobile_Stop H b"

section \<open>Settings\<close>

definition Mobile_ConfigGet :: "string \<Rightarrow> 'w bridge \<Rightarrow> string result" where
  "Mobile_ConfigGet key0 b =
     (let key = TrimSpace key0 in
      if key = [] then Inl (ErrNew ''key is required'')
      else case br_rt b of
        None \<Rightarrow> Inl no_runtime
      | Some r \<Rightarrow> (case RuntimeConfigGet key r of None \<Rightarrow> Inl (ErrNew ''key not found'') | Some v \<Rightarrow> Inr v))"

definition Mobile_ConfigSet :: "'w host \<Rightarrow> string \<Rightarrow> string \<Rightarrow> 'w bridge \<Rightarrow> statusDTO result \<times> 'w bridge" where
  "Mobile_ConfigSet H key0 val b =
     (let key = TrimSpace key0 in
      if key = [] then (Inl (ErrNew ''key is required''), b) else call_rt H (RuntimeConfigSet H key val) b)"

definition Mobile_MetricsSettingsGet :: "'w bridge \<Rightarrow> string result" where
  "Mobile_MetricsSettingsGet b = Mobile_ConfigGet KeyMetricsSettingsJSON b"

definition Mobile_MetricsSettingsSet :: "'w host \<Rightarrow> string \<Rightarrow> 'w bridge \<Rightarrow> statusDTO result \<times> 'w bridge" where
  "Mobile_MetricsSettingsSet H val b = Mobile_ConfigSet H KeyMetricsSettingsJSON val b"

definition Mobile_NotifySettingsGet :: "'w bridge \<Rightarrow> string result" where
  "Mobile_NotifySettingsGet b = Mobile_ConfigGet KeyNotifyTopicsJSON b"

definition Mobile_NotifySettingsSet :: "'w host \<Rightarrow> string \<Rightarrow> 'w bridge \<Rightarrow> statusDTO result \<times> 'w bridge" where
  "Mobile_NotifySettingsSet H val b = Mobile_ConfigSet H KeyNotifyTopicsJSON val b"

definition GetLastError :: "'w bridge \<Rightarrow> string" where
  "GetLastError b = TrimSpace (br_lastErr b)"

definition EnsureLinked :: "'w host \<Rightarrow> 'w bridge \<Rightarrow> go_error option \<times> 'w bridge" where
  "EnsureLinked H b =
     (if br_rt b = None then (Some no_runtime, b\<lparr>br_lastErr := error_text H no_runtime\<rparr>) else (None, b))"

section \<open>Metric values given by the host\<close>

definition isTruthy :: "('a) platform_scheme \<Rightarrow> string \<Rightarrow> bool" where
  "isTruthy P txt = (ToLower P (TrimSpace txt) \<in> {''1'', ''true'', ''yes'', ''y'', ''on''})"

text \<open>
  What a call publishes for the text it is given, \<open>None\<close> when the call is ignored: a
  percentage with \<^verbatim>\<open>-1\<close> for an unknown one, the volume, a switch with \<^verbatim>\<open>-1\<close> for
  an unknown one, the mute switch and the kind of network.
\<close>

definition percent_or_unknown :: "('a) platform_scheme \<Rightarrow> string \<Rightarrow> string option" where
  "percent_or_unknown P txt =
     (let p = TrimSpace txt in
      if p = [] then None
      else case Atoi P p of
        None \<Rightarrow> None
      | Some n \<Rightarrow> Some (if n < 0 then ''-1'' else Itoa (if 100 < n then 100 else n)))"

definition volume_value :: "('a) platform_scheme \<Rightarrow> string \<Rightarrow> string option" where
  "volume_value P txt =
     (let p = TrimSpace txt in
      if p = [] then None
      else case Atoi P p of
        None \<Rightarrow> None
      | Some n \<Rightarrow>
          let n1 = (if n < 0 then 0 else n)
          in Some (Itoa (if 100 < n1 then 100 else n1)))"

definition switch_or_unknown :: "('a) platform_scheme \<Rightarrow> string \<Rightarrow> string option" where
  "switch_or_unknown P txt =
     (let v = TrimSpace txt in
      if v = [] then None
      else if v = ''-1'' then Some ''-1''
      else Some (if isTruthy P v then ''1'' else ''0''))"

definition mute_value :: "('a) platform_scheme \<Rightarrow> string \<Rightarrow> string option" where
  "mute_value P txt =
     Some (if ToLower P (TrimSpace txt) \<in> {''1'', ''true'', ''yes'', ''y'', ''on''} then ''1'' else ''0'')"

definition net_type_value :: "('a) platform_scheme \<Rightarrow> string \<Rightarrow> string option" where
  "net_type_value P txt =
     (let v = ToLower P (TrimSpace txt) in
      if v = [] then None
      else if v = ''-1'' then Some ''-1''
      else if v \<in> {''none'', ''wifi'', ''ethernet'', ''cellular'', ''unknown''} then Some v
      else Some ''unknown'')"

definition inject :: "'w host \<Rightarrow> string \<Rightarrow> string option \<Rightarrow> 'w bridge \<Rightarrow> 'w bridge" where
  "inject H metric vo b =
     (case br_rt b of
        None \<Rightarrow> b
      | Some r \<Rightarrow> (case vo of None \<Rightarrow> b | Some v \<Rightarrow> b\<lparr>br_rt := Some (UpdateMetric H metric v r)\<rparr>))"

definition UpdateBatteryPercent :: "'w host \<Rightarrow> string \<Rightarrow> 'w bridge \<Rightarrow> 'w bridge" where
  "UpdateBatteryPercent H txt = inject H MetricBatteryPercent (percent_or_unknown H txt)"

definition UpdateVolumePercent :: "'w host \<Rightarrow> string \<Rightarrow> 'w bridge \<Rightarrow> 'w bridge" where
  "UpdateVolumePercent H txt = inject H MetricVolumePercent (volume_value H txt)"

definition UpdateVolumeMuted :: "'w host \<Rightarrow> string \<Rightarrow> 'w bridge \<Rightarrow> 'w bridge" where
  "UpdateVolumeMuted H txt = inject H MetricVolumeMuted (mute_value H txt)"

definition UpdateBrightnessPercent :: "'w host \<Rightarrow> string \<Rightarrow> 'w bridge \<Rightarrow> 'w bridge" where
  "UpdateBrightnessPercent H txt = inject H MetricBrightnessPercent (percent_or_unknown H txt)"

definition UpdateBatteryCharging :: "'w host \<Rightarrow> string \<Rightarrow> 'w bridge \<Rightarrow> 'w bridge" where
  "UpdateBatteryCharging H txt = inject H MetricBatteryCharging (switch_or_unknown H txt)"

definition UpdateBatteryOnAC :: "'w host \<Rightarrow> string \<Rightarrow> 'w bridge \<Rightarrow> 'w bridge" where
  "UpdateBatteryOnAC H txt = inject H MetricBatteryOnAC (switch_or_unknown H txt)"

definition UpdateNetOnline :: "'w host \<Rightarrow> string \<Rightarrow> 'w bridge \<Rightarrow> 'w bridge" where
  "UpdateNetOnline H txt = inject H MetricNetOnline (switch_or_unknown H txt)"

definition UpdateNetType :: "'w host \<Rightarrow> string \<Rightarrow> 'w bridge \<Rightarrow> 'w bridge" where
  "UpdateNetType H txt = inject H MetricNetType (net_type_value H txt)"

definition UpdateCPUPercent :: "'w host \<Rightarrow> string \<Rightarrow> 'w bridge \<Rightarrow> 'w bridge" where
  "UpdateCPUPercent H txt = inject H MetricCPUPercent (percent_or_unknown H txt)"

definition UpdateMemPercent :: "'w host \<Rightarrow> string \<Rightarrow> 'w bridge \<Rightarrow> 'w bridge" where
  "UpdateMemPercent H txt = inject H MetricMemPercent (percent_or_unknown H txt)"

definition UpdateFlashlightEnabled :: "'w host \<Rightarrow> string \<Rightarrow> 'w bridge \<Rightarrow> 'w bridge" where
  "UpdateFlashlightEnabled H txt = inject H MetricFlashlightEnabled (switch_or_unknown H txt)"

section \<open>Actions and notifications for the host\<close>

text \<open>
  As JSON text. An empty queue is a nil slice to the code, which \<^verbatim>\<open>json.Marshal\<close>
  renders as \<^verbatim>\<open>null\<close>.
\<close>

definition slice_text :: "('a \<Rightarrow> json) \<Rightarrow> 'a list \<Rightarrow> string" where
  "slice_text f xs = json_print (if xs = [] then JNull else JArr (map f xs))"

definition action_json :: "ControlAction \<Rightarrow> json" where
  "action_json a = JObj [(''metric'', JStr (ca_Metric a)), (''value'', JStr (ca_Value a))]"

definition Mobile_DequeueActions :: "'w bridge \<Rightarrow> string \<times> 'w bridge" where
  "Mobile_DequeueActions b =
     (case br_rt b of
        None \<Rightarrow> (''[]'', b)
      | Some r \<Rightarrow> (let (as, r1) = DequeueActions r in (slice_text action_json as, b\<lparr>br_rt := Some r1\<rparr>)))"

text \<open>
  A notification carries its payload as raw JSON, which \<^verbatim>\<open>json.Marshal\<close> compacts:
  blanks outside strings go, and characters a browser could misread are escaped. Text that
  is not JSON makes the whole call fail, and the error is dropped.
\<close>

definition compact_rune :: "string \<Rightarrow> string \<times> string" where
  "compact_rune s =
     (if take 3 s = [CHR 0xE2, CHR 0x80, CHR 0xA8] then (CHR 0x5C # ''u2028'', drop 3 s)
      else if take 3 s = [CHR 0xE2, CHR 0x80, CHR 0xA9] then (CHR 0x5C # ''u2029'', drop 3 s)
      else if hd s = CHR 0x3C then (CHR 0x5C # ''u003c'', tl s)
      else if hd s = CHR 0x3E then (CHR 0x5C # ''u003e'', tl s)
      else if hd s = CHR 0x26 then (CHR 0x5C # ''u0026'', tl s)
      else ([hd s], tl s))"

lemma compact_rune_shorter: "s \<noteq> [] \<Longrightarrow> length (snd (compact_rune s)) < length s"
  by (cases s) (auto simp: compact_rune_def)

function compact_text :: "bool \<Rightarrow> string \<Rightarrow> string" where
  "compact_text inside s =
     (if s = [] then []
      else if inside \<and> hd s = CHR 0x5C then take 2 s @ compact_text True (drop 2 s)
      else if hd s = CHR 0x22 then CHR 0x22 # compact_text (\<not> inside) (tl s)
      else if \<not> inside \<and> is_ws (hd s) then compact_text False (tl s)
      else fst (compact_rune s) @ compact_text inside (snd (compact_rune s)))"
  by pat_completeness auto

termination
  by (relation "measure (\<lambda>(_, s). length s)") (auto simp: compact_rune_shorter)

declare compact_text.simps [simp del]

definition event_text :: "Event \<Rightarrow> string option" where
  "event_text e =
     (let ms = [(''id'', JStr (ev_ID e)), (''topic'', JStr (ev_Topic e)), (''name'', JStr (ev_Name e)),
                (''title'', JStr (ev_Title e)), (''body'', JStr (ev_Body e)), (''ts'', JNum (Itoa (ev_TS e)))];
          front = butlast (json_print (JObj ms))
      in if ev_Payload e = [] then Some (json_print (JObj ms))
         else if json_parse (ev_Payload e) = None then None
         else Some (front @ '','' @ json_print (JStr ''payload'') @ '':'' @ compact_text False (ev_Payload e) @ [CHR 0x7D]))"

definition events_text :: "Event list \<Rightarrow> string" where
  "events_text es =
     (if es = [] then ''null''
      else case those (map event_text es) of
        None \<Rightarrow> []
      | Some ts \<Rightarrow> CHR 0x5B # join_with '','' ts @ [CHR 0x5D])"

definition Mobile_DequeueNotifications :: "'w bridge \<Rightarrow> string \<times> 'w bridge" where
  "Mobile_DequeueNotifications b =
     (case br_rt b of
        None \<Rightarrow> (''[]'', b)
      | Some r \<Rightarrow> (let (es, r1) = DequeueNotifications r in (events_text es, b\<lparr>br_rt := Some r1\<rparr>)))"

section \<open>Starting from scratch\<close>

lemma call_rt_InrD:
  assumes "call_rt H f b = (Inr st, b')"
  obtains r r1 where "br_rt b = Some r" "f r = (None, r1)" "st = marshalStatus (Some r1)" "b' = b\<lparr>br_rt := Some r1\<rparr>"
  using assms that by (auto simp: call_rt_def split: option.splits prod.splits)

lemma and_then_InrD:
  assumes "and_then x k = (Inr y, t)" obtains z s where "x = (Inr z, s)" "k s = (Inr y, t)"
  using assms that by (cases x) (auto simp: and_then_def split: sum.splits)

lemma drop_result_None: "drop_result x = (None, s) \<longleftrightarrow> (\<exists>y. x = (Inr y, s))"
  by (cases x) (auto simp: drop_result_def split: sum.splits)

lemma Connect_connected:
  assumes "Connect H addr r = (None, r')" shows "rt_connected r' \<and> rt_addr r' = TrimSpace addr"
proof -
  obtain r2 r3 where c: "connectTransport H (TrimSpace addr) r2 = (None, r3)"
    and r': "r' = (let r4 = r3\<lparr>rt_reconnectDesired := True\<rparr>
               in if rt_notifyRunning r4 then snd (subscribeNotifyTopics H r4) else r4)"
    using assms by (auto simp: Connect_def Let_def split: if_splits option.splits prod.splits)
  have "rt_connected r3 \<and> rt_addr r3 = TrimSpace addr"
    using connectTransport_result [of H "TrimSpace addr" r2] by (simp add: c)
  moreover have "subscribe_kept r' = subscribe_kept (r3\<lparr>rt_reconnectDesired := True\<rparr>)"
    by (simp add: r' Let_def subscribe_kept_eq)
  ultimately show ?thesis by (simp add: subscribe_kept_def)
qed

text \<open>
  The part of the state a start settles: the link, the switches of the reports and the
  device of the identity.
\<close>

definition link_view where
  "link_view r = (rt_connected r, rt_addr r, rt_reportRunning r, rt_reportEnabled r)"

lemma link_view_login: "login_kept r' = login_kept r \<Longrightarrow> link_view r' = link_view r"
  by (simp add: login_kept_def link_view_def)

lemma keys_then_NoneD:
  assumes "keys_then H (\<lambda>r. drop_result (Register H dev r)) r = (None, r')"
  shows "link_view r' = link_view r \<and> LoggedIn (rt_auth r') \<and> DeviceID (rt_auth r') = TrimSpace dev"
proof -
  obtain k r1 where e: "EnsureKeys H r = (k, r1)" by force
  then obtain data where g: "Register H dev r1 = (Inr data, r')"
    using assms by (auto simp: keys_then_def drop_result_None split: sum.splits)
  then have "login_kept r' = login_kept r1" "LoggedIn (rt_auth r')" "DeviceID (rt_auth r') = TrimSpace dev"
    using Register_result [of H dev r1] by (simp_all add: identity_def)
  moreover have "login_kept r1 = login_kept r" using EnsureKeys_fields(1) [of H r] by (simp add: e)
  ultimately show ?thesis by (simp add: link_view_login [of r' r])
qed

lemma Mobile_Login_InrD:
  assumes "Mobile_Login H dev n b = (Inr st, b')" and "br_rt b = Some r"
  obtains r' where "br_rt b' = Some r'" "link_view r' = link_view r" "LoggedIn (rt_auth r')"
    "DeviceID (rt_auth r') = TrimSpace dev"
proof -
  obtain k r1 where e: "EnsureKeys H r = (k, r1)" by force
  obtain m where c: "call_rt H (\<lambda>r. drop_result (Login H (TrimSpace dev) m r)) (b\<lparr>br_rt := Some r1\<rparr>) = (Inr st, b')"
    using assms by (auto simp: Mobile_Login_def Let_def e split: if_splits sum.splits)
  then obtain data r' where g: "Login H (TrimSpace dev) m r1 = (Inr data, r')" "br_rt b' = Some r'"
    by (elim call_rt_InrD) (auto simp: drop_result_None)
  then have "login_kept r' = login_kept r1" "LoggedIn (rt_auth r')" "DeviceID (rt_auth r') = TrimSpace dev"
    using Login_result [of H "TrimSpace dev" m r1] by (simp_all add: identity_def)
  moreover have "login_kept r1 = login_kept r" using EnsureKeys_fields(1) [of H r] by (simp add: e)
  ultimately show ?thesis using g(2) that link_view_login [of r' r] by simp
qed

text \<open>
  A start that succeeds leaves the runtime connected to the address, logged in under the
  device and reporting, and answers with its status.
\<close>

lemma Start_result:
  assumes "Mobile_Start H addr dev dir b = (Inr st, b')"
    and "\<And>r. br_rt b = Some r \<Longrightarrow> rt_reportRunning r = rt_reportEnabled r"
  shows "\<exists>r. br_rt b' = Some r \<and> st = marshalStatus (Some r) \<and> rt_connected r \<and> rt_addr r = TrimSpace addr \<and>
    logged_in (rt_auth r) \<and> DeviceID (rt_auth r) = TrimSpace dev \<and> rt_reportEnabled r"
proof -
  let ?a = "TrimSpace addr" and ?d = "TrimSpace dev"
  obtain b1 b2 b3 b4 s1 s2 s3 s4 where i: "Mobile_Init H (TrimSpace dir) b = (Inr s1, b1)"
    and c: "Mobile_Connect H ?a b1 = (Inr s2, b2)" and k: "Mobile_EnsureKeys H b2 = (Inr s3, b3)"
    and l: "(if NodeID (StatusAuthSnapshot b3) \<noteq> 0 then Mobile_Login H ?d (uint (NodeID (StatusAuthSnapshot b3))) b3
             else Mobile_Register H ?d b3) = (Inr s4, b4)"
    and s: "Mobile_StartReporting H b4 = (Inr st, b')"
    using assms(1) by (auto simp: Mobile_Start_def Let_def elim!: and_then_InrD split: if_splits)
  have running: "\<And>r. br_rt b1 = Some r \<Longrightarrow> rt_reportRunning r = rt_reportEnabled r"
    using i assms(2) New_fresh [of H "TrimSpace (TrimSpace dir)" "br_disk b" "br_world b"]
    by (auto simp: Mobile_Init_def Let_def split: if_splits option.splits prod.splits sum.splits)
  obtain q1 q2 where q: "br_rt b1 = Some q1" "Connect H (TrimSpace ?a) q1 = (None, q2)" "br_rt b2 = Some q2"
    using c by (auto simp: Mobile_Connect_def split: if_splits elim!: call_rt_InrD)
  have v2: "link_view q2 = (True, ?a, rt_reportEnabled q2, rt_reportEnabled q2)"
    using Connect_connected [OF q(2)] Connect_fields [of H "TrimSpace ?a" q1] running [OF q(1)] q(2)
    by (simp add: link_view_def)
  obtain x q3 where q3: "br_rt b3 = Some q3" and e: "EnsureKeys H q2 = (Inr x, q3)"
    using k q(3) by (auto simp: Mobile_EnsureKeys_def drop_result_None elim!: call_rt_InrD)
  have v3: "link_view q3 = link_view q2"
    using link_view_login [OF EnsureKeys_fields(1) [of H q2]] by (simp add: e)
  obtain q4 where q4: "br_rt b4 = Some q4" "link_view q4 = link_view q3" "DeviceID (rt_auth q4) = ?d"
  proof (cases "NodeID (StatusAuthSnapshot b3) \<noteq> 0")
    case True
    then show ?thesis using l q3 that by (auto elim!: Mobile_Login_InrD)
  next
    case False
    then show ?thesis
      using l q3 that keys_then_NoneD [of H "TrimSpace ?d"]
      by (auto simp: Mobile_Register_def Let_def split: if_splits elim!: call_rt_InrD)
  qed
  have "rt_reportRunning q4 = rt_reportEnabled q4" using q4(2) v3 v2 by (simp add: link_view_def)
  then show ?thesis
    using s q4 v3 v2
    by (auto simp: Mobile_StartReporting_def StartReporting_def link_view_def elim!: call_rt_InrD split: if_splits)
qed

section \<open>Values given by the host are published in the format of the protocol\<close>

lemma host_values_wire:
  "percent_or_unknown P txt = Some v \<Longrightarrow> v = ''-1'' \<or> percent_text v"
  "volume_value P txt = Some v \<Longrightarrow> percent_text v"
  "switch_or_unknown P txt = Some v \<Longrightarrow> v \<in> {''-1'', ''0'', ''1''}"
  "mute_value P txt = Some v \<Longrightarrow> v \<in> {''0'', ''1''}"
  "net_type_value P txt = Some v \<Longrightarrow> v \<in> {''-1'', ''none'', ''wifi'', ''ethernet'', ''cellular'', ''unknown''}"
  by (auto simp: percent_or_unknown_def volume_value_def switch_or_unknown_def mute_value_def net_type_value_def
      Let_def percent_textI split: if_splits option.splits)

text \<open>The injections the host can make, by the metric they report.\<close>

definition injections :: "'w host \<Rightarrow> (string \<times> (string \<Rightarrow> 'w bridge \<Rightarrow> 'w bridge)) list" where
  "injections H = [(MetricBatteryPercent, UpdateBatteryPercent H), (MetricVolumePercent, UpdateVolumePercent H),
     (MetricVolumeMuted, UpdateVolumeMuted H), (MetricBrightnessPercent, UpdateBrightnessPercent H),
     (MetricBatteryCharging, UpdateBatteryCharging H), (MetricBatteryOnAC, UpdateBatteryOnAC H),
     (MetricNetOnline, UpdateNetOnline H), (MetricNetType, UpdateNetType H), (MetricCPUPercent, UpdateCPUPercent H),
     (MetricMemPercent, UpdateMemPercent H), (MetricFlashlightEnabled, UpdateFlashlightEnabled H)]"

lemma inject_cases:
  "inject H m vo b = (case (br_rt b, vo) of (Some r, Some v) \<Rightarrow> b\<lparr>br_rt := Some (UpdateMetric H m v r)\<rparr> | _ \<Rightarrow> b)"
  by (simp add: inject_def split: option.split)

lemma inject_wire:
  assumes "\<And>v. vo = Some v \<Longrightarrow> wire_value m v"
  shows "inject H m vo b = b \<or>
    (\<exists>r v. br_rt b = Some r \<and> wire_value m v \<and> inject H m vo b = b\<lparr>br_rt := Some (UpdateMetric H m v r)\<rparr>)"
  using assms by (cases "br_rt b"; cases vo) (auto simp: inject_def)

lemma injection_wire:
  assumes "(m, f) \<in> set (injections H)"
  shows "f txt b = b \<or>
    (\<exists>r v. br_rt b = Some r \<and> wire_value m v \<and> f txt b = b\<lparr>br_rt := Some (UpdateMetric H m v r)\<rparr>)"
proof -
  have "\<exists>vo. f txt b = inject H m vo b \<and> (\<forall>v. vo = Some v \<longrightarrow> wire_value m v)"
    using assms unfolding injections_def
    by (auto simp: UpdateBatteryPercent_def UpdateVolumePercent_def UpdateVolumeMuted_def UpdateBrightnessPercent_def
        UpdateBatteryCharging_def UpdateBatteryOnAC_def UpdateNetOnline_def UpdateNetType_def UpdateCPUPercent_def
        UpdateMemPercent_def UpdateFlashlightEnabled_def wire_value_def go_defs
        dest!: host_values_wire)
  then show ?thesis using inject_wire [of _ m H b] by metis
qed

end
