(* ===== verification/Presenter.thy ===== *)
theory Presenter
  imports Encoding NotifyEvent
begin

text \<open>
  The texts of \<^verbatim>\<open>windows/notify_presenter.go\<close>: what a notification shows, the
  document of a toast and the PowerShell script of a balloon. Both carry text that comes
  from the hub, so the lemmas say that this text cannot leave its place.
\<close>

section \<open>The presenter and the text of a notification\<close>

definition keyNotifyPresenter :: string where "keyNotifyPresenter = ''notify.presenter''"
definition notifyPresenterScript :: string where "notifyPresenterScript = ''script''"
definition notifyPresenterToast :: string where "notifyPresenterToast = ''toast''"
definition notifyAppID :: string where "notifyAppID = ''MyFlowHub.MetricsNode''"
definition notifyToastGUID :: string where "notifyToastGUID = ''{9F28742B-4D6D-4B0B-9A5C-EC6F79AD29B8}''"

definition normalizeNotifyPresenter :: "('a) platform_scheme \<Rightarrow> string \<Rightarrow> string result" where
  "normalizeNotifyPresenter P mode =
     (let m = ToLower P (TrimSpace mode) in
      if m = [] \<or> m = notifyPresenterScript then Inr notifyPresenterScript
      else if m = notifyPresenterToast then Inr notifyPresenterToast
      else Inl (ErrQ ''unsupported notify presenter'' mode))"

definition notificationText :: "Event \<Rightarrow> (string \<times> string) result" where
  "notificationText evt =
     (let title0 = TrimSpace (ev_Title evt);
          title = (if title0 = [] then ''MyFlowHub Notify'' else title0);
          body0 = TrimSpace (ev_Body evt);
          body1 = (if body0 = [] then TrimSpace (ev_Topic evt) else body0);
          body = (if body1 = [] then TrimSpace (ev_Name evt) else body1)
      in if body = [] then Inl (ErrNew ''notification body is required'') else Inr (title, body))"

section \<open>The document of a toast\<close>

text \<open>The lines of a raw string literal, and text in double quotes.\<close>

abbreviation lines_text :: "string list \<Rightarrow> string" where
  "lines_text \<equiv> join_with [CHR 0x0A]"

abbreviation dq :: "string \<Rightarrow> string" where
  "dq s \<equiv> CHR 0x22 # s @ [CHR 0x22]"

definition toastXML :: "string \<Rightarrow> string \<Rightarrow> string \<Rightarrow> string" where
  "toastXML title body iconPath = lines_text
     [''<?xml version='' @ dq ''1.0'' @ '' encoding='' @ dq ''UTF-8'' @ ''?>'',
      ''<toast activationType='' @ dq ''foreground'' @ '' duration='' @ dq ''short'' @ ''>'',
      ''  <visual>'',
      ''    <binding template='' @ dq ''ToastGeneric'' @ ''>'',
      ''      <image placement='' @ dq ''appLogoOverride'' @ '' src='' @ dq (html_escape iconPath) @ '' hint-crop='' @
        dq ''square'' @ '' />'',
      ''      <text hint-maxLines='' @ dq ''1'' @ ''>'' @ html_escape title @ ''</text>'',
      ''      <text>'' @ html_escape body @ ''</text>'',
      ''    </binding>'',
      ''  </visual>'',
      ''  <audio src='' @ dq ''ms-winsoundevent:Notification.Default'' @ '' />'',
      ''</toast>'']"

section \<open>The script of a balloon\<close>

abbreviation sq :: "string \<Rightarrow> string" where
  "sq s \<equiv> CHR 0x27 # s @ [CHR 0x27]"

definition notifyIconScript :: "string \<Rightarrow> string \<Rightarrow> string" where
  "notifyIconScript title body = lines_text
     [[],
      ''$ErrorActionPreference = '' @ sq ''Stop'',
      ''Add-Type -AssemblyName System.Windows.Forms'',
      ''Add-Type -AssemblyName System.Drawing'',
      ''$title = [System.Text.Encoding]::UTF8.GetString([System.Convert]::FromBase64String('' @
        sq (base64_encode title) @ ''))'',
      ''$body = [System.Text.Encoding]::UTF8.GetString([System.Convert]::FromBase64String('' @
        sq (base64_encode body) @ ''))'',
      ''$n = New-Object System.Windows.Forms.NotifyIcon'',
      ''$n.Icon = [System.Drawing.SystemIcons]::Information'',
      ''$n.BalloonTipTitle = $title'',
      ''$n.BalloonTipText = $body'',
      ''$n.Visible = $true'',
      ''$n.ShowBalloonTip(5000)'',
      ''Start-Sleep -Milliseconds 5500'',
      ''$n.Dispose()'',
      []]"

text \<open>The encoding PowerShell expects: Base64 of the little-endian UTF-16 text.\<close>

definition encodePowerShellCommand :: "string \<Rightarrow> string" where
  "encodePowerShellCommand txt = base64_encode (utf16_bytes txt)"

section \<open>Text from the hub stays in its place\<close>

text \<open>A text cut at every occurrence of a character.\<close>

fun cut_at :: "char \<Rightarrow> string \<Rightarrow> string list" where
  "cut_at c [] = [[]]"
| "cut_at c (x # xs) = (if x = c then [] # cut_at c xs else (case cut_at c xs of [] \<Rightarrow> [[x]] | p # ps \<Rightarrow> (x # p) # ps))"

lemma cut_at_free: "c \<notin> set s \<Longrightarrow> cut_at c s = [s]"
  by (induction s) auto

lemma cut_at_append: "c \<notin> set s \<Longrightarrow> cut_at c (s @ c # t) = s # cut_at c t"
  by (induction s) auto

lemma cut_at_join: "ps \<noteq> [] \<Longrightarrow> (\<forall>p\<in>set ps. c \<notin> set p) \<Longrightarrow> cut_at c (join_with [c] ps) = ps"
  by (induction ps) (auto simp: cut_at_free cut_at_append)

lemma normalizeNotifyPresenter_cases:
  "normalizeNotifyPresenter P mode = Inr m \<Longrightarrow> m = notifyPresenterScript \<or> m = notifyPresenterToast"
  by (auto simp: normalizeNotifyPresenter_def Let_def split: if_splits)

lemma notificationText_ok:
  assumes "notificationText evt = Inr (title, body)"
  shows "title \<noteq> [] \<and> body \<noteq> [] \<and> trimmed title \<and> trimmed body"
proof -
  have "trimmed ''MyFlowHub Notify''" by (simp add: graphic_ends_trimmed graphic_def)
  then show ?thesis
    using assms by (auto simp: notificationText_def Let_def split: if_splits)
qed

text \<open>An ASCII text is encoded byte by byte.\<close>

lemma runes_ascii: "(\<And>c. c \<in> set s \<Longrightarrow> byte c < 0x80) \<Longrightarrow> runes s = map byte s"
proof (induction s)
  case (Cons c s)
  then have "utf8_len (c # s) = 1" by simp
  then show ?case using Cons by (subst runes.simps) (simp add: rune_val_def Let_def)
qed (subst runes.simps, simp)

lemma byte_small: "byte c < 0x10000"
proof -
  have "byte c < 256" by simp
  then show ?thesis by linarith
qed

lemma utf16_ascii:
  assumes "\<And>c. c \<in> set s \<Longrightarrow> byte c < 0x80"
  shows "utf16_bytes s = concat (map (\<lambda>c. [c, CHR 0x00]) s)"
proof -
  have "map utf16_units (map byte s) = map (\<lambda>c. [byte c]) s"
    by (simp add: utf16_units_def byte_small)
  then have "concat (map utf16_units (runes s)) = map byte s"
    by (simp only: runes_ascii [OF assms]) (simp add: concat_map_singleton)
  moreover have "char_of (0::nat) = CHR 0x00" by (rule iffD2 [OF char_of_eq_iff]) simp
  ultimately show ?thesis by (simp add: utf16_bytes_def comp_def)
qed

text \<open>
  Whatever the notification says, the document has the tags of an empty toast: icon, title
  and body only fill their places, escaped.
\<close>

definition toast_parts :: "string \<Rightarrow> string \<Rightarrow> string \<Rightarrow> string list" where
  "toast_parts title body icon =
     [[], ''?xml version='' @ dq ''1.0'' @ '' encoding='' @ dq ''UTF-8'' @ ''?>'' @ [CHR 0x0A],
      ''toast activationType='' @ dq ''foreground'' @ '' duration='' @ dq ''short'' @ ''>'' @ CHR 0x0A # ''  '',
      ''visual>'' @ CHR 0x0A # ''    '',
      ''binding template='' @ dq ''ToastGeneric'' @ ''>'' @ CHR 0x0A # ''      '',
      ''image placement='' @ dq ''appLogoOverride'' @ '' src='' @ dq icon @ '' hint-crop='' @
        dq ''square'' @ '' />'' @ CHR 0x0A # ''      '',
      ''text hint-maxLines='' @ dq ''1'' @ ''>'' @ title, ''/text>'' @ CHR 0x0A # ''      '',
      ''text>'' @ body, ''/text>'' @ CHR 0x0A # ''    '',
      ''/binding>'' @ CHR 0x0A # ''  '', ''/visual>'' @ CHR 0x0A # ''  '',
      ''audio src='' @ dq ''ms-winsoundevent:Notification.Default'' @ '' />'' @ [CHR 0x0A], ''/toast>'']"

lemma toastXML_parts:
  "toastXML title body icon =
     join_with [CHR 0x3C] (toast_parts (html_escape title) (html_escape body) (html_escape icon))"
  by (simp add: toastXML_def toast_parts_def)

lemma toast_markup:
  "cut_at (CHR 0x3C) (toastXML title body icon) =
     toast_parts (html_escape title) (html_escape body) (html_escape icon)"
proof -
  have [simp]: "CHR 0x3C \<notin> set (html_escape s)" for s by (rule html_escape_safe)
  show ?thesis unfolding toastXML_parts by (rule cut_at_join) (simp_all add: toast_parts_def)
qed

text \<open>The same for the script: the notification is only in two literals, which decode to it.\<close>

definition script_parts :: "string \<Rightarrow> string \<Rightarrow> string list" where
  "script_parts title body =
     [CHR 0x0A # ''$ErrorActionPreference = '', ''Stop'',
      CHR 0x0A # ''Add-Type -AssemblyName System.Windows.Forms'' @
        CHR 0x0A # ''Add-Type -AssemblyName System.Drawing'' @
        CHR 0x0A # ''$title = [System.Text.Encoding]::UTF8.GetString([System.Convert]::FromBase64String('',
      title,
      ''))'' @ CHR 0x0A # ''$body = [System.Text.Encoding]::UTF8.GetString([System.Convert]::FromBase64String('',
      body,
      ''))'' @ CHR 0x0A # ''$n = New-Object System.Windows.Forms.NotifyIcon'' @
        CHR 0x0A # ''$n.Icon = [System.Drawing.SystemIcons]::Information'' @
        CHR 0x0A # ''$n.BalloonTipTitle = $title'' @ CHR 0x0A # ''$n.BalloonTipText = $body'' @
        CHR 0x0A # ''$n.Visible = $true'' @ CHR 0x0A # ''$n.ShowBalloonTip(5000)'' @
        CHR 0x0A # ''Start-Sleep -Milliseconds 5500'' @ CHR 0x0A # ''$n.Dispose()'' @ [CHR 0x0A]]"

lemma notifyIconScript_parts:
  "notifyIconScript title body = join_with [CHR 0x27] (script_parts (base64_encode title) (base64_encode body))"
  by (simp add: notifyIconScript_def script_parts_def)

lemma base64_no_quote [simp]: "CHR 0x27 \<notin> set (base64_encode s)"
  using base64_encode_chars [of _ s] b64_text_char_graphic(5) by blast

lemma script_literals:
  "cut_at (CHR 0x27) (notifyIconScript title body) = script_parts (base64_encode title) (base64_encode body)"
  unfolding notifyIconScript_parts by (rule cut_at_join) (simp_all add: script_parts_def)

lemma base64_ascii [simp]: "list_all (\<lambda>c. byte c < 0x80) (base64_encode s)"
  using base64_encode_chars b64_text_char_graphic(2) by (auto simp: list_all_iff)

lemma list_all_join: "list_all P sep \<Longrightarrow> list_all (list_all P) ps \<Longrightarrow> list_all P (join_with sep ps)"
  by (induction ps) auto

lemma notifyIconScript_ascii: "c \<in> set (notifyIconScript title body) \<Longrightarrow> byte c < 0x80"
proof -
  have "list_all (\<lambda>c. byte c < 0x80) (notifyIconScript title body)"
    unfolding notifyIconScript_parts by (rule list_all_join) (simp_all add: script_parts_def)
  then show "c \<in> set (notifyIconScript title body) \<Longrightarrow> byte c < 0x80" by (simp add: list_all_iff)
qed

text \<open>What PowerShell decodes is the script, two bytes for each character.\<close>

lemma encoded_script:
  "base64_decode (encodePowerShellCommand (notifyIconScript title body)) =
     Inr (concat (map (\<lambda>c. [c, CHR 0x00]) (notifyIconScript title body)))"
  by (simp only: encodePowerShellCommand_def base64_decode_encode utf16_ascii [OF notifyIconScript_ascii])

end
