(* ===== verification/WinApp.thy ===== *)
theory WinApp
  imports Bridge Presenter
begin

text \<open>
  The Windows application without its window: \<^verbatim>\<open>windows/app.go\<close>,
  \<^verbatim>\<open>windows/app_api.go\<close> (what the user interface calls) and the rest of
  \<^verbatim>\<open>windows/notify_presenter.go\<close>. The application holds the runtime and a second
  configuration store with the address of the hub, the device and the presenter.
\<close>

section \<open>The application\<close>

text \<open>
  As for the bridge, disk and world are the runtime's while there is one; \<open>app_disk\<close> and
  \<open>app_world\<close> are those of an application whose runtime could not start.
\<close>

record 'w app =
  app_rt :: "'w runtime option"
  app_boot :: "store option"
  app_icon :: string
  app_disk :: disk
  app_world :: 'w

text \<open>Toasts, the embedded image and running a command are not code of the repository.\<close>

record command_end =
  ce_ctx :: "go_error option"
  ce_err :: "go_error option"
  ce_output :: string

record 'w desktop =
  notifyLogoPNG :: string
  SetAppData :: "string \<Rightarrow> string \<Rightarrow> string \<Rightarrow> string \<Rightarrow> 'w \<Rightarrow> go_error option \<times> 'w"
  toast_push :: "string \<Rightarrow> string \<Rightarrow> 'w \<Rightarrow> go_error option \<times> 'w"
  run_command :: "string list \<Rightarrow> 'w \<Rightarrow> command_end \<times> 'w"

definition disk_of :: "'w app \<Rightarrow> disk" where
  "disk_of a = (case app_rt a of None \<Rightarrow> app_disk a | Some r \<Rightarrow> rt_disk r)"

definition put_disk :: "disk \<Rightarrow> 'w app \<Rightarrow> 'w app" where
  "put_disk d a = (case app_rt a of None \<Rightarrow> a\<lparr>app_disk := d\<rparr> | Some r \<Rightarrow> a\<lparr>app_rt := Some (r\<lparr>rt_disk := d\<rparr>)\<rparr>)"

definition world_of :: "'w app \<Rightarrow> 'w" where
  "world_of a = (case app_rt a of None \<Rightarrow> app_world a | Some r \<Rightarrow> rt_world r)"

definition put_world :: "'w \<Rightarrow> 'w app \<Rightarrow> 'w app" where
  "put_world w a = (case app_rt a of None \<Rightarrow> a\<lparr>app_world := w\<rparr> | Some r \<Rightarrow> a\<lparr>app_rt := Some (r\<lparr>rt_world := w\<rparr>)\<rparr>)"

text \<open>Reading and writing the second store; \<open>boot_text\<close> is \<^verbatim>\<open>v, _ := boot.Get(key)\<close>.\<close>

definition boot_text :: "string \<Rightarrow> 'w app \<Rightarrow> string" where
  "boot_text key a = (case app_boot a of None \<Rightarrow> [] | Some s \<Rightarrow> (case Store_Get key s of None \<Rightarrow> [] | Some v \<Rightarrow> v))"

definition boot_set :: "'w host \<Rightarrow> string \<Rightarrow> string \<Rightarrow> 'w app \<Rightarrow> go_error option \<times> 'w app" where
  "boot_set H key v a =
     (case app_boot a of
        None \<Rightarrow> (Some (ErrNew ''bootstrap config not initialized''), a)
      | Some s \<Rightarrow> (let (e, s1, d) = Store_Set H key v s (disk_of a) in (e, put_disk d (a\<lparr>app_boot := Some s1\<rparr>))))"

text \<open>\<^verbatim>\<open>if boot != nil { _ = boot.Set(key, v) }\<close>\<close>

definition boot_note :: "'w host \<Rightarrow> string \<Rightarrow> string \<Rightarrow> 'w app \<Rightarrow> 'w app" where
  "boot_note H key v a = (if app_boot a = None then a else snd (boot_set H key v a))"

definition not_initialized :: go_error where
  "not_initialized = ErrNew ''runtime not initialized''"

definition with_rt :: "('w runtime \<Rightarrow> 'a result \<times> 'w runtime) \<Rightarrow> 'w app \<Rightarrow> 'a result \<times> 'w app" where
  "with_rt f a =
     (case app_rt a of
        None \<Rightarrow> (Inl not_initialized, a)
      | Some r \<Rightarrow> (let (x, r1) = f r in (x, a\<lparr>app_rt := Some r1\<rparr>)))"

definition result_of :: "go_error option \<times> 's \<Rightarrow> unit result \<times> 's" where
  "result_of x = (case x of (Some e, s) \<Rightarrow> (Inl e, s) | (None, s) \<Rightarrow> (Inr (), s))"

definition silently :: "('w runtime \<Rightarrow> 'w runtime) \<Rightarrow> 'w app \<Rightarrow> 'w app" where
  "silently f a = a\<lparr>app_rt := map_option f (app_rt a)\<rparr>"

section \<open>Starting (app.go)\<close>

definition generateDeviceID :: "'w host \<Rightarrow> string \<Rightarrow> 'w \<Rightarrow> string result \<times> 'w" where
  "generateDeviceID H label w =
     (case rand_bytes (crypt H) 12 w of
        (Inl e, w1) \<Rightarrow> (Inl e, w1)
      | (Inr b, w1) \<Rightarrow>
          let p = TrimSpace label
          in (Inr (if p = [] then hex_text b else p @ ''-'' @ hex_text b), w1))"

definition sameFileContent :: "string \<Rightarrow> string \<Rightarrow> disk \<Rightarrow> bool \<times> disk" where
  "sameFileContent path want d = (let (got, d1) = ReadFile path d in (got = Inr want, d1))"

definition ensureNotifyIcon :: "'w host \<Rightarrow> 'w desktop \<Rightarrow> string \<Rightarrow> disk \<Rightarrow> string result \<times> disk" where
  "ensureNotifyIcon H D workDir0 d =
     (let workDir = TrimSpace workDir0 in
      if workDir = [] then (Inl (ErrNew ''workDir is required''), d)
      else
        let iconDir = path_join H workDir ''assets'' in
        case MkdirAll d of
          (Some e, d1) \<Rightarrow> (Inl e, d1)
        | (None, d1) \<Rightarrow>
            let iconPath = path_join H iconDir ''notify-logo.png'';
                (same, d2) = sameFileContent iconPath (notifyLogoPNG D) d1
            in if same then (Inr iconPath, d2)
               else case WriteFile iconPath (notifyLogoPNG D) d2 of
                 (Some e, d3) \<Rightarrow> (Inl e, d3)
               | (None, d3) \<Rightarrow> (Inr iconPath, d3))"

definition boot_defaults :: "string \<Rightarrow> (string, string) gomap" where
  "boot_defaults deviceID = [(''hub.addr'', ''127.0.0.1:9000''), (''auth.device_id'', deviceID),
     (keyNotifyPresenter, notifyPresenterScript)]"

text \<open>A store that is read back without a device gets a fresh one.\<close>

definition refill_device :: "'w host \<Rightarrow> 'w app \<Rightarrow> 'w app" where
  "refill_device H a =
     (if TrimSpace (boot_text ''auth.device_id'' a) = [] then
        (case generateDeviceID H ''win'' (world_of a) of
           (Inl _, w) \<Rightarrow> put_world w a
         | (Inr dev, w) \<Rightarrow> snd (boot_set H ''auth.device_id'' dev (put_world w a)))
      else a)"

definition startup :: "'w host \<Rightarrow> 'w desktop \<Rightarrow> 'w app \<Rightarrow> 'w app" where
  "startup H D a =
     (if app_rt a \<noteq> None then a
      else case New H ''config'' (app_disk a) (app_world a) of
        (Inl e, d) \<Rightarrow> a\<lparr>app_disk := d\<rparr>
      | (Inr r, _) \<Rightarrow>
          let (dev, w) = generateDeviceID H ''win'' (rt_world r);
              a1 = a\<lparr>app_rt := Some (r\<lparr>rt_world := w\<rparr>)\<rparr>
          in case Store_New H (path_join H (rt_workDir r) ''bootstrap.json'')
                    (boot_defaults (case dev of Inl _ \<Rightarrow> [] | Inr x \<Rightarrow> x)) (disk_of a1) of
               (Inl e, d) \<Rightarrow> put_disk d a1
             | (Inr s, d) \<Rightarrow>
                 let a2 = refill_device H (put_disk d (a1\<lparr>app_boot := Some s\<rparr>));
                     (icon, d1) = ensureNotifyIcon H D (rt_workDir r) (disk_of a2);
                     a3 = put_disk d1 a2
                 in (case icon of Inl _ \<Rightarrow> a3 | Inr path \<Rightarrow> a3\<lparr>app_icon := path\<rparr>))"

section \<open>Status and bootstrap (app\_api.go)\<close>

record BootstrapDTO =
  bd_Addr :: string
  bd_DeviceID :: string

record StatusDTO =
  so_WorkDir :: string
  so_Connected :: bool
  so_Addr :: string
  so_Reporting :: bool
  so_Notify :: bool
  so_Auth :: AuthSnapshot
  so_Metrics :: "string \<rightharpoonup> string"
  so_LastError :: string

definition App_Status :: "'w app \<Rightarrow> StatusDTO" where
  "App_Status a =
     (case app_rt a of
        None \<Rightarrow> \<lparr>so_WorkDir = [], so_Connected = False, so_Addr = [], so_Reporting = False, so_Notify = False,
          so_Auth = zero_auth, so_Metrics = Map.empty, so_LastError = ''runtime not initialized''\<rparr>
      | Some r \<Rightarrow>
          let addr = (if TrimSpace (rt_addr r) = [] then
                (case app_boot a of None \<Rightarrow> rt_addr r
                 | Some s \<Rightarrow> (case Store_Get ''hub.addr'' s of None \<Rightarrow> rt_addr r | Some v \<Rightarrow> v))
                else rt_addr r)
          in \<lparr>so_WorkDir = rt_workDir r, so_Connected = rt_connected r, so_Addr = TrimSpace addr,
               so_Reporting = rt_reportEnabled r, so_Notify = rt_notifyRunning r, so_Auth = rt_auth r,
               so_Metrics = MetricsSnapshot r, so_LastError = rt_lastErr r\<rparr>)"

definition BootstrapGet :: "'w app \<Rightarrow> BootstrapDTO" where
  "BootstrapGet a = \<lparr>bd_Addr = boot_text ''hub.addr'' a, bd_DeviceID = boot_text ''auth.device_id'' a\<rparr>"

definition BootstrapSet :: "'w host \<Rightarrow> BootstrapDTO \<Rightarrow> 'w app \<Rightarrow> go_error option \<times> 'w app" where
  "BootstrapSet H input a =
     (if app_boot a = None then (Some (ErrNew ''bootstrap config not initialized''), a)
      else
        let set_nonempty = (\<lambda>key v a. if TrimSpace v \<noteq> [] then boot_set H key (TrimSpace v) a else (None, a))
        in case set_nonempty ''hub.addr'' (bd_Addr input) a of
             (Some e, a1) \<Rightarrow> (Some e, a1)
           | (None, a1) \<Rightarrow> set_nonempty ''auth.device_id'' (bd_DeviceID input) a1)"

section \<open>Session\<close>

text \<open>An argument left empty is taken from the second store.\<close>

definition or_boot :: "string \<Rightarrow> string \<Rightarrow> 'w app \<Rightarrow> string" where
  "or_boot key v a = (if TrimSpace v = [] then TrimSpace (boot_text key a) else TrimSpace v)"

definition App_Connect :: "'w host \<Rightarrow> string \<Rightarrow> 'w app \<Rightarrow> unit result \<times> 'w app" where
  "App_Connect H addr0 a =
     (let addr = or_boot ''hub.addr'' addr0 a in
      if app_rt a = None then (Inl not_initialized, a)
      else if addr = [] then (Inl (ErrNew ''addr is required''), a)
      else case with_rt (\<lambda>r. result_of (Connect H addr r)) a of
        (Inl e, a1) \<Rightarrow> (Inl e, a1)
      | (Inr _, a1) \<Rightarrow> (Inr (), boot_note H ''hub.addr'' addr a1))"

definition App_Disconnect :: "'w host \<Rightarrow> 'w app \<Rightarrow> 'w app" where
  "App_Disconnect H a = silently (Close H) a"

definition App_EnsureKeys :: "'w host \<Rightarrow> 'w app \<Rightarrow> string result \<times> 'w app" where
  "App_EnsureKeys H a = with_rt (EnsureKeys H) a"

definition App_ClearAuth :: "'w host \<Rightarrow> 'w app \<Rightarrow> unit result \<times> 'w app" where
  "App_ClearAuth H a = with_rt (\<lambda>r. result_of (ClearAuth H r)) a"

definition auth_now :: "'w app \<Rightarrow> AuthSnapshot" where
  "auth_now a = (case app_rt a of None \<Rightarrow> zero_auth | Some r \<Rightarrow> rt_auth r)"

definition App_Register :: "'w host \<Rightarrow> string \<Rightarrow> 'w app \<Rightarrow> AuthSnapshot result \<times> 'w app" where
  "App_Register H deviceID0 a =
     (let deviceID = or_boot ''auth.device_id'' deviceID0 a in
      if app_rt a = None then (Inl not_initialized, a)
      else if deviceID = [] then (Inl (ErrNew ''device_id is required''), a)
      else case with_rt (Register H deviceID) a of
        (Inl e, a1) \<Rightarrow> (Inl e, a1)
      | (Inr _, a1) \<Rightarrow> let a2 = boot_note H ''auth.device_id'' deviceID a1 in (Inr (auth_now a2), a2))"

definition App_Login :: "'w host \<Rightarrow> string \<Rightarrow> u32 \<Rightarrow> 'w app \<Rightarrow> AuthSnapshot result \<times> 'w app" where
  "App_Login H deviceID0 nodeID0 a =
     (let deviceID = or_boot ''auth.device_id'' deviceID0 a;
          nodeID = (if nodeID0 = 0 then NodeID (auth_now a) else nodeID0) in
      if app_rt a = None then (Inl not_initialized, a)
      else if deviceID = [] then (Inl (ErrNew ''device_id is required''), a)
      else if nodeID = 0 then (Inl (ErrNew ''node_id is required''), a)
      else case with_rt (Login H deviceID nodeID) a of
        (Inl e, a1) \<Rightarrow> (Inl e, a1)
      | (Inr _, a1) \<Rightarrow> let a2 = boot_note H ''auth.device_id'' deviceID a1 in (Inr (auth_now a2), a2))"

section \<open>Reports, settings and notifications\<close>

definition App_StartReporting :: "'w app \<Rightarrow> unit result \<times> 'w app" where
  "App_StartReporting a = with_rt (\<lambda>r. result_of (StartReporting r)) a"

definition App_StopReporting :: "'w app \<Rightarrow> 'w app" where
  "App_StopReporting a = silently StopReporting a"

definition set_shown_field :: "string \<Rightarrow> json \<Rightarrow> MetricSetting \<Rightarrow> MetricSetting option" where
  "set_shown_field n v s =
     (if n = ''metric'' then map_option (\<lambda>x. s\<lparr>ms_Metric := x\<rparr>) (dec_string v (ms_Metric s))
      else if n = ''var_name'' then map_option (\<lambda>x. s\<lparr>ms_VarName := x\<rparr>) (dec_string v (ms_VarName s))
      else if n = ''enabled'' then map_option (\<lambda>x. s\<lparr>ms_Enabled := x\<rparr>) (dec_bool v (ms_Enabled s))
      else map_option (\<lambda>x. s\<lparr>ms_Writable := x\<rparr>) (dec_bool v (ms_Writable s)))"

definition dec_shown_settings :: "json \<Rightarrow> MetricSetting list option" where
  "dec_shown_settings = dec_slice (dec_struct [''metric'', ''var_name'', ''enabled'', ''writable''] set_shown_field
     \<lparr>ms_Metric = [], ms_VarName = [], ms_Enabled = False, ms_Writable = False\<rparr>)"

definition App_MetricsSettingsGet :: "'w app \<Rightarrow> MetricSetting list result" where
  "App_MetricsSettingsGet a =
     (case app_rt a of
        None \<Rightarrow> Inl not_initialized
      | Some r \<Rightarrow> (case RuntimeConfigGet KeyMetricsSettingsJSON r of
          None \<Rightarrow> Inr []
        | Some raw \<Rightarrow> if TrimSpace raw = [] then Inr [] else unmarshal dec_shown_settings raw))"

definition App_MetricsSettingsSet :: "'w host \<Rightarrow> MetricSetting list \<Rightarrow> 'w app \<Rightarrow> unit result \<times> 'w app" where
  "App_MetricsSettingsSet H ss a =
     with_rt (\<lambda>r. result_of (RuntimeConfigSet H KeyMetricsSettingsJSON (marshal_settings ss) r)) a"

definition App_NotifySettingsGet :: "'w app \<Rightarrow> TopicSetting list result" where
  "App_NotifySettingsGet a = (case app_rt a of None \<Rightarrow> Inl not_initialized | Some r \<Rightarrow> Inr (NotifySettingsGet r))"

definition App_NotifySettingsSet :: "'w host \<Rightarrow> TopicSetting list \<Rightarrow> 'w app \<Rightarrow> unit result \<times> 'w app" where
  "App_NotifySettingsSet H ts a = with_rt (\<lambda>r. result_of (NotifySettingsSet H ts r)) a"

definition App_StartNotify :: "'w host \<Rightarrow> 'w app \<Rightarrow> unit result \<times> 'w app" where
  "App_StartNotify H a = with_rt (\<lambda>r. result_of (StartNotify H r)) a"

definition App_StopNotify :: "'w app \<Rightarrow> 'w app" where
  "App_StopNotify a = silently StopNotify a"

definition App_DequeueNotifications :: "'w app \<Rightarrow> Event list result \<times> 'w app" where
  "App_DequeueNotifications a = with_rt (\<lambda>r. let (es, r1) = DequeueNotifications r in (Inr es, r1)) a"

section \<open>Showing a notification (notify\_presenter.go)\<close>

definition NotifyPresenterGet :: "'w host \<Rightarrow> 'w app \<Rightarrow> string \<times> 'w app" where
  "NotifyPresenterGet H a =
     (if app_boot a = None then (notifyPresenterScript, a)
      else case normalizeNotifyPresenter H (boot_text keyNotifyPresenter a) of
        Inr mode \<Rightarrow> (mode, a)
      | Inl _ \<Rightarrow> (notifyPresenterScript, snd (boot_set H keyNotifyPresenter notifyPresenterScript a)))"

definition NotifyPresenterSet :: "'w host \<Rightarrow> string \<Rightarrow> 'w app \<Rightarrow> go_error option \<times> 'w app" where
  "NotifyPresenterSet H mode0 a =
     (case normalizeNotifyPresenter H mode0 of
        Inl e \<Rightarrow> (Some e, a)
      | Inr mode \<Rightarrow> boot_set H keyNotifyPresenter mode a)"

definition script_command :: "string \<Rightarrow> string \<Rightarrow> string list" where
  "script_command title body = [''powershell'', ''-NoProfile'', ''-ExecutionPolicy'', ''Bypass'', ''-WindowStyle'',
     ''Hidden'', ''-EncodedCommand'', encodePowerShellCommand (notifyIconScript title body)]"

definition showScriptNotification ::
  "'w host \<Rightarrow> 'w desktop \<Rightarrow> string \<Rightarrow> string \<Rightarrow> 'w \<Rightarrow> go_error option \<times> 'w" where
  "showScriptNotification H D title body w =
     (let (out, w1) = run_command D (script_command title body) w in
      (case ce_ctx out of
         Some e \<Rightarrow> Some (ErrWrap ''show notification timed out'' e)
       | None \<Rightarrow>
           (case ce_err out of
              None \<Rightarrow> None
            | Some e \<Rightarrow>
                let msg = TrimSpace (ce_output out)
                in Some (if msg = [] then e else ErrNew (error_text H e @ '': '' @ msg))), w1))"

definition showToastNotification ::
  "'w host \<Rightarrow> 'w desktop \<Rightarrow> string \<Rightarrow> string \<Rightarrow> 'w app \<Rightarrow> go_error option \<times> 'w app" where
  "showToastNotification H D title body a =
     (let icon = TrimSpace (app_icon a);
          (found, a1) = (if icon = [] \<and> app_rt a \<noteq> None then
              (let (res, d) = ensureNotifyIcon H D (case app_rt a of None \<Rightarrow> [] | Some r \<Rightarrow> rt_workDir r) (disk_of a);
                   b = put_disk d a
               in (res, case res of Inl _ \<Rightarrow> b | Inr path \<Rightarrow> b\<lparr>app_icon := path\<rparr>))
            else (Inr icon, a))
      in case found of
           Inl e \<Rightarrow> (Some e, a1)
         | Inr iconPath \<Rightarrow>
             if iconPath = [] then (Some (ErrNew ''notify icon path is required''), a1)
             else case SetAppData D notifyAppID notifyToastGUID iconPath (CHR 0x23 # ''172436'') (world_of a1) of
               (Some e, w) \<Rightarrow> (Some e, put_world w a1)
             | (None, w) \<Rightarrow>
                 let (e, w1) = toast_push D notifyAppID (toastXML title body iconPath) w
                 in (e, put_world w1 a1))"

definition ShowNotification :: "'w host \<Rightarrow> 'w desktop \<Rightarrow> Event \<Rightarrow> 'w app \<Rightarrow> go_error option \<times> 'w app" where
  "ShowNotification H D evt a =
     (case notificationText evt of
        Inl e \<Rightarrow> (Some e, a)
      | Inr (title, body) \<Rightarrow>
          let (mode, a1) = NotifyPresenterGet H a in
          if mode = notifyPresenterToast then showToastNotification H D title body a1
          else if mode = notifyPresenterScript then
            let (e, w) = showScriptNotification H D title body (world_of a1) in (e, put_world w a1)
          else (Some (ErrQ ''unsupported notify presenter'' mode), a1))"

section \<open>What the second store remembers\<close>

lemma put_disk_fields [simp]:
  "app_boot (put_disk d a) = app_boot a" "app_icon (put_disk d a) = app_icon a"
  "app_rt (put_disk d a) = map_option (rt_disk_update (\<lambda>_. d)) (app_rt a)"
  by (auto simp: put_disk_def split: option.split)

lemma boot_set_boot: "app_boot (snd (boot_set H k v a)) = map_option (put k v) (app_boot a)"
proof (cases "app_boot a")
  case (Some s)
  then show ?thesis using Store_Set_put [of H k v s "disk_of a"]
    by (cases "Store_Set H k v s (disk_of a)") (simp add: boot_set_def)
qed (simp add: boot_set_def)

lemma boot_set_rt: "\<exists>d. app_rt (snd (boot_set H k v a)) = map_option (rt_disk_update (\<lambda>_. d)) (app_rt a)"
proof -
  have "map_option (rt_disk_update (\<lambda>_. disk_of a)) (app_rt a) = app_rt a"
    by (cases "app_rt a") (simp_all add: disk_of_def)
  then show ?thesis by (auto simp: boot_set_def split: option.split prod.split) metis
qed

lemma boot_text_set:
  "app_boot a \<noteq> None \<Longrightarrow> TrimSpace k \<noteq> [] \<Longrightarrow>
     boot_text k' (snd (boot_set H k v a)) = (if TrimSpace k' = TrimSpace k then v else boot_text k' a)"
  by (auto simp: boot_text_def boot_set_boot cs.get_set)

lemma boot_text_cong: "app_boot a' = app_boot a \<Longrightarrow> boot_text k a' = boot_text k a"
  by (simp add: boot_text_def)

lemma boot_keys [simp]:
  "TrimSpace ''hub.addr'' = ''hub.addr''" "TrimSpace ''auth.device_id'' = ''auth.device_id''"
  "TrimSpace keyNotifyPresenter = keyNotifyPresenter" "keyNotifyPresenter \<noteq> []"
  by (rule TrimSpace_graphic; simp add: graphic_def keyNotifyPresenter_def)+ (simp add: keyNotifyPresenter_def)

lemma with_rt_InrD:
  assumes "with_rt f a = (Inr x, a')"
  obtains r r1 where "app_rt a = Some r" "f r = (Inr x, r1)" "a' = a\<lparr>app_rt := Some r1\<rparr>"
  using assms that by (auto simp: with_rt_def split: option.splits prod.splits)

lemma result_of_Inr: "result_of x = (Inr u, s) \<longleftrightarrow> x = (None, s)"
  by (cases x) (auto simp: result_of_def split: option.splits)

text \<open>The argument of a call that succeeded is the default of the next call.\<close>

lemma boot_note_next:
  assumes "app_boot a \<noteq> None" and "TrimSpace k = k" and "k \<noteq> []" and "TrimSpace v = v"
  shows "or_boot k [] (boot_note H k v a) = v"
  using assms by (cases "app_boot a") (simp_all add: or_boot_def boot_note_def boot_text_set)

lemma App_Connect_ok:
  assumes "App_Connect H addr a = (Inr u, a')" and "app_boot a \<noteq> None"
  shows "\<exists>r. app_rt a' = Some r \<and> rt_connected r \<and> rt_addr r = or_boot ''hub.addr'' addr a \<and>
    so_Connected (App_Status a') \<and> so_Addr (App_Status a') = or_boot ''hub.addr'' addr a \<and>
    or_boot ''hub.addr'' [] a' = or_boot ''hub.addr'' addr a"
proof -
  let ?x = "or_boot ''hub.addr'' addr a"
  obtain res a1 where w: "with_rt (\<lambda>r. result_of (Connect H ?x r)) a = (res, a1)" by force
  have c: "with_rt (\<lambda>r. result_of (Connect H ?x r)) a = (Inr (), a1)" and a': "a' = boot_note H ''hub.addr'' ?x a1"
    and x: "?x \<noteq> []"
    using assms(1) w by (cases res; simp add: App_Connect_def Let_def split: if_splits)+
  from c obtain r r1 where r: "app_rt a = Some r" "Connect H ?x r = (None, r1)" "a1 = a\<lparr>app_rt := Some r1\<rparr>"
    by (auto simp: result_of_Inr elim: with_rt_InrD)
  have t: "TrimSpace ?x = ?x" by (simp add: or_boot_def)
  have "or_boot ''hub.addr'' [] a' = ?x" unfolding a' by (rule boot_note_next) (use assms(2) r t in simp_all)
  moreover obtain d where "app_rt a' = Some (r1\<lparr>rt_disk := d\<rparr>)"
    using boot_set_rt [of H "''hub.addr''" ?x a1] assms(2) r by (auto simp: a' boot_note_def)
  ultimately show ?thesis
    using Connect_connected [OF r(2)] t x by (auto simp: App_Status_def Let_def)
qed

section \<open>The settings shown are those in force\<close>

lemma dec_shown_marshal:
  assumes w: "settings_wf goos ss" shows "unmarshal dec_shown_settings (marshal_settings ss) = Inr ss"
proof -
  have "json_ok (JArr (map setting_json ss))"
    using settings_wf_entry [OF w] by (auto simp: setting_json_def list_all_iff valid_utf8_all_ascii)
  moreover have "json_depth (JArr (map setting_json ss)) \<le> max_depth"
    by (rule json_depth_flat [THEN order_trans [of _ 2]]) (auto simp: setting_json_def max_depth_def)
  moreover have "dec_shown_settings (JArr (map setting_json ss)) = Some ss"
    using those_map_Some [of ss _ setting_json "\<lambda>s. s"]
    by (simp add: dec_shown_settings_def setting_json_def field_named_def set_shown_field_def)
  ultimately show ?thesis unfolding marshal_settings_def by (rule unmarshal_print)
qed

text \<open>A successful set stores the settings in force in their normal form.\<close>

lemma RuntimeConfigSet_settings_text:
  assumes "RuntimeConfigSet H KeyMetricsSettingsJSON val r = (None, r')"
  shows "RuntimeConfigGet KeyMetricsSettingsJSON r' = Some (marshal_settings (cfg_Settings (rt_cfg r')))"
proof -
  obtain v r1 where chk: "checked_value H KeyMetricsSettingsJSON val = Inr v" and st: "rt_cfgStore r \<noteq> None"
    and set: "store_set H KeyMetricsSettingsJSON v r = (None, r1)"
    and r': "r' = reloadRuntimeConfig H KeyMetricsSettingsJSON r1"
    using assms by (elim RuntimeConfigSet_cases) simp
  obtain ss where p: "parseSettingsJSON val (GOOS H) = Inr ss" and v: "v = marshal_settings ss"
    using chk by (auto simp: checked_value_def map_sum_Inr_iff)
  have st1: "rt_cfgStore r1 \<noteq> None" using st set store_set_None [of H KeyMetricsSettingsJSON v r] by simp
  have ne: "KeyMetricsSettingsJSON \<noteq> []" by (simp add: KeyMetricsSettingsJSON_def)
  have get: "RuntimeConfigGet KeyMetricsSettingsJSON r1 = Some v"
    using Get_store_set [OF st, of KeyMetricsSettingsJSON KeyMetricsSettingsJSON H v] set ne by simp
  have "parseSettingsJSON v (GOOS H) = Inr ss" using p v parseSettingsJSON_wf marshal_settings_parse by blast
  with get have l: "reload_settings H KeyMetricsSettingsJSON r1 = (ss, r1)"
    by (simp add: reload_settings_def Let_def KeyMetricsSettingsJSON_def KeyMetricsBindingsJSON_def)
  have "KeyMetricsSettingsJSON \<noteq> KeyNotifyTopicsJSON" "KeyMetricsSettingsJSON \<noteq> KeyMetricsBindingsJSON"
    by (simp_all add: go_defs)
  then show ?thesis using reloaded [OF st1 l, of KeyMetricsSettingsJSON] get v by (simp add: r' config_from_def)
qed

lemma App_MetricsSettingsSet_ok:
  assumes "App_MetricsSettingsSet H ss a = (Inr u, a')"
  shows "\<exists>r. app_rt a' = Some r \<and> App_MetricsSettingsGet a' = Inr (cfg_Settings (rt_cfg r)) \<and>
    parseSettingsJSON (marshal_settings ss) (GOOS H) = Inr (cfg_Settings (rt_cfg r))"
proof -
  obtain r r1 where r: "RuntimeConfigSet H KeyMetricsSettingsJSON (marshal_settings ss) r = (None, r1)"
    "a' = a\<lparr>app_rt := Some r1\<rparr>"
    using assms by (auto simp: App_MetricsSettingsSet_def result_of_Inr elim: with_rt_InrD)
  have p: "parseSettingsJSON (marshal_settings ss) (GOOS H) = Inr (cfg_Settings (rt_cfg r1))"
    using RuntimeConfigSet_cfg(1) [OF r(1)] by simp
  note w = parseSettingsJSON_wf [OF p]
  have "TrimSpace (marshal_settings (cfg_Settings (rt_cfg r1))) \<noteq> []"
    by (simp add: marshal_settings_def)
  with RuntimeConfigSet_settings_text [OF r(1)] p r show ?thesis
    by (simp add: App_MetricsSettingsGet_def dec_shown_marshal [OF w])
qed


text \<open>
  A file written before settings had a writable flag: the flag in force is the default of the
  metric, but what the user interface shows (and sends back with the next change) is off.
\<close>

definition marshal_old_settings :: "MetricSetting list \<Rightarrow> string" where
  "marshal_old_settings ss = json_print (JArr (map (\<lambda>s. JObj [(''metric'', JStr (ms_Metric s)),
     (''var_name'', JStr (ms_VarName s)), (''enabled'', JBool (ms_Enabled s))]) ss))"

abbreviation default_writable :: "MetricSetting \<Rightarrow> MetricSetting" where
  "default_writable s \<equiv> s\<lparr>ms_Writable := IsControllable (ms_Metric s)\<rparr>"

lemma settings_by_metric_cong:
  "(\<And>s. s \<in> set ss \<Longrightarrow> mj_Metric (f s) = mj_Metric (g s) \<and> mj_VarName (f s) = mj_VarName (g s) \<and>
      setting_of_input (f s) = setting_of_input (g s)) \<Longrightarrow>
    settings_by_metric goos m (map f ss) = settings_by_metric goos m (map g ss)"
  by (induction ss arbitrary: m) auto

lemma old_settings_decode:
  assumes w: "settings_wf goos ss"
  shows "unmarshal dec_shown_settings (marshal_old_settings ss) = Inr (map (\<lambda>s. s\<lparr>ms_Writable := False\<rparr>) ss)"
    and "parseSettingsJSON (marshal_old_settings ss) goos = Inr (map default_writable ss)"
proof -
  let ?json = "\<lambda>s. JObj [(''metric'', JStr (ms_Metric s)), (''var_name'', JStr (ms_VarName s)), (''enabled'', JBool (ms_Enabled s))]"
  let ?input = "\<lambda>s. (setting_input s)\<lparr>mj_Writable := None\<rparr>"
  have ok: "json_ok (JArr (map ?json ss))"
    using settings_wf_entry [OF w] by (auto simp: list_all_iff valid_utf8_all_ascii)
  have depth: "json_depth (JArr (map ?json ss)) \<le> max_depth"
    by (rule json_depth_flat [THEN order_trans [of _ 2]]) (auto simp: max_depth_def)
  have "dec_shown_settings (JArr (map ?json ss)) = Some (map (\<lambda>s. s\<lparr>ms_Writable := False\<rparr>) ss)"
    using those_map_Some [of ss _ ?json "\<lambda>s. s\<lparr>ms_Writable := False\<rparr>"]
    by (simp add: dec_shown_settings_def field_named_def set_shown_field_def)
  with ok depth show "unmarshal dec_shown_settings (marshal_old_settings ss) = Inr (map (\<lambda>s. s\<lparr>ms_Writable := False\<rparr>) ss)"
    unfolding marshal_old_settings_def by (rule unmarshal_print)
  have "dec_settings (JArr (map ?json ss)) = Some (map ?input ss)"
    using those_map_Some [of ss _ ?json ?input]
    by (simp add: dec_settings_def setting_input_def field_named_def set_setting_field_def zero_setting_json_def)
  with ok depth have dec: "unmarshal dec_settings (marshal_old_settings ss) = Inr (map ?input ss)"
    unfolding marshal_old_settings_def by (rule unmarshal_print)
  have "settings_by_metric goos Map.empty (map ?input ss) =
      settings_by_metric goos Map.empty (map (\<lambda>s. setting_input (default_writable s)) ss)"
    using settings_wf_entry [OF w]
    by (intro settings_by_metric_cong) (auto simp: setting_of_input_def setting_input_def Let_def)
  then have "validateSettings (map ?input ss) goos = validateSettings (map setting_input (map default_writable ss)) goos"
    by (simp add: validateSettings_def comp_def)
  moreover have "settings_wf goos (map default_writable ss)"
    using w by (auto simp: settings_wf_def enabled_vars_def comp_def filter_map)
  ultimately have "validateSettings (map ?input ss) goos = Inr (map default_writable ss)"
    by (simp only: validateSettings_id)
  with dec show "parseSettingsJSON (marshal_old_settings ss) goos = Inr (map default_writable ss)"
    by (simp add: parseSettingsJSON_def marshal_old_settings_def)
qed

lemma old_settings_shown:
  assumes "settings_wf (GOOS H) ss" and "app_rt a = Some r" and "cfg_sync H r"
    and "RuntimeConfigGet KeyMetricsSettingsJSON r = Some (marshal_old_settings ss)"
  shows "App_MetricsSettingsGet a = Inr (map (\<lambda>s. s\<lparr>ms_Writable := False\<rparr>) ss)"
    and "cfg_Settings (rt_cfg r) = map default_writable ss"
proof -
  show "App_MetricsSettingsGet a = Inr (map (\<lambda>s. s\<lparr>ms_Writable := False\<rparr>) ss)"
    using assms by (simp add: App_MetricsSettingsGet_def old_settings_decode) (simp add: marshal_old_settings_def)
  show "cfg_Settings (rt_cfg r) = map default_writable ss"
    using assms by (auto simp: cfg_sync_def old_settings_decode)
qed

section \<open>The presenter\<close>

lemma normalize_modes [simp]:
  "normalizeNotifyPresenter P notifyPresenterScript = Inr notifyPresenterScript"
  "normalizeNotifyPresenter P notifyPresenterToast = Inr notifyPresenterToast"
proof -
  have t: "TrimSpace ''script'' = ''script''" "TrimSpace ''toast'' = ''toast''"
    by (rule TrimSpace_graphic; simp add: graphic_def)+
  have "ToLower P ''script'' = ''script''" "ToLower P ''toast'' = ''toast''"
    by (simp_all add: lower_char_def)
  with t show "normalizeNotifyPresenter P notifyPresenterScript = Inr notifyPresenterScript"
    "normalizeNotifyPresenter P notifyPresenterToast = Inr notifyPresenterToast"
    by (simp_all add: normalizeNotifyPresenter_def notifyPresenterScript_def notifyPresenterToast_def)
qed

lemma NotifyPresenterGet_ok:
  "app_boot a \<noteq> None \<Longrightarrow> normalizeNotifyPresenter H (boot_text keyNotifyPresenter a) = Inr m \<Longrightarrow>
     NotifyPresenterGet H a = (m, a)"
  by (auto simp: NotifyPresenterGet_def)

lemma NotifyPresenterGet_valid:
  "fst (NotifyPresenterGet H a) \<in> {notifyPresenterScript, notifyPresenterToast} \<and>
   NotifyPresenterGet H (snd (NotifyPresenterGet H a)) = NotifyPresenterGet H a"
proof (cases "app_boot a = None")
  case False
  show ?thesis
  proof (cases "normalizeNotifyPresenter H (boot_text keyNotifyPresenter a)")
    case (Inl e)
    let ?b = "snd (boot_set H keyNotifyPresenter notifyPresenterScript a)"
    have "boot_text keyNotifyPresenter ?b = notifyPresenterScript" "app_boot ?b \<noteq> None"
      using False by (simp_all add: boot_text_set boot_set_boot)
    then show ?thesis using False Inl by (simp add: NotifyPresenterGet_def)
  next
    case (Inr m)
    then show ?thesis using NotifyPresenterGet_ok [OF False Inr] normalizeNotifyPresenter_cases [OF Inr] by simp
  qed
qed (simp add: NotifyPresenterGet_def)

lemma NotifyPresenterSet_Get:
  assumes "normalizeNotifyPresenter H mode = Inr m" and "app_boot a \<noteq> None"
  shows "NotifyPresenterGet H (snd (NotifyPresenterSet H mode a)) = (m, snd (NotifyPresenterSet H mode a))"
proof -
  have "boot_text keyNotifyPresenter (snd (boot_set H keyNotifyPresenter m a)) = m"
    "app_boot (snd (boot_set H keyNotifyPresenter m a)) \<noteq> None"
    using assms(2) by (simp_all add: boot_text_set boot_set_boot)
  moreover have "normalizeNotifyPresenter H m = Inr m"
    using normalizeNotifyPresenter_cases [OF assms(1)] by auto
  ultimately show ?thesis
    using assms(1) NotifyPresenterGet_ok [of "snd (boot_set H keyNotifyPresenter m a)" H m]
    by (simp add: NotifyPresenterSet_def)
qed


section \<open>An application that started has a device\<close>

lemma hex_lower_graphic: "d < 16 \<Longrightarrow> graphic (hex_lower d)"
  by (auto simp: hex_lower_def graphic_def)

lemma hex_text_graphic: "c \<in> set (hex_text b) \<Longrightarrow> graphic c"
proof -
  have "byte x div 16 < 16" for x :: char
  proof -
    have "byte x < 256" by simp
    then show ?thesis by linarith
  qed
  then show "c \<in> set (hex_text b) \<Longrightarrow> graphic c" by (auto simp: hex_text_def hex_lower_graphic)
qed

lemma generateDeviceID_ok:
  assumes "generateDeviceID H ''win'' w = (Inr dev, w')" shows "TrimSpace dev = dev \<and> dev \<noteq> []"
proof -
  have "TrimSpace ''win'' = ''win''" by (rule TrimSpace_graphic) (simp add: graphic_def)
  then obtain b where b: "dev = ''win-'' @ hex_text b"
    using assms by (auto simp: generateDeviceID_def Let_def split: prod.splits sum.splits)
  moreover have "graphic (last (''win-'' @ hex_text b))"
  proof (cases "hex_text b = []")
    case False
    then show ?thesis using hex_text_graphic [OF last_in_set] by simp
  qed (simp add: graphic_def)
  ultimately show ?thesis by (intro conjI TrimSpace_graphic disjI2) (simp_all add: graphic_def)
qed

lemma put_world_fields [simp]: "app_boot (put_world w a) = app_boot a"
  by (simp add: put_world_def split: option.split)

lemma refill_device_ok:
  assumes "app_boot a \<noteq> None" and "\<And>w. \<exists>b w'. rand_bytes (crypt H) 12 w = (Inr b, w')"
  shows "TrimSpace (boot_text ''auth.device_id'' (refill_device H a)) \<noteq> []"
proof (cases "TrimSpace (boot_text ''auth.device_id'' a) = []")
  case True
  obtain dev w' where g: "generateDeviceID H ''win'' (world_of a) = (Inr dev, w')"
    using assms(2) [of "world_of a"] by (auto simp: generateDeviceID_def Let_def)
  then have "refill_device H a = snd (boot_set H ''auth.device_id'' dev (put_world w' a))"
    using True by (simp add: refill_device_def)
  then have "boot_text ''auth.device_id'' (refill_device H a) = dev"
    using assms(1) by (simp add: boot_text_set)
  then show ?thesis using generateDeviceID_ok [OF g] by simp
qed (simp add: refill_device_def)

lemma startup_boot:
  assumes "app_rt a = None" and "app_boot a = None" and "app_boot (startup H D a) \<noteq> None"
  obtains a2 where "app_boot a2 \<noteq> None" "app_boot (startup H D a) = app_boot (refill_device H a2)"
proof -
  obtain n d where n: "New H ''config'' (app_disk a) (app_world a) = (n, d)" by force
  with assms obtain r where r: "n = Inr r"
    by (cases n) (auto simp: startup_def)
  obtain dev w where g: "generateDeviceID H ''win'' (rt_world r) = (dev, w)" by force
  let ?a1 = "a\<lparr>app_rt := Some (r\<lparr>rt_world := w\<rparr>)\<rparr>"
  obtain s d1 where s: "Store_New H (path_join H (rt_workDir r) ''bootstrap.json'')
      (boot_defaults (case dev of Inl _ \<Rightarrow> [] | Inr x \<Rightarrow> x)) (disk_of ?a1) = (s, d1)" by force
  show thesis
  proof (cases s)
    case (Inl e)
    then show thesis using assms n r g s by (simp add: startup_def Let_def)
  next
    case (Inr st)
    let ?a2 = "put_disk d1 (?a1\<lparr>app_boot := Some st\<rparr>)"
    have "app_boot (startup H D a) = app_boot (refill_device H ?a2)"
      using assms n r g s Inr by (simp add: startup_def Let_def split: prod.split sum.split)
    then show thesis by (intro that [of ?a2]) simp_all
  qed
qed

lemma startup_device:
  assumes "app_rt a = None" and "app_boot a = None" and "app_boot (startup H D a) \<noteq> None"
    and "\<And>w. \<exists>b w'. rand_bytes (crypt H) 12 w = (Inr b, w')"
  shows "or_boot ''auth.device_id'' [] (startup H D a) \<noteq> []"
proof -
  obtain a2 where a2: "app_boot a2 \<noteq> None" "app_boot (startup H D a) = app_boot (refill_device H a2)"
    using startup_boot [OF assms(1-3)] by blast
  then show ?thesis
    using refill_device_ok [OF a2(1) assms(4)] boot_text_cong [OF a2(2), of "''auth.device_id''"] by (simp add: or_boot_def)
qed


end
