(* ===== verification/DemoHosts.thy ===== *)
theory DemoHosts
  imports Demo Poller Worker WinApp
begin

text \<open>
  Concrete hosts for the parts around the runtime: a Windows machine whose world is the level
  and the mute switch of its audio endpoint, a bridge and an application on the demo host.
\<close>

section \<open>A machine with a volume\<close>

definition demo_windows :: "(dyadic \<times> bool) windows" where
  "demo_windows = \<lparr>
     monitors = \<lparr>GetDesktopWindow = Pair (Inl None), MonitorFromWindow = (\<lambda>_. Pair (Inl None)),
       GetNumberOfPhysicalMonitors = (\<lambda>_. Pair (Inl None)), GetPhysicalMonitors = (\<lambda>_ _. Pair (Inl None)),
       DestroyPhysicalMonitor = (\<lambda>_ w. w), GetMonitorBrightness = (\<lambda>_. Pair (Inl None)),
       SetMonitorBrightness = (\<lambda>_ _. Pair (Inl None))\<rparr>,
     com = \<lparr>CoInitialize = Pair (Some (None, ErrNew ''no COM'')), CoUninitialize = (\<lambda>w. w),
       CreateObject = (\<lambda>_. Pair (Inl (ErrNew ''no COM''))), QueryDispatch = (\<lambda>_. Pair (Inl (ErrNew ''no COM''))),
       AddRef = (\<lambda>_ w. w), Release = (\<lambda>_ w. w), CallMethod = (\<lambda>_ _ _. Pair (None, Some (ErrNew ''no COM''))),
       GetProperty = (\<lambda>_ _. Pair (None, Some (ErrNew ''no COM''))), PutProperty = (\<lambda>_ _ _ w. w),
       enum_items = (\<lambda>_. Pair ([], None)), Clear = (\<lambda>_ w. w)\<rparr>,
     audio = \<lparr>CreateEnumerator = Pair (Inr 1), GetDefaultAudioEndpoint = (\<lambda>_. Pair (Inr 2)), Activate = (\<lambda>_. Pair (Inr 3)),
       SetMasterVolume = (\<lambda>_ l w. (None, (l, snd w))),
       GetMasterVolume = (\<lambda>_ w. (Inr \<lparr>lv_negative = False, lv_value = fst w\<rparr>, w)),
       SetMute = (\<lambda>_ b w. (None, (fst w, b))), GetMute = (\<lambda>_ w. (Inr (snd w), w)), audio_Release = (\<lambda>_ w. w)\<rparr>,
     system_status = \<lparr>GetSystemPowerStatus = Pair (Inr \<lparr>ACLineStatus = 1, BatteryFlag = 0, BatteryLifePercent = 50\<rparr>),
       GetSystemTimes = Pair (Inl None), GlobalMemoryStatus = Pair (Inr 42), GetAdapters = (\<lambda>_. Pair (Inr [])),
       time_now = (\<lambda>_. 0)\<rparr>\<rparr>"

definition pc_host :: "(dyadic \<times> bool) host" where
  "pc_host = \<lparr>GOOS = ''linux'', int_bits = 64, rune_lower = (\<lambda>s. s), quote = (\<lambda>s. s),
     json_error_text = (\<lambda>s. ''json''), path_clean = (\<lambda>s. s), path_join = (\<lambda>a b. a @ ''/'' @ b), path_is_abs = (\<lambda>p. True),
     dial = (\<lambda>a. Pair None), hangup = (\<lambda>w. w), transmit = (\<lambda>h p. Pair None),
     await_reply = (\<lambda>h p a. Pair (Inr \<lparr>msg_Action = a, msg_Data = []\<rparr>)),
     encode_message = (\<lambda>a m. Inr a), decode_message = (\<lambda>p. Inr \<lparr>msg_Action = ''notify_set'', msg_Data = p\<rparr>),
     build_response = (\<lambda>h n s. Some h), proto = demo_proto, decode = demo_decoders, num = demo_floats,
     crypt = \<lparr>ec_parse = (\<lambda>k. Inr (k, ''P-256'')), ec_generate = Pair (Inr ''key''), ec_public = (\<lambda>k. ''pub''),
       ec_sign = (\<lambda>k m. Pair (Inr ''sig'')), rand_bytes = (\<lambda>n. Pair (Inr (replicate n CHR ''r'')))\<rparr>,
     unix_sec = (\<lambda>_. 0), unix_milli = (\<lambda>_. 0), unix_nano = (\<lambda>_. 0), getwd = (\<lambda>w. Inr ''/root'')\<rparr>"

text \<open>The demo runtime, with the configuration of its first start, on this machine.\<close>

definition pc_runtime :: "(dyadic \<times> bool) runtime" where
  "pc_runtime = (blank_runtime pc_host ''w'' demo_disk (Dyadic 0 0, False))
     \<lparr>rt_auth := demo_auth, rt_cfg := rt_cfg demo_ready\<rparr>"

lemma demo_machine: "volume_machine pc_host demo_windows fst snd"
proof -
  have "setPrimaryMonitorBrightnessPercentDXVA2 (monitors demo_windows) p w =
      (Inl (ErrNew (''GetDesktopWindow'' @ '' failed'')), w)" for p w
    by (simp add: setPrimaryMonitorBrightnessPercentDXVA2_def with_primary_monitor_def then_do_def win_call_def demo_windows_def)
  moreover have "setBrightnessPercentWMI pc_host (com demo_windows) p w = (Inl (ErrNew ''no COM''), w)" for p w
    by (simp add: setBrightnessPercentWMI_def demo_windows_def com_ready_def)
  ultimately have "snd (SetPrimaryMonitorBrightnessPercent pc_host (monitors demo_windows) (com demo_windows) p w) = w" for p w
    by (simp add: SetPrimaryMonitorBrightnessPercent_def Let_def)
  then show ?thesis by (simp add: volume_machine_def) (simp add: demo_windows_def)
qed

lemma demo_endpoint: "fst (ensureEndpoint (audio demo_windows) e w)"
  by (simp add: ensureEndpoint_def OpenDefaultEndpointVolume_def then_do_def demo_windows_def split: option.split)

lemma pc_cfg: "cfg_ok pc_host (rt_cfg pc_runtime)"
  using cfg_sync_ok [OF demo_sync] by (simp add: pc_runtime_def cfg_ok_def pc_host_def demo_host_def)

section \<open>A collector at work\<close>

definition demo_poll :: "(dyadic \<times> bool) poll_sys" where
  "demo_poll = \<lparr>ps_pc = Check, ps_ticker = False, ps_locals = \<lparr>lc_prev = None, lc_until = None, lc_world = (Dyadic 0 0, False)\<rparr>,
     ps_emitted = [], ps_enabled = (\<lambda>_. True), ps_gen = 0, ps_unsignalled = 0, ps_done = False\<rparr>"

abbreviation demo_memory :: "(dyadic \<times> bool) collector" where
  "demo_memory \<equiv> memLoop (system_status demo_windows)"

lemma demo_memory_listed: "demo_memory \<in> set (windows_collectors demo_windows N svc h)"
  by (simp add: windows_collectors_def)

lemma demo_load_text: "nat_text 42 = ''42''"
  by code_simp

lemma demo_memory_run:
  "\<exists>s. reach poll_init (poll_step demo_memory) s \<and> ps_emitted s = [(MetricMemPercent, ''42'')]"
proof -
  let ?R = "reach poll_init (poll_step demo_memory)"
  let ?s1 = "goto Enabled demo_poll" let ?s2 = "goto FirstRound (run_round (co_first demo_memory) ?s1)"
  have w: "wants demo_memory demo_poll" by (simp add: wants_def anyMetricEnabled_def memLoop_def demo_poll_def)
  have "?R demo_poll" by (rule reach_init) (simp add: poll_init_def demo_poll_def)
  moreover have "poll_step demo_memory demo_poll ?s1"
    using wait_step.check [of demo_poll demo_memory] w by (simp add: poll_step_def demo_poll_def)
  ultimately have "?R ?s1" by (rule reach_step)
  moreover have "poll_step demo_memory ?s1 ?s2"
    using round_step.start [of ?s1 demo_memory] by (simp add: poll_step_def) (simp add: demo_poll_def goto_def)
  ultimately have "?R ?s2" by (rule reach_step)
  moreover have "poll_step demo_memory ?s2 (goto FetchSelect (run_round (co_push demo_memory) (?s2\<lparr>ps_ticker := True\<rparr>)))"
    using round_step.first [of ?s2 demo_memory] by (simp add: poll_step_def)
  ultimately have "?R (goto FetchSelect (run_round (co_push demo_memory) (?s2\<lparr>ps_ticker := True\<rparr>)))" by (rule reach_step)
  moreover have "ps_emitted (goto FetchSelect (run_round (co_push demo_memory) (?s2\<lparr>ps_ticker := True\<rparr>))) =
      [(MetricMemPercent, ''42'')]"
    by (simp add: goto_def run_round_def memLoop_def world_push_def push_mem_def readMemoryLoadPercent_def win_call_def
        demo_poll_def demo_windows_def then_do_def Itoa_def demo_load_text)
  ultimately show ?thesis by blast
qed


section \<open>A bridge and an application\<close>

definition demo_bridge :: "nat bridge" where
  "demo_bridge = \<lparr>br_rt = None, br_dir = [], br_lastErr = [], br_disk = demo_disk, br_world = 0\<rparr>"

lemma demo_connect_ok:
  assumes "TrimSpace addr \<noteq> []" shows "fst (Connect demo_host addr r) = None"
proof -
  have "fst (connectTransport demo_host (TrimSpace addr) q) = None" for q
    using assms by (simp add: connectTransport_def client_connect_def demo_host_def ensureClient_def)
  then have "\<exists>q'. connectTransport demo_host (TrimSpace addr) q = (None, q')" for q by (metis prod.collapse)
  then obtain q' where "connectTransport demo_host (TrimSpace addr) (if rt_addr r \<noteq> [] \<and> rt_addr r \<noteq> TrimSpace addr
      then (Close demo_host (r\<lparr>rt_addr := TrimSpace addr\<rparr>))\<lparr>rt_addr := TrimSpace addr\<rparr> else r\<lparr>rt_addr := TrimSpace addr\<rparr>) = (None, q')"
    by blast
  then show ?thesis using assms by (simp add: Connect_def Let_def)
qed

lemma demo_EnsureKeys: "\<exists>pub r'. EnsureKeys demo_host r = (Inr pub, r') \<and> rt_connected r' = rt_connected r \<and> rt_auth r' = rt_auth r"
  using demo_keys [of "rt_keys r" "rt_disk r" "rt_world r"] by (auto simp: EnsureKeys_def)

lemma demo_register:
  assumes "rt_connected r" and "TrimSpace dev \<noteq> []"
  shows "\<exists>r'. Register demo_host dev r = (Inr \<lparr>rd_Code = 1, rd_Msg = [], rd_NodeID = 7, rd_HubID = 1, rd_Role = []\<rparr>, r') \<and> logged_in (rt_auth r')"
proof -
  obtain pub r1 where e: "EnsureKeys demo_host r = (Inr pub, r1)" using demo_EnsureKeys by blast
  have enc: "encode_message demo_host a m = Inr a" for a m by (simp add: demo_host_def)
  have "fst (auth_exchange demo_host v a p q) = Inr \<lparr>rd_Code = 1, rd_Msg = [], rd_NodeID = 7, rd_HubID = 1, rd_Role = []\<rparr>"
    for v a p q by (simp add: auth_exchange_def sendAndAwait_def Let_def demo_host_def demo_decoders_def)
  then have "\<exists>q'. auth_exchange demo_host v a p q = (Inr \<lparr>rd_Code = 1, rd_Msg = [], rd_NodeID = 7, rd_HubID = 1, rd_Role = []\<rparr>, q')"
    for v a p q by (metis prod.collapse)
  then obtain q' where "auth_exchange demo_host ''register'' (ActionRegisterResp (proto demo_host)) (ActionRegister (proto demo_host)) r1 =
      (Inr \<lparr>rd_Code = 1, rd_Msg = [], rd_NodeID = 7, rd_HubID = 1, rd_Role = []\<rparr>, q')" by blast
  then obtain r2 where g: "Register demo_host dev r = (Inr \<lparr>rd_Code = 1, rd_Msg = [], rd_NodeID = 7, rd_HubID = 1, rd_Role = []\<rparr>, r2)"
    using assms by (simp add: Register_def Let_def e enc)
  then show ?thesis using Register_result [of demo_host dev r] by (simp add: logged_in_def identity_def)
qed

lemma demo_start_ok: "\<exists>st b'. Mobile_Start demo_host ''hub:1'' ''dev'' ''w'' demo_bridge = (Inr st, b')"
proof -
  obtain r0 d where n: "New demo_host ''w'' demo_disk 0 = (Inr r0, d)" using demo_New by (metis prod.collapse)
  let ?b1 = "demo_bridge\<lparr>br_rt := Some r0, br_dir := ''w'', br_disk := d\<rparr>"
  have i: "Mobile_Init demo_host ''w'' demo_bridge = (Inr (marshalStatus (Some r0)), ?b1)"
    using n by (simp add: Mobile_Init_def demo_bridge_def)
  obtain r1 where c: "Connect demo_host ''hub:1'' r0 = (None, r1)" "rt_connected r1"
    using demo_connect_ok [of "''hub:1''" r0] demo_connect [of "''hub:1''" r0] by (cases "Connect demo_host ''hub:1'' r0") simp
  obtain pub r2 where k: "EnsureKeys demo_host r1 = (Inr pub, r2)" "rt_connected r2"
    using demo_EnsureKeys [of r1] c by auto
  obtain pub' r3 where k3: "EnsureKeys demo_host r2 = (Inr pub', r3)" "rt_connected r3"
    using demo_EnsureKeys [of r2] k by auto
  obtain data r4 where g: "Register demo_host ''dev'' r3 = (Inr data, r4)" "logged_in (rt_auth r4)"
    using demo_register [of r3 "''dev''"] k3 by auto
  let ?b3 = "?b1\<lparr>br_rt := Some r2\<rparr>"
  have "\<exists>st r. logged_in (rt_auth r) \<and> (if NodeID (rt_auth r2) \<noteq> 0 then Mobile_Login demo_host ''dev'' (uint (NodeID (rt_auth r2))) ?b3
      else Mobile_Register demo_host ''dev'' ?b3) = (Inr st, ?b3\<lparr>br_rt := Some r\<rparr>)"
  proof (cases "NodeID (rt_auth r2) = 0")
    case True
    then have "Mobile_Register demo_host ''dev'' ?b3 = (Inr (marshalStatus (Some r4)), ?b3\<lparr>br_rt := Some r4\<rparr>)"
      by (simp add: Mobile_Register_def keys_then_def call_rt_def drop_result_def k3 g)
    with True g(2) show ?thesis by auto
  next
    case False
    let ?n = "uint (NodeID (rt_auth r2))"
    have "?n \<noteq> 0" using False by (simp add: unsigned_eq_0_iff)
    moreover have "0 \<le> ?n" "?n < 2 ^ LENGTH(32)" by (rule unsigned_greater_eq, rule unsigned_less)
    ultimately have n: "0 < ?n" "?n \<le> 2 ^ 32 - 1" by (linarith, simp)
    obtain r5 where "Login demo_host ''dev'' (NodeID (rt_auth r2)) r3 =
        (Inr \<lparr>rd_Code = 1, rd_Msg = [], rd_NodeID = 7, rd_HubID = 1, rd_Role = []\<rparr>, r5)"
      using demo_login [of r3 "''dev''" "NodeID (rt_auth r2)"] k3(2) False
      by (cases "Login demo_host ''dev'' (NodeID (rt_auth r2)) r3") simp
    note ln = this
    then have "logged_in (rt_auth r5)"
      using Login_result [of demo_host "''dev''" "NodeID (rt_auth r2)" r3] by (simp add: logged_in_def identity_def)
    moreover have "Mobile_Login demo_host ''dev'' ?n ?b3 = (Inr (marshalStatus (Some r5)), ?b3\<lparr>br_rt := Some r5\<rparr>)"
      using n ln by (simp add: Mobile_Login_def Let_def k3 login_node_def call_rt_def drop_result_def)
    ultimately show ?thesis using False by auto
  qed
  then obtain st r where lr: "logged_in (rt_auth r)" and l: "(if NodeID (rt_auth r2) \<noteq> 0 then Mobile_Login demo_host ''dev'' (uint (NodeID (rt_auth r2))) ?b3
      else Mobile_Register demo_host ''dev'' ?b3) = (Inr st, ?b3\<lparr>br_rt := Some r\<rparr>)" by blast
  have "\<exists>q. StartReporting r = (None, q)" using lr by (simp add: StartReporting_def)
  then show ?thesis
    using l by (auto simp: Mobile_Start_def Let_def i and_then_def Mobile_Connect_def call_rt_def c k Mobile_EnsureKeys_def
        drop_result_def StatusAuthSnapshot_def Mobile_StartReporting_def)
qed

definition demo_app :: "nat app" where
  "demo_app = \<lparr>app_rt = Some demo_store, app_boot = None, app_icon = [], app_disk = demo_disk, app_world = 0\<rparr>"

lemma demo_app_set:
  "\<exists>a'. App_MetricsSettingsSet demo_host (defaultSettingsForOS ''linux'') demo_app = (Inr (), a')"
proof -
  have "checked_value demo_host KeyMetricsSettingsJSON (marshal_settings (defaultSettingsForOS ''linux'')) =
      Inr (marshal_settings (defaultSettingsForOS ''linux''))"
    by (simp add: checked_value_def marshal_settings_parse)
  then have "fst (RuntimeConfigSet demo_host KeyMetricsSettingsJSON (marshal_settings (defaultSettingsForOS ''linux'')) demo_store) = None"
    using demo_set [of KeyMetricsSettingsJSON] by simp
  then obtain r where "RuntimeConfigSet demo_host KeyMetricsSettingsJSON (marshal_settings (defaultSettingsForOS ''linux'')) demo_store = (None, r)"
    by (metis prod.collapse)
  then show ?thesis by (simp add: App_MetricsSettingsSet_def with_rt_def demo_app_def result_of_def)
qed


end
