(* ===== verification/Spec2Isabelle.thy ===== *)
theory Spec2Isabelle
  imports DemoHosts
begin

text \<open>
  A verification development of the metrics node (directory \<^verbatim>\<open>src\<close>): a process that collects
  metrics of its machine, publishes them as variables of a hub, obeys writes to the writable
  ones and shows notifications of the topics it subscribed to. The theorems about the
  program are in this theory; the model and its lemmas are in the theories it imports.

  \<^bold>\<open>The program.\<close> A host (the Windows application, the Android bridge) owns one runtime. The
  runtime keeps a configuration store, a key pair, the identity the hub gave it and a
  connection. Collectors, or the Android host, report metric values; the runtime publishes
  them through the bindings of the configuration. Frames the hub sends unasked are variable
  writes (queued as actions, or answered with the node's own value), management commands
  (reading and setting configuration keys) and published messages (queued as notifications).
  Actions are carried out by the control worker on Windows and by the host on Android. A
  reconnect loop restores a lost session.

  \<^bold>\<open>Foundations.\<close> Prelude: errors, Go maps, reachable states and the locale
  \<open>invariant_of\<close>. GoStrings: UTF-8, trimming, decimal text. GoJson, JsonRoundtrip,
  JsonIndent: \<^verbatim>\<open>encoding/json\<close> and what printing and parsing give back. Encoding: Base64,
  HTML, UTF-16. Floats: the floating-point computations of percentages, as dyadic numbers
  rounded to 53 and 24 bits. Disk: the file operations, each of which may fail as a script
  says, and \<^verbatim>\<open>writeFileAtomic\<close>. Host: the SDK, the protocol's codecs and numbers, the clock
  and the elliptic curve, as parameters. WinApi: the calls into Windows, COM and WMI, as
  parameters, and the sequences of them that several parts share.

  \<^bold>\<open>core.\<close> Metrics (\<^verbatim>\<open>metrics.go\<close>, \<^verbatim>\<open>varstore.go\<close>). ControlQueue (\<^verbatim>\<open>control_queue.go\<close>; the
  locale \<open>latest_queue\<close> and the wake-ups of the worker). NotifyQueue, NotifySettings,
  NotifyEvent (\<^verbatim>\<open>core/notify\<close>). ConfigStore (\<^verbatim>\<open>core/configstore\<close>; the locale
  \<open>config_store\<close>). Keys (\<^verbatim>\<open>core/auth\<close>). Config and RuntimeConfig (\<^verbatim>\<open>config.go\<close>: bindings,
  settings, validation; setting, reloading, first start). RuntimeState, Reporting,
  NotifyRuntime, Session, Reconnect (\<^verbatim>\<open>runtime.go\<close>, \<^verbatim>\<open>notify.go\<close>): the record
  \<open>runtime\<close> has a field per field of \<^verbatim>\<open>Runtime\<close>, and an operation takes it and returns it
  updated. Inbound (\<^verbatim>\<open>varstore_inbound.go\<close>, \<^verbatim>\<open>management.go\<close>). System: the runtime among its
  goroutines, one step an operation, a callback or a step of the reconnect loop.

  \<^bold>\<open>Windows.\<close> Actuators (\<^verbatim>\<open>core/actuator\<close>), Collectors (what the collectors read and report),
  Poller (their loop, with a configuration that changes at any time), Worker
  (\<^verbatim>\<open>control_worker_windows.go\<close>). \<^bold>\<open>Hosts.\<close> Bridge (\<^verbatim>\<open>nodemobile.go\<close>), Presenter and WinApp
  (\<^verbatim>\<open>windows/app.go\<close>, \<^verbatim>\<open>app_api.go\<close>, \<^verbatim>\<open>notify_presenter.go\<close>). Demo and DemoHosts: concrete
  hosts on which the witnesses are evaluated.

  \<^bold>\<open>What is shown.\<close> The configuration: store and configuration in force agree after every
  successful set, settings and topics have a normal form that survives storing. The files:
  a saved store, key pair and identity are found by the next process, replacing a file never
  leaves a partly written one. The queues: latest value per metric, newest events, no lost
  wake-up. The hub: what is sent when a metric is reported, what a write or a frame can
  change, who is logged in after a login. Time: what holds in every reachable state, and
  that a close is final. The machine: a written volume is set and reported, the reported
  load and brightness are the right numbers, collectors report only values of the protocol.
  The hosts: what they report, show and store.

  \<^bold>\<open>Bounds.\<close> Integers of the protocol and of Windows are words of their width; \<^verbatim>\<open>int\<close> values
  are integers, with the width of the platform where text is converted. No definition runs
  on fuel: recursive ones are total, and the three attempts of the network reading and the
  five of the WMI call are those of the code.

  \<^bold>\<open>Not modelled.\<close> Logging, and when a log line is repeated. Guards on nil receivers. Locks: an
  operation of the runtime runs without another goroutine in between, except the reconnect
  loop, the collectors and the control queue, which are step relations. Time-outs, except
  that a call may fail with one. Directories, except that creating one may fail. The JSON
  text of the status, which is the structure it is made of. The exponent range of floating
  point: no number here comes near its ends. The hub, the SDK, the message codecs, the
  elliptic curve, Windows and PowerShell. \<^verbatim>\<open>windows/main.go\<close>, which opens the window, the empty
  stubs for other systems and \<^verbatim>\<open>readBatteryPercent\<close>, which nothing calls.
\<close>

section \<open>The configuration\<close>

text \<open>
  C1: whenever setting a configuration key succeeds, the store and the configuration in
  force agree: the settings are the parse of the stored text, the bindings, their stored
  text and the two lookup maps are derived from them, visibility and no-battery value are
  the normalised stored ones and the topics are stored in normal form.
\<close>

theorem config_set_sync:
  assumes "fst (RuntimeConfigSet H key val r) = None"
  shows "cfg_sync H (snd (RuntimeConfigSet H key val r))"
  by (rule RuntimeConfigSet_sync) (use assms in \<open>simp add: prod_eq_iff\<close>)

theorem config_set_sync_witness:
  "cfg_sync demo_host (snd (RuntimeConfigSet demo_host ''note'' ''x'' demo_store))"
  by (rule config_set_sync) (simp add: demo_set demo_note)

text \<open>
  C2: a first start on a disk without a configuration file succeeds with the default
  settings of the operating system, public visibility, -1 for a missing battery and no
  notification topics, and with store and configuration in agreement.
\<close>

theorem config_first_start:
  assumes "path_clean H (TrimSpace (path_join H (rt_workDir r) ''runtime_config.json'')) = p" and "p \<noteq> []"
    and "files (rt_disk r) p = None" and "script (rt_disk r) = []"
  shows "fst (initRuntimeConfig H r) = None \<and> cfg_sync H (snd (initRuntimeConfig H r)) \<and>
    cfg_Settings (rt_cfg (snd (initRuntimeConfig H r))) = defaultSettingsForOS (GOOS H) \<and>
    VisibilityDefault (rt_cfg (snd (initRuntimeConfig H r))) = VisibilityPublic \<and>
    NoBatteryValue (rt_cfg (snd (initRuntimeConfig H r))) = ''-1'' \<and>
    cfg_NotifySettings (rt_cfg (snd (initRuntimeConfig H r))) = []"
  using first_start [OF assms] initRuntimeConfig_sync [of H r "snd (initRuntimeConfig H r)"]
  by (simp add: prod_eq_iff defaultNoBatteryValue_def)

theorem config_first_start_witness:
  "cfg_Settings (rt_cfg (snd (initRuntimeConfig demo_host demo_runtime))) = defaultSettingsForOS ''linux''"
  using config_first_start [of demo_host demo_runtime "''w/runtime_config.json''"]
  by (simp add: demo_host_def demo_runtime_def demo_disk_def)

text \<open>
  C3: what a successful set puts in force, key by key; a key the runtime does not know is
  simply stored.
\<close>

theorem config_set_effect:
  assumes "fst (RuntimeConfigSet H key val r) = None"
  shows "let r' = snd (RuntimeConfigSet H key val r); k = TrimSpace key in
    if k = KeyMetricsSettingsJSON then parseSettingsJSON val (GOOS H) = Inr (cfg_Settings (rt_cfg r'))
    else if k = KeyMetricsBindingsJSON then
      map_sum id (\<lambda>bs. settingsFromBindings bs (defaultBindingsForOS (GOOS H))) (parseBindingsJSON H val) =
        Inr (cfg_Settings (rt_cfg r'))
    else if k = KeyMetricsVisibilityDefault then normalizeVisibility H val = Inr (VisibilityDefault (rt_cfg r'))
    else if k = KeyMetricsBatteryNoBattery then normalizeNoBatteryValue val = Inr (NoBatteryValue (rt_cfg r'))
    else if k = KeyNotifyTopicsJSON then ParseTopicsJSON val = Inr (cfg_NotifySettings (rt_cfg r'))
    else RuntimeConfigGet key r' = Some val"
proof -
  let ?r' = "snd (RuntimeConfigSet H key val r)"
  have s: "RuntimeConfigSet H key val r = (None, ?r')" using assms by (simp add: prod_eq_iff)
  note RuntimeConfigSet_cfg [OF s] RuntimeConfigSet_other [OF s]
  then show ?thesis by (auto simp: Let_def config_keys_def)
qed

theorem config_set_effect_witness:
  "VisibilityDefault (rt_cfg (snd (RuntimeConfigSet demo_host KeyMetricsVisibilityDefault ''private'' demo_store))) = ''private''"
  using config_set_effect [of demo_host KeyMetricsVisibilityDefault "''private''" demo_store]
  by (simp add: demo_set demo_private)

text \<open>
  C4: reloading a configuration that agrees with the store changes neither the
  configuration nor any stored value.
\<close>

theorem config_reload_stable:
  assumes "cfg_sync H r" and "key \<noteq> KeyMetricsBindingsJSON"
  shows "rt_cfg (reloadRuntimeConfig H key r) = rt_cfg r \<and>
    RuntimeConfigGet k (reloadRuntimeConfig H key r) = RuntimeConfigGet k r"
  by (rule reload_idem) (fact assms)+

theorem config_reload_stable_witness:
  "rt_cfg (reloadRuntimeConfig demo_host ''init'' demo_ready) = rt_cfg demo_ready"
  using config_reload_stable [OF demo_sync, of "''init''"] by (simp add: KeyMetricsBindingsJSON_def)

text \<open>
  C5: a value that fails its key's validation is refused with the validation's error and
  changes nothing, neither in the store nor on the disk nor in force.
\<close>

theorem config_set_refused:
  assumes "checked_value H (TrimSpace key) val = Inl e" and "rt_cfgStore r \<noteq> None" and "TrimSpace key \<noteq> []"
  shows "RuntimeConfigSet H key val r = (Some e, r)"
  using assms by (auto simp: RuntimeConfigSet_def Let_def)

theorem config_set_refused_witness:
  "RuntimeConfigSet demo_host KeyMetricsBatteryNoBattery [] demo_store =
     (Some (ErrNew ''no_battery_value is required''), demo_store)"
  by (rule config_set_refused)
    (simp_all add: checked_value_def normalizeNoBatteryValue_def demo_store_def)

text \<open>
  When the file cannot be written, setting a key reports the error, yet the store in
  memory already holds the new value while the configuration in force is still the old
  one: the value is what a later read returns and what the next reload applies.
\<close>

theorem config_set_unsaved:
  assumes "rt_cfgStore r = Some s" and "TrimSpace key \<noteq> []" and "checked_value H (TrimSpace key) val = Inr v"
    and "fst (Store_Set H (TrimSpace key) v s (rt_disk r)) = Some e"
  shows "fst (RuntimeConfigSet H key val r) = Some e \<and> rt_cfg (snd (RuntimeConfigSet H key val r)) = rt_cfg r \<and>
    RuntimeConfigGet key (snd (RuntimeConfigSet H key val r)) = Some v"
  using RuntimeConfigSet_unsaved [OF assms] .

theorem config_set_unsaved_witness:
  "RuntimeConfigGet ''note'' (snd (RuntimeConfigSet demo_host ''note'' ''x''
     (demo_store\<lparr>rt_disk := \<lparr>files = Map.empty, script = [OpOk, OpFail (ErrNew ''full'') None]\<rparr>\<rparr>))) = Some ''x''"
  using config_set_unsaved [of "demo_store\<lparr>rt_disk := \<lparr>files = Map.empty, script = [OpOk, OpFail (ErrNew ''full'') None]\<rparr>\<rparr>"
      "\<lparr>st_path = ''p'', st_data = []\<rparr>" "''note''" demo_host "''x''" "''x''" "ErrNew ''full''"]
  by (simp add: demo_store_def demo_note Store_Set_def Let_def save_def store_writeFileAtomic_def
      replace_file_def MkdirAll_def next_op_def WriteFile_def demo_host_def demo_p)

text \<open>
  C6: the settings accepted from a text are one per metric of the operating system, in the
  fixed order; enabled ones have distinct valid variable names and only controllable
  metrics are writable.
\<close>

theorem settings_normal_form:
  assumes "parseSettingsJSON txt goos = Inr ss"
  shows "map ms_Metric ss = map b_Metric (defaultBindingsForOS goos) \<and>
    distinct (map ms_VarName (filter ms_Enabled ss)) \<and>
    list_all (\<lambda>s. ValidVarName (ms_VarName s) \<and> (ms_Writable s \<longrightarrow> IsControllable (ms_Metric s))) ss"
  using parseSettingsJSON_wf [OF assms] by (simp add: settings_wf_def enabled_vars_def list_all_iff)

theorem settings_normal_form_witness:
  "distinct (map ms_VarName (filter ms_Enabled (defaultSettingsForOS ''android'')))"
  using settings_normal_form [of "[]" "''android''" "defaultSettingsForOS ''android''"]
  by (simp add: parseSettingsJSON_def)

text \<open>
  C7: accepted settings survive being written as JSON and read again: what the store keeps
  of them is lossless.
\<close>

theorem settings_roundtrip:
  assumes "parseSettingsJSON txt goos = Inr ss"
  shows "parseSettingsJSON (marshal_settings ss) goos = Inr ss"
  using settings.canonical [OF assms] assms by simp

theorem settings_roundtrip_witness:
  "parseSettingsJSON (marshal_settings (defaultSettingsForOS ''windows'')) ''windows'' =
     Inr (defaultSettingsForOS ''windows'')"
  by (rule settings_roundtrip [of "[]"]) (simp add: parseSettingsJSON_def)

text \<open>
  Turning settings into bindings and back keeps every enabled setting, except that
  its writable flag returns to the default, which the bindings cannot carry.
\<close>

theorem bindings_keep_settings:
  assumes "parseSettingsJSON txt goos = Inr ss"
  shows "filter ms_Enabled (settingsFromBindings (settingsToBindings ss) (defaultBindingsForOS goos)) =
    map (\<lambda>s. s\<lparr>ms_Writable := IsControllable (ms_Metric s)\<rparr>) (filter ms_Enabled ss)"
  by (rule bindings_keep_enabled [OF parseSettingsJSON_wf [OF assms]])

theorem bindings_keep_settings_witness:
  "filter ms_Enabled (settingsFromBindings (settingsToBindings (defaultSettingsForOS ''linux'')) (defaultBindingsForOS ''linux'')) =
    map (\<lambda>s. s\<lparr>ms_Writable := IsControllable (ms_Metric s)\<rparr>) (filter ms_Enabled (defaultSettingsForOS ''linux''))"
  by (rule bindings_keep_settings [of "[]"]) (simp add: parseSettingsJSON_def)

text \<open>
  C8: accepted notification topics are distinct, trimmed, non-empty and at most 256 bytes
  long, they survive being stored and read, and normalising them again changes nothing.
\<close>

theorem topics_normal_form:
  assumes "ParseTopicsJSON txt = Inr ts"
  shows "distinct (map ts_Topic ts) \<and>
    list_all (\<lambda>t. trimmed (ts_Topic t) \<and> ts_Topic t \<noteq> [] \<and> length (ts_Topic t) \<le> 256) ts \<and>
    ParseTopicsJSON (marshal_topics ts) = Inr ts \<and> NormalizeSettings ts = Inr ts"
  using ParseTopicsJSON_ok [OF assms] marshal_topics_parse [of ts] NormalizeSettings_id [of ts]
  by (simp add: topics_ok_def topics_wf_def topic_wf_def list_all_iff MaxTopicLength_def)

theorem topics_normal_form_witness:
  "NormalizeSettings [\<lparr>ts_Topic = ''alerts'', ts_Enabled = True\<rparr>] = Inr [\<lparr>ts_Topic = ''alerts'', ts_Enabled = True\<rparr>]"
proof -
  have "topics_ok [\<lparr>ts_Topic = ''alerts'', ts_Enabled = True\<rparr>]"
    by (simp add: topics_ok_def topics_wf_def topic_wf_def MaxTopicLength_def graphic_ends_trimmed graphic_def valid_utf8_all_ascii)
  then show ?thesis
    using topics_normal_form [of "marshal_topics [\<lparr>ts_Topic = ''alerts'', ts_Enabled = True\<rparr>]"]
    by (simp add: marshal_topics_parse)
qed

section \<open>The configuration file\<close>

text \<open>
  C9: a store that was saved without error is found again by the next process: loading
  the file over any defaults gives every saved key its saved value.
\<close>

theorem store_restart:
  assumes "store_ok s" and "path_clean P (TrimSpace (st_path s)) = st_path s" and "st_path s \<noteq> []"
    and "save P s d = (None, d1)" and "script d1 = []" and "st_path t = st_path s"
  shows "\<exists>u. load t d1 = (None, u, d1) \<and> map_of (st_data u) = map_of (st_data t) ++ map_of (st_data s)"
  by (rule save_then_load) (fact assms)+

theorem store_restart_witness:
  "\<exists>u. load \<lparr>st_path = ''p'', st_data = [(''a'', ''1'')]\<rparr>
      (snd (save demo_host \<lparr>st_path = ''p'', st_data = [(''a'', ''2''), (''b'', ''x'')]\<rparr> demo_disk)) =
    (None, u, snd (save demo_host \<lparr>st_path = ''p'', st_data = [(''a'', ''2''), (''b'', ''x'')]\<rparr> demo_disk)) \<and>
    map_of (st_data u) = [''a'' \<mapsto> ''1''] ++ [''b'' \<mapsto> ''x'', ''a'' \<mapsto> ''2'']"
proof -
  let ?s = "\<lparr>st_path = ''p'', st_data = [(''a'', ''2''), (''b'', ''x'')]\<rparr>"
  have "store_ok ?s" by (simp add: store_ok_def valid_utf8_all_ascii)
  moreover have "fst (save demo_host ?s demo_disk) = None" "script (snd (save demo_host ?s demo_disk)) = []"
    by (simp_all add: save_def store_writeFileAtomic_def MkdirAll_def next_op_def demo_disk_def
        replace_file_ok demo_host_def)
  moreover from this have "save demo_host ?s demo_disk = (None, snd (save demo_host ?s demo_disk))"
    by (simp add: prod_eq_iff)
  ultimately have "\<exists>u. load \<lparr>st_path = ''p'', st_data = [(''a'', ''1'')]\<rparr> (snd (save demo_host ?s demo_disk)) =
      (None, u, snd (save demo_host ?s demo_disk)) \<and>
      map_of (st_data u) = map_of [(''a'', ''1'')] ++ map_of (st_data ?s)"
    using store_restart [of ?s demo_host demo_disk "snd (save demo_host ?s demo_disk)"
        "\<lparr>st_path = ''p'', st_data = [(''a'', ''1'')]\<rparr>"]
    by (simp add: demo_host_def del: map_of.simps)
  then show ?thesis by simp
qed

text \<open>
  C10: replacing a file touches no file but the target and its temporary. If it succeeds
  the target holds the new data and the temporary is gone; if it fails the target is
  unchanged or missing, never partly written.
\<close>

theorem replace_outcomes:
  shows "let p = path_clean P path; d' = snd (writeFileAtomic P path data d) in
    files d' = (files d)(p := files d' p, tmp_path p := files d' (tmp_path p)) \<and>
    (if fst (writeFileAtomic P path data d) = None
     then files d' p = Some data \<and> files d' (tmp_path p) = None
     else files d' p \<in> {files d p, None})"
  using replace_file_cases [of "path_clean P path" data d "fst (writeFileAtomic P path data d)"
      "snd (writeFileAtomic P path data d)"]
  by (auto simp: writeFileAtomic_def Let_def split: option.splits)

text \<open>
  The fallback after a failed rename removes the target before it tries again, so two
  failed renames lose both the old file and the new data.
\<close>

theorem replace_can_lose:
  assumes "script d = [OpOk, OpFail e1 n1, OpOk, OpFail e2 n2]" and "files d path = Some old" and "path \<noteq> []"
  shows "fst (replace_file path data d) = Some e2 \<and>
    files (snd (replace_file path data d)) path = None \<and>
    files (snd (replace_file path data d)) (tmp_path path) = None"
  using assms by (simp add: replace_file_def WriteFile_def Rename_def Remove_def next_op_def)

theorem replace_can_lose_witness:
  "files (snd (replace_file ''f'' ''new'' \<lparr>files = [''f'' \<mapsto> ''old''],
     script = [OpOk, OpFail (ErrNew ''busy'') None, OpOk, OpFail (ErrNew ''busy'') None]\<rparr>)) ''f'' = None"
  using replace_can_lose [of "\<lparr>files = [''f'' \<mapsto> ''old''],
      script = [OpOk, OpFail (ErrNew ''busy'') None, OpOk, OpFail (ErrNew ''busy'') None]\<rparr>"
      "ErrNew ''busy''" None "ErrNew ''busy''" None "''f''" "''old''" "''new''"]
  by simp

section \<open>Queues\<close>

text \<open>
  C11: what a drain of the control queue returns after any offers is the latest accepted
  value of each metric, one action per metric in the order of the names.
\<close>

theorem control_queue_latest:
  shows "let as = fst (ActionDequeueAll (fold (\<lambda>(m, v). ActionEnqueue m v) offers newActionQueue)) in
    map_of (map (\<lambda>a. (ca_Metric a, ca_Value a)) as) =
      map_of (rev (List.map_filter (\<lambda>(m, v). enqueue_entry m v) offers)) \<and>
    sorted_wrt (<) (map ca_Metric as)"
  using aq.drained [OF action_inv_new, of offers]
    aq.drain_sorted [OF aq.inv_enqs [OF action_inv_new], of offers]
  by (simp add: Let_def aq_offered newActionQueue_def)

text \<open>
  C12: no wake-up is lost: in every reachable state of producers, worker and polling host,
  pending actions mean that a token is in the channel, a producer is about to put one, or
  the worker is about to drain.
\<close>

theorem no_action_forgotten:
  assumes "reach worker_init worker_step s" and "latest (wq s) \<noteq> []"
  shows "signalled (wq s) \<or> 0 < pending s \<or> draining s"
  using worker.reach_inv [OF assms(1)] assms(2) by (simp add: no_lost_wakeup_def)

theorem no_action_forgotten_witness:
  "signalled (wq \<lparr>wq = enqueue_write ''m'' ''v'' newActionQueue, pending = 1, draining = False\<rparr>) \<or>
   0 < pending \<lparr>wq = enqueue_write ''m'' ''v'' newActionQueue, pending = 1, draining = False\<rparr> \<or>
   draining \<lparr>wq = enqueue_write ''m'' ''v'' newActionQueue, pending = 1, draining = False\<rparr>"
proof (rule no_action_forgotten)
  let ?s0 = "\<lparr>wq = newActionQueue, pending = 0, draining = False\<rparr>"
  have "enqueue_entry ''m'' ''v'' = Some (''m'', ''v'')"
    by (simp add: enqueue_entry_def TrimSpace_graphic graphic_def)
  then have "worker_step ?s0 (?s0\<lparr>wq := enqueue_write ''m'' ''v'' (wq ?s0), pending := Suc (pending ?s0)\<rparr>)"
    by (rule worker_step.produce)
  moreover have "reach worker_init worker_step ?s0" by (rule reach_init) (simp add: worker_init_def)
  ultimately have "reach worker_init worker_step
      (?s0\<lparr>wq := enqueue_write ''m'' ''v'' (wq ?s0), pending := Suc (pending ?s0)\<rparr>)"
    by (rule reach_step [rotated])
  then show "reach worker_init worker_step
      \<lparr>wq = enqueue_write ''m'' ''v'' newActionQueue, pending = 1, draining = False\<rparr>" by simp
qed (simp add: enqueue_write_def newActionQueue_def)

text \<open>
  C13: the notification queue returns the newest events in order, at most its capacity,
  and counts, modulo 2^64, exactly the events it dropped.
\<close>

theorem notify_queue_newest:
  shows "let q = fold QueueEnqueue es (NewQueue n); c = nat (if n \<le> 0 then 128 else n) in
    fst (QueueDequeueAll q) = last_n c es \<and> Dropped q = of_nat (length es - c) \<and>
    q_items (snd (QueueDequeueAll q)) = []"
proof -
  have c: "nat (q_cap (NewQueue n)) = nat (if n \<le> 0 then 128 else n)"
    by (simp add: NewQueue_def DefaultQueueCapacity_def)
  have new: "q_items (NewQueue n) = []" "q_dropped (NewQueue n) = 0" by (simp_all add: NewQueue_def)
  show ?thesis
    using nq.drained [OF queue_inv_new, of es n] dropped_count [OF queue_inv_new, of es n]
    unfolding c by (simp add: Let_def Dropped_def new nq.content_drain)
qed

section \<open>Notifications\<close>

text \<open>
  C14: an event made from a published message is of an enabled topic, with topic and name
  trimmed and not empty, and identifier, title and body of at most 316, 96 and 220 bytes.
\<close>

theorem event_bounds:
  assumes "EventFromPublish F req enabled now = Some e"
  shows "enabled (ev_Topic e) \<and> ev_Topic e = TrimSpace (pr_Topic req) \<and> ev_Topic e \<noteq> [] \<and>
    ev_Name e = TrimSpace (pr_Name req) \<and> ev_Name e \<noteq> [] \<and>
    length (ev_ID e) \<le> 316 \<and> length (ev_Title e) \<le> 96 \<and> length (ev_Body e) \<le> 220"
  using EventFromPublish_SomeD [OF assms] unfolding event_ok_def
  by (elim conjE) (intro conjI; (assumption | linarith))

theorem event_bounds_witness:
  "\<exists>e. EventFromPublish demo_floats \<lparr>pr_Topic = ''t'', pr_Name = ''n'', pr_TS = 5, pr_Payload = []\<rparr> (\<lambda>t. t = ''t'') 0 = Some e \<and>
    length (ev_Body e) \<le> 220"
proof -
  let ?e = "EventFromPublish demo_floats \<lparr>pr_Topic = ''t'', pr_Name = ''n'', pr_TS = 5, pr_Payload = []\<rparr> (\<lambda>t. t = ''t'') 0"
  have "?e \<noteq> None" by (simp add: EventFromPublish_None_iff TrimSpace_graphic graphic_def)
  then obtain e where "?e = Some e" by blast
  with event_bounds [OF this] show ?thesis by blast
qed

text \<open>
  A frame of the topic bus changes nothing but the notification queue, and queues at
  most one event, only while the listener runs and only of an enabled topic.
\<close>

theorem topic_frame_effect:
  shows "handleTopicBusFrame H payload r = r \<or>
    (\<exists>e. handleTopicBusFrame H payload r = r\<lparr>rt_notifyQ := QueueEnqueue e (rt_notifyQ r)\<rparr> \<and>
       rt_notifyRunning r \<and> event_ok e \<and> isNotifyTopicEnabled r (ev_Topic e))"
  by (rule handleTopicBusFrame_cases)

text \<open>
  C15: disabling a topic while the connection is down does not stop its events: the set
  succeeds, but the failed resubscription leaves the old topics accepted.
\<close>

theorem disabled_topic_accepted:
  assumes "fst (RuntimeConfigSet H KeyNotifyTopicsJSON val r) = None" and "\<not> rt_connected r" and "rt_notifyRunning r"
    and "ParseTopicsJSON val = Inr ts" and "EnabledTopics ts \<noteq> []" and "t \<notin> set (EnabledTopics ts)"
    and "t \<in> rt_notifyTopics r" and "trimmed t" and "t \<noteq> []"
  shows "isNotifyTopicEnabled (snd (RuntimeConfigSet H KeyNotifyTopicsJSON val r)) t"
  using RuntimeConfigSet_offline [OF assms(1-5)] assms(7-9)
  by (simp add: isNotifyTopicEnabled_iff TrimSpace_id)

theorem disabled_topic_accepted_witness:
  "isNotifyTopicEnabled (snd (RuntimeConfigSet demo_host KeyNotifyTopicsJSON
     (marshal_topics [\<lparr>ts_Topic = ''u'', ts_Enabled = True\<rparr>]) (demo_store\<lparr>rt_connected := False\<rparr>))) ''t''"
proof (rule disabled_topic_accepted)
  have p: "ParseTopicsJSON (marshal_topics [\<lparr>ts_Topic = ''u'', ts_Enabled = True\<rparr>]) = Inr [\<lparr>ts_Topic = ''u'', ts_Enabled = True\<rparr>]"
    by (rule marshal_topics_parse)
      (simp add: topics_ok_def topics_wf_def topic_wf_def MaxTopicLength_def graphic_ends_trimmed graphic_def valid_utf8_all_ascii)
  then show "ParseTopicsJSON (marshal_topics [\<lparr>ts_Topic = ''u'', ts_Enabled = True\<rparr>]) = Inr [\<lparr>ts_Topic = ''u'', ts_Enabled = True\<rparr>]" .
  show "fst (RuntimeConfigSet demo_host KeyNotifyTopicsJSON
     (marshal_topics [\<lparr>ts_Topic = ''u'', ts_Enabled = True\<rparr>]) (demo_store\<lparr>rt_connected := False\<rparr>)) = None"
    by (rule demo_set_offline) (simp_all add: checked_value_def p)
qed (simp_all add: demo_store_def demo_runtime_def EnabledTopics_def TrimSpace_graphic graphic_def graphic_ends_trimmed)



section \<open>Metric values\<close>

text \<open>
  C17: reporting the same value of a metric again changes nothing at all: nothing is sent
  twice.
\<close>

theorem update_idempotent:
  "handleMetricUpdate H m v (handleMetricUpdate H m v r) = handleMetricUpdate H m v r"
  by (rule handleMetricUpdate_again)

text \<open>
  C18: a metric update sends set requests only while reporting and logged in, from the
  node to its hub, each for a valid variable bound to that metric and with its value.
\<close>

theorem update_sends_bound:
  "\<exists>ms. rt_sent (handleMetricUpdate H m v r) = rt_sent r @ ms \<and>
     (ms = [] \<or> rt_reportEnabled r \<and> logged_in (rt_auth r)) \<and>
     list_all (\<lambda>f. \<exists>b\<in>set (cfg_Bindings (rt_cfg r)). b_Metric b = TrimSpace m \<and>
        ValidVarName (TrimSpace (b_VarName b)) \<and>
        set_frame H (NodeID (rt_auth r)) (HubID (rt_auth r)) (TrimSpace (b_VarName b))
          (transformMetricValue (TrimSpace m) (TrimSpace v) (rt_cfg r)) f) ms"
  using handleMetricUpdate_sent [of H m v r] by (auto simp: list_all_iff)

section \<open>Writes from the hub\<close>

text \<open>
  C19: a write to a variable of the node is obeyed when its setting is writable, as an
  action with the value clamped or normalised, and answered with the node's own value
  otherwise.
\<close>

theorem write_obeyed_or_corrected:
  assumes "cfg_ok H (rt_cfg r)" and "addressed resp r" and "s \<in> set (cfg_Settings (rt_cfg r))" and "ms_Enabled s"
    and "ms_VarName s = TrimSpace (vr_Name resp)"
  shows "handleVarStoreNotifySet H resp r =
    (let val = TrimSpace (vr_Value resp);
         r1 = updatePublishedShadow H (TrimSpace (vr_Name resp)) val (vr_Visibility resp) r in
     if ms_Writable s then apply_action (ms_Metric s) (control_action H (ms_Metric s) val) r1
     else correct_var H (ms_Metric s) (TrimSpace (vr_Name resp)) val r1)"
  unfolding Let_def by (rule notify_set_eq [OF assms, unfolded Let_def])

theorem write_obeyed_or_corrected_witness:
  "rt_controlQ (handleVarStoreNotifySet demo_host
     \<lparr>vr_Name = ''sys_volume_percent'', vr_Value = ''150'', vr_Visibility = [], vr_Owner = 7\<rparr> demo_ready) =
   ActionEnqueue MetricVolumePercent (Itoa 100) (rt_controlQ demo_ready)"
proof -
  let ?s = "\<lparr>ms_Metric = MetricVolumePercent, ms_VarName = ''sys_volume_percent'', ms_Enabled = True, ms_Writable = True\<rparr>"
  let ?resp = "\<lparr>vr_Name = ''sys_volume_percent'', vr_Value = ''150'', vr_Visibility = [], vr_Owner = 7\<rparr>"
  have t: "TrimSpace ''sys_volume_percent'' = ''sys_volume_percent''" "TrimSpace ''150'' = ''150''"
    "TrimSpace ''volume_percent'' = ''volume_percent''"
    by (rule TrimSpace_graphic; simp add: graphic_def)+
  have s: "?s \<in> set (cfg_Settings (rt_cfg demo_ready))"
    using demo_start by (simp add: defaultSettingsForOS_def defaultBindingsForOS_def go_defs t IsControllable_def)
  have "addressed ?resp demo_ready"
    by (simp add: addressed_def t demo_fields demo_auth_def logged_in_def zero_auth_def)
  moreover have "parseInt demo_host ''150'' = Some 150"
    by (simp add: parseInt_def t Atoi_def digits_val_def is_digit_def demo_host_def)
  ultimately show ?thesis
    using write_obeyed_or_corrected [OF cfg_sync_ok [OF demo_sync] _ s, of ?resp]
    by (simp add: t Let_def apply_action_def control_action_def clampInt_def enqueueControlAction_def
        updatePublishedShadow_def)
qed

text \<open>
  C20: a write with a foreign value to a variable the node does not let others write is
  undone: the node sends its own value, and counts that as published.
\<close>

theorem foreign_write_corrected:
  assumes "cfg_ok H (rt_cfg r)" and "addressed resp r" and "s \<in> set (cfg_Settings (rt_cfg r))" and "ms_Enabled s"
    and "ms_VarName s = TrimSpace (vr_Name resp)" and "\<not> ms_Writable s"
    and "currentPublishedMetricValue (ms_Metric s) (rt_cfg r) r = Some c" and "c \<noteq> TrimSpace (vr_Value resp)"
    and "\<forall>req. \<exists>p. encode_message H (ActionSet (proto H)) (MsgSet req) = Inr p"
  shows "\<exists>f. rt_sent (handleVarStoreNotifySet H resp r) = rt_sent r @ [f] \<and>
    set_frame H (NodeID (rt_auth r)) (HubID (rt_auth r)) (ms_VarName s) c f \<and>
    map_option pv_Value (rt_lastPublished (handleVarStoreNotifySet H resp r) (ms_VarName s)) = Some c"
  using notify_set_correction [OF assms(1-8)] assms(9) by blast

theorem foreign_write_corrected_witness:
  "\<exists>f. rt_sent (handleVarStoreNotifySet demo_host
     \<lparr>vr_Name = ''sys_cpu_percent'', vr_Value = ''99'', vr_Visibility = [], vr_Owner = 7\<rparr>
     (demo_ready\<lparr>rt_lastMetrics := [MetricCPUPercent \<mapsto> ''12'']\<rparr>)) = rt_sent demo_ready @ [f]"
proof -
  let ?s = "\<lparr>ms_Metric = MetricCPUPercent, ms_VarName = ''sys_cpu_percent'', ms_Enabled = True, ms_Writable = False\<rparr>"
  let ?resp = "\<lparr>vr_Name = ''sys_cpu_percent'', vr_Value = ''99'', vr_Visibility = [], vr_Owner = 7\<rparr>"
  let ?r = "demo_ready\<lparr>rt_lastMetrics := [MetricCPUPercent \<mapsto> ''12'']\<rparr>"
  have t: "TrimSpace ''sys_cpu_percent'' = ''sys_cpu_percent''" "TrimSpace ''99'' = ''99''" "TrimSpace ''12'' = ''12''"
    "TrimSpace ''cpu_percent'' = ''cpu_percent''"
    by (rule TrimSpace_graphic; simp add: graphic_def)+
  have s: "?s \<in> set (cfg_Settings (rt_cfg ?r))"
    using demo_start by (simp add: defaultSettingsForOS_def defaultBindingsForOS_def go_defs t IsControllable_def)
  have "addressed ?resp ?r"
    by (simp add: addressed_def t demo_fields demo_auth_def logged_in_def zero_auth_def)
  moreover have "currentPublishedMetricValue MetricCPUPercent (rt_cfg ?r) ?r = Some ''12''"
    by (simp add: currentPublishedMetricValue_def transformMetricValue_def t go_defs)
  ultimately show ?thesis
    using foreign_write_corrected [of demo_host ?r ?resp ?s "''12''"] s cfg_sync_ok [OF demo_sync]
    by (auto simp: t demo_host_def)
qed

text \<open>
  C21: whatever frame arrives, it changes neither the identity nor the collected values nor
  the reporting switch; at most one control action is queued, for an enabled and writable
  setting, with a value in range, while logged in; and at most one event, of an enabled
  topic, while the listener runs.
\<close>

theorem frame_effect:
  assumes "cfg_ok H (rt_cfg r)" and "r' = onUnmatchedFrame H hdr payload r"
  shows "rt_auth r' = rt_auth r \<and> rt_lastMetrics r' = rt_lastMetrics r \<and> rt_reportEnabled r' = rt_reportEnabled r \<and>
    (rt_controlQ r' = rt_controlQ r \<or>
      (\<exists>s\<in>set (cfg_Settings (rt_cfg r)). \<exists>v. ms_Enabled s \<and> ms_Writable s \<and> control_value (ms_Metric s) v \<and>
         logged_in (rt_auth r) \<and> rt_controlQ r' = ActionEnqueue (ms_Metric s) v (rt_controlQ r))) \<and>
    (rt_notifyQ r' = rt_notifyQ r \<or>
      (\<exists>e. event_ok e \<and> rt_notifyRunning r \<and> isNotifyTopicEnabled r (ev_Topic e) \<and>
         rt_notifyQ r' = QueueEnqueue e (rt_notifyQ r)))"
  by (rule inbound_effect [OF assms])

theorem frame_effect_witness:
  "rt_auth (onUnmatchedFrame demo_host \<lparr>hdr_Major = 1, hdr_SubProto = 3, hdr_SourceID = 1, hdr_TargetID = 7,
     hdr_MsgID = 0, hdr_Timestamp = 0\<rparr> ''50'' demo_ready) = demo_auth"
  using frame_effect [OF cfg_sync_ok [OF demo_sync] refl] by (simp add: demo_fields)

section \<open>The machine\<close>



text \<open>
  C23: whatever the system calls return, a collector reports only its own metrics, each value
  in the format of the protocol; and it sleeps through no change of the configuration: while
  it is blocked although a metric is wanted, the channel it waits on is closed already or
  the announcement is still to come.
\<close>

theorem collector_reports_right:
  assumes "K \<in> set (windows_collectors W N svc h)" and "reach poll_init (poll_step K) s"
  shows "list_all (\<lambda>(m, v). m \<in> set (co_metrics K) \<and> wire_value m v) (ps_emitted s) \<and>
    (ps_pc s = Blocked g \<longrightarrow> wants K s \<longrightarrow> g < ps_gen s \<or> 0 < ps_unsignalled s)"
  using collector_reports [OF assms] by (auto simp: poll_inv_def report_ok_def list_all_iff)

theorem collector_reports_right_witness:
  "\<exists>s. reach poll_init (poll_step demo_memory) s \<and> ps_emitted s = [(MetricMemPercent, ''42'')] \<and>
     list_all (\<lambda>(m, v). m \<in> set (co_metrics demo_memory) \<and> wire_value m v) (ps_emitted s)"
proof -
  obtain s where s: "reach poll_init (poll_step demo_memory) s" "ps_emitted s = [(MetricMemPercent, ''42'')]"
    using demo_memory_run by blast
  show ?thesis using collector_reports_right [OF demo_memory_listed s(1)] s by blast
qed

text \<open>
  C24: the load reported for a span of time is the share of the span the processors were
  busy, in percent rounded to the nearest, and -1 when the counters allow no answer; the
  two conversions to floating point make no difference up to 2^45 ticks of 100 ns, which is
  40 days of processor time between two readings.
\<close>

theorem cpu_percent_right:
  assumes "advanced prev cur" and "all_time prev cur \<le> 2 ^ 45"
  shows "cpu_percent prev cur =
    (if all_time prev cur = 0 \<or> all_time prev cur < unat (ct_idle cur) - unat (ct_idle prev) then ''-1''
     else Itoa (int ((200 * busy_time prev cur + all_time prev cur) div (2 * all_time prev cur))))"
  by (rule cpu_percent_eq) (fact assms)+

theorem cpu_percent_right_witness:
  "cpu_percent \<lparr>ct_idle = 0, ct_kernel = 0, ct_user = 0\<rparr> \<lparr>ct_idle = 30, ct_kernel = 60, ct_user = 40\<rparr> = Itoa 70"
  using cpu_percent_right [of "\<lparr>ct_idle = 0, ct_kernel = 0, ct_user = 0\<rparr>" "\<lparr>ct_idle = 30, ct_kernel = 60, ct_user = 40\<rparr>"]
  by (simp add: advanced_def all_time_def busy_time_def)

text \<open>
  C25: the brightness read back after it was set is the percentage that was set when the
  range of the monitor is a multiple of 100, and at most one percent less when the range has
  at least 100 steps: setting rounds to the nearest step, reading cuts off.
\<close>

theorem brightness_set_then_read:
  assumes "lo < hi" and "0 \<le> p" and "p \<le> 100" and "100 \<le> unat hi - unat lo" and "(unat hi - unat lo) * 100 < 2 ^ 32"
  shows "brightness_percent lo (brightness_value lo hi p) hi \<in> {p - 1, p} \<and>
    (100 dvd unat hi - unat lo \<longrightarrow> brightness_percent lo (brightness_value lo hi p) hi = p)"
proof -
  let ?r = "unat hi - unat lo"
  define q where "q = (?r * nat p + 50) div 100 * 100 div ?r"
  have "q \<le> nat p \<and> nat p \<le> q + 1" unfolding q_def using assms by (intro rounded_then_cut(2)) simp_all
  moreover have "100 dvd ?r \<Longrightarrow> q = nat p" unfolding q_def using assms by (intro rounded_then_cut(1)) simp_all
  moreover have "brightness_percent lo (brightness_value lo hi p) hi = int q"
    unfolding q_def by (rule brightness_readback [OF assms(1,2,3,5)])
  ultimately show ?thesis using assms(2) by auto
qed

theorem brightness_set_then_read_witness:
  "brightness_percent 0 (brightness_value 0 101 10) 101 \<in> {9, 10}"
  using brightness_set_then_read [of 0 101 10] by simp

text \<open>
  Three corners of these parts: with 101 steps the monitor set to 10 percent reads 9; the
  product of the reading wraps around on a range the setting still handles; and a mute asked
  for together with a volume is dropped when setting the volume fails, since the endpoint is
  given up in between.
\<close>

theorem brightness_read_cuts:
  "unat (brightness_value 0 101 10) = 10" "brightness_percent 0 (brightness_value 0 101 10) 101 = 9"
  using brightness_value_eq [of 0 101 10] brightness_readback [of 0 101 10] by simp_all

theorem brightness_read_wraps:
  "unat (brightness_value 0 50000000 86) = 43000000" "brightness_percent 0 43000000 50000000 = 0"
  using brightness_value_eq [of 0 50000000 86] by (simp_all add: brightness_percent_def Let_def)

theorem mute_dropped:
  assumes "parseInt P v = Some n" and "SetPercent A (Some e) (clampInt n 0 100) w = (Some err, w')"
  shows "apply_mute P A (Some m) (apply_volume P A (Some v) (Some e, w)) = (None, EndpointVolume_Release A (Some e) w')"
  using assms by (simp add: apply_volume_def apply_mute_def after_call_def SetMuted_def EndpointVolume_Release_def
      split: option.split)

section \<open>Keys and login\<close>

text \<open>
  C26: a key pair created on a disk that works is the pair every later process finds and
  signs with, when the curve's own codec reads back the key it wrote.
\<close>

theorem keys_restart:
  assumes "files d (path_clean H (ks_path s)) = None" and "ks_priv s = None" and "script d = []"
    and "ec_generate (crypt H) w = (Inr priv, w1)" and "ec_public (crypt H) priv \<noteq> []"
    and "ec_parse (crypt H) priv = Inr (priv, ''P-256'')" and "ks_path t = ks_path s" and "ks_priv t = None"
  shows "\<exists>pub s' d' t'. Ensure H s d w = (Inr pub, s', d', w1) \<and> ks_priv s' = Some priv \<and>
    Ensure H t d' w2 = (Inr pub, t', d', w2) \<and> ks_priv t' = Some priv"
  by (rule Ensure_next_process) (fact assms)+

theorem keys_restart_witness:
  "\<exists>pub s' d' t'. Ensure demo_host (NewKeyStore demo_host ''k'') demo_disk 0 = (Inr pub, s', d', Suc 0) \<and>
     ks_priv s' = Some ''key'' \<and>
     Ensure demo_host (NewKeyStore demo_host ''k'') d' 5 = (Inr pub, t', d', 5) \<and> ks_priv t' = Some ''key''"
  by (rule keys_restart) (simp_all add: NewKeyStore_def demo_disk_def demo_host_def demo_crypto_def)



text \<open>
  C28: a login that succeeds puts the identity of the reply in force, logged in, and wants
  the connection kept; one that fails leaves the identity and never logs in. Neither
  touches connection, configuration or queues.
\<close>

theorem login_outcome:
  "let r' = snd (Login H dev n r) in login_kept r' = login_kept r \<and>
   (case fst (Login H dev n r) of
      Inl e \<Rightarrow> identity (rt_auth r') = identity (rt_auth r) \<and> LoggedIn (rt_auth r') \<in> {False, LoggedIn (rt_auth r)} \<and>
        rt_reconnectDesired r' = rt_reconnectDesired r
    | Inr data \<Rightarrow> rt_connected r \<and> rd_Code data = 1 \<and> TrimSpace dev \<noteq> [] \<and> n \<noteq> 0 \<and>
        LoggedIn (rt_auth r') \<and> rt_reconnectDesired r' \<and>
        identity (rt_auth r') = (TrimSpace dev, rd_NodeID data, rd_HubID data, TrimSpace (rd_Role data)))"
  using Login_result [of H dev n r] by (auto simp: Let_def split: sum.splits)

text \<open>
  C29: the saved identity survives a restart: the next process loads device, node, hub and
  role as they were saved, but never as logged in.
\<close>

theorem snapshot_survives:
  assumes "saveAuthSnapshot H st r = (None, r1)" and "snapshot_ok st" and "script (rt_disk r1) = []"
    and "path_clean H (authSnapshotPath H r) = authSnapshotPath H r"
    and "rt_workDir q = rt_workDir r" and "rt_disk q = rt_disk r1"
  shows "fst (loadAuthSnapshot H q) = None \<and> \<not> LoggedIn (rt_auth (snd (loadAuthSnapshot H q))) \<and>
    identity (rt_auth (snd (loadAuthSnapshot H q))) = identity st"
  using snapshot_restart [OF assms] by (auto simp: identity_def split: if_splits)

theorem snapshot_survives_witness:
  "identity (rt_auth (snd (loadAuthSnapshot demo_host
     (demo_runtime\<lparr>rt_disk := rt_disk (snd (saveAuthSnapshot demo_host demo_auth demo_runtime))\<rparr>)))) = (''dev'', 7, 1, [])"
proof -
  have s: "saveAuthSnapshot demo_host demo_auth demo_runtime = (None, snd (saveAuthSnapshot demo_host demo_auth demo_runtime))"
    and d: "script (rt_disk (snd (saveAuthSnapshot demo_host demo_auth demo_runtime))) = []"
    by (simp_all add: saveAuthSnapshot_def Let_def authSnapshotPath_def writeFileAtomic_def replace_file_ok
        demo_runtime_def demo_disk_def demo_host_def)
  have "snapshot_ok demo_auth" by (simp add: snapshot_ok_def demo_auth_def zero_auth_def valid_utf8_all_ascii)
  then show ?thesis
    using snapshot_survives [OF s _ d, of "demo_runtime\<lparr>rt_disk := rt_disk (snd (saveAuthSnapshot demo_host demo_auth demo_runtime))\<rparr>"]
    by (simp add: demo_host_def identity_def demo_auth_def zero_auth_def)
qed

text \<open>
  C30: a process starts logged out, disconnected and silent, whatever it finds on the disk:
  nothing collected, nothing queued, and a configuration in agreement with its store.
\<close>

theorem new_starts_clean:
  assumes "fst (New H dir d w) = Inr r"
  shows "cfg_sync H r \<and> \<not> LoggedIn (rt_auth r) \<and> \<not> rt_connected r \<and> \<not> rt_reconnectDesired r \<and>
    \<not> rt_reconnectRunning r \<and> \<not> rt_reportEnabled r \<and> rt_lastMetrics r = Map.empty \<and>
    fst (DequeueActions r) = [] \<and> fst (DequeueNotifications r) = []"
  using New_fresh [OF assms]
  by (simp add: DequeueActions_def DequeueNotifications_def case_prod_beta Let_def newActionQueue_def
      ActionDequeueAll_def QueueDequeueAll_def NewQueue_def)

theorem new_starts_clean_witness:
  "\<exists>r. fst (New demo_host ''w'' demo_disk 0) = Inr r \<and> cfg_sync demo_host r \<and> \<not> LoggedIn (rt_auth r)"
  using demo_New new_starts_clean [of demo_host "''w''" demo_disk 0] by blast

section \<open>The session over time\<close>






text \<open>
  C34: in every state the process can reach: there is a reconnect loop exactly when the
  runtime says so, waiting one to thirty seconds; a connected node knows its hub's address;
  reporting is switched on exactly while it runs; and the bindings and lookup tables in
  force are those of well-formed settings.
\<close>

theorem reachable_states:
  assumes "reach (sys_init H) (sys_step H) (r, pc)"
  shows "(rt_reconnectRunning r \<longleftrightarrow> pc \<noteq> Idle) \<and>
    (\<forall>d. pc_delay pc = Some d \<longrightarrow> 1 * second \<le> d \<and> d \<le> 30 * second) \<and>
    (rt_connected r \<longrightarrow> rt_addr r \<noteq> []) \<and> rt_reportRunning r = rt_reportEnabled r \<and>
    settings_wf (GOOS H) (cfg_Settings (rt_cfg r)) \<and>
    cfg_Bindings (rt_cfg r) = settingsToBindings (cfg_Settings (rt_cfg r)) \<and>
    BindingByVarName (rt_cfg r) = var_map (cfg_Settings (rt_cfg r))"
  using system.reach_inv [OF assms]
  by (simp add: sys_ok_def link_ok_def cfg_ok_def reconnectInitialDelay_def reconnectMaxDelay_def)

theorem reachable_states_witness:
  "\<exists>r d. reach (sys_init demo_host) (sys_step demo_host) (r, Confirm d) \<and> rt_connected r \<and> rt_addr r \<noteq> []"
  using demo_stale reachable_states by blast

text \<open>
  C35: in every state the process can reach, the actions waiting are one per metric, of
  controllable metrics and with values in range, and the events waiting are at most 128,
  each within its bounds.
\<close>

theorem reachable_queues:
  assumes "reach (sys_init H) (sys_step H) (r, pc)"
  shows "list_all (\<lambda>a. control_value (ca_Metric a) (ca_Value a)) (fst (DequeueActions r)) \<and>
    sorted_wrt (<) (map ca_Metric (fst (DequeueActions r))) \<and>
    length (fst (DequeueNotifications r)) \<le> 128 \<and> list_all event_ok (fst (DequeueNotifications r))"
proof -
  have q: "queues_ok r" using system.reach_inv [OF assms] by (simp add: sys_ok_def)
  have "ca_Value a = v \<Longrightarrow> (ca_Metric a, v) \<in> set (latest (rt_controlQ r))" if "a \<in> set (fst (DequeueActions r))" for a v
    using that by (auto simp: DequeueActions_def ActionDequeueAll_def case_prod_beta Let_def split: if_splits)
  then have "list_all (\<lambda>a. control_value (ca_Metric a) (ca_Value a)) (fst (DequeueActions r))"
    using q by (fastforce simp: queues_ok_def list_all_iff)
  then show ?thesis
    using q action_drain_sorted [of "rt_controlQ r"]
    by (simp add: queues_ok_def DequeueActions_def DequeueNotifications_def QueueDequeueAll_def case_prod_beta Let_def
        queue_inv_def go_defs)
qed

theorem reachable_queues_witness:
  "\<exists>r d. reach (sys_init demo_host) (sys_step demo_host) (r, Confirm d) \<and> length (fst (DequeueNotifications r)) \<le> 128"
  using demo_stale reachable_queues by blast

text \<open>
  C36: a reconnect attempt that the user's close has overtaken tears down the session the
  user has opened since: its next step disconnects, logs out and gives up reconnecting.
\<close>

theorem stale_loop_disconnects:
  assumes "ctx_cancelled r" and "loop_step H (r, Confirm d) t"
  shows "\<not> rt_connected (fst t) \<and> \<not> LoggedIn (rt_auth (fst t)) \<and> \<not> rt_reconnectDesired (fst t)"
  using assms(2)
  by (rule loop_step_ConfirmE)
    (use assms(1) in \<open>auto simp: attempt_failed_def recover_cancelled_def storeLastError_def markSessionLoggedOut_auth\<close>)

theorem stale_loop_disconnects_witness:
  "\<exists>r d t. reach (sys_init demo_host) (sys_step demo_host) (r, Confirm d) \<and> rt_connected r \<and> LoggedIn (rt_auth r) \<and>
     rt_reconnectDesired r \<and> loop_step demo_host (r, Confirm d) t \<and> \<not> rt_connected (fst t) \<and> \<not> rt_reconnectDesired (fst t)"
proof -
  obtain r d where r: "reach (sys_init demo_host) (sys_step demo_host) (r, Confirm d)" "ctx_cancelled r" "rt_connected r"
    "rt_reconnectDesired r" "LoggedIn (rt_auth r)" using demo_stale by blast
  obtain t where t: "loop_step demo_host (r, Confirm d) t" using r(2) by (blast intro: loop_step.login_cancelled)
  from stale_loop_disconnects [OF r(2) t] r t show ?thesis by blast
qed

section \<open>The hosts\<close>

text \<open>An empty queue of actions is handed to the host as \<^verbatim>\<open>null\<close>, not as an empty array.\<close>

theorem no_actions_null:
  assumes "br_rt b = Some r" and "latest (rt_controlQ r) = []"
  shows "fst (Mobile_DequeueActions b) = ''null''"
proof -
  have "fst (DequeueActions r) = []"
    using assms(2) by (simp add: DequeueActions_def ActionDequeueAll_def split: prod.split)
  then show ?thesis
    using assms(1) by (cases "DequeueActions r") (simp add: Mobile_DequeueActions_def slice_text_def json_print_def)
qed

text \<open>
  C37: whatever text the Android host passes for a metric, the call either changes nothing or
  hands the runtime a value in the format of the protocol for exactly that metric.
\<close>

theorem host_values_published:
  assumes "(m, f) \<in> set (injections H)"
  shows "f txt b = b \<or>
    (\<exists>r v. br_rt b = Some r \<and> wire_value m v \<and> f txt b = b\<lparr>br_rt := Some (UpdateMetric H m v r)\<rparr>)"
  by (rule injection_wire) (fact assms)

theorem host_values_published_witness:
  "UpdateVolumePercent demo_host ''150'' (demo_bridge\<lparr>br_rt := Some demo_ready\<rparr>) = demo_bridge\<lparr>br_rt := Some demo_ready\<rparr> \<or>
   (\<exists>v. percent_text v \<and> UpdateVolumePercent demo_host ''150'' (demo_bridge\<lparr>br_rt := Some demo_ready\<rparr>) =
      demo_bridge\<lparr>br_rt := Some (UpdateMetric demo_host MetricVolumePercent v demo_ready)\<rparr>)"
  using host_values_published [of MetricVolumePercent "UpdateVolumePercent demo_host" demo_host "''150''"
      "demo_bridge\<lparr>br_rt := Some demo_ready\<rparr>"]
  by (auto simp: injections_def wire_value_def go_defs)

text \<open>
  C38: when the one call that starts everything on Android succeeds, the node is connected to
  the address, logged in as the device and reporting, and the answer is that state.
\<close>

theorem start_succeeds:
  assumes "Mobile_Start H addr dev dir b = (Inr st, b')"
    and "\<And>r. br_rt b = Some r \<Longrightarrow> rt_reportRunning r = rt_reportEnabled r"
  shows "\<exists>r. br_rt b' = Some r \<and> st = marshalStatus (Some r) \<and> rt_connected r \<and> rt_addr r = TrimSpace addr \<and>
    logged_in (rt_auth r) \<and> DeviceID (rt_auth r) = TrimSpace dev \<and> rt_reportEnabled r"
  by (rule Start_result) (fact assms)+

theorem start_succeeds_witness:
  "\<exists>st b' r. Mobile_Start demo_host ''hub:1'' ''dev'' ''w'' demo_bridge = (Inr st, b') \<and> br_rt b' = Some r \<and>
     rt_connected r \<and> rt_addr r = ''hub:1'' \<and> DeviceID (rt_auth r) = ''dev'' \<and> sd_Reporting st"
proof -
  obtain st b' where s: "Mobile_Start demo_host ''hub:1'' ''dev'' ''w'' demo_bridge = (Inr st, b')"
    using demo_start_ok by blast
  show ?thesis using start_succeeds [OF s] s by (auto simp: demo_bridge_def marshalStatus_def)
qed

text \<open>
  C39: when the settings page of the Windows application saves, what it shows next are the
  settings in force, and they are the normal form of the ones that were sent.
\<close>

theorem settings_shown:
  assumes "App_MetricsSettingsSet H ss a = (Inr u, a')"
  shows "\<exists>r. app_rt a' = Some r \<and> App_MetricsSettingsGet a' = Inr (cfg_Settings (rt_cfg r)) \<and>
    parseSettingsJSON (marshal_settings ss) (GOOS H) = Inr (cfg_Settings (rt_cfg r))"
  by (rule App_MetricsSettingsSet_ok) (fact assms)

theorem settings_shown_witness:
  "\<exists>a'. App_MetricsSettingsSet demo_host (defaultSettingsForOS ''linux'') demo_app = (Inr (), a') \<and>
     App_MetricsSettingsGet a' = Inr (defaultSettingsForOS ''linux'')"
proof -
  have p: "parseSettingsJSON (marshal_settings (defaultSettingsForOS ''linux'')) ''linux'' = Inr (defaultSettingsForOS ''linux'')"
    by (rule marshal_settings_parse) simp
  obtain a' where a': "App_MetricsSettingsSet demo_host (defaultSettingsForOS ''linux'') demo_app = (Inr (), a')"
    using demo_app_set by blast
  show ?thesis using settings_shown [OF a'] a' p by auto
qed

text \<open>
  C40: text from the hub cannot leave its place in what the Windows application shows. The
  document of a toast, cut at every \<^verbatim>\<open><\<close>, has the same pieces for every notification up
  to the escaped icon, title and body, which hold no angle bracket or quote and determine
  the text; the script of a balloon, cut at every single quote, has the same pieces up to
  two literals that decode to title and body, and PowerShell decodes exactly that script.
\<close>

theorem notification_is_data:
  shows "cut_at (CHR 0x3C) (toastXML title body icon) =
      toast_parts (html_escape title) (html_escape body) (html_escape icon) \<and>
    set (html_escape t) \<inter> {CHR 0x3C, CHR 0x3E, CHR 0x22, CHR 0x27} = {} \<and>
    (html_escape t = html_escape u \<longleftrightarrow> t = u) \<and>
    cut_at (CHR 0x27) (notifyIconScript title body) = script_parts (base64_encode title) (base64_encode body) \<and>
    base64_decode (base64_encode t) = Inr t \<and>
    base64_decode (encodePowerShellCommand (notifyIconScript title body)) =
      Inr (concat (map (\<lambda>c. [c, CHR 0x00]) (notifyIconScript title body)))"
  using html_escape_safe [of t] html_escape_inj [of t u] toast_markup [of title body icon]
    script_literals [of title body] base64_decode_encode [of t] encoded_script [of title body]
  by (intro conjI) (assumption | auto)+

end
